(* ===== verification/Prelude.thy ===== *)
theory Prelude
  imports Main "HOL-Library.Word" "HOL-Library.Sublist"
begin

text \<open>
  Vocabulary shared by every component of the operator's model.

  \<^item> Go results: \<open>'a res\<close> is what a call returns (\<open>Ok\<close>), the \<open>error\<close> it returns
    (\<open>Fail\<close>) or the panic it raises (\<open>Panic\<close>). A stateful Go function is a
    \<open>('s, 'a) go\<close>: it maps the state it reads to its result and the state it leaves.
    \<open>bnd\<close> is sequencing with the early return on \<open>err != nil\<close>, \<open>handle\<close> is an
    \<open>if err != nil\<close> that goes on, \<open>each\<close> is a \<open>for range\<close> loop that returns at the
    first error, \<open>poll\<close> is \<open>wait.PollImmediate\<close> with a bounded number of attempts.
  \<^item> A small logic for them: \<open>keeps P m\<close> (the call keeps the state predicate \<open>P\<close>),
    \<open>triple P m Q\<close> (a Hoare triple with the result), \<open>emits tr A m\<close> (the call only
    appends events satisfying \<open>A\<close> to the trace \<open>tr\<close> of the state).
  \<^item> The parts of Go's \<open>strings\<close> and \<open>strconv\<close> the operator uses, on byte strings.
    Upper/lower case and letter tests are those of ASCII.
\<close>

section \<open>Go results and stateful functions\<close>

datatype gerr =
    GErr string        \<comment> \<open>fmt.Errorf / errors.New\<close>
  | NotFound string    \<comment> \<open>k8serrors.IsNotFound holds\<close>
  | Invalid string     \<comment> \<open>k8serrors.IsInvalid holds\<close>
  | ApiErr string      \<comment> \<open>any other error of a called library\<close>
  | OwnerDeleted       \<comment> \<open>syncer.ErrOwnerDeleted\<close>
  | IgnoreErr          \<comment> \<open>syncer.ErrIgnore\<close>
  | WaitTimeout        \<comment> \<open>wait.ErrWaitTimeout\<close>

datatype 'a res = Ok 'a | Fail gerr | Panic string

fun is_ok :: "'a res \<Rightarrow> bool" where
  "is_ok (Ok _) = True"
| "is_ok _ = False"

fun is_panic :: "'a res \<Rightarrow> bool" where
  "is_panic (Panic _) = True"
| "is_panic _ = False"

fun bind_res :: "'a res \<Rightarrow> ('a \<Rightarrow> 'b res) \<Rightarrow> 'b res" where
  "bind_res (Ok x) f = f x"
| "bind_res (Fail e) f = Fail e"
| "bind_res (Panic p) f = Panic p"

lemma bind_res_Ok: "bind_res r f = Ok y \<longleftrightarrow> (\<exists>x. r = Ok x \<and> f x = Ok y)"
  by (cases r) auto

lemma bind_res_Fail: "bind_res r f = Fail e \<longleftrightarrow> r = Fail e \<or> (\<exists>x. r = Ok x \<and> f x = Fail e)"
  by (cases r) auto

lemma bind_res_Panic: "bind_res r f = Panic p \<longleftrightarrow> r = Panic p \<or> (\<exists>x. r = Ok x \<and> f x = Panic p)"
  by (cases r) auto

type_synonym ('s, 'a) go = "'s \<Rightarrow> 'a res \<times> 's"

definition ret :: "'a \<Rightarrow> ('s, 'a) go" where
  "ret x s = (Ok x, s)"

definition fail :: "gerr \<Rightarrow> ('s, 'a) go" where
  "fail e s = (Fail e, s)"

definition panic :: "string \<Rightarrow> ('s, 'a) go" where
  "panic p s = (Panic p, s)"

definition lift :: "'a res \<Rightarrow> ('s, 'a) go" where
  "lift r s = (r, s)"

definition gets :: "('s \<Rightarrow> 'a) \<Rightarrow> ('s, 'a) go" where
  "gets f s = (Ok (f s), s)"

definition modify :: "('s \<Rightarrow> 's) \<Rightarrow> ('s, unit) go" where
  "modify f s = (Ok (), f s)"

definition bnd :: "('s, 'a) go \<Rightarrow> ('a \<Rightarrow> ('s, 'b) go) \<Rightarrow> ('s, 'b) go" where
  "bnd m f s = (case m s of
      (Ok x, t) \<Rightarrow> f x t
    | (Fail e, t) \<Rightarrow> (Fail e, t)
    | (Panic p, t) \<Rightarrow> (Panic p, t))"

text \<open>\<open>handle m h\<close>: run \<open>m\<close>; on an error value go on with \<open>h\<close>. A panic is not caught.\<close>

definition handle :: "('s, 'a) go \<Rightarrow> (gerr \<Rightarrow> ('s, 'a) go) \<Rightarrow> ('s, 'a) go" where
  "handle m h s = (case m s of
      (Ok x, t) \<Rightarrow> (Ok x, t)
    | (Fail e, t) \<Rightarrow> h e t
    | (Panic p, t) \<Rightarrow> (Panic p, t))"

text \<open>\<open>attempt m\<close>: the pair \<open>x, err := m\<close> as a value, so that the caller can branch on it.\<close>

definition attempt :: "('s, 'a) go \<Rightarrow> ('s, gerr + 'a) go" where
  "attempt m s = (case m s of
      (Ok x, t) \<Rightarrow> (Ok (Inr x), t)
    | (Fail e, t) \<Rightarrow> (Ok (Inl e), t)
    | (Panic p, t) \<Rightarrow> (Panic p, t))"

primrec each :: "('a \<Rightarrow> ('s, unit) go) \<Rightarrow> 'a list \<Rightarrow> ('s, unit) go" where
  "each f [] = ret ()"
| "each f (x # xs) = bnd (f x) (\<lambda>_. each f xs)"

text \<open>A loop that carries a local variable; the fold of the body over the list.\<close>

primrec each_acc :: "('b \<Rightarrow> 'a \<Rightarrow> ('s, 'b) go) \<Rightarrow> 'b \<Rightarrow> 'a list \<Rightarrow> ('s, 'b) go" where
  "each_acc f b [] = ret b"
| "each_acc f b (x # xs) = bnd (f b x) (\<lambda>b'. each_acc f b' xs)"

text \<open>
  \<open>wait.PollImmediate\<close>: the condition is tried at once and then at every tick until it
  answers true or an error; when the attempts are used up the result is
  \<open>wait.ErrWaitTimeout\<close>.
\<close>

primrec poll :: "nat \<Rightarrow> ('s, bool) go \<Rightarrow> ('s, unit) go" where
  "poll 0 c = fail WaitTimeout"
| "poll (Suc n) c = bnd c (\<lambda>stop. if stop then ret () else poll n c)"

lemmas go_simps = ret_def fail_def panic_def lift_def gets_def modify_def

lemma bnd_ret [simp]: "bnd (ret x) f = f x"
  by (rule ext) (simp add: bnd_def ret_def)

lemma bnd_fail [simp]: "bnd (fail e) f = fail e"
  by (rule ext) (simp add: bnd_def fail_def)

lemma bnd_panic [simp]: "bnd (panic p) f = panic p"
  by (rule ext) (simp add: bnd_def panic_def)

lemma bnd_assoc: "bnd (bnd m f) g = bnd m (\<lambda>x. bnd (f x) g)"
  by (rule ext) (simp add: bnd_def split: prod.split res.split)

lemma bnd_eq_Ok:
  "bnd m f s = (Ok y, t) \<longleftrightarrow> (\<exists>x u. m s = (Ok x, u) \<and> f x u = (Ok y, t))"
  by (auto simp: bnd_def split: prod.splits res.splits)

subsection \<open>Preserved state predicates\<close>

named_theorems keeps_intros "closure of keeps under the Go control structures"

definition keeps :: "('s \<Rightarrow> bool) \<Rightarrow> ('s, 'a) go \<Rightarrow> bool" where
  "keeps P m \<longleftrightarrow> (\<forall>s. P s \<longrightarrow> P (snd (m s)))"

lemma keepsD: "keeps P m \<Longrightarrow> P s \<Longrightarrow> P (snd (m s))"
  by (simp add: keeps_def)

lemma keeps_basic [keeps_intros]:
  "keeps P (ret x)" "keeps P (fail e)" "keeps P (panic p)" "keeps P (lift r)" "keeps P (gets g)"
  by (simp_all add: keeps_def go_simps)

lemma keeps_modify [keeps_intros]: "(\<And>s. P s \<Longrightarrow> P (f s)) \<Longrightarrow> keeps P (modify f)"
  by (simp add: keeps_def modify_def)

lemma keeps_bnd [keeps_intros]:
  assumes "keeps P m" "\<And>x. keeps P (f x)"
  shows "keeps P (bnd m f)"
  unfolding keeps_def
proof (intro allI impI)
  fix s assume "P s"
  with assms(1) have P': "P (snd (m s))" by (rule keepsD)
  show "P (snd (bnd m f s))"
    using P' keepsD [OF assms(2)]
    by (cases "m s"; cases "fst (m s)") (auto simp: bnd_def)
qed

lemma keeps_handle [keeps_intros]:
  assumes "keeps P m" "\<And>e. keeps P (h e)"
  shows "keeps P (handle m h)"
  unfolding keeps_def
proof (intro allI impI)
  fix s assume "P s"
  with assms(1) have P': "P (snd (m s))" by (rule keepsD)
  show "P (snd (handle m h s))"
    using P' keepsD [OF assms(2)]
    by (cases "m s"; cases "fst (m s)") (auto simp: handle_def)
qed

lemma keeps_attempt [keeps_intros]: "keeps P m \<Longrightarrow> keeps P (attempt m)"
  unfolding keeps_def attempt_def
  by (metis (mono_tags, lifting) prod.case_eq_if res.exhaust res.simps(10) res.simps(11) res.simps(12)
      snd_conv)

lemma keeps_if [keeps_intros]:
  "(b \<Longrightarrow> keeps P m) \<Longrightarrow> (\<not> b \<Longrightarrow> keeps P n) \<Longrightarrow> keeps P (if b then m else n)"
  by simp

lemma keeps_case_sum [keeps_intros]:
  "(\<And>e. keeps P (f e)) \<Longrightarrow> (\<And>x. keeps P (g x)) \<Longrightarrow>
   keeps P (case r of Inl e \<Rightarrow> f e | Inr x \<Rightarrow> g x)"
  by (cases r) simp_all

lemma keeps_case_option [keeps_intros]:
  "keeps P f \<Longrightarrow> (\<And>x. keeps P (g x)) \<Longrightarrow>
   keeps P (case r of None \<Rightarrow> f | Some x \<Rightarrow> g x)"
  by (cases r) simp_all

lemma keeps_each [keeps_intros]:
  "(\<And>x. x \<in> set xs \<Longrightarrow> keeps P (f x)) \<Longrightarrow> keeps P (each f xs)"
  by (induction xs) (auto intro: keeps_intros)

lemma keeps_each_acc [keeps_intros]:
  "(\<And>b x. x \<in> set xs \<Longrightarrow> keeps P (f b x)) \<Longrightarrow> keeps P (each_acc f b xs)"
  by (induction xs arbitrary: b) (auto intro: keeps_intros)

lemma keeps_poll [keeps_intros]: "keeps P c \<Longrightarrow> keeps P (poll n c)"
  by (induction n) (auto intro: keeps_intros)

subsection \<open>Hoare triples\<close>

definition triple ::
  "('s \<Rightarrow> bool) \<Rightarrow> ('s, 'a) go \<Rightarrow> ('a res \<Rightarrow> 's \<Rightarrow> bool) \<Rightarrow> bool" where
  "triple P m Q \<longleftrightarrow> (\<forall>s. P s \<longrightarrow> (case m s of (r, t) \<Rightarrow> Q r t))"

lemma tripleI: "(\<And>s r t. P s \<Longrightarrow> m s = (r, t) \<Longrightarrow> Q r t) \<Longrightarrow> triple P m Q"
  by (auto simp: triple_def)

lemma tripleD: "triple P m Q \<Longrightarrow> P s \<Longrightarrow> m s = (r, t) \<Longrightarrow> Q r t"
  by (auto simp: triple_def)

lemma triple_conseq:
  "triple P' m Q' \<Longrightarrow> (\<And>s. P s \<Longrightarrow> P' s) \<Longrightarrow> (\<And>r t. Q' r t \<Longrightarrow> Q r t) \<Longrightarrow> triple P m Q"
  by (fastforce simp: triple_def)

lemma triple_bnd:
  assumes "triple P m (\<lambda>r t. case r of Ok x \<Rightarrow> R x t | Fail e \<Rightarrow> Q (Fail e) t | Panic p \<Rightarrow> Q (Panic p) t)"
    and "\<And>x. triple (R x) (f x) Q"
  shows "triple P (bnd m f) Q"
proof (rule tripleI)
  fix s r t
  assume "P s" and eq: "bnd m f s = (r, t)"
  obtain q u where mu: "m s = (q, u)" by (cases "m s")
  from tripleD [OF assms(1) \<open>P s\<close> mu] eq mu show "Q r t"
    by (cases q) (auto simp: bnd_def dest: tripleD [OF assms(2)])
qed

text \<open>A loop keeps an invariant over the elements still to come.\<close>

lemma triple_each:
  assumes "\<And>x zs. x \<in> set xs \<Longrightarrow>
      triple (I (x # zs)) (f x) (\<lambda>r t. case r of Ok _ \<Rightarrow> I zs t | Fail e \<Rightarrow> Q (Fail e) t | Panic p \<Rightarrow> Q (Panic p) t)"
    and "\<And>s. I [] s \<Longrightarrow> Q (Ok ()) s"
  shows "triple (I xs) (each f xs) Q"
  using assms(1)
proof (induction xs)
  case Nil
  show ?case by (rule tripleI) (auto simp: ret_def assms(2))
next
  case (Cons x xs)
  have "triple (I xs) (each f xs) Q"
    by (rule Cons.IH) (simp add: Cons.prems)
  moreover have "triple (I (x # xs)) (f x)
      (\<lambda>r t. case r of Ok _ \<Rightarrow> I xs t | Fail e \<Rightarrow> Q (Fail e) t | Panic p \<Rightarrow> Q (Panic p) t)"
    by (rule Cons.prems) simp
  ultimately show ?case by (auto intro: triple_bnd)
qed

subsection \<open>Traces\<close>

text \<open>
  \<open>emits tr A m\<close>: whatever the state, \<open>m\<close> only appends to the trace \<open>tr\<close>, and every
  appended event satisfies \<open>A\<close>.
\<close>

named_theorems emits_intros "closure of emits under the Go control structures"

definition emits :: "('s \<Rightarrow> 'e list) \<Rightarrow> ('e \<Rightarrow> bool) \<Rightarrow> ('s, 'a) go \<Rightarrow> bool" where
  "emits tr A m \<longleftrightarrow> (\<forall>s. \<exists>es. tr (snd (m s)) = tr s @ es \<and> list_all A es)"

lemma emitsD: "emits tr A m \<Longrightarrow> \<exists>es. tr (snd (m s)) = tr s @ es \<and> list_all A es"
  by (simp add: emits_def)

lemma emits_basic [emits_intros]:
  "emits tr A (ret x)" "emits tr A (fail e)" "emits tr A (panic p)" "emits tr A (lift r)" "emits tr A (gets g)"
  by (simp_all add: emits_def go_simps)

lemma emits_modify [emits_intros]: "(\<And>s. tr (f s) = tr s) \<Longrightarrow> emits tr A (modify f)"
  by (simp add: emits_def modify_def)

lemma emits_weaken: "emits tr A m \<Longrightarrow> (\<And>e. A e \<Longrightarrow> B e) \<Longrightarrow> emits tr B m"
  unfolding emits_def by (meson list.pred_mono_strong)

lemma emits_bnd [emits_intros]:
  assumes "emits tr A m" "\<And>x. emits tr A (f x)"
  shows "emits tr A (bnd m f)"
  unfolding emits_def
proof
  fix s
  obtain r t where m: "m s = (r, t)" by (cases "m s")
  from emitsD [OF assms(1), of s] m obtain es where
    es: "tr t = tr s @ es" "list_all A es" by auto
  show "\<exists>es. tr (snd (bnd m f s)) = tr s @ es \<and> list_all A es"
  proof (cases r)
    case (Ok x)
    from emitsD [OF assms(2), of x t] obtain fs where
      "tr (snd (f x t)) = tr t @ fs" "list_all A fs" by auto
    with es m Ok show ?thesis by (auto simp: bnd_def)
  qed (use es m in \<open>auto simp: bnd_def\<close>)
qed

lemma emits_handle [emits_intros]:
  assumes "emits tr A m" "\<And>e. emits tr A (h e)"
  shows "emits tr A (handle m h)"
  unfolding emits_def
proof
  fix s
  obtain r t where m: "m s = (r, t)" by (cases "m s")
  from emitsD [OF assms(1), of s] m obtain es where
    es: "tr t = tr s @ es" "list_all A es" by auto
  show "\<exists>es. tr (snd (handle m h s)) = tr s @ es \<and> list_all A es"
  proof (cases r)
    case (Fail x)
    from emitsD [OF assms(2), of x t] obtain fs where
      "tr (snd (h x t)) = tr t @ fs" "list_all A fs" by auto
    with es m Fail show ?thesis by (auto simp: handle_def)
  qed (use es m in \<open>auto simp: handle_def\<close>)
qed

lemma snd_attempt [simp]: "snd (attempt m s) = snd (m s)"
  by (cases "m s"; cases "fst (m s)") (auto simp: attempt_def)

lemma emits_attempt [emits_intros]: "emits tr A m \<Longrightarrow> emits tr A (attempt m)"
  by (simp add: emits_def)

lemma emits_if [emits_intros]:
  "(b \<Longrightarrow> emits tr A m) \<Longrightarrow> (\<not> b \<Longrightarrow> emits tr A n) \<Longrightarrow> emits tr A (if b then m else n)"
  by simp

lemma emits_case_sum [emits_intros]:
  "(\<And>e. emits tr A (f e)) \<Longrightarrow> (\<And>x. emits tr A (g x)) \<Longrightarrow>
   emits tr A (case r of Inl e \<Rightarrow> f e | Inr x \<Rightarrow> g x)"
  by (cases r) simp_all

lemma emits_case_option [emits_intros]:
  "(r = None \<Longrightarrow> emits tr A f) \<Longrightarrow> (\<And>x. r = Some x \<Longrightarrow> emits tr A (g x)) \<Longrightarrow>
   emits tr A (case r of None \<Rightarrow> f | Some x \<Rightarrow> g x)"
  by (cases r) simp_all

lemma emits_each [emits_intros]:
  "(\<And>x. x \<in> set xs \<Longrightarrow> emits tr A (f x)) \<Longrightarrow> emits tr A (each f xs)"
  by (induction xs) (auto intro: emits_intros)

lemma emits_each_acc [emits_intros]:
  "(\<And>b x. x \<in> set xs \<Longrightarrow> emits tr A (f b x)) \<Longrightarrow> emits tr A (each_acc f b xs)"
  by (induction xs arbitrary: b) (auto intro: emits_intros)

lemma emits_poll [emits_intros]: "emits tr A c \<Longrightarrow> emits tr A (poll n c)"
  by (induction n) (auto intro: emits_intros)

section \<open>Go strings\<close>

text \<open>\<open>strings.HasPrefix\<close>, \<open>strings.HasSuffix\<close>, \<open>strings.Contains\<close>.\<close>

definition has_prefix :: "string \<Rightarrow> string \<Rightarrow> bool" where
  "has_prefix s p \<longleftrightarrow> prefix p s"

definition has_suffix :: "string \<Rightarrow> string \<Rightarrow> bool" where
  "has_suffix s p \<longleftrightarrow> suffix p s"

fun str_contains :: "string \<Rightarrow> string \<Rightarrow> bool" where
  "str_contains [] sub = (sub = [])"
| "str_contains (c # cs) sub = (prefix sub (c # cs) \<or> str_contains cs sub)"

lemma str_contains_iff: "str_contains s sub \<longleftrightarrow> (\<exists>us vs. s = us @ sub @ vs)"
proof (induction s)
  case (Cons c cs)
  show ?case
  proof
    assume "str_contains (c # cs) sub"
    then show "\<exists>us vs. c # cs = us @ sub @ vs"
    proof (cases "prefix sub (c # cs)")
      case True
      then show ?thesis by (metis append_Nil prefix_def)
    next
      case False
      with \<open>str_contains (c # cs) sub\<close> Cons.IH obtain us vs where "cs = us @ sub @ vs" by auto
      then show ?thesis by (metis append_Cons)
    qed
  next
    assume "\<exists>us vs. c # cs = us @ sub @ vs"
    then obtain us vs where eq: "c # cs = us @ sub @ vs" by blast
    then show "str_contains (c # cs) sub"
    proof (cases us)
      case Nil
      with eq have "prefix sub (c # cs)" by (auto simp: prefix_def)
      then show ?thesis by simp
    next
      case (Cons u us')
      with eq Cons.IH show ?thesis by auto
    qed
  qed
qed auto

text \<open>\<open>strings.Split(s, sep)\<close> for a one-byte separator: never the empty list.\<close>

fun split_on :: "char \<Rightarrow> string \<Rightarrow> string list" where
  "split_on d [] = [[]]"
| "split_on d (c # cs) =
     (if c = d then [] # split_on d cs
      else (case split_on d cs of [] \<Rightarrow> [[c]] | w # ws \<Rightarrow> (c # w) # ws))"

lemma split_on_nonempty [simp]: "split_on d s \<noteq> []"
  by (cases s) (auto split: list.splits)

lemma length_split_on: "length (split_on d s) = Suc (count_list s d)"
  by (induction s) (auto split: list.split)

lemma split_on_no_sep: "d \<notin> set s \<Longrightarrow> split_on d s = [s]"
  by (induction s) auto

lemma last_split_on: "d \<notin> set v \<Longrightarrow> last (split_on d (u @ d # v)) = v"
proof (induction u)
  case Nil
  then show ?case by (simp add: split_on_no_sep)
next
  case (Cons a u)
  have "length (split_on d (u @ d # v)) = Suc (Suc (count_list u d + count_list v d))"
    by (simp add: length_split_on)
  then obtain w w' ws where "split_on d (u @ d # v) = w # w' # ws" by (auto simp: length_Suc_conv)
  with Cons.IH [OF Cons.prems] show ?case by simp
qed

lemma split_on_append: "d \<notin> set u \<Longrightarrow> split_on d (u @ d # v) = u # split_on d v"
  by (induction u) auto

text \<open>\<open>strings.Join(ss, sep)\<close>.\<close>

fun join_with :: "string \<Rightarrow> string list \<Rightarrow> string" where
  "join_with sep [] = []"
| "join_with sep [x] = x"
| "join_with sep (x # y # ys) = x @ sep @ join_with sep (y # ys)"

lemma split_on_join:
  "xs \<noteq> [] \<Longrightarrow> (\<And>x. x \<in> set xs \<Longrightarrow> d \<notin> set x) \<Longrightarrow> split_on d (join_with [d] xs) = xs"
proof (induction "[d]" xs rule: join_with.induct)
  case (3 x y ys)
  then show ?case by (auto simp: split_on_append)
qed (auto simp: split_on_no_sep)

lemma join_split: "join_with [d] (split_on d s) = s"
proof (induction s)
  case (Cons c cs)
  obtain w ws where w: "split_on d cs = w # ws" by (cases "split_on d cs") auto
  show ?case using Cons w by (cases ws) auto
qed simp

lemma join_with_snoc: "xs \<noteq> [] \<Longrightarrow> join_with sep (xs @ [y]) = join_with sep xs @ sep @ y"
  by (induction sep xs rule: join_with.induct) auto

text \<open>\<open>strings.LastIndexAny(s, "c")\<close> followed by the slice after it; \<open>None\<close> for index -1.\<close>

fun after_last :: "char \<Rightarrow> string \<Rightarrow> string option" where
  "after_last d [] = None"
| "after_last d (c # cs) =
     (case after_last d cs of Some t \<Rightarrow> Some t | None \<Rightarrow> (if c = d then Some cs else None))"

lemma after_last_none: "after_last d s = None \<longleftrightarrow> d \<notin> set s"
  by (induction s) (auto split: option.splits)

lemma after_last_absent [simp]: "d \<notin> set s \<Longrightarrow> after_last d s = None"
  by (simp add: after_last_none)

lemma after_last_append: "d \<notin> set v \<Longrightarrow> after_last d (u @ d # v) = Some v"
  by (induction u) auto

lemma after_last_Some: "after_last d s = Some v \<Longrightarrow> \<exists>u. s = u @ d # v \<and> d \<notin> set v"
proof (induction s)
  case (Cons c cs)
  show ?case
  proof (cases "after_last d cs")
    case None
    with Cons.prems show ?thesis by (auto simp: after_last_none split: if_splits intro: exI [of _ "[]"])
  next
    case (Some t)
    with Cons obtain u where "cs = u @ d # v" "d \<notin> set v" by auto
    then show ?thesis by (auto intro: exI [of _ "c # u"])
  qed
qed simp

text \<open>\<open>strings.TrimSpace\<close>, \<open>strings.ToUpper\<close>, \<open>strings.ToLower\<close>, \<open>unicode.IsLetter\<close> on ASCII.\<close>

definition is_space :: "char \<Rightarrow> bool" where
  "is_space c \<longleftrightarrow> c = CHR '' '' \<or> c = CHR 0x09 \<or> c = CHR 0x0A \<or> c = CHR 0x0B \<or> c = CHR 0x0C \<or> c = CHR 0x0D"

definition trim_space :: "string \<Rightarrow> string" where
  "trim_space s = rev (dropWhile is_space (rev (dropWhile is_space s)))"

definition is_upper :: "char \<Rightarrow> bool" where
  "is_upper c \<longleftrightarrow> 65 \<le> (of_char c :: nat) \<and> (of_char c :: nat) \<le> 90"

definition is_lower :: "char \<Rightarrow> bool" where
  "is_lower c \<longleftrightarrow> 97 \<le> (of_char c :: nat) \<and> (of_char c :: nat) \<le> 122"

definition is_letter :: "char \<Rightarrow> bool" where
  "is_letter c \<longleftrightarrow> is_upper c \<or> is_lower c"

definition to_upper :: "string \<Rightarrow> string" where
  "to_upper s = map (\<lambda>c. if is_lower c then char_of ((of_char c :: nat) - 32) else c) s"

definition to_lower :: "string \<Rightarrow> string" where
  "to_lower s = map (\<lambda>c. if is_upper c then char_of ((of_char c :: nat) + 32) else c) s"

text \<open>\<open>strings.ReplaceAll(s, c, "")\<close> for one byte.\<close>

definition remove_char :: "char \<Rightarrow> string \<Rightarrow> string" where
  "remove_char d s = filter (\<lambda>c. c \<noteq> d) s"

subsection \<open>Decimal numbers: strconv\<close>

definition digit_char :: "nat \<Rightarrow> char" where
  "digit_char d = char_of (48 + d)"

definition is_digit :: "char \<Rightarrow> bool" where
  "is_digit c \<longleftrightarrow> 48 \<le> (of_char c :: nat) \<and> (of_char c :: nat) \<le> 57"

definition digit_val :: "char \<Rightarrow> nat" where
  "digit_val c = (of_char c :: nat) - 48"

lemma digit_char_props:
  "d < 10 \<Longrightarrow> is_digit (digit_char d)" "d < 10 \<Longrightarrow> digit_val (digit_char d) = d"
  by (simp_all add: is_digit_def digit_char_def digit_val_def)

lemma digit_char_eval [simp]:
  "digit_char 0 = CHR ''0''" "digit_char (Suc 0) = CHR ''1''" "digit_char 2 = CHR ''2''" "digit_char 3 = CHR ''3''"
  "digit_char 4 = CHR ''4''" "digit_char 5 = CHR ''5''" "digit_char 6 = CHR ''6''" "digit_char 7 = CHR ''7''"
  "digit_char 8 = CHR ''8''" "digit_char 9 = CHR ''9''"
  by code_simp+

text \<open>\<open>strconv.FormatUint(n, 10)\<close>, and \<open>%d\<close> for a natural number.\<close>

fun nat_str :: "nat \<Rightarrow> string" where
  "nat_str n = (if n < 10 then [digit_char n] else nat_str (n div 10) @ [digit_char (n mod 10)])"

declare nat_str.simps [simp del]

definition int_str :: "int \<Rightarrow> string" where
  "int_str i = (if i < 0 then ''-'' @ nat_str (nat (- i)) else nat_str (nat i))"

definition digits_val :: "string \<Rightarrow> nat" where
  "digits_val s = foldl (\<lambda>a c. 10 * a + digit_val c) 0 s"

text \<open>
  \<open>strconv.ParseUint(s, 10, 64)\<close> and \<open>strconv.Atoi\<close> (64-bit \<open>int\<close>): only digits, at
  least one, an optional sign for \<open>Atoi\<close>; out of range is an error.
\<close>

definition parse_uint :: "string \<Rightarrow> nat res" where
  "parse_uint s =
     (if s = [] \<or> \<not> list_all is_digit s then Fail (GErr ''strconv: invalid syntax'')
      else if digits_val s \<ge> 2 ^ 64 then Fail (GErr ''strconv: value out of range'')
      else Ok (digits_val s))"

definition atoi :: "string \<Rightarrow> int res" where
  "atoi s =
     (let (neg, ds) = (case s of [] \<Rightarrow> (False, [])
        | c # cs \<Rightarrow> if c = CHR ''-'' then (True, cs) else if c = CHR ''+'' then (False, cs) else (False, s))
      in if ds = [] \<or> \<not> list_all is_digit ds then Fail (GErr ''strconv: invalid syntax'')
         else let v = (if neg then - int (digits_val ds) else int (digits_val ds))
              in if v < - (2 ^ 63) \<or> v \<ge> 2 ^ 63 then Fail (GErr ''strconv: value out of range'')
                 else Ok v)"

lemma nat_str_digits: "list_all is_digit (nat_str n)"
proof (induction n rule: nat_str.induct)
  case (1 n)
  then show ?case by (subst nat_str.simps) (auto simp: digit_char_props)
qed

lemma nat_str_nonempty [simp]: "nat_str n \<noteq> []"
  by (subst nat_str.simps) simp

lemma digits_val_snoc: "digits_val (s @ [c]) = 10 * digits_val s + digit_val c"
  by (simp add: digits_val_def)

lemma digits_val_nat_str [simp]: "digits_val (nat_str n) = n"
proof (induction n rule: nat_str.induct)
  case (1 n)
  show ?case
  proof (cases "n < 10")
    case True
    then show ?thesis
      by (subst nat_str.simps) (simp add: digits_val_def digit_char_props)
  next
    case False
    then have "digits_val (nat_str n) = 10 * digits_val (nat_str (n div 10)) + n mod 10"
      by (subst nat_str.simps) (simp add: digits_val_snoc digit_char_props)
    with 1 False show ?thesis by simp
  qed
qed

lemma nat_str_inj [simp]: "nat_str m = nat_str n \<longleftrightarrow> m = n"
  by (metis digits_val_nat_str)

lemma nat_str_chars: "c \<in> set (nat_str n) \<Longrightarrow> is_digit c"
  using nat_str_digits [of n] by (auto simp: list_all_iff)

lemma not_digit_chars:
  "\<not> is_digit (CHR ''-'')" "\<not> is_digit (CHR ''+'')" "\<not> is_digit (CHR ''.'')"
  "\<not> is_digit (CHR '':'')" "\<not> is_digit (CHR '','')"
  by (simp_all add: is_digit_def)

lemma nat_str_not_in [simp]:
  "CHR ''-'' \<notin> set (nat_str n)" "CHR '','' \<notin> set (nat_str n)" "CHR '':'' \<notin> set (nat_str n)"
  "CHR ''.'' \<notin> set (nat_str n)"
  using nat_str_chars not_digit_chars by blast+

lemma parse_uint_nat_str: "n < 2 ^ 64 \<Longrightarrow> parse_uint (nat_str n) = Ok n"
  by (simp add: parse_uint_def nat_str_digits)

lemma atoi_nat_str: "n < 2 ^ 63 \<Longrightarrow> atoi (nat_str n) = Ok (int n)"
proof -
  assume n: "n < 2 ^ 63"
  obtain c cs where s: "nat_str n = c # cs" by (cases "nat_str n") auto
  then have "is_digit c" using nat_str_chars [of c n] by simp
  then have "c \<noteq> CHR ''-''" "c \<noteq> CHR ''+''" using not_digit_chars by auto
  moreover have "int n < 2 ^ 63" using n by (metis of_nat_less_iff of_nat_numeral of_nat_power)
  ultimately show ?thesis
    using s nat_str_digits [of n] digits_val_nat_str [of n] by (simp add: atoi_def Let_def)
qed

section \<open>Maps with string keys\<close>

text \<open>Reading a missing key of a Go \<open>map[string]string\<close> gives the empty string.\<close>

definition lget :: "(string \<rightharpoonup> string) \<Rightarrow> string \<Rightarrow> string" where
  "lget m k = (case m k of None \<Rightarrow> [] | Some v \<Rightarrow> v)"

lemma lget_simps [simp]:
  "lget Map.empty k = []"
  "lget (m(k \<mapsto> v)) k' = (if k' = k then v else lget m k')"
  by (simp_all add: lget_def)

end
