(* ===== verification/Utils.thy ===== *)
theory Utils
  imports Prelude "HOL-Library.Char_ord" "HOL-Library.List_Lexorder"
begin

text \<open>
  \<open>utils/common.go\<close> and the names of \<open>utils/constants.go\<close>: minimum and maximum of
  unsigned words, membership by binary search, the ordinal of a pod name, the list
  difference used to reconcile raft peers, image and NFS address parsing, the backup
  directory name built from the clock.
\<close>

section \<open>Constants (utils/constants.go)\<close>

definition InvalidMySQLVersion :: string where "InvalidMySQLVersion = ''0.0.0''"
definition XenonPort :: nat where "XenonPort = 8801"
definition XenonPeerPort :: nat where "XenonPeerPort = 6601"
definition MysqlPort :: nat where "MysqlPort = 3306"
definition MetricsPort :: nat where "MetricsPort = 9104"
definition ReplicationUser :: string where "ReplicationUser = ''radondb_repl''"
definition MetricsUser :: string where "MetricsUser = ''radondb_metrics''"
definition OperatorUser :: string where "OperatorUser = ''radondb_operator''"
definition RootUser :: string where "RootUser = ''root''"
definition LeaderHost :: string where "LeaderHost = ''leader-host''"

text \<open>\<open>type ResourceName string\<close> and its constants.\<close>

datatype ResourceName =
    HeadlessSVC | ReadOnlyHeadlessSVC | ReadOnlySvc | StatefulSet | ConfigMap | LeaderService
  | FollowerService | MetricsService | SecretRes | RoleRes | RoleBindingRes | ServiceAccountRes
  | PodDisruptionBudget | XenonMetaData | RemoteClusterRes

text \<open>\<open>type RaftRole string\<close>; the role is stored as its string in the pod labels.\<close>

definition Leader :: string where "Leader = ''LEADER''"
definition Follower :: string where "Follower = ''FOLLOWER''"
definition Candidate :: string where "Candidate = ''CANDIDATE''"
definition Unknown :: string where "Unknown = ''UNKNOW''"

definition LableRebuild :: string where "LableRebuild = ''rebuild''"
definition LabelRebuildFrom :: string where "LabelRebuildFrom = ''rebuild-from''"
definition LabelTryLeader :: string where "LabelTryLeader = ''tryleader''"

lemmas role_defs = Leader_def Follower_def Candidate_def Unknown_def

section \<open>Unsigned minimum and maximum\<close>

definition Min64 :: "64 word \<Rightarrow> 64 word \<Rightarrow> 64 word" where
  "Min64 a b = (if a < b then a else b)"

definition Max64 :: "64 word \<Rightarrow> 64 word \<Rightarrow> 64 word" where
  "Max64 a b = (if a > b then a else b)"

lemma unat_Min64: "unat (Min64 a b) = min (unat a) (unat b)"
  by (simp add: Min64_def word_less_nat_alt min_def)

lemma unat_Max64: "unat (Max64 a b) = max (unat a) (unat b)"
  by (simp add: Max64_def word_less_nat_alt max_def)

section \<open>StringInArray\<close>

text \<open>
  \<open>sort.Search(n, f)\<close>: binary search for the least index of \<open>[0, n)\<close> at which the
  monotone predicate holds, \<open>n\<close> when there is none.
\<close>

function sort_search :: "(nat \<Rightarrow> bool) \<Rightarrow> nat \<Rightarrow> nat \<Rightarrow> nat" where
  "sort_search f i j =
     (if i < j then
        (let h = (i + j) div 2
         in if \<not> f h then sort_search f (h + 1) j else sort_search f i h)
      else i)"
  by pat_completeness auto
termination
  by (relation "measure (\<lambda>(f, i, j). j - i)") auto

declare sort_search.simps [simp del]

lemma sort_search_bounds: "i \<le> j \<Longrightarrow> i \<le> sort_search f i j \<and> sort_search f i j \<le> j"
proof (induction f i j rule: sort_search.induct)
  case (1 f i j)
  show ?case
  proof (cases "i < j")
    case True
    then have "i \<le> (i + j) div 2" "(i + j) div 2 < j" by auto
    with 1 True show ?thesis
      by (auto simp: Let_def sort_search.simps [of f i j])
  next
    case False
    then have "sort_search f i j = i" by (simp add: sort_search.simps [of f i j])
    with 1 show ?thesis by simp
  qed
qed

text \<open>Below the result the predicate fails, from it on it holds.\<close>

lemma sort_search_split:
  assumes mono: "\<And>k l. k \<le> l \<Longrightarrow> f k \<Longrightarrow> f l"
  shows "i \<le> j \<Longrightarrow> (\<forall>k. i \<le> k \<and> k < sort_search f i j \<longrightarrow> \<not> f k) \<and>
    (sort_search f i j < j \<longrightarrow> f (sort_search f i j))"
proof (induction "j - i" arbitrary: i j rule: less_induct)
  case less
  show ?case
  proof (cases "i < j")
    case True
    define h where "h = (i + j) div 2"
    with True have h: "i \<le> h" "h < j" by auto
    show ?thesis
    proof (cases "f h")
      case False
      have eq: "sort_search f i j = sort_search f (h + 1) j"
        using True False by (simp add: sort_search.simps [of f i j] h_def Let_def)
      have IH: "(\<forall>k. h + 1 \<le> k \<and> k < sort_search f (h + 1) j \<longrightarrow> \<not> f k) \<and>
          (sort_search f (h + 1) j < j \<longrightarrow> f (sort_search f (h + 1) j))"
        by (rule less.hyps) (use h in auto)
      have low: "\<not> f k" if "k \<le> h" for k
        using mono [OF that] False by blast
      show ?thesis unfolding eq
      proof (intro conjI allI impI)
        fix k assume "i \<le> k \<and> k < sort_search f (h + 1) j"
        then show "\<not> f k" using IH low [of k] by (cases "k \<le> h") auto
      qed (use IH in simp)
    next
      case fh: True
      have eq: "sort_search f i j = sort_search f i h"
        using True fh by (simp add: sort_search.simps [of f i j] h_def Let_def)
      have IH: "(\<forall>k. i \<le> k \<and> k < sort_search f i h \<longrightarrow> \<not> f k) \<and>
          (sort_search f i h < h \<longrightarrow> f (sort_search f i h))"
        by (rule less.hyps) (use h in auto)
      have "sort_search f i h \<le> h" using sort_search_bounds h(1) by blast
      with IH fh show ?thesis unfolding eq by (cases "sort_search f i h = h") auto
    qed
  next
    case False
    then have "sort_search f i j = i" by (simp add: sort_search.simps [of f i j])
    with less.prems False show ?thesis by auto
  qed
qed

text \<open>Only the predicate's values inside the range matter.\<close>

lemma sort_search_cong:
  "(\<And>k. k < j \<Longrightarrow> f k = g k) \<Longrightarrow> sort_search f i j = sort_search g i j"
proof (induction f i j rule: sort_search.induct)
  case (1 f i j)
  show ?case
  proof (cases "i < j")
    case True
    then have h: "(i + j) div 2 < j" by auto
    from True 1 h show ?thesis
      by (auto simp: Let_def sort_search.simps [of f i j] sort_search.simps [of g i j])
  qed (simp add: sort_search.simps [of f i j] sort_search.simps [of g i j])
qed

definition search_strings :: "string list \<Rightarrow> string \<Rightarrow> nat" where
  "search_strings xs x = sort_search (\<lambda>i. xs ! i \<ge> x) 0 (length xs)"

definition StringInArray :: "string \<Rightarrow> string list \<Rightarrow> bool" where
  "StringInArray str strArray =
     (let arr = sort strArray; index = search_strings arr str
      in index < length arr \<and> arr ! index = str)"

lemma search_strings_sorted:
  assumes "sorted xs"
  shows "(search_strings xs x < length xs \<and> xs ! search_strings xs x = x) \<longleftrightarrow> x \<in> set xs"
proof -
  define n where "n = length xs"
  \<comment> \<open>the predicate, made monotone beyond the end of the array\<close>
  define f where "f = (\<lambda>i. i \<ge> n \<or> xs ! i \<ge> x)"
  have mono: "f l" if "k \<le> l" "f k" for k l
  proof (cases "l < n")
    case True
    with that assms have "xs ! k \<le> xs ! l" by (intro sorted_nth_mono) (simp_all add: n_def)
    with that True show ?thesis by (auto simp: f_def)
  qed (simp add: f_def)
  have same: "sort_search (\<lambda>i. xs ! i \<ge> x) 0 n = sort_search f 0 n"
    by (rule sort_search_cong) (simp add: f_def)
  define r where "r = search_strings xs x"
  have r: "r = sort_search f 0 n" by (simp add: r_def search_strings_def n_def [symmetric] same)
  have le: "r \<le> n" using sort_search_bounds [of 0 n f] by (simp add: r)
  have below: "\<not> f k" if "k < r" for k
    using sort_search_split [of f 0 n] mono that by (metis le0 r)
  have at: "f r" if "r < n"
    using sort_search_split [of f 0 n] mono that by (metis le0 r)
  show ?thesis
  proof
    assume "x \<in> set xs"
    then obtain k where k: "k < n" "xs ! k = x" by (auto simp: in_set_conv_nth n_def)
    then have "f k" by (simp add: f_def)
    with below have "r \<le> k" by (meson not_le)
    with k have "r < n" by simp
    with at have "xs ! r \<ge> x" by (simp add: f_def)
    moreover have "xs ! r \<le> xs ! k" by (rule sorted_nth_mono) (use assms \<open>r \<le> k\<close> k in \<open>simp_all add: n_def\<close>)
    ultimately show "search_strings xs x < length xs \<and> xs ! search_strings xs x = x"
      using k \<open>r < n\<close> by (simp add: r_def [symmetric] n_def)
  next
    assume "search_strings xs x < length xs \<and> xs ! search_strings xs x = x"
    then show "x \<in> set xs" using nth_mem by metis
  qed
qed

lemma StringInArray_mem: "StringInArray str strArray = (str \<in> set strArray)"
  using search_strings_sorted [of "sort strArray" str]
  by (simp add: StringInArray_def Let_def)

text \<open>
  \<open>StringInArray\<close> sorts its argument and looks the string up by binary search; the
  answer is list membership, for every array and every string (the sort it performs first
  is what makes the binary search sound).
\<close>

theorem StringInArray_iff: "StringInArray str strArray \<longleftrightarrow> str \<in> set strArray"
  by (rule StringInArray_mem)

section \<open>GetOrdinal\<close>

definition GetOrdinal :: "string \<Rightarrow> int res" where
  "GetOrdinal name = (case after_last (CHR ''-'') name of
      None \<Rightarrow> Fail (GErr (''failed to extract ordinal from name: '' @ name))
    | Some t \<Rightarrow> (case atoi t of
          Ok ordinal \<Rightarrow> Ok ordinal
        | _ \<Rightarrow> Fail (GErr (''failed to extract ordinal from name: '' @ name))))"

lemma GetOrdinal_total: "\<not> is_panic (GetOrdinal name)"
  by (auto simp: GetOrdinal_def split: option.split res.split)

lemma GetOrdinal_nat: "n < 2 ^ 63 \<Longrightarrow> GetOrdinal (base @ CHR ''-'' # nat_str n) = Ok (int n)"
  by (simp add: GetOrdinal_def after_last_append atoi_nat_str)

text \<open>
  Round trip of stateful-set names: the ordinal read back from \<open>base-n\<close> is \<open>n\<close>, for
  every base name (dashes in it included) and every 63-bit ordinal; a name without a dash
  is an error, never a panic.
\<close>

theorem GetOrdinal_roundtrip:
  "(n < 2 ^ 63 \<longrightarrow> GetOrdinal (base @ CHR ''-'' # nat_str n) = Ok (int n)) \<and>
   (CHR ''-'' \<notin> set name \<longrightarrow> (\<exists>e. GetOrdinal name = Fail (GErr e)))"
  by (simp add: GetOrdinal_nat) (simp add: GetOrdinal_def)

theorem GetOrdinal_roundtrip_witness:
  "GetOrdinal (''sample-mysql'' @ CHR ''-'' # nat_str 2) = Ok 2 \<and> (\<exists>e. GetOrdinal ''sample'' = Fail (GErr e))"
  using GetOrdinal_roundtrip [of 2 "''sample-mysql''" "''sample''"] by simp

section \<open>StringDiffIn\<close>

text \<open>\<open>stringIn\<close> returns the first index and whether the string was found.\<close>

fun stringIn_from :: "nat \<Rightarrow> string \<Rightarrow> string list \<Rightarrow> nat \<times> bool" where
  "stringIn_from i str [] = (0, False)"
| "stringIn_from i str (s # ss) = (if s = str then (i, True) else stringIn_from (Suc i) str ss)"

definition stringIn :: "string \<Rightarrow> string list \<Rightarrow> nat \<times> bool" where
  "stringIn str strs = stringIn_from 0 str strs"

fun StringDiffIn :: "string list \<Rightarrow> string list \<Rightarrow> string list" where
  "StringDiffIn [] desired = []"
| "StringDiffIn (aStr # actual) desired =
     (if \<not> snd (stringIn aStr desired) then aStr # StringDiffIn actual desired
      else StringDiffIn actual desired)"

lemma stringIn_from_iff: "snd (stringIn_from i str strs) \<longleftrightarrow> str \<in> set strs"
  by (induction i str strs rule: stringIn_from.induct) auto

lemma stringIn_iff: "snd (stringIn str strs) \<longleftrightarrow> str \<in> set strs"
  by (simp add: stringIn_def stringIn_from_iff)

lemma stringIn_from_index:
  "stringIn_from i str strs = (j, True) \<Longrightarrow> i \<le> j \<and> j - i < length strs \<and> strs ! (j - i) = str"
proof (induction i str strs rule: stringIn_from.induct)
  case (2 i str s ss)
  show ?case
  proof (cases "s = str")
    case False
    with 2 have "Suc i \<le> j" "j - Suc i < length ss" "ss ! (j - Suc i) = str" by auto
    then show ?thesis by (auto simp: nth_Cons' Suc_diff_Suc)
  qed (use 2 in auto)
qed simp

lemma StringDiffIn_filter: "StringDiffIn actual desired = filter (\<lambda>s. s \<notin> set desired) actual"
  by (induction actual desired rule: StringDiffIn.induct) (auto simp: stringIn_iff)

lemma StringDiffIn_set [simp]: "set (StringDiffIn actual desired) = set actual - set desired"
  by (auto simp: StringDiffIn_filter)

section \<open>ParseImageName and ParseIPAndPath\<close>

text \<open>\<open>filepath.Split\<close>: the directory ends in the last slash, or is empty.\<close>

definition path_split :: "string \<Rightarrow> string \<times> string" where
  "path_split p = (case after_last (CHR ''/'') p of
      None \<Rightarrow> ([], p)
    | Some f \<Rightarrow> (take (length p - length f) p, f))"

lemma path_split_no_slash: "CHR ''/'' \<notin> set p \<Longrightarrow> path_split p = ([], p)"
  by (simp add: path_split_def)

text \<open>\<open>strings.TrimSuffix\<close>.\<close>

definition trim_suffix :: "string \<Rightarrow> string \<Rightarrow> string" where
  "trim_suffix s suf = (if has_suffix s suf then take (length s - length suf) s else s)"

definition ParseImageName :: "string \<Rightarrow> (string \<times> string \<times> string) res" where
  "ParseImageName img =
     (let (imagePrefix, imageString) = path_split img;
          imagePrefix = trim_suffix imagePrefix ''/'';
          imageNameArry = split_on (CHR '':'') imageString
      in if length imageNameArry \<le> 1 then Fail (GErr ''image name or tag is empty'')
         else Ok (imagePrefix, imageNameArry ! 0, imageNameArry ! 1))"

definition ParseIPAndPath :: "string \<Rightarrow> string \<times> string" where
  "ParseIPAndPath nfsaddr =
     (let res = split_on (CHR '':'') nfsaddr
      in if length res = 2 then (res ! 0, res ! 1) else (res ! 0, ''/''))"

text \<open>
  Round trip of image references: \<open>prefix/name:tag\<close> parses back to its three parts,
  whatever slashes and registry ports the prefix holds, and \<open>name:tag\<close> parses with an
  empty prefix; without a tag the result is an error.
\<close>

theorem ParseImageName_roundtrip:
  assumes "CHR ''/'' \<notin> set name" "CHR '':'' \<notin> set name"
    and "CHR ''/'' \<notin> set tag" "CHR '':'' \<notin> set tag"
  shows "ParseImageName (pre @ CHR ''/'' # name @ CHR '':'' # tag) = Ok (pre, name, tag) \<and>
    ParseImageName (name @ CHR '':'' # tag) = Ok ([], name, tag) \<and>
    ParseImageName (pre @ CHR ''/'' # name) = Fail (GErr ''image name or tag is empty'')"
proof (intro conjI)
  have sp: "split_on (CHR '':'') (name @ CHR '':'' # tag) = [name, tag]"
    using assms by (simp add: split_on_append split_on_no_sep)
  have "after_last (CHR ''/'') (pre @ CHR ''/'' # name @ CHR '':'' # tag) = Some (name @ CHR '':'' # tag)"
    by (rule after_last_append) (use assms in auto)
  with sp show "ParseImageName (pre @ CHR ''/'' # name @ CHR '':'' # tag) = Ok (pre, name, tag)"
    by (simp add: ParseImageName_def path_split_def trim_suffix_def has_suffix_def suffix_def)
  have "path_split (name @ CHR '':'' # tag) = ([], name @ CHR '':'' # tag)"
    by (rule path_split_no_slash) (use assms in auto)
  with sp show "ParseImageName (name @ CHR '':'' # tag) = Ok ([], name, tag)"
    by (simp add: ParseImageName_def trim_suffix_def has_suffix_def suffix_def)
  have "after_last (CHR ''/'') (pre @ CHR ''/'' # name) = Some name"
    by (rule after_last_append) (use assms in auto)
  then show "ParseImageName (pre @ CHR ''/'' # name) = Fail (GErr ''image name or tag is empty'')"
    using assms by (simp add: ParseImageName_def path_split_def split_on_no_sep)
qed

theorem ParseImageName_roundtrip_witness:
  "ParseImageName (''reg:5000/percona'' @ CHR ''/'' # ''percona-server'' @ CHR '':'' # ''5.7.34'')
     = Ok (''reg:5000/percona'', ''percona-server'', ''5.7.34'')"
  by (rule ParseImageName_roundtrip [THEN conjunct1]) simp_all

section \<open>BuildBackupName\<close>

record go_time =
  t_year :: nat
  t_month :: nat
  t_day :: nat
  t_hour :: nat
  t_minute :: nat
  t_second :: nat

definition valid_time :: "go_time \<Rightarrow> bool" where
  "valid_time t \<longleftrightarrow> 1 \<le> t_month t \<and> t_month t \<le> 12 \<and> 1 \<le> t_day t \<and> t_day t \<le> 31 \<and>
     t_hour t < 24 \<and> t_minute t < 60 \<and> t_second t < 60"

text \<open>The verb \<open>%02d\<close> of a number below 100.\<close>

definition pad2 :: "nat \<Rightarrow> string" where
  "pad2 n = (if n < 10 then CHR ''0'' # nat_str n else nat_str n)"

definition BuildBackupName :: "string \<Rightarrow> go_time \<Rightarrow> string \<times> string" where
  "BuildBackupName name cur_time =
     (name @ ''_'' @ nat_str (t_year cur_time) @ nat_str (t_month cur_time) @ nat_str (t_day cur_time) @
        nat_str (t_hour cur_time) @ nat_str (t_minute cur_time) @ nat_str (t_second cur_time),
      nat_str (t_year cur_time) @ ''-'' @ pad2 (t_month cur_time) @ ''-'' @ pad2 (t_day cur_time) @ ''T'' @
        pad2 (t_hour cur_time) @ '':'' @ pad2 (t_minute cur_time) @ '':'' @ pad2 (t_second cur_time))"

text \<open>
  The backup directory name does not identify the instant it was taken at: the date
  parts are printed without padding, so two valid times on different days give the same
  name (11 January and 1 November), although the padded date string next to it differs.
\<close>

theorem BuildBackupName_collision:
  "\<exists>t u. valid_time t \<and> valid_time u \<and> t_month t \<noteq> t_month u \<and>
     fst (BuildBackupName name t) = fst (BuildBackupName name u) \<and>
     snd (BuildBackupName name t) \<noteq> snd (BuildBackupName name u)"
proof -
  define t where "t = \<lparr>t_year = 2022, t_month = 1, t_day = 11, t_hour = 3, t_minute = 0, t_second = 0\<rparr>"
  define u where "u = \<lparr>t_year = 2022, t_month = 11, t_day = 1, t_hour = 3, t_minute = 0, t_second = 0\<rparr>"
  have "valid_time t \<and> valid_time u \<and> t_month t \<noteq> t_month u \<and>
     fst (BuildBackupName name t) = fst (BuildBackupName name u) \<and>
     snd (BuildBackupName name t) \<noteq> snd (BuildBackupName name u)"
    by (simp add: t_def u_def valid_time_def BuildBackupName_def pad2_def nat_str.simps)
  then show ?thesis by blast
qed

end
