(* ===== verification/ApiTypes.thy ===== *)
theory ApiTypes
  imports Utils
begin

text \<open>
  The custom resources of \<open>api/v1alpha1\<close>: \<open>MysqlCluster\<close>, \<open>Backup\<close> and \<open>MysqlUser\<close>, one
  record per Go struct with a field prefix per record, and the Kubernetes objects the
  operator reads.

  Conventions. A Go pointer is an \<open>option\<close>, a \<open>map[string]string\<close> a partial function, a
  slice a list, \<open>int32\<close> and \<open>int\<close> are \<open>int\<close> (the values are bounded by the CRD, and the code
  does no arithmetic on them that could wrap), a time is the number of seconds, or
  \<open>None\<close> when zero. \<open>spec.replicas\<close> has a CRD default and an enum, so the API server never
  stores it as null and the model has no null for it. Kubernetes values that the
  operator only copies (affinity, tolerations, projections) are opaque strings.
\<close>

type_synonym smap = "string \<rightharpoonup> string"
type_synonym time = "int option"
type_synonym opaque = string

text \<open>\<open>metav1.Time.Before\<close>: the zero time is before every other time.\<close>

definition time_before :: "time \<Rightarrow> time \<Rightarrow> bool" where
  "time_before a b = (case (a, b) of
      (_, None) \<Rightarrow> False
    | (None, Some _) \<Rightarrow> True
    | (Some x, Some y) \<Rightarrow> x < y)"

section \<open>MysqlCluster: the specification\<close>

text \<open>
  \<open>corev1.ResourceRequirements\<close>: the memory request in bytes and the CPU limit in milli-CPUs
  are what the operator computes with.
\<close>

record ResourceRequirements =
  rr_mem_request :: int
  rr_cpu_limit_milli :: int
  rr_other :: opaque

record LogPVC =
  lp_AccessModes :: "string list"
  lp_StorageClass :: "string option"
  lp_Size :: string

record MysqlOpts =
  mo_Image :: string
  mo_RootPassword :: string
  mo_RootHost :: string
  mo_User :: string
  mo_Password :: string
  mo_Database :: string
  mo_InitTokuDB :: bool
  mo_MysqlConfTemplate :: string
  mo_MysqlConf :: smap
  mo_PluginConf :: smap
  mo_Resources :: ResourceRequirements
  mo_MaxLagSeconds :: int
  mo_LogfilePVC :: "LogPVC option"

record XenonOpts =
  xo_Image :: string
  xo_AdmitDefeatHearbeatCount :: "int option"
  xo_ElectionTimeout :: "int option"
  xo_EnableAutoRebuild :: bool
  xo_Resources :: ResourceRequirements

record MetricsOpts =
  me_Image :: string
  me_Resources :: ResourceRequirements
  me_Enabled :: bool

record PodPolicy =
  pp_ImagePullPolicy :: string
  pp_Labels :: "(string \<times> string) list"
  pp_Annotations :: "(string \<times> string) list"
  pp_Affinity :: "opaque option"
  pp_PriorityClassName :: string
  pp_Tolerations :: "opaque list"
  pp_SchedulerName :: string
  pp_ExtraResources :: ResourceRequirements
  pp_SidecarImage :: string
  pp_BusyboxImage :: string
  pp_SlowLogTail :: bool
  pp_AuditLogTail :: bool

record Persistence =
  pe_Enabled :: bool
  pe_AccessModes :: "string list"
  pe_StorageClass :: "string option"
  pe_Size :: string

record ReadOnlyType =
  ro_Num :: int
  ro_Host :: string
  ro_Resources :: "ResourceRequirements option"
  ro_Affinity :: "opaque option"
  ro_Tolerations :: "opaque list option"

record RemoteSourceStruct =
  rs_Name :: string
  rs_NameSpace :: string

record BothS3NFSOpt =
  bs_NFSSchedule :: string
  bs_S3Schedule :: string

record MysqlClusterSpec =
  sp_Replicas :: int
  sp_ReadOnlys :: "ReadOnlyType option"
  sp_ReplicaLag :: "int option"
  sp_MinAvailable :: string
  sp_MysqlOpts :: MysqlOpts
  sp_XenonOpts :: XenonOpts
  sp_MetricsOpts :: MetricsOpts
  sp_MysqlVersion :: string
  sp_PodPolicy :: PodPolicy
  sp_Persistence :: Persistence
  sp_BackupSecretName :: string
  sp_RestoreFrom :: string
  sp_RestorePoint :: string
  sp_NFSServerAddress :: string
  sp_BackupSchedule :: string
  sp_BothS3NFS :: "BothS3NFSOpt option"
  sp_BackupScheduleJobsHistoryLimit :: "int option"
  sp_TlsSecretName :: string
  sp_SourceConfig :: "opaque option"
  sp_RemoteCluster :: "RemoteSourceStruct option"
  sp_LeaderAsFollower :: bool
  sp_ServerIDOffset :: int

section \<open>MysqlCluster: the status\<close>

text \<open>
  \<open>ClusterState\<close> and \<open>ClusterConditionType\<close> are string types, and \<open>updateClusterStatus\<close>
  casts one to the other, so they stay strings.
\<close>

type_synonym ClusterState = string
type_synonym ClusterConditionType = string

definition ClusterInitState :: ClusterState where "ClusterInitState = ''Initializing''"
definition ClusterUpdateState :: ClusterState where "ClusterUpdateState = ''Updating''"
definition ClusterReadyState :: ClusterState where "ClusterReadyState = ''Ready''"
definition ClusterCloseState :: ClusterState where "ClusterCloseState = ''Closed''"
definition ClusterScaleInState :: ClusterState where "ClusterScaleInState = ''ScaleIn''"
definition ClusterScaleOutState :: ClusterState where "ClusterScaleOutState = ''ScaleOut''"

lemmas state_defs = ClusterInitState_def ClusterUpdateState_def ClusterReadyState_def
  ClusterCloseState_def ClusterScaleInState_def ClusterScaleOutState_def

definition ConditionInit :: ClusterConditionType where "ConditionInit = ''Initializing''"
definition ConditionUpdate :: ClusterConditionType where "ConditionUpdate = ''Updating''"
definition ConditionReady :: ClusterConditionType where "ConditionReady = ''Ready''"
definition ConditionClose :: ClusterConditionType where "ConditionClose = ''Closed''"
definition ConditionError :: ClusterConditionType where "ConditionError = ''Error''"
definition ConditionScaleIn :: ClusterConditionType where "ConditionScaleIn = ''ScaleIn''"
definition ConditionScaleOut :: ClusterConditionType where "ConditionScaleOut = ''ScaleOut''"
definition ConditionRemoteSlave :: ClusterConditionType where "ConditionRemoteSlave = ''RemoteSlave''"

lemmas cond_type_defs = ConditionInit_def ConditionUpdate_def ConditionReady_def ConditionClose_def
  ConditionError_def ConditionScaleIn_def ConditionScaleOut_def ConditionRemoteSlave_def

text \<open>The positions of the conditions in \<open>status.conditions\<close>.\<close>

definition ClIndexInit :: nat where "ClIndexInit = 0"
definition ClIndexUpdate :: nat where "ClIndexUpdate = 1"
definition ClIndexReady :: nat where "ClIndexReady = 2"
definition ClIndexClose :: nat where "ClIndexClose = 3"
definition ClIndexError :: nat where "ClIndexError = 4"
definition ClIndexScaleIn :: nat where "ClIndexScaleIn = 5"
definition ClIndexScaleOut :: nat where "ClIndexScaleOut = 6"
definition ClIndexRemoteSlave :: nat where "ClIndexRemoteSlave = 7"

lemmas cl_index_defs = ClIndexInit_def ClIndexUpdate_def ClIndexReady_def ClIndexClose_def
  ClIndexError_def ClIndexScaleIn_def ClIndexScaleOut_def ClIndexRemoteSlave_def

text \<open>\<open>corev1.ConditionStatus\<close>; \<open>CondEmpty\<close> is the empty string, Go's zero value of the type.\<close>

datatype ConditionStatus = CondTrue | CondFalse | CondUnknown | CondEmpty

record ClusterCondition =
  cc_Type :: ClusterConditionType
  cc_Status :: ConditionStatus
  cc_LastTransitionTime :: time
  cc_Reason :: string
  cc_Message :: string

record RaftStatus =
  rf_Role :: string
  rf_Leader :: string
  rf_Nodes :: "string list"

record RoStatus =
  rst_ReadOnly :: bool
  rst_Replication :: bool
  rst_Master :: string

datatype NodeConditionType =
    NodeConditionLagged | NodeConditionLeader | NodeConditionReadOnly | NodeConditionReplicating
  | NodeConditionRoInitial | NodeConditionRoReadOnly | NodeConditionRoSemiClose | NodeConditionRoReplicating

record NodeCondition =
  nc_Type :: NodeConditionType
  nc_Status :: ConditionStatus
  nc_LastTransitionTime :: time

text \<open>\<open>NodeConditionsIndex\<close>: an \<open>iota\<close> block, so the read-only indices go on at 4.\<close>

definition IndexLagged :: nat where "IndexLagged = 0"
definition IndexLeader :: nat where "IndexLeader = 1"
definition IndexReadOnly :: nat where "IndexReadOnly = 2"
definition IndexReplicating :: nat where "IndexReplicating = 3"
definition IndexRoInit :: nat where "IndexRoInit = 4"
definition IndexRoReadOnly :: nat where "IndexRoReadOnly = 5"
definition IndexRoSemiClose :: nat where "IndexRoSemiClose = 6"
definition IndexRoReplicating :: nat where "IndexRoReplicating = 7"

lemmas node_index_defs = IndexLagged_def IndexLeader_def IndexReadOnly_def IndexReplicating_def
  IndexRoInit_def IndexRoReadOnly_def IndexRoSemiClose_def IndexRoReplicating_def

record NodeStatus =
  ns_Name :: string
  ns_Message :: string
  ns_RaftStatus :: RaftStatus
  ns_RoStatus :: "RoStatus option"
  ns_Conditions :: "NodeCondition list"

record MysqlClusterStatus =
  st_ReadyNodes :: int
  st_State :: ClusterState
  st_LastBackup :: string
  st_LastBackupTime :: time
  st_LastBackupGtid :: string
  st_Conditions :: "ClusterCondition list"
  st_Nodes :: "NodeStatus list"

record MysqlCluster =
  mc_Name :: string
  mc_Namespace :: string
  mc_Labels :: smap
  mc_Annotations :: smap
  mc_Finalizers :: "string list"
  mc_CreationTimestamp :: time
  mc_DeletionTimestamp :: time
  mc_Spec :: MysqlClusterSpec
  mc_Status :: MysqlClusterStatus

section \<open>Backup and MysqlUser\<close>

record BackupCondition =
  bc_Type :: string
  bc_Status :: ConditionStatus
  bc_LastTransitionTime :: time
  bc_Reason :: string
  bc_Message :: string

record BackupSpec =
  bk_Image :: string
  bk_HostName :: string
  bk_NFSServerAddress :: string
  bk_ClusterName :: string
  bk_HistoryLimit :: "int option"

record BackupStatus =
  bst_Completed :: bool
  bst_BackupName :: string
  bst_BackupDate :: string
  bst_BackupType :: string
  bst_Gtid :: string
  bst_Conditions :: "BackupCondition list"

record Backup =
  b_Name :: string
  b_CreationTimestamp :: time
  b_Spec :: BackupSpec
  b_Status :: BackupStatus
  b_Namespace :: string
  b_Labels :: smap

record UserPermission =
  up_Database :: string
  up_Tables :: "string list"
  up_Privileges :: "string list"

record UserSpec =
  us_User :: string
  us_Hosts :: "string list"
  us_Permissions :: "UserPermission list"
  us_TLSType :: string
  us_WithGrantOption :: bool
  us_ClusterName :: string
  us_NameSpace :: string
  us_SecretName :: string
  us_SecretKey :: string

record MySQLUserCondition =
  uc_Type :: string
  uc_Status :: ConditionStatus
  uc_LastUpdateTime :: time
  uc_LastTransitionTime :: time
  uc_Reason :: string
  uc_Message :: string

record UserStatus =
  ust_Conditions :: "MySQLUserCondition list"
  ust_AllowedHosts :: "string list"
  ust_Revision :: string

record MysqlUser =
  mu_Name :: string
  mu_Namespace :: string
  mu_DeletionTimestamp :: time
  mu_Finalizers :: "string list"
  mu_Spec :: UserSpec
  mu_Status :: UserStatus

section \<open>Pods and claims, as the operator reads them\<close>

datatype PodPhase = PodPending | PodRunning | PodSucceeded | PodFailed | PodUnknownPhase

datatype PodConditionType = ContainersReady | PodScheduled | OtherPodCondition

record PodCondition =
  pc_Type :: PodConditionType
  pc_Status :: ConditionStatus
  pc_Reason :: string
  pc_Message :: string

record ContainerStatus =
  cs_Name :: string
  cs_Ready :: bool

text \<open>
  A pod returned by a label-selector query has a non-nil label map, so \<open>pod_Labels\<close> is a
  map and not a map pointer.
\<close>

record Pod =
  pod_Name :: string
  pod_Namespace :: string
  pod_Labels :: smap
  pod_Deleting :: bool
  pod_Phase :: PodPhase
  pod_Conditions :: "PodCondition list"
  pod_ContainerStatuses :: "ContainerStatus list"

record PVC =
  pvc_Name :: string
  pvc_Deleting :: bool
  pvc_Request :: int
  pvc_Capacity :: int
  pvc_Conditions :: "string list option"

lemma time_before_irrefl: "\<not> time_before t t"
  by (simp add: time_before_def split: option.split)

lemma time_before_trans: "time_before a b \<Longrightarrow> time_before b c \<Longrightarrow> time_before a c"
  by (auto simp: time_before_def split: option.splits)

end
