(* ===== verification/Float64.thy ===== *)
theory Float64
  imports Prelude
begin

text \<open>
  The IEEE binary64 operations the operator applies to non-negative numbers. A product or a
  quotient is first written as an exact integer over a power of two and then rounded
  to 53 significant bits, ties to even; scaling by a power of two does not change the
  rounding, so no exponent has to be carried.
\<close>

fun bitlen :: "nat \<Rightarrow> nat" where
  "bitlen n = (if n = 0 then 0 else Suc (bitlen (n div 2)))"

declare bitlen.simps [simp del]

definition round53 :: "nat \<Rightarrow> nat" where
  "round53 n =
     (let b = bitlen n in
      if b \<le> 53 then n
      else let s = b - 53; q = n div 2 ^ s; r = n mod 2 ^ s; half = 2 ^ (s - 1)
           in (if r > half \<or> (r = half \<and> odd q) then q + 1 else q) * 2 ^ s)"

text \<open>
  \<open>uint64(c * float64(m))\<close> for the constant \<open>c = k / 2 ^ e\<close>: round \<open>m\<close>, multiply
  exactly, round, truncate.
\<close>

definition fl_scale :: "nat \<Rightarrow> nat \<Rightarrow> nat \<Rightarrow> nat" where
  "fl_scale k e m = round53 (k * round53 m) div 2 ^ e"

text \<open>
  \<open>float64(a) / float64(b)\<close> as \<open>n / 2 ^ k\<close>: the exact quotient to more than 54 bits with a
  sticky bit below them, then rounded.
\<close>

definition fl_quot :: "nat \<Rightarrow> nat \<Rightarrow> nat \<times> nat" where
  "fl_quot a b =
     (let k = 55 + bitlen b;
          q = (a * 2 ^ k) div b;
          sticky = (if (a * 2 ^ k) mod b = 0 then 0 else 1)
      in (round53 (2 * q + sticky), k + 1))"

definition fl_ceil_quot :: "nat \<Rightarrow> nat \<Rightarrow> nat" where
  "fl_ceil_quot a b = (case fl_quot a b of (n, k) \<Rightarrow> (n + 2 ^ k - 1) div 2 ^ k)"

definition fl_floor_quot :: "nat \<Rightarrow> nat \<Rightarrow> nat" where
  "fl_floor_quot a b = (case fl_quot a b of (n, k) \<Rightarrow> n div 2 ^ k)"

lemma bitlen_bounds: "0 < n \<Longrightarrow> 2 ^ (bitlen n - 1) \<le> n \<and> n < 2 ^ bitlen n"
proof (induction n rule: bitlen.induct)
  case (1 n)
  have len: "bitlen n = Suc (bitlen (n div 2))" using 1(2) by (subst bitlen.simps) simp
  show ?case
  proof (cases "n div 2 = 0")
    case True
    then have "n = 1" using 1(2) by auto
    then show ?thesis using len True by (simp add: bitlen.simps [of 0])
  next
    case False
    then have pos: "0 < n div 2" by simp
    with 1 have IH: "2 ^ (bitlen (n div 2) - 1) \<le> n div 2" "n div 2 < 2 ^ bitlen (n div 2)"
      by auto
    have b: "0 < bitlen (n div 2)" using pos by (subst bitlen.simps) simp
    then obtain l where l: "bitlen (n div 2) = Suc l" by (cases "bitlen (n div 2)") auto
    have "2 ^ l \<le> n div 2" "n div 2 < 2 * 2 ^ l" using IH l by simp_all
    then have "2 * 2 ^ l \<le> n \<and> n < 4 * 2 ^ l" by linarith
    with len l show ?thesis by simp
  qed
qed

lemma bitlen_le: "n < 2 ^ k \<Longrightarrow> bitlen n \<le> k"
proof (cases "n = 0")
  case True
  then show ?thesis by (simp add: bitlen.simps)
next
  case False
  assume "n < 2 ^ k"
  with bitlen_bounds [of n] False have "(2::nat) ^ (bitlen n - 1) < 2 ^ k" by linarith
  then have "bitlen n - 1 < k" by (rule power_less_imp_less_exp [rotated]) simp
  then show ?thesis by simp
qed

text \<open>Numbers of at most 53 bits are exact, and the relative error is at most \<open>2^-53\<close>.\<close>

lemma round53_exact: "n < 2 ^ 53 \<Longrightarrow> round53 n = n"
  using bitlen_le [of n 53] by (simp add: round53_def)

lemma round53_error: "round53 n * 2 ^ 53 \<le> n * (2 ^ 53 + 1) \<and> n * (2 ^ 53 - 1) \<le> round53 n * 2 ^ 53"
proof (cases "bitlen n \<le> 53")
  case True
  then have "round53 n = n" by (simp add: round53_def)
  then show ?thesis by simp
next
  case False
  define s where "s = bitlen n - 53"
  define q where "q = n div 2 ^ s"
  define r where "r = n mod 2 ^ s"
  define h :: nat where "h = 2 ^ (s - 1)"
  have s: "0 < s" "bitlen n = 53 + s" using False by (auto simp: s_def)
  have two: "2 ^ s = 2 * h" using s(1) by (simp add: h_def flip: power_Suc)
  have npos: "0 < n" using False by (cases "n = 0") (simp_all add: bitlen.simps)
  have n: "n = q * 2 ^ s + r" unfolding q_def r_def by (rule div_mult_mod_eq [symmetric])
  have "2 ^ (52 + s) \<le> n" using bitlen_bounds [OF npos] s(2) by simp
  then have big: "2 ^ 53 * h \<le> n" using two by (simp add: power_add)
  have r: "r < 2 ^ s" by (simp add: r_def)
  have round: "round53 n = (if r > h \<or> (r = h \<and> odd q) then q + 1 else q) * 2 ^ s"
    using False by (simp add: round53_def Let_def s_def q_def r_def h_def)
  have "round53 n \<le> n + h \<and> n \<le> round53 n + h"
    using n r two unfolding round by (auto simp: algebra_simps)
  with big show ?thesis by (auto simp: algebra_simps)
qed

lemma fl_scale_le:
  assumes "k * (2 ^ 53 + 1) * (2 ^ 53 + 1) \<le> c * 2 ^ e * 2 ^ 106"
  shows "fl_scale k e m \<le> c * m"
proof -
  have 1: "round53 m * 2 ^ 53 \<le> m * (2 ^ 53 + 1)" using round53_error by blast
  have 2: "round53 (k * round53 m) * 2 ^ 53 \<le> k * round53 m * (2 ^ 53 + 1)"
    using round53_error by blast
  have "round53 (k * round53 m) * 2 ^ 106 \<le> (k * (2 ^ 53 + 1)) * (round53 m * 2 ^ 53)"
    using mult_right_mono [OF 2, of "2 ^ 53"] by (simp add: algebra_simps)
  also have "\<dots> \<le> (k * (2 ^ 53 + 1)) * (m * (2 ^ 53 + 1))"
    using 1 by (rule mult_left_mono) simp
  also have "\<dots> = (k * (2 ^ 53 + 1) * (2 ^ 53 + 1)) * m" by (simp only: ac_simps)
  also have "\<dots> \<le> (c * 2 ^ e * 2 ^ 106) * m" using assms by (rule mult_right_mono) simp
  finally have "round53 (k * round53 m) \<le> c * m * 2 ^ e" by (simp add: ac_simps)
  then have "fl_scale k e m \<le> (c * m * 2 ^ e) div 2 ^ e"
    unfolding fl_scale_def by (rule div_le_mono)
  then show ?thesis by simp
qed

end
