(* ===== verification/Cluster.thy ===== *)
theory Cluster
  imports ApiTypes Float64
begin

text \<open>
  \<open>mysqlcluster/mysqlcluster.go\<close>: the wrapper around a \<open>MysqlCluster\<close> resource that names
  its objects, labels them, lists its raft peers, its volumes and volume claims, and
  computes the InnoDB settings from the resource requests.

  Parameters. \<open>resource.ParseQuantity\<close> (apimachinery) is \<open>parse_quantity\<close>: the
  \<open>Value()\<close> of the parsed string, \<open>None\<close> when it does not parse. The two environment
  variables read by \<open>GetImage\<close> are arguments. \<open>controllerutil.SetControllerReference\<close> is
  the argument \<open>set_ref\<close>: the error it returns, if any.
\<close>

section \<open>Validation, labels and names\<close>

definition ValidateSpec :: "MysqlCluster \<Rightarrow> unit res" where
  "ValidateSpec c =
     (let o1 = sp_MysqlOpts (mc_Spec c) in
      if StringInArray (mo_User o1) [''root'', ReplicationUser, OperatorUser, MetricsUser]
        then Fail (GErr ''spec.mysqlOpts.user cannot be root|radondb_repl|radondb_operator|radondb_metrics'')
      else if str_contains (mo_Image o1) ''8.0'' \<and> mo_InitTokuDB o1 then Ok ()
      else if mo_RootHost o1 = ''127.0.0.1'' then Fail (GErr ''spec.mysqlOpts.rootHost cannot be 127.0.0.1'')
      else Ok ())"

definition GetLabels :: "MysqlCluster \<Rightarrow> smap" where
  "GetLabels c =
     (let inst = (case mc_Annotations c ''app.kubernetes.io/instance'' of Some i \<Rightarrow> i | None \<Rightarrow> mc_Name c);
          component = (case mc_Annotations c ''app.kubernetes.io/component'' of Some i \<Rightarrow> i | None \<Rightarrow> ''database'');
          ls = [''mysql.radondb.com/cluster'' \<mapsto> mc_Name c,
                ''app.kubernetes.io/name'' \<mapsto> ''mysql'',
                ''app.kubernetes.io/instance'' \<mapsto> inst,
                ''app.kubernetes.io/component'' \<mapsto> component,
                ''app.kubernetes.io/managed-by'' \<mapsto> ''mysql.radondb.com'']
      in case mc_Annotations c ''app.kubernetes.io/part-of'' of
           Some part \<Rightarrow> ls(''app.kubernetes.io/part-of'' \<mapsto> part)
         | None \<Rightarrow> ls)"

definition GetSelectorLabels :: "MysqlCluster \<Rightarrow> smap" where
  "GetSelectorLabels c =
     [''mysql.radondb.com/cluster'' \<mapsto> mc_Name c,
      ''app.kubernetes.io/name'' \<mapsto> ''mysql'',
      ''app.kubernetes.io/managed-by'' \<mapsto> ''mysql.radondb.com'']"

definition GetMySQLVersion :: "MysqlCluster \<Rightarrow> string" where
  "GetMySQLVersion c = (case ParseImageName (mo_Image (sp_MysqlOpts (mc_Spec c))) of
      Ok (_, _, imageTag) \<Rightarrow> imageTag
    | _ \<Rightarrow> InvalidMySQLVersion)"

fun GetNameForResource :: "MysqlCluster \<Rightarrow> ResourceName \<Rightarrow> string" where
  "GetNameForResource c StatefulSet = mc_Name c @ ''-mysql''"
| "GetNameForResource c HeadlessSVC = mc_Name c @ ''-mysql''"
| "GetNameForResource c PodDisruptionBudget = mc_Name c @ ''-mysql''"
| "GetNameForResource c LeaderService = mc_Name c @ ''-leader''"
| "GetNameForResource c FollowerService = mc_Name c @ ''-follower''"
| "GetNameForResource c MetricsService = mc_Name c @ ''-metrics''"
| "GetNameForResource c SecretRes = mc_Name c @ ''-secret''"
| "GetNameForResource c XenonMetaData = mc_Name c @ ''-xenon''"
| "GetNameForResource c RemoteClusterRes = mc_Name c @ ''-remote''"
| "GetNameForResource c ConfigMap =
     (let tmpl = mo_MysqlConfTemplate (sp_MysqlOpts (mc_Spec c))
      in if tmpl \<noteq> [] then tmpl else mc_Name c @ ''-mysql'')"
| "GetNameForResource c ReadOnlyHeadlessSVC = mc_Name c @ ''-ro''"
| "GetNameForResource c ReadOnlySvc = mc_Name c @ ''-ro-nodeport''"
| "GetNameForResource c _ = mc_Name c"

definition GetPodHostName :: "MysqlCluster \<Rightarrow> nat \<Rightarrow> string" where
  "GetPodHostName c p =
     GetNameForResource c StatefulSet @ ''-'' @ nat_str p @ ''.'' @ GetNameForResource c HeadlessSVC @ ''.'' @
     mc_Namespace c"

text \<open>\<open>fmt.Sprintf("%s:%d", c.GetPodHostName(i), utils.XenonPort)\<close>, used by both callers.\<close>

definition peer_addr :: "MysqlCluster \<Rightarrow> nat \<Rightarrow> string" where
  "peer_addr c i = GetPodHostName c i @ '':'' @ nat_str XenonPort"

text \<open>The loop of \<open>CreatePeers\<close> from index \<open>i\<close> with the string built so far.\<close>

function create_peers_loop :: "MysqlCluster \<Rightarrow> nat \<Rightarrow> nat \<Rightarrow> string \<Rightarrow> string" where
  "create_peers_loop c i n str =
     (if i < n then
        (let str = (if i > 0 then str @ '','' else str)
         in create_peers_loop c (i + 1) n (str @ peer_addr c i))
      else str)"
  by pat_completeness auto
termination
  by (relation "measure (\<lambda>(c, i, n, s). n - i)") auto

declare create_peers_loop.simps [simp del]

definition CreatePeers :: "MysqlCluster \<Rightarrow> string" where
  "CreatePeers c = create_peers_loop c 0 (nat (sp_Replicas (mc_Spec c))) []"

definition IsClusterKind :: "string \<Rightarrow> bool" where
  "IsClusterKind kind \<longleftrightarrow> kind = ''MysqlCluster'' \<or> kind = ''mysqlcluster'' \<or> kind = ''mysqlclusters''"

definition GetClusterKey :: "MysqlCluster \<Rightarrow> string \<times> string" where
  "GetClusterKey c = (mc_Namespace c, mc_Name c)"

definition GetPrefixFromEnv :: "string \<Rightarrow> string" where
  "GetPrefixFromEnv prefix_env = (if length prefix_env = 0 then [] else prefix_env @ ''/'')"

definition GetImage :: "string \<Rightarrow> string \<Rightarrow> string \<Rightarrow> string" where
  "GetImage prefix_env override name =
     (let imageArray = split_on (CHR ''/'') name;
          image_namespace = (if length imageArray = 1 then []
             else join_with ''/'' (butlast imageArray) @ ''/'');
          image_namespace = (if length override > 0 then override @ ''/'' else image_namespace)
      in GetPrefixFromEnv prefix_env @ image_namespace @ last imageArray)"

section \<open>Volumes\<close>

datatype VolumeSource =
    EmptyDir
  | HostPath string
  | ConfigMapVol string "int option"    \<comment> \<open>name, default mode\<close>
  | NFSVol string string                \<comment> \<open>server, path\<close>
  | SecretVol string
  | ProjectedSecret opaque

record Volume =
  v_Name :: string
  v_Source :: VolumeSource

definition vol :: "string \<Rightarrow> VolumeSource \<Rightarrow> Volume" where
  "vol n s = \<lparr>v_Name = n, v_Source = s\<rparr>"

definition EnsureVolumes :: "MysqlCluster \<Rightarrow> Volume list" where
  "EnsureVolumes c =
     (let sp = mc_Spec c; o1 = sp_MysqlOpts sp in
      (if \<not> pe_Enabled (sp_Persistence sp) then [vol ''data'' EmptyDir] else []) @
      (if mo_InitTokuDB o1 then [vol ''host-sys'' (HostPath ''/sys/kernel/mm/transparent_hugepage'')] else []) @
      (if mo_LogfilePVC o1 = None then [vol ''logs'' EmptyDir] else []) @
      [vol ''mysql-conf'' EmptyDir,
       vol ''mysql-cm'' (ConfigMapVol (GetNameForResource c ConfigMap) None),
       vol ''xenon-cm'' (ConfigMapVol (GetNameForResource c XenonMetaData) None),
       vol ''xenon-meta'' EmptyDir,
       vol ''scripts'' EmptyDir,
       vol ''xenon-conf'' EmptyDir,
       vol ''init-mysql'' EmptyDir,
       vol ''localtime'' (HostPath ''/etc/localtime'')] @
      (if length (sp_NFSServerAddress sp) \<noteq> 0
         then (case ParseIPAndPath (sp_NFSServerAddress sp) of (ip, path) \<Rightarrow> [vol ''backup'' (NFSVol ip path)])
         else []) @
      (if length (sp_TlsSecretName sp) \<noteq> 0
         then [vol ''tls-sidecar'' (SecretVol (sp_TlsSecretName sp)), vol ''tls'' EmptyDir] else []) @
      [vol ''mysql-checker'' EmptyDir] @
      (case sp_SourceConfig sp of Some sc \<Rightarrow> [vol ''rsrc'' (ProjectedSecret sc)] | None \<Rightarrow> []) @
      (if sp_RemoteCluster sp \<noteq> None
         then [vol ''remote-cluster-cm'' (ConfigMapVol (GetNameForResource c RemoteClusterRes) (Some 511))]
         else []))"

record VolumeClaim =
  vc_Name :: string
  vc_Namespace :: string
  vc_Labels :: smap
  vc_AccessModes :: "string list"
  vc_Storage :: int
  vc_StorageClassName :: "string option"

text \<open>
  \<open>if *sc == "-" { *sc = "" }\<close>: the storage class is written through the pointer, so the
  cluster changes too.
\<close>

definition normal_class :: "string option \<Rightarrow> string option" where
  "normal_class sc = (case sc of Some s \<Rightarrow> Some (if s = ''-'' then [] else s) | None \<Rightarrow> None)"

definition must_parse :: "(string \<Rightarrow> int option) \<Rightarrow> string \<Rightarrow> int res" where
  "must_parse parse_quantity s = (case parse_quantity s of
      Some q \<Rightarrow> Ok q | None \<Rightarrow> Panic ''cannot parse quantity'')"

text \<open>One \<open>PersistentVolumeClaim\<close> literal with its owner reference; both claims are built from \<open>pe\<close>.\<close>

definition mk_claim ::
  "(string \<Rightarrow> int option) \<Rightarrow> (string \<Rightarrow> gerr option) \<Rightarrow> MysqlCluster \<Rightarrow> Persistence \<Rightarrow> string \<Rightarrow> VolumeClaim res" where
  "mk_claim parse_quantity set_ref c pe name =
     bind_res (must_parse parse_quantity (pe_Size pe)) (\<lambda>q.
       case set_ref name of
         Some e \<Rightarrow> Fail (GErr ''failed setting controller reference'')
       | None \<Rightarrow> Ok \<lparr>vc_Name = name, vc_Namespace = mc_Namespace c, vc_Labels = GetLabels c,
           vc_AccessModes = pe_AccessModes pe, vc_Storage = q,
           vc_StorageClassName = pe_StorageClass pe\<rparr>)"

definition EnsureVolumeClaimTemplates ::
  "(string \<Rightarrow> int option) \<Rightarrow> (string \<Rightarrow> gerr option) \<Rightarrow> MysqlCluster \<Rightarrow> VolumeClaim list res \<times> MysqlCluster" where
  "EnsureVolumeClaimTemplates parse_quantity set_ref c =
     (let pe = sp_Persistence (mc_Spec c); lf = mo_LogfilePVC (sp_MysqlOpts (mc_Spec c)) in
      if \<not> pe_Enabled pe \<and> lf = None then (Ok [], c)
      else
        let pe1 = (if pe_Enabled pe then pe\<lparr>pe_StorageClass := normal_class (pe_StorageClass pe)\<rparr> else pe);
            c1 = c\<lparr>mc_Spec := (mc_Spec c)\<lparr>sp_Persistence := pe1\<rparr>\<rparr>;
            data = (if pe_Enabled pe
                    then bind_res (mk_claim parse_quantity set_ref c pe1 ''data'') (\<lambda>d. Ok [d]) else Ok [])
        in case data of
             Ok ds \<Rightarrow> (case lf of
                 None \<Rightarrow> (Ok ds, c1)
               | Some l \<Rightarrow>
                   let l1 = l\<lparr>lp_StorageClass := normal_class (lp_StorageClass l)\<rparr>;
                       c2 = c1\<lparr>mc_Spec := (mc_Spec c1)\<lparr>sp_MysqlOpts :=
                              (sp_MysqlOpts (mc_Spec c1))\<lparr>mo_LogfilePVC := Some l1\<rparr>\<rparr>\<rparr>
                   in (bind_res (mk_claim parse_quantity set_ref c pe1 ''logs'') (\<lambda>lg. Ok (ds @ [lg])), c2))
           | Fail e \<Rightarrow> (Fail e, c1)
           | Panic p \<Rightarrow> (Panic p, c1))"

section \<open>Lemmas and properties\<close>

lemma create_peers_loop_join:
  "i < n \<Longrightarrow> create_peers_loop c i n str =
     (if i > 0 then str @ '','' else str) @ join_with '','' (map (peer_addr c) [i..<n])"
proof (induction "n - i" arbitrary: i str)
  case (Suc k)
  show ?case
  proof (cases "i + 1 < n")
    case True
    obtain y ys where "map (peer_addr c) [i + 1..<n] = y # ys"
      using True by (cases "map (peer_addr c) [i + 1..<n]") auto
    moreover have "[i..<n] = i # [i + 1..<n]" using Suc.prems by (simp add: upt_rec)
    moreover have "create_peers_loop c (i + 1) n s =
        s @ '','' @ join_with '','' (map (peer_addr c) [i + 1..<n])" for s
      using Suc True by simp
    ultimately show ?thesis
      using Suc.prems by (simp add: create_peers_loop.simps [of c i] Let_def)
  next
    case False
    then have n: "n = Suc i" using Suc.prems by simp
    show ?thesis
      by (simp add: n create_peers_loop.simps [of c i] create_peers_loop.simps [of c "Suc i"])
  qed
qed simp

lemma CreatePeers_join:
  "CreatePeers c = join_with '','' (map (peer_addr c) [0..<nat (sp_Replicas (mc_Spec c))])"
proof (cases "0 < nat (sp_Replicas (mc_Spec c))")
  case True
  then show ?thesis by (simp add: CreatePeers_def create_peers_loop_join)
next
  case False
  then show ?thesis by (simp add: CreatePeers_def create_peers_loop.simps)
qed

lemma append_sep_eq:
  "d \<notin> set u \<Longrightarrow> d \<notin> set u' \<Longrightarrow> u @ d # v = u' @ d # v' \<longleftrightarrow> u = u' \<and> v = v'"
proof (induction u arbitrary: u')
  case Nil
  then show ?case by (cases u') auto
next
  case (Cons a u)
  then show ?case by (cases u') auto
qed

lemma GetPodHostName_inj [simp]: "GetPodHostName c i = GetPodHostName c j \<longleftrightarrow> i = j"
proof -
  have "nat_str i @ CHR ''.'' # x = nat_str j @ CHR ''.'' # x \<longleftrightarrow> i = j" for x
    by (subst append_sep_eq) auto
  then show ?thesis by (simp add: GetPodHostName_def)
qed

lemma peer_addr_inj [simp]: "peer_addr c i = peer_addr c j \<longleftrightarrow> i = j"
  by (simp add: peer_addr_def)

lemma peer_addr_no_comma:
  "CHR '','' \<notin> set (mc_Name c) \<Longrightarrow> CHR '','' \<notin> set (mc_Namespace c) \<Longrightarrow> CHR '','' \<notin> set (peer_addr c i)"
  by (simp add: peer_addr_def GetPodHostName_def)

text \<open>
  The peer string handed to xenon is the comma-separated list of the addresses of
  ordinals \<open>0 .. replicas-1\<close>: splitting it at the commas gives back exactly these
  addresses, in order and without duplicates, whatever the (comma-free) names are.
\<close>

theorem CreatePeers_split:
  assumes "0 < sp_Replicas (mc_Spec c)"
    and "CHR '','' \<notin> set (mc_Name c)" "CHR '','' \<notin> set (mc_Namespace c)"
  shows "split_on (CHR '','') (CreatePeers c) = map (peer_addr c) [0..<nat (sp_Replicas (mc_Spec c))] \<and>
    distinct (split_on (CHR '','') (CreatePeers c))"
proof -
  have "split_on (CHR '','') (CreatePeers c) = map (peer_addr c) [0..<nat (sp_Replicas (mc_Spec c))]"
    unfolding CreatePeers_join by (rule split_on_join) (use assms in \<open>auto simp: peer_addr_no_comma\<close>)
  then show ?thesis by (simp add: distinct_map inj_on_def)
qed

text \<open>
  The labels of the pod template always carry the selector of the stateful set, so the
  set selects the pods it creates: no annotation can override a selector label.
\<close>

theorem GetSelectorLabels_le: "GetSelectorLabels c \<subseteq>\<^sub>m GetLabels c"
  by (auto simp: map_le_def GetSelectorLabels_def GetLabels_def Let_def split: option.splits if_splits)

text \<open>Every configuration uses a subsequence of the same list of names.\<close>

definition all_volume_names :: "string list" where
  "all_volume_names =
     [''data''] @ [''host-sys''] @ [''logs''] @
     [''mysql-conf'', ''mysql-cm'', ''xenon-cm'', ''xenon-meta'', ''scripts'', ''xenon-conf'', ''init-mysql'', ''localtime''] @
     [''backup''] @ [''tls-sidecar'', ''tls''] @ [''mysql-checker''] @ [''rsrc''] @ [''remote-cluster-cm'']"

lemma EnsureVolumes_names: "subseq (map v_Name (EnsureVolumes c)) all_volume_names"
  unfolding EnsureVolumes_def all_volume_names_def Let_def map_append
  by (intro list_emb_append_mono) (auto simp: vol_def split: option.split prod.split)

lemma subseq_distinct: "subseq xs ys \<Longrightarrow> distinct ys \<Longrightarrow> distinct xs"
  by (metis distinct_nthsI subseq_conv_nths)

text \<open>
  The volumes of a pod have pairwise different names in every configuration, which is
  what the API server requires of a pod template.
\<close>

theorem EnsureVolumes_distinct: "distinct (map v_Name (EnsureVolumes c))"
  by (rule subseq_distinct [OF EnsureVolumes_names]) (simp add: all_volume_names_def)

lemma GetLabels_cong:
  "mc_Name c' = mc_Name c \<Longrightarrow> mc_Annotations c' = mc_Annotations c \<Longrightarrow> GetLabels c' = GetLabels c"
  by (simp only: GetLabels_def)

lemma EnsureVolumeClaimTemplates_fst:
  "fst (EnsureVolumeClaimTemplates pq sr c) =
     (let pe = sp_Persistence (mc_Spec c); lf = mo_LogfilePVC (sp_MysqlOpts (mc_Spec c));
          pe1 = (if pe_Enabled pe then pe\<lparr>pe_StorageClass := normal_class (pe_StorageClass pe)\<rparr> else pe)
      in bind_res (if pe_Enabled pe then bind_res (mk_claim pq sr c pe1 ''data'') (\<lambda>d. Ok [d]) else Ok []) (\<lambda>ds.
           if lf = None then Ok ds else bind_res (mk_claim pq sr c pe1 ''logs'') (\<lambda>lg. Ok (ds @ [lg]))))"
  by (cases "mk_claim pq sr c (sp_Persistence (mc_Spec c)
        \<lparr>pe_StorageClass := normal_class (pe_StorageClass (sp_Persistence (mc_Spec c)))\<rparr>) ''data''")
     (simp_all add: EnsureVolumeClaimTemplates_def Let_def split: option.split)

lemma mk_claim_Ok:
  "mk_claim pq sr c pe n = Ok v \<Longrightarrow>
   pq (pe_Size pe) = Some (vc_Storage v) \<and> vc_AccessModes v = pe_AccessModes pe \<and> vc_Name v = n \<and> vc_Labels v = GetLabels c"
  by (auto simp: mk_claim_def bind_res_Ok must_parse_def split: option.splits)

text \<open>
  The claims depend on \<open>spec.persistence\<close> only: the claim for the log volume gets the
  size, the access modes and the storage class of the data volume, and the three fields
  of \<open>spec.mysqlOpts.logfilePVC\<close> have no influence on the result.
\<close>

theorem EnsureVolumeClaimTemplates_ignores_log_fields:
  assumes "mo_LogfilePVC (sp_MysqlOpts (mc_Spec c)) = Some l"
    and "c' = c\<lparr>mc_Spec := (mc_Spec c)\<lparr>sp_MysqlOpts := (sp_MysqlOpts (mc_Spec c))\<lparr>mo_LogfilePVC := Some l'\<rparr>\<rparr>\<rparr>"
  shows "fst (EnsureVolumeClaimTemplates pq sr c') = fst (EnsureVolumeClaimTemplates pq sr c) \<and>
    (\<forall>vs. fst (EnsureVolumeClaimTemplates pq sr c) = Ok vs \<longrightarrow>
       (\<forall>v \<in> set vs. pq (pe_Size (sp_Persistence (mc_Spec c))) = Some (vc_Storage v) \<and>
          vc_AccessModes v = pe_AccessModes (sp_Persistence (mc_Spec c))))"
proof -
  have lab: "GetLabels c' = GetLabels c" by (rule GetLabels_cong) (simp_all add: assms(2))
  have ns: "mc_Namespace c' = mc_Namespace c" by (simp add: assms(2))
  have mk: "mk_claim pq sr c' = mk_claim pq sr c"
    by (intro ext) (unfold mk_claim_def lab ns, rule refl)
  have sp: "sp_Persistence (mc_Spec c') = sp_Persistence (mc_Spec c)"
      "mo_LogfilePVC (sp_MysqlOpts (mc_Spec c')) = Some l'"
    by (simp_all add: assms(2))
  show ?thesis
  proof (intro conjI allI impI ballI)
    show "fst (EnsureVolumeClaimTemplates pq sr c') = fst (EnsureVolumeClaimTemplates pq sr c)"
      unfolding EnsureVolumeClaimTemplates_fst mk sp assms(1) by simp
  next
    fix vs v
    assume "fst (EnsureVolumeClaimTemplates pq sr c) = Ok vs" "v \<in> set vs"
    then show "pq (pe_Size (sp_Persistence (mc_Spec c))) = Some (vc_Storage v)"
        "vc_AccessModes v = pe_AccessModes (sp_Persistence (mc_Spec c))"
      by (auto simp: EnsureVolumeClaimTemplates_fst Let_def bind_res_Ok split: if_splits dest!: mk_claim_Ok)
  qed
qed

definition sample_resources :: ResourceRequirements where
  "sample_resources = \<lparr>rr_mem_request = 1073741824, rr_cpu_limit_milli = 2000, rr_other = []\<rparr>"

definition sample_opts :: MysqlOpts where
  "sample_opts = \<lparr>mo_Image = ''percona/percona-server:5.7.34'', mo_RootPassword = [], mo_RootHost = ''localhost'',
     mo_User = ''radondb_usr'', mo_Password = ''RadonDB@123'', mo_Database = ''radondb'', mo_InitTokuDB = False,
     mo_MysqlConfTemplate = [], mo_MysqlConf = Map.empty, mo_PluginConf = Map.empty,
     mo_Resources = sample_resources, mo_MaxLagSeconds = 30, mo_LogfilePVC = None\<rparr>"

definition sample_pod_policy :: PodPolicy where
  "sample_pod_policy = \<lparr>pp_ImagePullPolicy = ''IfNotPresent'', pp_Labels = [], pp_Annotations = [],
     pp_Affinity = None, pp_PriorityClassName = [], pp_Tolerations = [], pp_SchedulerName = [],
     pp_ExtraResources = sample_resources, pp_SidecarImage = ''radondb/mysql57-sidecar:v2.2.0'',
     pp_BusyboxImage = ''busybox:1.32'', pp_SlowLogTail = False, pp_AuditLogTail = False\<rparr>"

definition sample_spec :: MysqlClusterSpec where
  "sample_spec = \<lparr>sp_Replicas = 3, sp_ReadOnlys = None, sp_ReplicaLag = None, sp_MinAvailable = ''50%'',
     sp_MysqlOpts = sample_opts,
     sp_XenonOpts = \<lparr>xo_Image = ''radondb/xenon:v2.2.0'', xo_AdmitDefeatHearbeatCount = Some 5,
       xo_ElectionTimeout = Some 10000, xo_EnableAutoRebuild = False, xo_Resources = sample_resources\<rparr>,
     sp_MetricsOpts = \<lparr>me_Image = ''prom/mysqld-exporter:v0.12.1'', me_Resources = sample_resources, me_Enabled = False\<rparr>,
     sp_MysqlVersion = ''5.7'', sp_PodPolicy = sample_pod_policy,
     sp_Persistence = \<lparr>pe_Enabled = True, pe_AccessModes = [''ReadWriteOnce''], pe_StorageClass = None, pe_Size = ''20Gi''\<rparr>,
     sp_BackupSecretName = [], sp_RestoreFrom = [], sp_RestorePoint = [], sp_NFSServerAddress = [],
     sp_BackupSchedule = [], sp_BothS3NFS = None, sp_BackupScheduleJobsHistoryLimit = Some 6,
     sp_TlsSecretName = [], sp_SourceConfig = None, sp_RemoteCluster = None, sp_LeaderAsFollower = False,
     sp_ServerIDOffset = 100\<rparr>"

definition sample_status :: MysqlClusterStatus where
  "sample_status = \<lparr>st_ReadyNodes = 0, st_State = [], st_LastBackup = [], st_LastBackupTime = None,
     st_LastBackupGtid = [], st_Conditions = [], st_Nodes = []\<rparr>"

definition sample :: MysqlCluster where
  "sample = \<lparr>mc_Name = ''sample'', mc_Namespace = ''default'', mc_Labels = Map.empty, mc_Annotations = Map.empty, mc_Finalizers = [],
     mc_CreationTimestamp = Some 100, mc_DeletionTimestamp = None, mc_Spec = sample_spec, mc_Status = sample_status\<rparr>"

lemmas sample_defs = sample_def sample_spec_def sample_status_def sample_opts_def sample_pod_policy_def
  sample_resources_def

theorem CreatePeers_split_witness:
  "0 < sp_Replicas (mc_Spec sample) \<and> length (split_on (CHR '','') (CreatePeers sample)) = 3"
  using CreatePeers_split [of sample] by (simp add: sample_defs)

theorem EnsureVolumeClaimTemplates_ignores_log_fields_witness:
  "let lg = \<lparr>lp_AccessModes = [''ReadWriteOnce''], lp_StorageClass = None, lp_Size = ''1Gi''\<rparr>;
       c = sample\<lparr>mc_Spec := sample_spec\<lparr>sp_MysqlOpts := sample_opts\<lparr>mo_LogfilePVC := Some lg\<rparr>\<rparr>\<rparr>;
       c' = c\<lparr>mc_Spec := (mc_Spec c)\<lparr>sp_MysqlOpts := (sp_MysqlOpts (mc_Spec c))\<lparr>mo_LogfilePVC := Some (lg\<lparr>lp_Size := ''9Gi''\<rparr>)\<rparr>\<rparr>\<rparr>
   in fst (EnsureVolumeClaimTemplates (\<lambda>s. if s = ''20Gi'' then Some 20 else None) (\<lambda>_. None) c') =
      fst (EnsureVolumeClaimTemplates (\<lambda>s. if s = ''20Gi'' then Some 20 else None) (\<lambda>_. None) c)"
  unfolding Let_def
  by (rule EnsureVolumeClaimTemplates_ignores_log_fields [THEN conjunct1]) (simp, rule refl)

text \<open>
  Image names: without the two environment variables \<open>GetImage\<close> is the identity; a
  prefix is put in front of the whole name, and a namespace override replaces everything
  before the last slash, keeping the image's own name and tag.
\<close>

theorem GetImage_spec:
  "GetImage [] [] name = name \<and>
   (pre \<noteq> [] \<longrightarrow> GetImage pre [] name = pre @ ''/'' @ name) \<and>
   (ov \<noteq> [] \<longrightarrow> CHR ''/'' \<notin> set im \<longrightarrow> GetImage [] ov (ns @ CHR ''/'' # im) = ov @ ''/'' @ im)"
proof -
  have id: "(if length (split_on (CHR ''/'') name) = 1 then []
      else join_with ''/'' (butlast (split_on (CHR ''/'') name)) @ ''/'') @ last (split_on (CHR ''/'') name) = name"
  proof (cases "length (split_on (CHR ''/'') name) = 1")
    case True
    then obtain w where "split_on (CHR ''/'') name = [w]" by (auto simp: length_Suc_conv)
    with join_split [of "CHR ''/''" name] show ?thesis by simp
  next
    case False
    define xs where "xs = split_on (CHR ''/'') name"
    have "xs \<noteq> []" by (simp add: xs_def)
    moreover from this False have "butlast xs \<noteq> []" by (cases xs) (auto simp: xs_def)
    ultimately have "join_with ''/'' xs = join_with ''/'' (butlast xs) @ ''/'' @ last xs"
      by (metis append_butlast_last_id join_with_snoc)
    with join_split [of "CHR ''/''" name] False show ?thesis by (simp add: xs_def)
  qed
  show ?thesis
    using id by (auto simp: GetImage_def GetPrefixFromEnv_def Let_def last_split_on)
qed

theorem GetImage_spec_witness:
  "GetImage [] ''mirror'' (''docker.io/percona'' @ CHR ''/'' # ''percona-server:5.7.34'') = ''mirror/percona-server:5.7.34''"
  using GetImage_spec [of "[]" "[]" "''mirror''" "''percona-server:5.7.34''" "''docker.io/percona''"] by simp

end
