(* ===== verification/Containers.thy ===== *)
theory Containers
  imports Cluster
begin

text \<open>
  \<open>mysqlcluster/container\<close> and \<open>ensurePodSpec\<close> of \<open>mysqlcluster/syncer/statefulset.go\<close>: the
  containers of a cluster pod. Every Go type that implements the interface \<open>container\<close>
  is one \<open>Container\<close> value built by its methods; \<open>EnsureContainer\<close> dispatches on the name. The
  environment variables and the volume mounts of a container are definitions of their
  own. Dereferencing a nil pointer of the specification is a panic.

  \<open>env\<close> is the pair of environment variables read by \<open>GetImage\<close>, and \<open>up\<close> the
  \<open>NeedUpgrade\<close> flag of the cluster wrapper.
\<close>

section \<open>Container data\<close>

datatype EnvSource =
    EnvValue string
  | EnvField string                 \<comment> \<open>fieldRef, API version v1\<close>
  | EnvSecret string string bool    \<comment> \<open>secret, key, optional\<close>

record EnvVar =
  en_Name :: string
  en_Source :: EnvSource

datatype ProbeHandler = ExecProbe "string list" | HttpProbe string nat

record Probe =
  pr_Handler :: ProbeHandler
  pr_InitialDelay :: nat
  pr_Timeout :: nat
  pr_Period :: nat
  pr_Success :: nat
  pr_Failure :: nat

record Lifecycle =
  lc_PreStop :: "string list"
  lc_PostStart :: "string list"

record VolumeMount =
  vm_Name :: string
  vm_MountPath :: string

record Container =
  ct_Name :: string
  ct_Image :: string
  ct_ImagePullPolicy :: string
  ct_Command :: "string list"
  ct_Env :: "EnvVar list"
  ct_Lifecycle :: "Lifecycle option"
  ct_Resources :: ResourceRequirements
  ct_Ports :: "(string \<times> nat) list"
  ct_LivenessProbe :: "Probe option"
  ct_ReadinessProbe :: "Probe option"
  ct_StartupProbe :: "Probe option"
  ct_VolumeMounts :: "VolumeMount list"

definition val_env :: "string \<Rightarrow> string \<Rightarrow> EnvVar" where
  "val_env n v = \<lparr>en_Name = n, en_Source = EnvValue v\<rparr>"

definition field_env :: "string \<Rightarrow> string \<Rightarrow> EnvVar" where
  "field_env n p = \<lparr>en_Name = n, en_Source = EnvField p\<rparr>"

definition getEnvVarFromSecret :: "string \<Rightarrow> string \<Rightarrow> string \<Rightarrow> bool \<Rightarrow> EnvVar" where
  "getEnvVarFromSecret sctName name key opt = \<lparr>en_Name = name, en_Source = EnvSecret sctName key opt\<rparr>"

definition mount :: "string \<Rightarrow> string \<Rightarrow> VolumeMount" where
  "mount n p = \<lparr>vm_Name = n, vm_MountPath = p\<rparr>"

text \<open>A probe with the timeout and period of 15 seconds that all probes use.\<close>

definition probe15 :: "ProbeHandler \<Rightarrow> nat \<Rightarrow> nat \<Rightarrow> Probe" where
  "probe15 h delay failures = \<lparr>pr_Handler = h, pr_InitialDelay = delay, pr_Timeout = 15, pr_Period = 15,
     pr_Success = 1, pr_Failure = failures\<rparr>"

definition getStartupProbe :: "string \<Rightarrow> Probe option" where
  "getStartupProbe name =
     (if name = ''mysql''
      then Some (probe15 (ExecProbe [''sh'', ''-c'',
        ''if test $(mysql -uroot -h127.0.0.1 -NB -e '' @ [CHR 0x22] @ ''SELECT 1'' @ [CHR 0x22] @ '') -eq 1; then sed -i '' @
        [CHR 0x22] @ ''/^RESET SLAVE ALL;/d'' @ [CHR 0x22] @ '' /etc/mysql/conf.d/init.sql; fi'']) 10 5)
      else None)"

text \<open>What the methods of one Go type return.\<close>

record container =
  k_image :: string
  k_command :: "string list"
  k_env :: "EnvVar list"
  k_lifecycle :: "Lifecycle option"
  k_resources :: ResourceRequirements
  k_ports :: "(string \<times> nat) list"
  k_liveness :: "Probe option"
  k_readiness :: "Probe option"
  k_mounts :: "VolumeMount list"

section \<open>The init containers\<close>

definition s3_env :: "string \<Rightarrow> EnvVar list" where
  "s3_env sct =
     [getEnvVarFromSecret sct ''S3_ENDPOINT'' ''s3-endpoint'' False,
      getEnvVarFromSecret sct ''S3_ACCESSKEY'' ''s3-access-key'' True,
      getEnvVarFromSecret sct ''S3_SECRETKEY'' ''s3-secret-key'' True,
      getEnvVarFromSecret sct ''S3_BUCKET'' ''s3-bucket'' True]"

definition initSidecar_env :: "bool \<Rightarrow> MysqlCluster \<Rightarrow> EnvVar list res" where
  "initSidecar_env up c =
     (let sp = mc_Spec c; sct = GetNameForResource c SecretRes; sec = getEnvVarFromSecret sct in
      case (xo_AdmitDefeatHearbeatCount (sp_XenonOpts sp), xo_ElectionTimeout (sp_XenonOpts sp)) of
        (Some admit, Some election) \<Rightarrow> Ok (
          [val_env ''CONTAINER_TYPE'' ''init-sidecar'',
           field_env ''POD_HOSTNAME'' ''metadata.name'',
           val_env ''NAMESPACE'' (mc_Namespace c),
           val_env ''SERVICE_NAME'' (GetNameForResource c HeadlessSVC),
           val_env ''STATEFULSET_NAME'' (GetNameForResource c StatefulSet),
           val_env ''ADMIT_DEFEAT_HEARBEAT_COUNT'' (int_str admit),
           val_env ''ELECTION_TIMEOUT'' (int_str election),
           val_env ''MYSQL_VERSION'' (GetMySQLVersion c),
           val_env ''RESTORE_FROM'' (sp_RestoreFrom sp),
           val_env ''RESTORE_POINT'' (sp_RestorePoint sp),
           val_env ''CLUSTER_NAME'' (mc_Name c),
           sec ''MYSQL_ROOT_PASSWORD'' ''root-password'' False,
           sec ''INTERNAL_ROOT_PASSWORD'' ''internal-root-password'' True,
           sec ''MYSQL_DATABASE'' ''mysql-database'' True,
           sec ''MYSQL_USER'' ''mysql-user'' True,
           sec ''MYSQL_PASSWORD'' ''mysql-password'' True,
           sec ''MYSQL_REPL_USER'' ''replication-user'' True,
           sec ''MYSQL_REPL_PASSWORD'' ''replication-password'' True,
           sec ''METRICS_USER'' ''metrics-user'' True,
           sec ''METRICS_PASSWORD'' ''metrics-password'' True,
           sec ''OPERATOR_USER'' ''operator-user'' True,
           sec ''OPERATOR_PASSWORD'' ''operator-password'' True,
           sec ''DONOR_USER'' ''donor-user'' True,
           sec ''DONOR_PASSWORD'' ''donor-password'' True,
           sec ''BACKUP_USER'' ''backup-user'' True,
           sec ''BACKUP_PASSWORD'' ''backup-password'' True] @
          (if length (sp_BackupSecretName sp) \<noteq> 0 then s3_env (sp_BackupSecretName sp) else []) @
          (if length (sp_NFSServerAddress sp) \<noteq> 0 then [val_env ''RESTORE_FROM_NFS'' (sp_NFSServerAddress sp)] else []) @
          (if mo_InitTokuDB (sp_MysqlOpts sp) then [val_env ''INIT_TOKUDB'' ''1''] else []) @
          (if up then [val_env ''NEED_UPGRADE'' ''1''] else []) @
          (if sp_SourceConfig sp \<noteq> None then [val_env ''REMOTESRC'' ''1''] else []) @
          (case sp_RemoteCluster sp of
             Some r \<Rightarrow> [val_env ''REMOTE_CLUSTER_NAME'' (rs_Name r), val_env ''REMOTE_CLUSTER_NAMESPACE'' (rs_NameSpace r)]
           | None \<Rightarrow> []) @
          (if sp_ServerIDOffset sp > 0 then [val_env ''SERVER_ID_OFFSET'' (int_str (sp_ServerIDOffset sp))] else []))
      | _ \<Rightarrow> Panic ''nil pointer dereference'')"

definition initSidecar_mounts :: "MysqlCluster \<Rightarrow> VolumeMount list" where
  "initSidecar_mounts c =
     (let sp = mc_Spec c in
      [mount ''mysql-conf'' ''/etc/mysql'', mount ''mysql-cm'' ''/mnt/mysql-cm'', mount ''xenon-cm'' ''/mnt/xenon-cm'',
       mount ''xenon-meta'' ''/var/lib/xenon'', mount ''scripts'' ''/scripts'', mount ''xenon-conf'' ''/etc/xenon'',
       mount ''init-mysql'' ''/docker-entrypoint-initdb.d'', mount ''localtime'' ''/etc/localtime'',
       mount ''mysql-checker'' ''/opt/radondb''] @
      (if sp_TlsSecretName sp \<noteq> [] then [mount ''tls-sidecar'' ''/tmp/mysql-ssl'', mount ''tls'' ''/etc/mysql-ssl''] else []) @
      (if mo_InitTokuDB (sp_MysqlOpts sp) then [mount ''host-sys'' ''/host-sys''] else []) @
      (if length (sp_NFSServerAddress sp) \<noteq> 0 then [mount ''backup'' ''/backup''] else []) @
      (if pe_Enabled (sp_Persistence sp) then [mount ''data'' ''/var/lib/mysql''] else []) @
      (if sp_SourceConfig sp \<noteq> None then [mount ''rsrc'' ''/etc/rsrc''] else []) @
      (if sp_RemoteCluster sp \<noteq> None then [mount ''remote-cluster-cm'' ''/mnt/remote-cluster-cm''] else []))"

definition initSidecar :: "bool \<Rightarrow> MysqlCluster \<Rightarrow> container res" where
  "initSidecar up c = bind_res (initSidecar_env up c) (\<lambda>envs. Ok
     \<lparr>k_image = pp_SidecarImage (sp_PodPolicy (mc_Spec c)), k_command = [''sidecar'', ''init''], k_env = envs,
      k_lifecycle = None, k_resources = pp_ExtraResources (sp_PodPolicy (mc_Spec c)), k_ports = [],
      k_liveness = None, k_readiness = None, k_mounts = initSidecar_mounts c\<rparr>)"

definition initMysql_env :: "MysqlCluster \<Rightarrow> EnvVar list" where
  "initMysql_env c =
     [val_env ''MYSQL_ALLOW_EMPTY_PASSWORD'' ''yes'',
      val_env ''MYSQL_ROOT_HOST'' (mo_RootHost (sp_MysqlOpts (mc_Spec c))),
      val_env ''MYSQL_INIT_ONLY'' ''1'',
      getEnvVarFromSecret (GetNameForResource c SecretRes) ''MYSQL_ROOT_PASSWORD'' ''root-password'' False] @
     (if mo_InitTokuDB (sp_MysqlOpts (mc_Spec c)) then [val_env ''INIT_TOKUDB'' ''1''] else [])"

definition run_script :: "string \<Rightarrow> string \<Rightarrow> string \<Rightarrow> string" where
  "run_script path sep1 sep2 = ''if test -f '' @ path @ '';'' @ '' then '' @ path @ sep1 @ ''fi'' @ sep2"

definition initMysql_command :: "string list" where
  "initMysql_command = [''bash'', ''-c'', ''/docker-entrypoint.sh mysqld;'' @
     run_script ''/docker-entrypoint-initdb.d/plugin.sh'' ''; '' '' ;'' @
     run_script ''/opt/radondb/clone.sh'' '';'' '';'' @
     run_script ''/opt/radondb/upgrade.sh'' '';'' '';'' @
     run_script ''/opt/radondb/restore.sh'' ''; '' '' ;'']"

definition initMysql :: "MysqlCluster \<Rightarrow> container" where
  "initMysql c =
     \<lparr>k_image = mo_Image (sp_MysqlOpts (mc_Spec c)), k_command = initMysql_command, k_env = initMysql_env c,
      k_lifecycle = None, k_resources = mo_Resources (sp_MysqlOpts (mc_Spec c)), k_ports = [],
      k_liveness = None, k_readiness = None,
      k_mounts = [mount ''mysql-conf'' ''/etc/mysql'', mount ''data'' ''/var/lib/mysql'', mount ''logs'' ''/var/log/mysql'',
        mount ''init-mysql'' ''/docker-entrypoint-initdb.d'', mount ''localtime'' ''/etc/localtime'',
        mount ''mysql-checker'' ''/opt/radondb'']\<rparr>"

section \<open>The containers\<close>

definition mysql_env :: "MysqlCluster \<Rightarrow> EnvVar list" where
  "mysql_env c =
     [field_env ''NAMESPACE'' ''metadata.namespace'', field_env ''POD_NAME'' ''metadata.name'',
      val_env ''MAX_DELAY'' (int_str (mo_MaxLagSeconds (sp_MysqlOpts (mc_Spec c))))] @
     (if mo_InitTokuDB (sp_MysqlOpts (mc_Spec c)) then [val_env ''INIT_TOKUDB'' ''1''] else [])"

definition mysql_mounts :: "MysqlCluster \<Rightarrow> VolumeMount list" where
  "mysql_mounts c =
     [mount ''mysql-conf'' ''/etc/mysql'', mount ''data'' ''/var/lib/mysql'', mount ''logs'' ''/var/log/mysql'',
      mount ''localtime'' ''/etc/localtime'', mount ''mysql-checker'' ''/opt/radondb''] @
     (if sp_TlsSecretName (mc_Spec c) \<noteq> [] then [mount ''tls'' ''/etc/mysql-ssl''] else []) @
     (if sp_RemoteCluster (mc_Spec c) \<noteq> None then [mount ''remote-cluster-cm'' ''/mnt/remote-cluster-cm''] else [])"

definition sleep_while :: "string \<Rightarrow> string" where
  "sleep_while f = ''while  [ -f '' @ [CHR 0x27] @ f @ [CHR 0x27] @ '' ] ;do sleep 2''"

definition mysql :: "MysqlCluster \<Rightarrow> container" where
  "mysql c =
     \<lparr>k_image = mo_Image (sp_MysqlOpts (mc_Spec c)),
      k_command = [''sh'', ''-c'', sleep_while ''/var/lib/mysql/sleep-forever'' @ '' ; done; /docker-entrypoint.sh mysqld''],
      k_env = mysql_env c, k_lifecycle = None, k_resources = mo_Resources (sp_MysqlOpts (mc_Spec c)),
      k_ports = [(''mysql'', MysqlPort)],
      k_liveness = Some (probe15 (ExecProbe [''/usr/bin/bash'', ''-c'', ''/opt/radondb/mysqlchecker liveness'']) 30 3),
      k_readiness = Some (probe15 (ExecProbe [''/usr/bin/bash'', ''-c'', ''/opt/radondb/mysqlchecker readiness'']) 10 3),
      k_mounts = mysql_mounts c\<rparr>"

definition xenon_command :: "MysqlCluster \<Rightarrow> string list" where
  "xenon_command c =
     (let cmdstr = (if sp_Replicas (mc_Spec c) = 1
          then join_with '' '' [''xenon'', ''-c'', ''/etc/xenon/xenon.json'', ''-r'', ''LEADER'']
          else join_with '' '' [''xenon'', ''-c'', ''/etc/xenon/xenon.json''])
      in [''sh'', ''-c'', sleep_while ''/etc/xenon/sleep-forever'' @ '';done; command '' @ cmdstr @ '' & pid=$!;wait $pid;''])"

definition xenon :: "MysqlCluster \<Rightarrow> container" where
  "xenon c =
     \<lparr>k_image = xo_Image (sp_XenonOpts (mc_Spec c)), k_command = xenon_command c,
      k_env = [field_env ''NAMESPACE'' ''metadata.namespace'', field_env ''POD_NAME'' ''metadata.name'',
        val_env ''AUTO_REBUILD'' (if xo_EnableAutoRebuild (sp_XenonOpts (mc_Spec c)) then ''true'' else ''false'')],
      k_lifecycle = Some \<lparr>lc_PreStop = [''/bin/bash'', ''-c'', ''/xenonchecker preStop''],
        lc_PostStart = [''/bin/bash'', ''-c'', ''/xenonchecker postStart'']\<rparr>,
      k_resources = xo_Resources (sp_XenonOpts (mc_Spec c)),
      k_ports = [(''xenon'', XenonPort)],
      k_liveness = Some (probe15 (ExecProbe [''sh'', ''-c'',
        sleep_while ''/etc/xenon/sleep-forever'' @ '';done;pgrep xenon && xenoncli xenon ping'']) 30 3),
      k_readiness = Some (probe15 (ExecProbe [''sh'', ''-c'',
        sleep_while ''/etc/xenon/sleep-forever'' @ '';done; xenoncli xenon ping'']) 10 3),
      k_mounts = [mount ''scripts'' ''/scripts'', mount ''xenon-conf'' ''/etc/xenon'', mount ''xenon-meta'' ''/var/lib/xenon'',
        mount ''localtime'' ''/etc/localtime'']\<rparr>"

definition metrics :: "MysqlCluster \<Rightarrow> container" where
  "metrics c =
     \<lparr>k_image = me_Image (sp_MetricsOpts (mc_Spec c)), k_command = [],
      k_env = [getEnvVarFromSecret (GetNameForResource c SecretRes) ''DATA_SOURCE_NAME'' ''data-source'' True],
      k_lifecycle = None, k_resources = me_Resources (sp_MetricsOpts (mc_Spec c)),
      k_ports = [(''metrics'', MetricsPort)],
      k_liveness = Some (probe15 (HttpProbe ''/'' MetricsPort) 15 3),
      k_readiness = Some (probe15 (HttpProbe ''/'' MetricsPort) 15 3),
      k_mounts = []\<rparr>"

text \<open>The three containers that follow a log file differ in the image and the file.\<close>

definition tail_log :: "string \<Rightarrow> string \<Rightarrow> MysqlCluster \<Rightarrow> container" where
  "tail_log img logsName c =
     \<lparr>k_image = img,
      k_command = [''sh'', ''-c'', ''while true; do if [ -f '' @ ''/var/log/mysql'' @ logsName @
        '' ] ; then break; fi;sleep 1; done; '' @ ''tail -f '' @ ''/var/log/mysql'' @ logsName],
      k_env = [], k_lifecycle = None, k_resources = pp_ExtraResources (sp_PodPolicy (mc_Spec c)), k_ports = [],
      k_liveness = None, k_readiness = None, k_mounts = [mount ''logs'' ''/var/log/mysql'']\<rparr>"

definition slowLog :: "MysqlCluster \<Rightarrow> container" where
  "slowLog c = tail_log (pp_SidecarImage (sp_PodPolicy (mc_Spec c))) ''/mysql-slow.log'' c"

definition auditLog :: "MysqlCluster \<Rightarrow> container" where
  "auditLog c = tail_log (pp_BusyboxImage (sp_PodPolicy (mc_Spec c))) ''/mysql-audit.log'' c"

definition errorLog :: "MysqlCluster \<Rightarrow> container" where
  "errorLog c = tail_log (pp_BusyboxImage (sp_PodPolicy (mc_Spec c))) ''/mysql-error.log'' c"

definition XBackupPort :: nat where "XBackupPort = 8082"

definition backupSidecar_env :: "MysqlCluster \<Rightarrow> EnvVar list" where
  "backupSidecar_env c =
     (let sct = GetNameForResource c SecretRes in
      [val_env ''CONTAINER_TYPE'' ''backup'', val_env ''NAMESPACE'' (mc_Namespace c), val_env ''CLUSTER_NAME'' (mc_Name c),
       val_env ''SERVICE_NAME'' (GetNameForResource c HeadlessSVC),
       val_env ''MYSQL_ROOT_PASSWORD'' (mo_RootPassword (sp_MysqlOpts (mc_Spec c))),
       getEnvVarFromSecret sct ''BACKUP_USER'' ''backup-user'' True,
       getEnvVarFromSecret sct ''BACKUP_PASSWORD'' ''backup-password'' True] @
      (if length (sp_BackupSecretName (mc_Spec c)) \<noteq> 0 then s3_env (sp_BackupSecretName (mc_Spec c)) else []))"

definition backupSidecar :: "MysqlCluster \<Rightarrow> container" where
  "backupSidecar c =
     \<lparr>k_image = pp_SidecarImage (sp_PodPolicy (mc_Spec c)), k_command = [''sidecar'', ''http''],
      k_env = backupSidecar_env c, k_lifecycle = None,
      k_resources = pp_ExtraResources (sp_PodPolicy (mc_Spec c)), k_ports = [(''xtrabackup'', XBackupPort)],
      k_liveness = Some (probe15 (HttpProbe ''/health'' XBackupPort) 15 3),
      k_readiness = Some (probe15 (HttpProbe ''/health'' XBackupPort) 5 3),
      k_mounts = [mount ''mysql-conf'' ''/etc/mysql'', mount ''data'' ''/var/lib/mysql'', mount ''logs'' ''/var/log/mysql'',
        mount ''localtime'' ''/etc/localtime'']\<rparr>"

section \<open>Dispatch and the pod specification\<close>

text \<open>The switch; with another name the interface value stays nil and its first use panics.\<close>

definition select_container :: "bool \<Rightarrow> string \<Rightarrow> MysqlCluster \<Rightarrow> container res" where
  "select_container up name c =
     (if name = ''init-sidecar'' then initSidecar up c
      else if name = ''init-mysql'' then Ok (initMysql c)
      else if name = ''mysql'' then Ok (mysql c)
      else if name = ''xenon'' then Ok (xenon c)
      else if name = ''metrics'' then Ok (metrics c)
      else if name = ''slowlog'' then Ok (slowLog c)
      else if name = ''auditlog'' then Ok (auditLog c)
      else if name = ''errorlog'' then Ok (errorLog c)
      else if name = ''backup'' then Ok (backupSidecar c)
      else Panic ''nil pointer dereference'')"

definition EnsureContainer :: "string \<times> string \<Rightarrow> bool \<Rightarrow> string \<Rightarrow> MysqlCluster \<Rightarrow> Container res" where
  "EnsureContainer env up name c =
     bind_res (select_container up name c) (\<lambda>k. Ok
       \<lparr>ct_Name = name, ct_Image = GetImage (fst env) (snd env) (k_image k),
        ct_ImagePullPolicy = pp_ImagePullPolicy (sp_PodPolicy (mc_Spec c)), ct_Command = k_command k, ct_Env = k_env k,
        ct_Lifecycle = k_lifecycle k, ct_Resources = k_resources k, ct_Ports = k_ports k,
        ct_LivenessProbe = k_liveness k, ct_ReadinessProbe = k_readiness k,
        ct_StartupProbe = getStartupProbe name, ct_VolumeMounts = k_mounts k\<rparr>)"

record PodSpec =
  ps_InitContainers :: "Container list"
  ps_Containers :: "Container list"
  ps_Volumes :: "Volume list"
  ps_SchedulerName :: string
  ps_ServiceAccountName :: string
  ps_Affinity :: "opaque option"
  ps_PriorityClassName :: string
  ps_Tolerations :: "opaque list"

fun ensure_all :: "string \<times> string \<Rightarrow> bool \<Rightarrow> MysqlCluster \<Rightarrow> string list \<Rightarrow> Container list res" where
  "ensure_all env up c [] = Ok []"
| "ensure_all env up c (n # ns) =
     bind_res (EnsureContainer env up n c) (\<lambda>k. bind_res (ensure_all env up c ns) (\<lambda>ks. Ok (k # ks)))"

text \<open>The names of the containers, in the order \<open>ensurePodSpec\<close> appends them.\<close>

definition container_names :: "MysqlCluster \<Rightarrow> string list" where
  "container_names c =
     (let sp = mc_Spec c in
      [''mysql'', ''xenon'', ''backup''] @
      (if me_Enabled (sp_MetricsOpts sp) then [''metrics''] else []) @
      (if pp_SlowLogTail (sp_PodPolicy sp) then [''slowlog''] else []) @
      (if pp_AuditLogTail (sp_PodPolicy sp) then [''auditlog''] else []) @
      (if mo_LogfilePVC (sp_MysqlOpts sp) \<noteq> None then [''errorlog''] else []))"

definition ensurePodSpec :: "string \<times> string \<Rightarrow> bool \<Rightarrow> MysqlCluster \<Rightarrow> PodSpec res" where
  "ensurePodSpec env up c =
     bind_res (ensure_all env up c [''init-sidecar'', ''init-mysql'']) (\<lambda>inits.
     bind_res (ensure_all env up c (container_names c)) (\<lambda>conts. Ok
       \<lparr>ps_InitContainers = inits, ps_Containers = conts, ps_Volumes = EnsureVolumes c,
        ps_SchedulerName = pp_SchedulerName (sp_PodPolicy (mc_Spec c)),
        ps_ServiceAccountName = GetNameForResource c ServiceAccountRes,
        ps_Affinity = pp_Affinity (sp_PodPolicy (mc_Spec c)),
        ps_PriorityClassName = pp_PriorityClassName (sp_PodPolicy (mc_Spec c)),
        ps_Tolerations = pp_Tolerations (sp_PodPolicy (mc_Spec c))\<rparr>))"


section \<open>Properties of the pod specification\<close>

lemma ensure_all_Ok:
  "ensure_all env up c ns = Ok ks \<Longrightarrow>
   map ct_Name ks = ns \<and>
   (\<forall>k\<in>set ks. \<exists>n\<in>set ns. \<exists>i. select_container up n c = Ok i \<and> ct_Name k = n \<and>
      ct_VolumeMounts k = k_mounts i \<and> ct_Ports k = k_ports i \<and> ct_Env k = k_env i)"
proof (induction ns arbitrary: ks)
  case (Cons n ns)
  from Cons.prems obtain k ks' where
    k: "EnsureContainer env up n c = Ok k" "ensure_all env up c ns = Ok ks'" "ks = k # ks'"
    by (auto simp: bind_res_Ok)
  then obtain i where "select_container up n c = Ok i" "ct_Name k = n" "ct_VolumeMounts k = k_mounts i"
    "ct_Ports k = k_ports i" "ct_Env k = k_env i"
    by (auto simp: EnsureContainer_def bind_res_Ok)
  with Cons.IH [OF k(2)] k(3) show ?case by auto
qed simp

text \<open>What a mount of the cluster pod can refer to.\<close>

definition mountable :: "MysqlCluster \<Rightarrow> string set" where
  "mountable c = v_Name ` set (EnsureVolumes c) \<union>
     (if pe_Enabled (sp_Persistence (mc_Spec c)) then {''data''} else {}) \<union>
     (if mo_LogfilePVC (sp_MysqlOpts (mc_Spec c)) \<noteq> None then {''logs''} else {})"

lemma vol_name [simp]: "v_Name (vol n s) = n"
  by (simp add: vol_def)

lemma mount_sel [simp]: "vm_Name (mount n p) = n" "vm_MountPath (mount n p) = p"
  by (simp_all add: mount_def)


lemma volume_names:
  "v_Name ` set (EnsureVolumes c) =
     (if \<not> pe_Enabled (sp_Persistence (mc_Spec c)) then {''data''} else {}) \<union>
     (if mo_InitTokuDB (sp_MysqlOpts (mc_Spec c)) then {''host-sys''} else {}) \<union>
     (if mo_LogfilePVC (sp_MysqlOpts (mc_Spec c)) = None then {''logs''} else {}) \<union>
     {''mysql-conf'', ''mysql-cm'', ''xenon-cm'', ''xenon-meta'', ''scripts'', ''xenon-conf'', ''init-mysql'', ''localtime''} \<union>
     (if sp_NFSServerAddress (mc_Spec c) \<noteq> [] then {''backup''} else {}) \<union>
     (if sp_TlsSecretName (mc_Spec c) \<noteq> [] then {''tls-sidecar'', ''tls''} else {}) \<union>
     {''mysql-checker''} \<union>
     (if sp_SourceConfig (mc_Spec c) \<noteq> None then {''rsrc''} else {}) \<union>
     (if sp_RemoteCluster (mc_Spec c) \<noteq> None then {''remote-cluster-cm''} else {})"
proof -
  have "v_Name ` set (case ParseIPAndPath a of (ip, path) \<Rightarrow> [vol n (NFSVol ip path)]) = {n}" for a n
    by (cases "ParseIPAndPath a") simp
  moreover have "v_Name ` set (case x of Some sc \<Rightarrow> [vol n (ProjectedSecret sc)] | None \<Rightarrow> []) = (if x \<noteq> None then {n} else {})" for x n
    by (cases x) simp_all
  ultimately show ?thesis
    unfolding EnsureVolumes_def Let_def set_append image_Un
    by (simp only: if_distrib [of set] if_distrib [of "\<lambda>x. v_Name ` x"] length_0_conv if_not_P list.set image_empty image_insert vol_name
        not_not if_cancel simp_thms Un_assoc)
qed

lemma mountable_data: "''data'' \<in> mountable c" "''logs'' \<in> mountable c"
  by (simp_all add: mountable_def volume_names)

lemma mountable_base:
  "''mysql-conf'' \<in> mountable c" "''mysql-cm'' \<in> mountable c" "''xenon-cm'' \<in> mountable c"
  "''xenon-meta'' \<in> mountable c" "''scripts'' \<in> mountable c" "''xenon-conf'' \<in> mountable c"
  "''init-mysql'' \<in> mountable c" "''localtime'' \<in> mountable c" "''mysql-checker'' \<in> mountable c"
  by (simp_all add: mountable_def volume_names)

lemma mountable_optional:
  "sp_TlsSecretName (mc_Spec c) \<noteq> [] \<Longrightarrow> ''tls'' \<in> mountable c"
  "sp_TlsSecretName (mc_Spec c) \<noteq> [] \<Longrightarrow> ''tls-sidecar'' \<in> mountable c"
  "mo_InitTokuDB (sp_MysqlOpts (mc_Spec c)) \<Longrightarrow> ''host-sys'' \<in> mountable c"
  "sp_NFSServerAddress (mc_Spec c) \<noteq> [] \<Longrightarrow> ''backup'' \<in> mountable c"
  "sp_SourceConfig (mc_Spec c) \<noteq> None \<Longrightarrow> ''rsrc'' \<in> mountable c"
  "sp_RemoteCluster (mc_Spec c) \<noteq> None \<Longrightarrow> ''remote-cluster-cm'' \<in> mountable c"
  by (simp_all add: mountable_def volume_names)

lemmas mountable_intros = mountable_data mountable_base mountable_optional

lemma mountsI: "list_all (\<lambda>v. vm_Name v \<in> mountable c) ms \<Longrightarrow> vm_Name ` set ms \<subseteq> mountable c"
  by (auto simp: list_all_iff)

lemma initSidecar_mountable: "list_all (\<lambda>v. vm_Name v \<in> mountable c) (initSidecar_mounts c)"
  by (simp add: initSidecar_mounts_def Let_def mountable_intros)

lemma mysql_mountable: "list_all (\<lambda>v. vm_Name v \<in> mountable c) (mysql_mounts c)"
  by (simp add: mysql_mounts_def mountable_intros)

lemmas ctr_defs = initSidecar_def initMysql_def mysql_def xenon_def metrics_def tail_log_def slowLog_def
  auditLog_def errorLog_def backupSidecar_def

lemma select_container_cases:
  assumes "select_container up n c = Ok i"
  shows "initSidecar up c = Ok i \<or>
    i \<in> {initMysql c, mysql c, xenon c, metrics c, slowLog c, auditLog c, errorLog c, backupSidecar c}"
  using assms unfolding select_container_def
  by (simp only: res.inject res.distinct insert_iff split: if_split_asm) blast+

lemma initSidecar_Ok:
  "initSidecar up c = Ok i \<Longrightarrow> k_mounts i = initSidecar_mounts c \<and> k_ports i = []"
  by (auto simp: initSidecar_def bind_res_Ok)

definition all_mount_paths :: "string list" where
  "all_mount_paths =
     [''/etc/mysql'', ''/mnt/mysql-cm'', ''/mnt/xenon-cm'', ''/var/lib/xenon'', ''/scripts'', ''/etc/xenon'',
      ''/docker-entrypoint-initdb.d'', ''/etc/localtime'', ''/opt/radondb''] @ [''/tmp/mysql-ssl'', ''/etc/mysql-ssl''] @
     [''/host-sys''] @ [''/backup''] @ [''/var/lib/mysql''] @ [''/etc/rsrc''] @ [''/mnt/remote-cluster-cm'']"

lemma initSidecar_paths: "distinct (map vm_MountPath (initSidecar_mounts c))"
proof (rule subseq_distinct [of _ all_mount_paths])
  show "subseq (map vm_MountPath (initSidecar_mounts c)) all_mount_paths"
    unfolding initSidecar_mounts_def all_mount_paths_def Let_def map_append
    by (intro list_emb_append_mono) auto
qed (simp add: all_mount_paths_def)

lemma mysql_paths: "distinct (map vm_MountPath (mysql_mounts c))"
  by (simp add: mysql_mounts_def)

definition mounts_ok :: "MysqlCluster \<Rightarrow> container \<Rightarrow> bool" where
  "mounts_ok c i \<longleftrightarrow> list_all (\<lambda>v. vm_Name v \<in> mountable c) (k_mounts i) \<and> distinct (map vm_MountPath (k_mounts i))"

lemma initMysql_mounts_ok: "mounts_ok c (initMysql c)"
  by (simp add: mounts_ok_def initMysql_def mountable_intros mysql_mountable mysql_paths)

lemma mysql_mounts_ok: "mounts_ok c (mysql c)"
  by (simp add: mounts_ok_def mysql_def mountable_intros mysql_mountable mysql_paths)

lemma xenon_mounts_ok: "mounts_ok c (xenon c)"
  by (simp add: mounts_ok_def xenon_def mountable_intros mysql_mountable mysql_paths)

lemma metrics_mounts_ok: "mounts_ok c (metrics c)"
  by (simp add: mounts_ok_def metrics_def mountable_intros mysql_mountable mysql_paths)

lemma backupSidecar_mounts_ok: "mounts_ok c (backupSidecar c)"
  by (simp add: mounts_ok_def backupSidecar_def mountable_intros mysql_mountable mysql_paths)

lemma tail_log_mounts_ok: "mounts_ok c (tail_log img f c)"
  by (simp add: mounts_ok_def tail_log_def mountable_intros)

lemmas fixed_mounts_ok = initMysql_mounts_ok mysql_mounts_ok xenon_mounts_ok metrics_mounts_ok
  backupSidecar_mounts_ok tail_log_mounts_ok

lemma select_container_ok:
  assumes "select_container up n c = Ok i"
  shows "mounts_ok c i"
proof -
  have "mounts_ok c i" if "initSidecar up c = Ok i"
    using initSidecar_Ok [OF that] by (simp add: mounts_ok_def initSidecar_mountable initSidecar_paths)
  moreover have "mounts_ok c (slowLog c)" "mounts_ok c (auditLog c)" "mounts_ok c (errorLog c)"
    by (simp_all only: slowLog_def auditLog_def errorLog_def fixed_mounts_ok)
  ultimately show ?thesis
    using select_container_cases [OF assms] fixed_mounts_ok by blast
qed

lemma claim_names:
  assumes "fst (EnsureVolumeClaimTemplates pq sr c) = Ok vs"
  shows "map vc_Name vs = (if pe_Enabled (sp_Persistence (mc_Spec c)) then [''data''] else []) @
    (if mo_LogfilePVC (sp_MysqlOpts (mc_Spec c)) \<noteq> None then [''logs''] else [])"
  using assms
  by (auto simp: EnsureVolumeClaimTemplates_fst Let_def bind_res_Ok dest!: mk_claim_Ok split: if_splits)

lemma ensurePodSpec_Ok:
  assumes "ensurePodSpec env up c = Ok ps"
  shows "ps_Volumes ps = EnsureVolumes c \<and> map ct_Name (ps_InitContainers ps) = [''init-sidecar'', ''init-mysql''] \<and>
    map ct_Name (ps_Containers ps) = container_names c \<and>
    (\<forall>k\<in>set (ps_InitContainers ps @ ps_Containers ps). \<exists>n i. select_container up n c = Ok i \<and> ct_Name k = n \<and>
       ct_VolumeMounts k = k_mounts i \<and> ct_Ports k = k_ports i \<and> ct_Env k = k_env i)"
proof -
  obtain inits conts where *: "ensure_all env up c [''init-sidecar'', ''init-mysql''] = Ok inits"
    "ensure_all env up c (container_names c) = Ok conts"
    "ps_InitContainers ps = inits" "ps_Containers ps = conts" "ps_Volumes ps = EnsureVolumes c"
    using assms by (auto simp: ensurePodSpec_def bind_res_Ok simp del: ensure_all.simps)
  show ?thesis
    using ensure_all_Ok [OF *(1)] ensure_all_Ok [OF *(2)] *(3-5) by fastforce
qed

lemma template_names_distinct:
  assumes "fst (EnsureVolumeClaimTemplates pq sr c) = Ok vs"
  shows "distinct (map v_Name (EnsureVolumes c) @ map vc_Name vs) \<and>
    mountable c = v_Name ` set (EnsureVolumes c) \<union> vc_Name ` set vs"
proof -
  have d: "distinct (map v_Name (EnsureVolumes c))"
    by (rule subseq_distinct [OF EnsureVolumes_names]) (simp add: all_volume_names_def)
  have names: "vc_Name ` set vs = (if pe_Enabled (sp_Persistence (mc_Spec c)) then {''data''} else {}) \<union>
     (if mo_LogfilePVC (sp_MysqlOpts (mc_Spec c)) \<noteq> None then {''logs''} else {})"
    using arg_cong [OF claim_names [OF assms], of set] by simp
  have "''data'' \<notin> v_Name ` set (EnsureVolumes c)" if "pe_Enabled (sp_Persistence (mc_Spec c))"
    using that by (simp add: volume_names)
  moreover have "''logs'' \<notin> v_Name ` set (EnsureVolumes c)" if "mo_LogfilePVC (sp_MysqlOpts (mc_Spec c)) \<noteq> None"
    using that by (simp add: volume_names)
  ultimately have "set (map v_Name (EnsureVolumes c)) \<inter> set (map vc_Name vs) = {}"
    by (simp add: names)
  moreover have "distinct (map vc_Name vs)" using claim_names [OF assms] by simp
  ultimately show ?thesis using d by (simp add: mountable_def names Un_assoc)
qed

text \<open>
  C18. No dangling mount. In every configuration, each volume mount of each init container and
  container of the pod refers to a volume of the pod or to a claim template of the
  stateful set (the data volume is an emptyDir or a claim, the log volume too), the mount
  paths within a container are pairwise different, and so are the names of volumes and
  claims taken together: the API server's rules hold whatever options are switched on.
\<close>

theorem ensurePodSpec_mounts:
  assumes "ensurePodSpec env up c = Ok ps" "fst (EnsureVolumeClaimTemplates pq sr c) = Ok vs"
    and "k \<in> set (ps_InitContainers ps @ ps_Containers ps)"
  shows "vm_Name ` set (ct_VolumeMounts k) \<subseteq> v_Name ` set (ps_Volumes ps) \<union> vc_Name ` set vs \<and>
    distinct (map vm_MountPath (ct_VolumeMounts k)) \<and>
    distinct (map v_Name (ps_Volumes ps) @ map vc_Name vs)"
proof -
  have vols: "ps_Volumes ps = EnsureVolumes c"
    using ensurePodSpec_Ok [OF assms(1)] by blast
  obtain n i where i: "select_container up n c = Ok i" "ct_VolumeMounts k = k_mounts i"
    using ensurePodSpec_Ok [OF assms(1)] assms(3) by blast
  have "vm_Name ` set (k_mounts i) \<subseteq> mountable c" "distinct (map vm_MountPath (k_mounts i))"
    using select_container_ok [OF i(1)] mountsI by (auto simp only: mounts_ok_def)
  then show ?thesis
    using template_names_distinct [OF assms(2)] i(2) vols by simp
qed

lemma ensure_all_total:
  "(\<And>n. n \<in> set ns \<Longrightarrow> \<exists>i. select_container up n c = Ok i) \<Longrightarrow> \<exists>ks. ensure_all env up c ns = Ok ks"
proof (induction ns)
  case (Cons n ns)
  then obtain ks where ks: "ensure_all env up c ns = Ok ks" by auto
  from Cons.prems obtain i where "select_container up n c = Ok i" by auto
  with ks show ?case by (simp add: EnsureContainer_def)
qed simp

text \<open>The two election parameters, which have CRD defaults.\<close>

definition election_set :: "MysqlCluster \<Rightarrow> bool" where
  "election_set c \<longleftrightarrow> xo_AdmitDefeatHearbeatCount (sp_XenonOpts (mc_Spec c)) \<noteq> None \<and>
     xo_ElectionTimeout (sp_XenonOpts (mc_Spec c)) \<noteq> None"

lemma initSidecar_env_Ok: "election_set c \<Longrightarrow> is_ok (initSidecar_env up c)"
  unfolding election_set_def initSidecar_env_def Let_def
  by (elim conjE option.exhaust [of "xo_AdmitDefeatHearbeatCount _"])
     (erule not_None_eq [THEN iffD1, THEN exE], erule not_None_eq [THEN iffD1, THEN exE], simp only: prod.case option.case is_ok.simps)


lemma initSidecar_env_panic: "\<not> election_set c \<Longrightarrow> initSidecar_env up c = Panic ''nil pointer dereference''"
  by (cases "xo_AdmitDefeatHearbeatCount (sp_XenonOpts (mc_Spec c))"; cases "xo_ElectionTimeout (sp_XenonOpts (mc_Spec c))")
     (simp_all only: election_set_def initSidecar_env_def Let_def prod.case option.case simp_thms option.distinct)

lemma initSidecar_total: "election_set c \<Longrightarrow> \<exists>i. initSidecar up c = Ok i"
  using initSidecar_env_Ok [of c up] by (cases "initSidecar_env up c") (simp_all add: initSidecar_def)

lemma select_container_total:
  "n \<in> {''init-mysql'', ''mysql'', ''xenon'', ''backup'', ''metrics'', ''slowlog'', ''auditlog'', ''errorlog''} \<Longrightarrow>
   \<exists>i. select_container up n c = Ok i"
  by (elim insertE emptyE) (simp_all add: select_container_def)

definition all_container_names :: "string list" where
  "all_container_names = [''mysql'', ''xenon'', ''backup''] @ [''metrics''] @ [''slowlog''] @ [''auditlog''] @ [''errorlog'']"

lemma container_names_subseq: "subseq (container_names c) all_container_names"
  unfolding container_names_def all_container_names_def Let_def
  by (intro list_emb_append_mono) auto

lemma set_mono_subseq': "subseq xs ys \<Longrightarrow> set xs \<subseteq> set ys"
  by (rule list_emb_set [THEN subsetI, rotated]) auto

lemma container_names_sub: "set (container_names c) \<subseteq> set all_container_names"
  by (rule set_mono_subseq' [OF container_names_subseq])

lemma container_names_in:
  assumes "n \<in> set (container_names c)"
  shows "n \<in> {''mysql'', ''xenon'', ''backup'', ''metrics'', ''slowlog'', ''auditlog'', ''errorlog''}"
  using subsetD [OF container_names_sub assms] by (simp only: all_container_names_def append.simps list.set)

lemma subseq_concat_map: "subseq xs ys \<Longrightarrow> subseq (concat (map f xs)) (concat (map f ys))"
  by (induction rule: list_emb.induct) (auto intro: list_emb_append_mono list_emb_append2)

text \<open>The ports of the container of a given name.\<close>

definition std_ports :: "string \<Rightarrow> (string \<times> nat) list" where
  "std_ports n =
     (if n = ''mysql'' then [(''mysql'', MysqlPort)] else if n = ''xenon'' then [(''xenon'', XenonPort)]
      else if n = ''metrics'' then [(''metrics'', MetricsPort)] else if n = ''backup'' then [(''xtrabackup'', XBackupPort)]
      else [])"

lemma ctr_ports:
  "k_ports (mysql c) = [(''mysql'', MysqlPort)]" "k_ports (xenon c) = [(''xenon'', XenonPort)]"
  "k_ports (metrics c) = [(''metrics'', MetricsPort)]" "k_ports (backupSidecar c) = [(''xtrabackup'', XBackupPort)]"
  "k_ports (slowLog c) = []" "k_ports (auditLog c) = []" "k_ports (errorLog c) = []"
  by (simp_all add: ctr_defs)

lemma select_ports:
  assumes "select_container up n c = Ok i" "n \<in> set (container_names c)"
  shows "k_ports i = std_ports n"
proof -
  show ?thesis using container_names_in [OF assms(2)] assms(1)
    by (elim insertE emptyE) (auto simp: select_container_def std_ports_def ctr_ports)
qed

lemma ensure_all_ports:
  assumes "ensure_all env up c ns = Ok ks" "set ns \<subseteq> set (container_names c)"
  shows "map ct_Ports ks = map std_ports ns"
proof -
  have "ct_Ports k = std_ports (ct_Name k)" if k: "k \<in> set ks" for k
  proof -
    obtain n i where "n \<in> set ns" "select_container up n c = Ok i" "ct_Name k = n" "ct_Ports k = k_ports i"
      using ensure_all_Ok [OF assms(1)] k by blast
    then show ?thesis using select_ports subsetD [OF assms(2)] by metis
  qed
  then have "map ct_Ports ks = map std_ports (map ct_Name ks)" by simp
  then show ?thesis using ensure_all_Ok [OF assms(1)] by simp
qed

lemma port_values: "distinct [MysqlPort, XenonPort, XBackupPort, MetricsPort]"
  by (simp add: MysqlPort_def XenonPort_def XBackupPort_def MetricsPort_def)

lemma container_ports_distinct: "distinct (map snd (concat (map std_ports (container_names c))))"
proof (rule subseq_distinct)
  show "subseq (map snd (concat (map std_ports (container_names c)))) (map snd (concat (map std_ports all_container_names)))"
    by (intro subseq_map subseq_concat_map container_names_subseq)
  show "distinct (map snd (concat (map std_ports all_container_names)))"
    using port_values by (simp add: all_container_names_def std_ports_def)
qed

lemma ensurePodSpec_ok:
  assumes "election_set c"
  obtains ps where "ensurePodSpec env up c = Ok ps"
    "distinct (map ct_Name (ps_InitContainers ps @ ps_Containers ps))"
    "distinct (map snd (concat (map ct_Ports (ps_Containers ps))))"
proof -
  have "\<exists>i. select_container up ''init-sidecar'' c = Ok i"
    using initSidecar_total [OF assms, of up] by (simp add: select_container_def)
  moreover have "\<exists>i. select_container up ''init-mysql'' c = Ok i"
    by (rule select_container_total) (rule insertI1)
  ultimately have "\<exists>i. select_container up n c = Ok i" if "n \<in> set [''init-sidecar'', ''init-mysql'']" for n
    using that unfolding list.set by (elim insertE emptyE) simp_all
  then obtain inits where inits: "ensure_all env up c [''init-sidecar'', ''init-mysql''] = Ok inits"
    using ensure_all_total by blast
  have "\<exists>i. select_container up n c = Ok i" if "n \<in> set (container_names c)" for n
    by (rule select_container_total) (rule insertI2, rule container_names_in [OF that])
  then obtain conts where conts: "ensure_all env up c (container_names c) = Ok conts"
    using ensure_all_total by blast
  have "\<exists>ps. ensurePodSpec env up c = Ok ps \<and> ps_InitContainers ps = inits \<and> ps_Containers ps = conts"
    using inits conts by (simp add: ensurePodSpec_def del: ensure_all.simps)
  then obtain ps where ps: "ensurePodSpec env up c = Ok ps" "ps_InitContainers ps = inits" "ps_Containers ps = conts"
    by blast
  have names: "map ct_Name (ps_InitContainers ps @ ps_Containers ps) = [''init-sidecar'', ''init-mysql''] @ container_names c"
    using ensurePodSpec_Ok [OF ps(1)] by simp
  have "distinct ([''init-sidecar'', ''init-mysql''] @ container_names c)"
  proof (rule subseq_distinct)
    show "subseq ([''init-sidecar'', ''init-mysql''] @ container_names c) ([''init-sidecar'', ''init-mysql''] @ all_container_names)"
      by (intro list_emb_append_mono container_names_subseq) simp
  qed (simp add: all_container_names_def)
  then have "distinct (map ct_Name (ps_InitContainers ps @ ps_Containers ps))" unfolding names .
  then show thesis
    using that [OF ps(1)] container_ports_distinct [of c] ensure_all_ports [OF conts] ps(3) by simp
qed

lemma ensurePodSpec_nil:
  assumes "\<not> election_set c"
  shows "ensurePodSpec env up c = Panic ''nil pointer dereference''"
  using initSidecar_env_panic [OF assms, of up]
  by (simp add: ensurePodSpec_def EnsureContainer_def select_container_def initSidecar_def)

text \<open>
  The pod specification is built, and not a panic, exactly when the two election
  parameters are set; then the names of its containers, init containers included, are
  pairwise different and no two containers use the same port.
\<close>

theorem ensurePodSpec_total:
  "(election_set c \<longleftrightarrow> \<not> is_panic (ensurePodSpec env up c)) \<and>
   (election_set c \<longleftrightarrow> (\<exists>ps. ensurePodSpec env up c = Ok ps \<and>
      distinct (map ct_Name (ps_InitContainers ps @ ps_Containers ps)) \<and>
      distinct (map snd (concat (map ct_Ports (ps_Containers ps))))))"
proof (cases "election_set c")
  case True
  then obtain ps where "ensurePodSpec env up c = Ok ps"
    "distinct (map ct_Name (ps_InitContainers ps @ ps_Containers ps))"
    "distinct (map snd (concat (map ct_Ports (ps_Containers ps))))" by (rule ensurePodSpec_ok)
  with True show ?thesis by simp
next
  case False
  then show ?thesis by (simp add: ensurePodSpec_nil)
qed

theorem ensurePodSpec_mounts_witness:
  "\<exists>ps vs. ensurePodSpec ([], []) False sample = Ok ps \<and> fst (EnsureVolumeClaimTemplates (\<lambda>_. Some 1) (\<lambda>_. None) sample) = Ok vs \<and>
     (\<forall>k\<in>set (ps_Containers ps). vm_Name ` set (ct_VolumeMounts k) \<subseteq> v_Name ` set (ps_Volumes ps) \<union> vc_Name ` set vs)"
proof -
  have "election_set sample" by (simp add: election_set_def sample_defs)
  then obtain ps where ps: "ensurePodSpec ([], []) False sample = Ok ps" by (rule ensurePodSpec_ok)
  moreover obtain vs where vs: "fst (EnsureVolumeClaimTemplates (\<lambda>_. Some 1) (\<lambda>_. None) sample) = Ok vs"
    by (simp add: EnsureVolumeClaimTemplates_fst sample_defs Let_def mk_claim_def must_parse_def)
  ultimately show ?thesis
    using ensurePodSpec_mounts [OF ps vs] by auto
qed

end
