(* ===== verification/KubeObjects.thy ===== *)
theory KubeObjects
  imports Containers
begin

text \<open>
  The objects a cluster is made of beside its stateful sets, as the syncers write them: services, the
  configuration maps, the secret, the disruption budget and the objects of the access control; and the sum of them,
  which is what an event of the API server carries.
\<close>

record ServicePort =
  spt_Name :: string
  spt_Port :: nat
  spt_TargetPort :: nat
  spt_NodePort :: nat

record Service =
  svc_Name :: string
  svc_Namespace :: string
  svc_Labels :: smap
  svc_Type :: string
  svc_ClusterIP :: string
  svc_Selector :: smap
  svc_PublishNotReadyAddresses :: bool
  svc_Ports :: "ServicePort list"

text \<open>The nil map and the empty map of a configuration map are the same to the code.\<close>

record ConfigMapObj =
  cm_Name :: string
  cm_Namespace :: string
  cm_Labels :: smap
  cm_Data :: smap
  cm_ResourceVersion :: string
  cm_Owned :: bool

record SecretObj =
  sct_Name :: string
  sct_Namespace :: string
  sct_Data :: smap
  sct_ResourceVersion :: string

record PDBObj =
  pdb_Name :: string
  pdb_Namespace :: string
  pdb_MinAvailable :: "string option"
  pdb_Selector :: smap

record PolicyRule =
  pr_Verbs :: "string list"
  pr_APIGroups :: "string list"
  pr_Resources :: "string list"

record RoleObj =
  role_Name :: string
  role_Namespace :: string
  role_Labels :: smap
  role_Rules :: "PolicyRule list"

text \<open>The role reference is the kind and the name; a subject too.\<close>

record RoleBindingObj =
  rb_Name :: string
  rb_Namespace :: string
  rb_Labels :: smap
  rb_RoleRef :: "string \<times> string"
  rb_Subjects :: "(string \<times> string) list"

record ServiceAccountObj =
  sa_Name :: string
  sa_Namespace :: string
  sa_Labels :: smap

datatype KObj =
    KService Service | KConfigMap ConfigMapObj | KSecret SecretObj | KPDB PDBObj | KRole RoleObj
  | KRoleBinding RoleBindingObj | KServiceAccount ServiceAccountObj

definition obj_name :: "KObj \<Rightarrow> string" where
  "obj_name k = (case k of KService o1 \<Rightarrow> svc_Name o1 | KConfigMap o2 \<Rightarrow> cm_Name o2 | KSecret o3 \<Rightarrow> sct_Name o3
     | KPDB o4 \<Rightarrow> pdb_Name o4 | KRole o5 \<Rightarrow> role_Name o5 | KRoleBinding o6 \<Rightarrow> rb_Name o6 | KServiceAccount o7 \<Rightarrow> sa_Name o7)"

end
