(* ===== verification/Conversion.thy ===== *)
theory Conversion
  imports Cluster
begin

text \<open>
  \<open>api/v1beta1\<close>: the second version of the API and its conversion to and from the hub version
  v1alpha1 (\<open>mysqlcluster_conversion.go\<close> on top of the generated \<open>zz_generated.conversion.go\<close>).

  The conversion webhook hands each function a fresh output object, so a field no conversion
  writes has Go's zero value. Types that are the same in both versions (xenon options, read-only pods,
  remote source, the status) are one record here; the generated functions cast between them.
  A v1beta1 quantity is the number of its smallest units; \<open>resource.ParseQuantity\<close> and \<open>Quantity.String\<close> are
  library functions and parameters of the model. \<open>resource.MustParse\<close> panics when the
  text does not parse.
\<close>

section \<open>Date and time\<close>

text \<open>
  A time as it is shown in its location, to the second; the layout \<open>2006-01-02 15:04:05\<close> of
  \<open>time.Format\<close> and \<open>time.Parse\<close>. The parser takes one or two digits for the hour, and drops a fraction of a
  second, which the layout does not name but the library accepts.
\<close>

definition two_digits :: "nat \<Rightarrow> string" where
  "two_digits n = [digit_char (n div 10 mod 10), digit_char (n mod 10)]"

definition FormatTime :: "go_time \<Rightarrow> string" where
  "FormatTime t = two_digits (t_year t div 100) @ two_digits (t_year t) @ ''-'' @ two_digits (t_month t) @ ''-'' @
     two_digits (t_day t) @ '' '' @ two_digits (t_hour t) @ '':'' @ two_digits (t_minute t) @ '':'' @ two_digits (t_second t)"

definition leap_year :: "nat \<Rightarrow> bool" where
  "leap_year y \<longleftrightarrow> y mod 4 = 0 \<and> (y mod 100 \<noteq> 0 \<or> y mod 400 = 0)"

definition days_in :: "nat \<Rightarrow> nat \<Rightarrow> nat" where
  "days_in y m = (if m = 2 then (if leap_year y then 29 else 28) else if m \<in> {4, 6, 9, 11} then 30 else 31)"

definition valid_date :: "go_time \<Rightarrow> bool" where
  "valid_date t \<longleftrightarrow> t_year t < 10000 \<and> 1 \<le> t_month t \<and> t_month t \<le> 12 \<and> 1 \<le> t_day t \<and>
     t_day t \<le> days_in (t_year t) (t_month t) \<and> t_hour t < 24 \<and> t_minute t < 60 \<and> t_second t < 60"

fun take_digits :: "nat \<Rightarrow> string \<Rightarrow> (nat \<times> string) option" where
  "take_digits 0 s = Some (0, s)"
| "take_digits (Suc n) [] = None"
| "take_digits (Suc n) (c # cs) =
     (if is_digit c then (case take_digits n cs of None \<Rightarrow> None | Some (v, rest) \<Rightarrow> Some (digit_val c * 10 ^ n + v, rest)) else None)"

fun skip_char :: "char \<Rightarrow> string \<Rightarrow> string option" where
  "skip_char d [] = None"
| "skip_char d (c # cs) = (if c = d then Some cs else None)"

definition take_hour :: "string \<Rightarrow> (nat \<times> string) option" where
  "take_hour s = (case take_digits 2 s of Some r \<Rightarrow> Some r | None \<Rightarrow> take_digits 1 s)"

definition no_more :: "string \<Rightarrow> bool" where
  "no_more s \<longleftrightarrow> s = [] \<or> (hd s = CHR ''.'' \<and> tl s \<noteq> [] \<and> list_all is_digit (tl s))"

definition opt_bind :: "'a option \<Rightarrow> ('a \<Rightarrow> 'b option) \<Rightarrow> 'b option" where
  "opt_bind r f = (case r of None \<Rightarrow> None | Some x \<Rightarrow> f x)"

definition ParseTime :: "string \<Rightarrow> go_time res" where
  "ParseTime s =
     (case opt_bind (take_digits 4 s) (\<lambda>(y, s). opt_bind (skip_char (CHR ''-'') s) (\<lambda>s.
        opt_bind (take_digits 2 s) (\<lambda>(mo, s). opt_bind (skip_char (CHR ''-'') s) (\<lambda>s.
        opt_bind (take_digits 2 s) (\<lambda>(d, s). opt_bind (skip_char (CHR '' '') s) (\<lambda>s.
        opt_bind (take_hour s) (\<lambda>(h, s). opt_bind (skip_char (CHR '':'') s) (\<lambda>s.
        opt_bind (take_digits 2 s) (\<lambda>(mi, s). opt_bind (skip_char (CHR '':'') s) (\<lambda>s.
        opt_bind (take_digits 2 s) (\<lambda>(se, s). if no_more s then Some \<lparr>t_year = y, t_month = mo, t_day = d,
          t_hour = h, t_minute = mi, t_second = se\<rparr> else None)))))))))))
      of Some t \<Rightarrow> if valid_date t then Ok t else Fail (GErr ''parsing time: out of range'')
       | None \<Rightarrow> Fail (GErr ''parsing time''))"

lemma take_two_digits: "n < 100 \<Longrightarrow> take_digits 2 (two_digits n @ s) = Some (n, s)"
  by (simp add: two_digits_def numeral_2_eq_2 digit_char_props)

lemma take_four:
  "a < 10 \<Longrightarrow> b < 10 \<Longrightarrow> c < 10 \<Longrightarrow> d < 10 \<Longrightarrow>
   take_digits 4 (digit_char a # digit_char b # digit_char c # digit_char d # s) = Some (a * 1000 + (b * 100 + (c * 10 + d)), s)"
proof -
  have four: "4 = Suc (Suc (Suc (Suc 0)))" by simp
  assume "a < 10" "b < 10" "c < 10" "d < 10"
  then show ?thesis unfolding four by (simp add: digit_char_props)
qed

lemma take_year: "n < 10000 \<Longrightarrow> take_digits 4 (two_digits (n div 100) @ two_digits n @ s) = Some (n, s)"
proof -
  assume n: "n < 10000"
  define b where "b = n div 10"
  define c where "c = n div 100"
  have c: "c = b div 10" by (simp add: b_def c_def div_mult2_eq [symmetric])
  have "c div 10 < 10" using n by (simp add: c_def div_mult2_eq [symmetric] less_mult_imp_div_less)
  then have m: "c div 10 mod 10 = c div 10" by simp
  have "c div 10 * 10 + c mod 10 = c" "c * 10 + b mod 10 = b" "b * 10 + n mod 10 = n"
    unfolding c by (simp_all add: b_def)
  with m have "c div 10 mod 10 * 1000 + (c mod 10 * 100 + (b mod 10 * 10 + n mod 10)) = n" by linarith
  then have "n div 100 div 10 mod 10 * 1000 + (n div 100 mod 10 * 100 + (n div 10 mod 10 * 10 + n mod 10)) = n"
    by (simp only: b_def c_def)
  moreover have "take_digits 4 (two_digits (n div 100) @ two_digits n @ s) =
      Some (n div 100 div 10 mod 10 * 1000 + (n div 100 mod 10 * 100 + (n div 10 mod 10 * 10 + n mod 10)), s)"
    unfolding two_digits_def append_Cons append_Nil by (rule take_four) simp_all
  ultimately show ?thesis by simp
qed

lemma take_digits_nil: "0 < n \<Longrightarrow> take_digits n [] = None"
  by (cases n) simp_all

lemma parse_format:
  assumes "valid_date t"
  shows "ParseTime (FormatTime t) = Ok t"
proof -
  have "t_day t \<le> 31" using assms by (auto simp: valid_date_def days_in_def split: if_splits)
  with assms have b: "t_year t < 10000" "t_month t < 100" "t_day t < 100" "t_hour t < 100" "t_minute t < 100" "t_second t < 100"
    by (simp_all add: valid_date_def)
  have sec: "take_digits 2 (two_digits (t_second t)) = Some (t_second t, [])"
    using take_two_digits [OF b(6), of "[]"] by simp
  show ?thesis
    using assms by (simp add: ParseTime_def FormatTime_def opt_bind_def take_hour_def take_two_digits take_year b sec no_more_def
        valid_date_def)
qed

text \<open>
  A date written by the operator reads back: \<open>time.Parse\<close> of \<open>time.Format\<close> is the time, for every
  valid date and time of a four-digit year.
\<close>

theorem ParseTime_FormatTime:
  assumes "valid_date t"
  shows "ParseTime (FormatTime t) = Ok t"
  using assms by (rule parse_format)

theorem ParseTime_FormatTime_witness:
  "ParseTime (FormatTime \<lparr>t_year = 2024, t_month = 2, t_day = 29, t_hour = 7, t_minute = 5, t_second = 0\<rparr>) =
     Ok \<lparr>t_year = 2024, t_month = 2, t_day = 29, t_hour = 7, t_minute = 5, t_second = 0\<rparr>"
  by (rule ParseTime_FormatTime) (simp add: valid_date_def days_in_def leap_year_def)

section \<open>The status of a backup\<close>

definition BackupStart :: string where "BackupStart = ''Started''"
definition BackupFailed :: string where "BackupFailed = ''Failed''"
definition BackupComplete :: string where "BackupComplete = ''Complete''"
definition BackupSucceeded :: string where "BackupSucceeded = ''Succeeded''"
definition BackupActive :: string where "BackupActive = ''Active''"

lemmas backup_state_defs = BackupStart_def BackupFailed_def BackupComplete_def BackupSucceeded_def BackupActive_def

record ManualBackupStatus =
  mbs_Finished :: bool
  mbs_BackupName :: string
  mbs_StartTime :: "go_time option"
  mbs_CompletionTime :: "go_time option"
  mbs_Succeeded :: int
  mbs_Active :: int
  mbs_Failed :: int
  mbs_Reason :: string
  mbs_BackupType :: string
  mbs_BackupSize :: string
  mbs_Gtid :: string
  mbs_State :: string

record ScheduledBackupStatus =
  sbs_CronJobName :: string
  sbs_BackupName :: string
  sbs_Finished :: bool
  sbs_BackupType :: string
  sbs_StartTime :: "go_time option"
  sbs_CompletionTime :: "go_time option"
  sbs_Succeeded :: int
  sbs_Failed :: int
  sbs_Reason :: string
  sbs_BackupSize :: string
  sbs_Gtid :: string
  sbs_State :: string

record BetaBackupStatus =
  bbs_Type :: string
  bbs_BackupName :: string
  bbs_BackupSize :: string
  bbs_BackupType :: string
  bbs_StartTime :: "go_time option"
  bbs_CompletionTime :: "go_time option"
  bbs_State :: string
  bbs_Gtid :: string
  bbs_ManualBackup :: "ManualBackupStatus option"
  bbs_ScheduledBackups :: "ScheduledBackupStatus list"

definition true_condition :: "string \<Rightarrow> BackupCondition" where
  "true_condition t = \<lparr>bc_Type = t, bc_Status = CondTrue, bc_LastTransitionTime = None, bc_Reason = [], bc_Message = []\<rparr>"

definition Convert_BackupStatus_To_alpha :: "BetaBackupStatus \<Rightarrow> BackupStatus" where
  "Convert_BackupStatus_To_alpha i = \<lparr>
     bst_Completed = (bbs_State i = BackupFailed \<or> bbs_State i = BackupSucceeded),
     bst_BackupName = bbs_BackupName i,
     bst_BackupDate = (case bbs_CompletionTime i of None \<Rightarrow> [] | Some t \<Rightarrow> FormatTime t),
     bst_BackupType = bbs_BackupType i,
     bst_Gtid = bbs_Gtid i,
     bst_Conditions =
       (if bbs_State i = BackupFailed then [true_condition BackupStart, true_condition BackupFailed]
        else if bbs_State i = BackupSucceeded then [true_condition BackupStart, true_condition BackupComplete] else [])\<rparr>"

text \<open>The loop over the conditions; the \<open>break\<close> is the end of the recursion.\<close>

fun state_of_conditions :: "string \<Rightarrow> BackupCondition list \<Rightarrow> string" where
  "state_of_conditions st [] = st"
| "state_of_conditions st (c # cs) =
     (let st1 = (if bc_Type c = BackupStart \<and> bc_Status c = CondTrue \<and> st \<noteq> BackupSucceeded then BackupStart else st)
      in if bc_Type c = BackupComplete \<and> bc_Status c = CondTrue then BackupSucceeded
         else state_of_conditions st1 cs)"

definition Convert_BackupStatus_To_beta :: "BackupStatus \<Rightarrow> BetaBackupStatus res" where
  "Convert_BackupStatus_To_beta i =
     bind_res (ParseTime (bst_BackupDate i)) (\<lambda>t. Ok \<lparr>
       bbs_Type = [], bbs_BackupName = bst_BackupName i, bbs_BackupSize = [], bbs_BackupType = bst_BackupType i,
       bbs_StartTime = None, bbs_CompletionTime = Some t,
       bbs_State = (if bst_Completed i then state_of_conditions BackupFailed (bst_Conditions i) else []),
       bbs_Gtid = bst_Gtid i, bbs_ManualBackup = None, bbs_ScheduledBackups = []\<rparr>)"

text \<open>
  What is left of the status of a backup after a round trip through the hub version.
  Without a completion time the way back fails, so the status of a backup that has not
  finished cannot be read. A failed backup comes back as a started one, and the size, the start time, the
  initiator and the list of scheduled backups are lost.
\<close>

theorem BackupStatus_roundtrip:
  assumes "\<And>t. bbs_CompletionTime i = Some t \<Longrightarrow> valid_date t"
  shows "Convert_BackupStatus_To_beta (Convert_BackupStatus_To_alpha i) =
    (case bbs_CompletionTime i of
       None \<Rightarrow> Fail (GErr ''parsing time'')
     | Some t \<Rightarrow> Ok (i\<lparr>bbs_Type := [], bbs_BackupSize := [], bbs_StartTime := None,
         bbs_State := (if bbs_State i = BackupSucceeded then BackupSucceeded
                       else if bbs_State i = BackupFailed then BackupStart else []),
         bbs_ManualBackup := None, bbs_ScheduledBackups := []\<rparr>))"
proof (cases "bbs_CompletionTime i")
  case None
  then show ?thesis
    by (simp add: Convert_BackupStatus_To_alpha_def Convert_BackupStatus_To_beta_def ParseTime_def opt_bind_def
        take_digits_nil)
next
  case (Some t)
  have "ParseTime (FormatTime t) = Ok t"
    using assms [OF Some] by (rule parse_format)
  with Some show ?thesis
    by (cases i) (simp add: Convert_BackupStatus_To_alpha_def Convert_BackupStatus_To_beta_def true_condition_def backup_state_defs)
qed

section \<open>The specification of a cluster\<close>

record SecretProjection =
  sj_Name :: string
  sj_rest :: opaque

record ClaimSpec =
  cs_AccessModes :: "string list"
  cs_StorageClassName :: "string option"
  cs_Storage :: "int option"

record MySQLConfigs =
  mcf_ConfigMapName :: string
  mcf_MysqlConfig :: smap
  mcf_PluginConfig :: smap

record BackupOpts =
  bo_Image :: string
  bo_Resources :: ResourceRequirements

record ExporterSpec =
  ex_CustomTLSSecret :: "SecretProjection option"
  ex_Image :: string
  ex_Resources :: ResourceRequirements
  ex_Enabled :: bool

record NFSVolumeSource =
  nv_Server :: string
  nv_Path :: string

record NFSBackupDataSource =
  nb_Name :: string
  nb_Volume :: NFSVolumeSource

record DataSource =
  ds_SourceConfig :: "opaque option"
  ds_RemoteCluster :: "RemoteSourceStruct option"
  ds_S3Name :: string
  ds_S3SecretName :: string
  ds_NFSBackup :: "NFSBackupDataSource option"
  ds_RestorePoint :: string

record LogOpts =
  lo_BusyboxImage :: string
  lo_SlowLogTail :: bool
  lo_AuditLogTail :: bool
  lo_LogfilePVC :: "ClaimSpec option"
  lo_Resources :: ResourceRequirements

record BetaClusterSpec =
  bs_Replicas :: int
  bs_ReadOnlys :: "ReadOnlyType option"
  bs_ReplicaLag :: "int option"
  bs_User :: string
  bs_MySQLConfig :: MySQLConfigs
  bs_Resources :: ResourceRequirements
  bs_CustomTLSSecret :: "SecretProjection option"
  bs_Storage :: ClaimSpec
  bs_MysqlVersion :: string
  bs_Xenon :: XenonOpts
  bs_Backup :: BackupOpts
  bs_Exporter :: ExporterSpec
  bs_Image :: string
  bs_MaxLagSeconds :: int
  bs_ImagePullPolicy :: string
  bs_Tolerations :: "opaque list"
  bs_Affinity :: "opaque option"
  bs_PriorityClassName :: string
  bs_MinAvailable :: string
  bs_DataSource :: DataSource
  bs_Standby :: "opaque option"
  bs_EnableAutoRebuild :: bool
  bs_Log :: LogOpts
  bs_Service :: "opaque option"
  bs_LeaderAsFollower :: bool
  bs_ServerIDOffset :: int

definition FormatQuantity :: "(int \<Rightarrow> string) \<Rightarrow> int option \<Rightarrow> string" where
  "FormatQuantity fmt q = (case q of None \<Rightarrow> [] | Some n \<Rightarrow> if n = 0 then [] else fmt n)"

definition MustParse :: "(string \<Rightarrow> int option) \<Rightarrow> string \<Rightarrow> int res" where
  "MustParse parse s = (case parse s of None \<Rightarrow> Panic ''cannot parse quantity'' | Some n \<Rightarrow> Ok n)"

definition nfs_source :: "MysqlClusterSpec \<Rightarrow> NFSBackupDataSource option" where
  "nfs_source i = (if sp_NFSServerAddress i = [] then None else
     (let ipStr = split_on (CHR '':'') (sp_NFSServerAddress i) in
      Some \<lparr>nb_Name = sp_RestoreFrom i, nb_Volume = \<lparr>nv_Server = ipStr ! 0,
        nv_Path = (if length ipStr = 2 then ipStr ! 1 else ''/'')\<rparr>\<rparr>))"

definition data_source :: "MysqlClusterSpec \<Rightarrow> DataSource" where
  "data_source i =
     (let s3 = sp_BackupSecretName i \<noteq> []; nfs = sp_NFSServerAddress i \<noteq> [] in
      \<lparr>ds_SourceConfig = sp_SourceConfig i, ds_RemoteCluster = sp_RemoteCluster i,
       ds_S3Name = (if s3 then sp_RestoreFrom i else []),
       ds_S3SecretName = (if s3 then sp_BackupSecretName i else []),
       ds_NFSBackup = nfs_source i,
       ds_RestorePoint = (if s3 \<or> nfs then sp_RestorePoint i else [])\<rparr>)"

definition Convert_ClusterSpec_To_beta :: "(string \<Rightarrow> int option) \<Rightarrow> MysqlClusterSpec \<Rightarrow> BetaClusterSpec res" where
  "Convert_ClusterSpec_To_beta parse i =
     (let mo = sp_MysqlOpts i; pp = sp_PodPolicy i; pe = sp_Persistence i; me = sp_MetricsOpts i in
      bind_res (case mo_LogfilePVC mo of None \<Rightarrow> Ok None
        | Some l \<Rightarrow> bind_res (MustParse parse (lp_Size l)) (\<lambda>n. Ok (Some \<lparr>cs_AccessModes = lp_AccessModes l,
            cs_StorageClassName = lp_StorageClass l, cs_Storage = Some n\<rparr>))) (\<lambda>logpvc.
      bind_res (MustParse parse (pe_Size pe)) (\<lambda>size. Ok
      \<lparr>bs_Replicas = sp_Replicas i, bs_ReadOnlys = sp_ReadOnlys i, bs_ReplicaLag = sp_ReplicaLag i,
       bs_User = mo_User mo,
       bs_MySQLConfig = \<lparr>mcf_ConfigMapName = mo_MysqlConfTemplate mo, mcf_MysqlConfig = mo_MysqlConf mo,
         mcf_PluginConfig = mo_PluginConf mo\<rparr>,
       bs_Resources = mo_Resources mo,
       bs_CustomTLSSecret = (if sp_TlsSecretName i = [] then None else Some \<lparr>sj_Name = sp_TlsSecretName i, sj_rest = []\<rparr>),
       bs_Storage = \<lparr>cs_AccessModes = pe_AccessModes pe, cs_StorageClassName = pe_StorageClass pe, cs_Storage = Some size\<rparr>,
       bs_MysqlVersion = sp_MysqlVersion i, bs_Xenon = sp_XenonOpts i,
       bs_Backup = \<lparr>bo_Image = pp_SidecarImage pp, bo_Resources = pp_ExtraResources pp\<rparr>,
       bs_Exporter = \<lparr>ex_CustomTLSSecret = None, ex_Image = me_Image me, ex_Resources = me_Resources me, ex_Enabled = me_Enabled me\<rparr>,
       bs_Image = mo_Image mo, bs_MaxLagSeconds = mo_MaxLagSeconds mo, bs_ImagePullPolicy = pp_ImagePullPolicy pp,
       bs_Tolerations = pp_Tolerations pp, bs_Affinity = pp_Affinity pp, bs_PriorityClassName = pp_PriorityClassName pp,
       bs_MinAvailable = sp_MinAvailable i, bs_DataSource = data_source i, bs_Standby = None, bs_EnableAutoRebuild = False,
       bs_Log = \<lparr>lo_BusyboxImage = pp_BusyboxImage pp, lo_SlowLogTail = pp_SlowLogTail pp, lo_AuditLogTail = pp_AuditLogTail pp,
         lo_LogfilePVC = logpvc, lo_Resources = pp_ExtraResources pp\<rparr>,
       bs_Service = None, bs_LeaderAsFollower = sp_LeaderAsFollower i, bs_ServerIDOffset = sp_ServerIDOffset i\<rparr>)))"

definition nfs_address :: "DataSource \<Rightarrow> string" where
  "nfs_address d = (case ds_NFSBackup d of None \<Rightarrow> [] | Some n \<Rightarrow> nv_Server (nb_Volume n) @ '':'' @ nv_Path (nb_Volume n))"

definition Convert_ClusterSpec_To_alpha :: "(int \<Rightarrow> string) \<Rightarrow> BetaClusterSpec \<Rightarrow> MysqlClusterSpec" where
  "Convert_ClusterSpec_To_alpha fmt i =
     (let d = bs_DataSource i; lo = bs_Log i; ex = bs_Exporter i; s3 = ds_S3Name d \<noteq> [] in
      \<lparr>sp_Replicas = bs_Replicas i, sp_ReadOnlys = bs_ReadOnlys i, sp_ReplicaLag = bs_ReplicaLag i,
       sp_MinAvailable = bs_MinAvailable i,
       sp_MysqlOpts = \<lparr>mo_Image = bs_Image i, mo_RootPassword = [], mo_RootHost = [], mo_User = bs_User i, mo_Password = [],
         mo_Database = [], mo_InitTokuDB = False, mo_MysqlConfTemplate = mcf_ConfigMapName (bs_MySQLConfig i),
         mo_MysqlConf = mcf_MysqlConfig (bs_MySQLConfig i), mo_PluginConf = mcf_PluginConfig (bs_MySQLConfig i),
         mo_Resources = bs_Resources i, mo_MaxLagSeconds = 0,
         mo_LogfilePVC = map_option (\<lambda>l. \<lparr>lp_AccessModes = cs_AccessModes l, lp_StorageClass = cs_StorageClassName l,
           lp_Size = FormatQuantity fmt (cs_Storage l)\<rparr>) (lo_LogfilePVC lo)\<rparr>,
       sp_XenonOpts = (bs_Xenon i)\<lparr>xo_EnableAutoRebuild := bs_EnableAutoRebuild i\<rparr>,
       sp_MetricsOpts = \<lparr>me_Image = ex_Image ex, me_Resources = ex_Resources ex, me_Enabled = ex_Enabled ex\<rparr>,
       sp_MysqlVersion = bs_MysqlVersion i,
       sp_PodPolicy = \<lparr>pp_ImagePullPolicy = bs_ImagePullPolicy i, pp_Labels = [], pp_Annotations = [],
         pp_Affinity = bs_Affinity i, pp_PriorityClassName = bs_PriorityClassName i, pp_Tolerations = bs_Tolerations i,
         pp_SchedulerName = [], pp_ExtraResources = bo_Resources (bs_Backup i), pp_SidecarImage = bo_Image (bs_Backup i),
         pp_BusyboxImage = lo_BusyboxImage lo, pp_SlowLogTail = lo_SlowLogTail lo, pp_AuditLogTail = lo_AuditLogTail lo\<rparr>,
       sp_Persistence = \<lparr>pe_Enabled = False, pe_AccessModes = cs_AccessModes (bs_Storage i),
         pe_StorageClass = cs_StorageClassName (bs_Storage i), pe_Size = FormatQuantity fmt (cs_Storage (bs_Storage i))\<rparr>,
       sp_BackupSecretName = (if s3 then ds_S3SecretName d else []),
       sp_RestoreFrom = (case ds_NFSBackup d of Some n \<Rightarrow> nb_Name n | None \<Rightarrow> if s3 then ds_S3Name d else []),
       sp_RestorePoint = (if s3 \<or> ds_NFSBackup d \<noteq> None then ds_RestorePoint d else []),
       sp_NFSServerAddress = nfs_address d, sp_BackupSchedule = [], sp_BothS3NFS = None,
       sp_BackupScheduleJobsHistoryLimit = None,
       sp_TlsSecretName = (case bs_CustomTLSSecret i of None \<Rightarrow> [] | Some t \<Rightarrow> sj_Name t),
       sp_SourceConfig = ds_SourceConfig d, sp_RemoteCluster = ds_RemoteCluster d,
       sp_LeaderAsFollower = bs_LeaderAsFollower i, sp_ServerIDOffset = bs_ServerIDOffset i\<rparr>)"

text \<open>What of a v1beta1 data source survives: one backup name, one restore point, a plain NFS address.\<close>

definition source_kept :: "DataSource \<Rightarrow> bool" where
  "source_kept d \<longleftrightarrow> (ds_S3Name d = [] \<longleftrightarrow> ds_S3SecretName d = []) \<and>
     (ds_S3Name d = [] \<and> ds_NFSBackup d = None \<longrightarrow> ds_RestorePoint d = []) \<and>
     (\<forall>n. ds_NFSBackup d = Some n \<longrightarrow> (ds_S3Name d \<noteq> [] \<longrightarrow> nb_Name n = ds_S3Name d) \<and>
        CHR '':'' \<notin> set (nv_Server (nb_Volume n)) \<and> CHR '':'' \<notin> set (nv_Path (nb_Volume n)))"

definition sized :: "ClaimSpec \<Rightarrow> bool" where
  "sized c \<longleftrightarrow> (\<exists>n. cs_Storage c = Some n \<and> n \<noteq> 0)"

lemma data_source_back:
  "source_kept (bs_DataSource b) \<Longrightarrow> data_source (Convert_ClusterSpec_To_alpha fmt b) = bs_DataSource b"
  by (cases "ds_NFSBackup (bs_DataSource b)")
     (auto simp: source_kept_def data_source_def nfs_source_def Convert_ClusterSpec_To_alpha_def Let_def nfs_address_def
       split_on_append split_on_no_sep intro!: DataSource.equality NFSBackupDataSource.equality NFSVolumeSource.equality)

lemma parse_back:
  "\<forall>n. n \<noteq> 0 \<longrightarrow> parse (fmt n) = Some n \<Longrightarrow> sized c \<Longrightarrow> MustParse parse (FormatQuantity fmt (cs_Storage c)) = Ok (the (cs_Storage c))"
  by (auto simp: sized_def MustParse_def FormatQuantity_def)

lemma claim_back:
  "sized c \<Longrightarrow> \<lparr>cs_AccessModes = cs_AccessModes c, cs_StorageClassName = cs_StorageClassName c, cs_Storage = Some (the (cs_Storage c))\<rparr> = c"
  by (cases c) (auto simp: sized_def)

lemma log_claim_back:
  assumes "\<forall>n. n \<noteq> 0 \<longrightarrow> parse (fmt n) = Some n" "\<forall>c. p = Some c \<longrightarrow> sized c"
  shows "(case map_option (\<lambda>l. \<lparr>lp_AccessModes = cs_AccessModes l, lp_StorageClass = cs_StorageClassName l,
           lp_Size = FormatQuantity fmt (cs_Storage l)\<rparr>) p of None \<Rightarrow> Ok None
        | Some l \<Rightarrow> bind_res (MustParse parse (lp_Size l)) (\<lambda>n. Ok (Some \<lparr>cs_AccessModes = lp_AccessModes l,
            cs_StorageClassName = lp_StorageClass l, cs_Storage = Some n\<rparr>))) = Ok p"
proof (cases p)
  case (Some c)
  then show ?thesis using parse_back [OF assms(1), of c] claim_back [of c] assms(2) by simp
qed simp


text \<open>
  Reading a stored cluster as v1beta1 panics exactly when the size of its data claim, or of its log
  claim if it has one, does not parse.
\<close>

theorem Convert_ClusterSpec_panics_iff:
  "is_panic (Convert_ClusterSpec_To_beta parse a) \<longleftrightarrow>
     parse (pe_Size (sp_Persistence a)) = None \<or>
     (\<exists>l. mo_LogfilePVC (sp_MysqlOpts a) = Some l \<and> parse (lp_Size l) = None)"
  by (cases "parse (pe_Size (sp_Persistence a))"; cases "mo_LogfilePVC (sp_MysqlOpts a)")
     (auto simp: Convert_ClusterSpec_To_beta_def Let_def MustParse_def split: option.split)

text \<open>
  What a stored cluster loses when it is read as v1beta1 and written back: its passwords, host
  and database of the root and user accounts, the lag limit of the probe, the automatic
  rebuild, the labels, annotations and scheduler of its pods, its backup schedules, and that it is persistent at all.
\<close>

theorem ClusterSpec_roundtrip_loses:
  assumes "Convert_ClusterSpec_To_beta parse a = Ok b"
  shows "let c = Convert_ClusterSpec_To_alpha fmt b; mo = sp_MysqlOpts c; pp = sp_PodPolicy c in
     mo_RootPassword mo = [] \<and> mo_RootHost mo = [] \<and> mo_Password mo = [] \<and> mo_Database mo = [] \<and>
     \<not> mo_InitTokuDB mo \<and> mo_MaxLagSeconds mo = 0 \<and> \<not> xo_EnableAutoRebuild (sp_XenonOpts c) \<and>
     pp_Labels pp = [] \<and> pp_Annotations pp = [] \<and> pp_SchedulerName pp = [] \<and>
     sp_BackupSchedule c = [] \<and> sp_BothS3NFS c = None \<and> sp_BackupScheduleJobsHistoryLimit c = None \<and>
     \<not> pe_Enabled (sp_Persistence c) \<and> mo_Image mo = mo_Image (sp_MysqlOpts a) \<and> sp_Replicas c = sp_Replicas a"
  using assms
  by (auto simp: Convert_ClusterSpec_To_beta_def Convert_ClusterSpec_To_alpha_def Let_def bind_res_Ok)

section \<open>Witnesses\<close>

theorem BackupStatus_roundtrip_witness:
  "\<forall>i. Convert_BackupStatus_To_beta (Convert_BackupStatus_To_alpha (i\<lparr>bbs_CompletionTime := None, bbs_State := ''Active''\<rparr>)) =
     Fail (GErr ''parsing time'')"
proof
  fix i
  show "Convert_BackupStatus_To_beta (Convert_BackupStatus_To_alpha (i\<lparr>bbs_CompletionTime := None, bbs_State := ''Active''\<rparr>)) =
     Fail (GErr ''parsing time'')"
    using BackupStatus_roundtrip [of "i\<lparr>bbs_CompletionTime := None, bbs_State := ''Active''\<rparr>"] by simp
qed

text \<open>Plain integers as quantities.\<close>

definition parse_plain :: "string \<Rightarrow> int option" where
  "parse_plain s = (case s of [] \<Rightarrow> None | c # cs \<Rightarrow>
     if c = CHR ''-'' then Some (- int (digits_val cs)) else Some (int (digits_val s)))"

lemma parse_plain_int_str: "parse_plain (int_str n) = Some n"
proof (cases "n < 0")
  case False
  obtain c cs where s: "nat_str (nat n) = c # cs" by (cases "nat_str (nat n)") auto
  then have "c \<noteq> CHR ''-''" using nat_str_not_in(1) [of "nat n"] by auto
  with s False digits_val_nat_str [of "nat n"] show ?thesis by (simp add: parse_plain_def int_str_def)
qed (simp add: parse_plain_def int_str_def)

definition plain_source :: DataSource where
  "plain_source = \<lparr>ds_SourceConfig = None, ds_RemoteCluster = None, ds_S3Name = [], ds_S3SecretName = [],
     ds_NFSBackup = Some \<lparr>nb_Name = ''b'', nb_Volume = \<lparr>nv_Server = ''10.0.0.1'', nv_Path = ''/p''\<rparr>\<rparr>, ds_RestorePoint = ''t''\<rparr>"


theorem ClusterSpec_roundtrip_loses_witness:
  "\<forall>a. pe_Enabled (sp_Persistence (Convert_ClusterSpec_To_alpha int_str (case Convert_ClusterSpec_To_beta (\<lambda>_. Some 1) a of Ok b \<Rightarrow> b))) = False"
proof
  fix a
  have "\<not> is_panic (Convert_ClusterSpec_To_beta (\<lambda>_. Some 1) a)" "\<And>e. Convert_ClusterSpec_To_beta (\<lambda>_. Some 1) a \<noteq> Fail e"
    by (auto simp: Convert_ClusterSpec_To_beta_def Let_def MustParse_def split: option.split)
  then obtain b where b: "Convert_ClusterSpec_To_beta (\<lambda>_. Some 1) a = Ok b"
    by (cases "Convert_ClusterSpec_To_beta (\<lambda>_. Some 1) a") auto
  from ClusterSpec_roundtrip_loses [OF b] b
  show "pe_Enabled (sp_Persistence (Convert_ClusterSpec_To_alpha int_str (case Convert_ClusterSpec_To_beta (\<lambda>_. Some 1) a of Ok b \<Rightarrow> b))) = False"
    by (simp add: Let_def)
qed

end
