(* ===== verification/CtlTypes.thy ===== *)
theory CtlTypes
  imports KubeObjects Conversion
begin

text \<open>
  The objects the controllers work on beside the cluster itself: batch jobs and cron jobs, the v1beta1
  backup and cluster, the entries of the in-process cron, and services; and the events the
  controllers cause with them.
\<close>

section \<open>Jobs\<close>

record JobContainer =
  kc_Name :: string
  kc_Image :: string
  kc_ImagePullPolicy :: string
  kc_Command :: "string list"
  kc_Args :: "string list"
  kc_Env :: "EnvVar list"
  kc_VolumeMounts :: "VolumeMount list"

text \<open>\<open>batchv1.JobSpec\<close> with its pod template.\<close>

record JobSpec =
  js_Labels :: smap
  js_RestartPolicy :: string
  js_InitContainers :: "JobContainer list"
  js_Containers :: "JobContainer list"
  js_Volumes :: "Volume list"
  js_ServiceAccountName :: string
  js_Tolerations :: "opaque list"
  js_Affinity :: "opaque option"
  js_Completions :: "int option"
  js_BackoffLimit :: "int option"

record JobCondition =
  jc_Type :: string
  jc_Status :: ConditionStatus
  jc_Reason :: string
  jc_Message :: string

definition JobComplete :: string where "JobComplete = ''Complete''"
definition JobFailed :: string where "JobFailed = ''Failed''"

text \<open>\<open>job_Owners\<close> are the names of the owner references.\<close>

record Job =
  job_Name :: string
  job_Namespace :: string
  job_Labels :: smap
  job_Annotations :: smap
  job_Owners :: "string list"
  job_CreationTimestamp :: time
  job_Conditions :: "JobCondition list"
  job_StartTime :: "go_time option"
  job_CompletionTime :: "go_time option"
  job_Succeeded :: int
  job_Active :: int
  job_Failed :: int
  job_Spec :: JobSpec

definition empty_job_spec :: JobSpec where
  "empty_job_spec = \<lparr>js_Labels = Map.empty, js_RestartPolicy = [], js_InitContainers = [], js_Containers = [], js_Volumes = [],
     js_ServiceAccountName = [], js_Tolerations = [], js_Affinity = None, js_Completions = None, js_BackoffLimit = None\<rparr>"

definition empty_container :: JobContainer where
  "empty_container = \<lparr>kc_Name = [], kc_Image = [], kc_ImagePullPolicy = [], kc_Command = [], kc_Args = [], kc_Env = [],
     kc_VolumeMounts = []\<rparr>"

definition new_job :: "string \<Rightarrow> string \<Rightarrow> Job" where
  "new_job name ns = \<lparr>job_Name = name, job_Namespace = ns, job_Labels = Map.empty, job_Annotations = Map.empty,
     job_Owners = [], job_CreationTimestamp = None, job_Conditions = [], job_StartTime = None, job_CompletionTime = None,
     job_Succeeded = 0, job_Active = 0, job_Failed = 0, job_Spec = empty_job_spec\<rparr>"

record BatchCronJob =
  cj_Name :: string
  cj_Namespace :: string
  cj_Labels :: smap
  cj_Deleting :: bool
  cj_Schedule :: string
  cj_Suspend :: bool
  cj_ConcurrencyPolicy :: string
  cj_JobSpec :: JobSpec
  cj_Owner :: string

section \<open>v1beta1 backups and clusters\<close>

record ManualBackup =
  mb_BackupType :: string
  mb_BackupRetention :: "int option"

record BackupSchedule =
  bsc_CronExpression :: string
  bsc_BackupRetention :: "int option"
  bsc_BackupType :: string
  bsc_BackupJobHistoryLimit :: "int option"

text \<open>\<open>BackupOps\<close>: the secret names of \<open>S3\<close> and \<open>S3Binlog\<close>, the volume of \<open>NFS\<close>.\<close>

record BackupOps =
  bop_BackupHost :: string
  bop_S3 :: "string option"
  bop_NFS :: "NFSVolumeSource option"
  bop_S3Binlog :: "string option"

record BetaBackupSpec =
  bbp_ClusterName :: string
  bbp_BackupMethod :: string
  bbp_Manual :: "ManualBackup option"
  bbp_BackupSchedule :: "BackupSchedule option"
  bbp_BackupOpts :: BackupOps

record BetaBackup =
  bb_Name :: string
  bb_Namespace :: string
  bb_Labels :: smap
  bb_Spec :: BetaBackupSpec
  bb_Status :: BetaBackupStatus

record BetaCluster =
  bcl_Name :: string
  bcl_Namespace :: string
  bcl_Spec :: BetaClusterSpec
  bcl_Status :: MysqlClusterStatus

section \<open>The cron in the operator's process\<close>

text \<open>
  An entry of \<open>cron.Cron\<close>: its name, its schedule, and the \<open>backup.CronJob\<close> it runs.
\<close>

record CronEntry =
  ce_Name :: string
  ce_Schedule :: opaque
  ce_ClusterName :: string
  ce_Namespace :: string
  ce_BackupScheduleJobsHistoryLimit :: "int option"
  ce_Image :: string
  ce_NFSServerAddress :: string
  ce_BackupType :: string

section \<open>Events of the controllers\<close>

datatype ctl_event =
    EvGetJob string string
  | EvCreateJob Job
  | EvUpdateJob Job
  | EvListJobs string smap
  | EvListCronJobs string smap
  | EvDeleteJob string
  | EvApplyJob Job
  | EvApplyCronJob BatchCronJob
  | EvGetBackup string string
  | EvListAllBackups
  | EvListBackupsBy string smap
  | EvCreateBackup Backup
  | EvDeleteBackup string
  | EvUpdateBackupStatus Backup
  | EvUpdateBackup Backup
  | EvGetBetaBackup string string
  | EvGetBetaCluster string string
  | EvUpdateBetaBackup BetaBackup
  | EvPatchBetaStatus BetaBackup
  | EvCronRemove string
  | EvCronSchedule CronEntry
  | EvCronImage string string              \<comment> \<open>entry, image\<close>
  | EvGetUser string string
  | EvUpdateUser MysqlUser
  | EvUpdateUserStatus MysqlUser
  | EvListServices string smap
  | EvDeleteSvc string
  | EvUpdateCluster MysqlCluster
  | EvPatchClusterStatus MysqlCluster
  | EvGetObj string string                 \<comment> \<open>namespace, name\<close>
  | EvCreateObj KObj
  | EvUpdateObj KObj
  | EvEventf string                        \<comment> \<open>an event of the recorder, by its type\<close>

record CtlAnswers =
  ca_job :: Job
  ca_jobs :: "Job list"
  ca_cronjobs :: "BatchCronJob list"
  ca_backup :: Backup
  ca_backups :: "Backup list"
  ca_beta_backup :: BetaBackup
  ca_beta_cluster :: BetaCluster
  ca_entries :: "CronEntry list"
  ca_user :: MysqlUser
  ca_services :: "Service list"
  ca_obj :: KObj
  ca_random :: string
  ca_clock :: go_time

end
