(* ===== verification/UserSql.thy ===== *)
theory UserSql
  imports ApiTypes
begin

text \<open>
  \<open>internal/query.go\<close> and the user-management half of \<open>internal/sql_runner.go\<close>: queries with
  positional arguments, their concatenation in a transaction, the CREATE/ALTER/GRANT
  statements for a \<open>MysqlUser\<close>, and the escaping of identifiers and privileges.
\<close>

section \<open>Queries\<close>

record Query =
  q_sql :: string
  q_args :: "string list"

definition NewQuery :: "string \<Rightarrow> string list \<Rightarrow> Query" where
  "NewQuery q args = \<lparr>q_sql = (if \<not> has_suffix q '';'' then q @ '';'' else q), q_args = args\<rparr>"

fun concat_loop :: "Query list \<Rightarrow> string \<Rightarrow> string list \<Rightarrow> string \<times> string list" where
  "concat_loop [] query args = (query, args)"
| "concat_loop (pq # queries) query args =
     (let query = (if query \<noteq> [] then (if \<not> has_suffix query [CHR 0x0A] then query @ [CHR 0x0A] else query) else query)
      in concat_loop queries (query @ q_sql pq) (args @ q_args pq))"

definition ConcatenateQueries :: "Query list \<Rightarrow> Query" where
  "ConcatenateQueries queries = (case concat_loop queries [] [] of (query, args) \<Rightarrow> NewQuery query args)"

definition BuildAtomicQuery :: "Query list \<Rightarrow> Query" where
  "BuildAtomicQuery queries = ConcatenateQueries ([NewQuery ''BEGIN'' []] @ queries @ [NewQuery ''COMMIT'' []])"

section \<open>Escaping\<close>

definition backslash :: char where "backslash = CHR 0x5C"
definition quote1 :: char where "quote1 = CHR 0x27"
definition quote2 :: char where "quote2 = CHR 0x22"
definition backtick :: char where "backtick = CHR 0x60"

definition escape_code :: "char \<Rightarrow> char option" where
  "escape_code c =
     (if c = CHR 0x00 then Some (CHR ''0'')
      else if c = CHR 0x0A then Some (CHR ''n'')
      else if c = CHR 0x0D then Some (CHR ''r'')
      else if c = backslash then Some backslash
      else if c = quote1 then Some quote1
      else if c = quote2 then Some quote2
      else if c = CHR 0x1A then Some (CHR ''Z'')
      else None)"

fun Escape :: "string \<Rightarrow> string" where
  "Escape [] = []"
| "Escape (c # cs) = (case escape_code c of
      Some e \<Rightarrow> backslash # e # Escape cs
    | None \<Rightarrow> c # Escape cs)"

definition escapeID :: "string \<Rightarrow> string" where
  "escapeID ident = (if ident = ''*'' then ident else [backtick] @ remove_char backtick ident @ [backtick])"

section \<open>User statements\<close>

text \<open>The loop over the allowed hosts; \<open>pwd = None\<close> is the nil password pointer.\<close>

fun users_ident_loop :: "nat \<Rightarrow> string \<Rightarrow> string option \<Rightarrow> string list \<Rightarrow> string \<times> string list" where
  "users_ident_loop i user pwd [] = ([], [])"
| "users_ident_loop i user pwd (host # hosts) =
     (case users_ident_loop (Suc i) user pwd hosts of (ids, args) \<Rightarrow>
      ((if i > 0 then '','' else []) @
         (case pwd of Some p \<Rightarrow> '' ?@? IDENTIFIED BY ?'' | None \<Rightarrow> '' ?@?'') @ ids,
       (case pwd of Some p \<Rightarrow> [user, host, p] | None \<Rightarrow> [user, host]) @ args))"

definition getUsersIdentification :: "string \<Rightarrow> string option \<Rightarrow> string list \<Rightarrow> string \<times> string list" where
  "getUsersIdentification user pwd allowedHosts = users_ident_loop 0 user pwd allowedHosts"

definition getUserTLSRequire :: "string \<Rightarrow> string" where
  "getUserTLSRequire tls = '' REQUIRE '' @ tls"

definition getCreateUserQuery :: "string \<Rightarrow> string \<Rightarrow> string list \<Rightarrow> string \<Rightarrow> Query" where
  "getCreateUserQuery user pwd allowedHosts tls =
     (case getUsersIdentification user (Some pwd) allowedHosts of (idsTmpl, idsArgs) \<Rightarrow>
      NewQuery (''CREATE USER IF NOT EXISTS'' @ idsTmpl @ getUserTLSRequire tls) idsArgs)"

definition getAlterUserQuery :: "string \<Rightarrow> string \<Rightarrow> string list \<Rightarrow> Query" where
  "getAlterUserQuery user pwd allowedHosts =
     (case getUsersIdentification user (Some pwd) allowedHosts of (ids, idsArgs) \<Rightarrow>
      NewQuery (''ALTER USER'' @ ids) idsArgs)"

definition grant_query :: "UserPermission \<Rightarrow> string \<Rightarrow> string list \<Rightarrow> bool \<Rightarrow> string \<Rightarrow> Query" where
  "grant_query perm user allowedHosts withGrant table =
     (let escPerms = map Escape (up_Privileges perm);
          schemaTable = escapeID (up_Database perm) @ ''.'' @ escapeID table
      in case getUsersIdentification user None allowedHosts of (idsTmpl, idsArgs) \<Rightarrow>
           NewQuery (''GRANT '' @ join_with '', '' escPerms @ '' ON '' @ schemaTable @ '' TO'' @ idsTmpl @
             (if withGrant then '' WITH GRANT OPTION'' else [])) idsArgs)"

definition permissionsToQuery :: "UserPermission list \<Rightarrow> string \<Rightarrow> string list \<Rightarrow> bool \<Rightarrow> Query" where
  "permissionsToQuery permissions user allowedHosts withGrant =
     ConcatenateQueries (concat (map (\<lambda>perm. map (grant_query perm user allowedHosts withGrant) (up_Tables perm))
       permissions))"

definition BuildUserManagementSQL :: "UserSpec \<Rightarrow> string \<Rightarrow> Query res" where
  "BuildUserManagementSQL user pass =
     (if length (us_Hosts user) = 0 then Fail (GErr ''no allowedHosts specified'')
      else
        let queries = [getCreateUserQuery (us_User user) pass (us_Hosts user) (us_TLSType user),
                       getAlterUserQuery (us_User user) pass (us_Hosts user)];
            queries = (if length (us_Permissions user) > 0
              then queries @ [permissionsToQuery (us_Permissions user) (us_User user) (us_Hosts user) (us_WithGrantOption user)]
              else queries)
        in Ok (BuildAtomicQuery queries))"

definition DropUser_query :: "string \<Rightarrow> string \<Rightarrow> Query" where
  "DropUser_query user host = NewQuery ''DROP USER IF EXISTS ?@?;'' [user, host]"

section \<open>Placeholders and arguments\<close>

text \<open>A query is balanced when it has one \<open>?\<close> per argument.\<close>

definition holes :: "string \<Rightarrow> nat" where
  "holes s = count_list s (CHR ''?'')"

definition balanced :: "Query \<Rightarrow> bool" where
  "balanced q \<longleftrightarrow> holes (q_sql q) = length (q_args q)"

lemma holes_simps [simp]:
  "holes [] = 0" "holes (s @ t) = holes s + holes t"
  "holes (c # s) = (if c = CHR ''?'' then Suc (holes s) else holes s)"
  by (simp_all add: holes_def)

lemma holes_absent: "CHR ''?'' \<notin> set s \<Longrightarrow> holes s = 0"
  by (simp add: holes_def)

lemma NewQuery_holes [simp]: "holes (q_sql (NewQuery q args)) = holes q" "q_args (NewQuery q args) = args"
  by (simp_all add: NewQuery_def)

lemma NewQuery_suffix: "has_suffix (q_sql (NewQuery q args)) '';''"
  by (simp add: NewQuery_def has_suffix_def)

lemma concat_loop_args:
  "snd (concat_loop qs query args) = args @ concat (map q_args qs)"
  by (induction qs query args rule: concat_loop.induct) (auto simp: Let_def)

lemma concat_loop_holes:
  "holes (fst (concat_loop qs query args)) = holes query + sum_list (map (\<lambda>q. holes (q_sql q)) qs)"
  by (induction qs query args rule: concat_loop.induct) (auto simp: Let_def)

lemma concat_loop_prefix: "\<exists>t. fst (concat_loop qs query args) = query @ t"
proof (induction qs query args rule: concat_loop.induct)
  case (2 pq qs query args)
  then show ?case by (auto simp: Let_def)
qed simp

lemma concat_loop_snoc:
  "\<exists>t. fst (concat_loop (qs @ [q]) query args) = t @ q_sql q"
  by (induction qs query args rule: concat_loop.induct) (auto simp: Let_def)

lemma ConcatenateQueries_eq:
  "ConcatenateQueries qs = NewQuery (fst (concat_loop qs [] [])) (snd (concat_loop qs [] []))"
  by (simp add: ConcatenateQueries_def case_prod_unfold)

lemma NewQuery_id: "has_suffix q '';'' \<Longrightarrow> q_sql (NewQuery q args) = q"
  by (simp add: NewQuery_def)

lemma ConcatenateQueries_args: "q_args (ConcatenateQueries qs) = concat (map q_args qs)"
  by (simp add: ConcatenateQueries_eq concat_loop_args)

lemma ConcatenateQueries_holes:
  "holes (q_sql (ConcatenateQueries qs)) = sum_list (map (\<lambda>q. holes (q_sql q)) qs)"
  by (simp add: ConcatenateQueries_eq concat_loop_holes)

lemma balanced_concat:
  "(\<And>q. q \<in> set qs \<Longrightarrow> balanced q) \<Longrightarrow> balanced (ConcatenateQueries qs)"
  by (induction qs)
     (auto simp: balanced_def ConcatenateQueries_args ConcatenateQueries_holes)

lemma users_ident_loop_balanced:
  "users_ident_loop i user pwd hosts = (ids, args) \<Longrightarrow>
   holes ids = length args \<and>
   args = concat (map (\<lambda>h. case pwd of Some p \<Rightarrow> [user, h, p] | None \<Rightarrow> [user, h]) hosts)"
  by (induction i user pwd hosts arbitrary: ids args rule: users_ident_loop.induct)
     (auto split: prod.splits option.splits)

lemma getUsersIdentification_balanced:
  "getUsersIdentification user pwd hosts = (ids, args) \<Longrightarrow>
   holes ids = length args \<and>
   args = concat (map (\<lambda>h. case pwd of Some p \<Rightarrow> [user, h, p] | None \<Rightarrow> [user, h]) hosts)"
  unfolding getUsersIdentification_def by (rule users_ident_loop_balanced)

lemma escape_code_plain: "escape_code c = Some e \<Longrightarrow> e \<noteq> CHR ''?''"
  by (auto simp: escape_code_def backslash_def quote1_def quote2_def split: if_splits)

lemma holes_Escape: "holes (Escape s) = holes s"
  by (induction s)
     (auto split: option.split dest: escape_code_plain simp: escape_code_def backslash_def quote1_def quote2_def)

lemma holes_join: "CHR ''?'' \<notin> set sep \<Longrightarrow> holes (join_with sep xs) = sum_list (map holes xs)"
  by (induction sep xs rule: join_with.induct) (auto simp: holes_absent)

lemma holes_escapeID: "holes (escapeID s) = holes s"
proof -
  have "holes (remove_char backtick s) = holes s"
    by (induction s) (auto simp: remove_char_def backtick_def)
  then show ?thesis by (simp add: escapeID_def backtick_def)
qed

text \<open>What a permission may hold so that it adds no placeholder of its own.\<close>

definition hole_free :: "UserPermission \<Rightarrow> bool" where
  "hole_free perm \<longleftrightarrow> holes (up_Database perm) = 0 \<and> list_all (\<lambda>t. holes t = 0) (up_Tables perm) \<and>
     list_all (\<lambda>p. holes p = 0) (up_Privileges perm)"

lemma sum_list_zero: "list_all (\<lambda>x. f x = 0) xs \<Longrightarrow> sum_list (map f xs) = (0::nat)"
  by (induction xs) auto

lemma grant_query_args:
  "q_args (grant_query perm user hosts wg table) = concat (map (\<lambda>h. [user, h]) hosts)"
  using getUsersIdentification_balanced [of user None hosts]
  by (auto simp: grant_query_def split: prod.split)

lemma grant_query_balanced:
  assumes "hole_free perm" "table \<in> set (up_Tables perm)"
  shows "balanced (grant_query perm user hosts wg table)"
proof -
  have "holes table = 0" using assms by (auto simp: hole_free_def list_all_iff)
  moreover have "sum_list (map (holes \<circ> Escape) (up_Privileges perm)) = 0"
    by (rule sum_list_zero) (use assms(1) in \<open>simp add: hole_free_def holes_Escape\<close>)
  ultimately show ?thesis
    using assms(1) getUsersIdentification_balanced [of user None hosts]
    by (auto simp: balanced_def grant_query_def holes_join holes_escapeID hole_free_def Let_def split: prod.split)
qed

lemma permissionsToQuery_args:
  "q_args (permissionsToQuery ps user hosts wg) =
     concat (map (\<lambda>_. concat (map (\<lambda>h. [user, h]) hosts)) (concat (map up_Tables ps)))"
  by (induction ps)
     (simp_all add: permissionsToQuery_def ConcatenateQueries_args grant_query_args comp_def)

lemma permissionsToQuery_balanced:
  "list_all hole_free ps \<Longrightarrow> balanced (permissionsToQuery ps user hosts wg)"
  unfolding permissionsToQuery_def
  by (rule balanced_concat) (auto simp: list_all_iff grant_query_balanced)

lemma create_alter_args:
  "q_args (getCreateUserQuery u p hosts tls) = concat (map (\<lambda>h. [u, h, p]) hosts)"
  "q_args (getAlterUserQuery u p hosts) = concat (map (\<lambda>h. [u, h, p]) hosts)"
  using getUsersIdentification_balanced [of u "Some p" hosts]
  by (auto simp: getCreateUserQuery_def getAlterUserQuery_def split: prod.split)

lemma create_alter_balanced:
  "holes tls = 0 \<Longrightarrow> balanced (getCreateUserQuery u p hosts tls)"
  "balanced (getAlterUserQuery u p hosts)"
  using getUsersIdentification_balanced [of u "Some p" hosts]
  by (auto simp: balanced_def getCreateUserQuery_def getAlterUserQuery_def getUserTLSRequire_def split: prod.split)

lemma NewQuery_words [simp]:
  "q_sql (NewQuery ''BEGIN'' []) = ''BEGIN;''" "q_sql (NewQuery ''COMMIT'' []) = ''COMMIT;''"
  by (simp_all add: NewQuery_def has_suffix_def suffix_def)

lemma BuildAtomicQuery_shape:
  "has_prefix (q_sql (BuildAtomicQuery qs)) ''BEGIN;'' \<and> has_suffix (q_sql (BuildAtomicQuery qs)) ''COMMIT;'' \<and>
   q_args (BuildAtomicQuery qs) = concat (map q_args qs)"
proof -
  define all where "all = [NewQuery ''BEGIN'' []] @ qs @ [NewQuery ''COMMIT'' []]"
  define body where "body = fst (concat_loop all [] [])"
  have "\<exists>t. body = ''BEGIN;'' @ t"
    using concat_loop_prefix [of "qs @ [NewQuery ''COMMIT'' []]" "''BEGIN;''" "[]"]
    by (simp add: body_def all_def)
  moreover have suf: "\<exists>t. body = t @ ''COMMIT;''"
    using concat_loop_snoc [of "[NewQuery ''BEGIN'' []] @ qs" "NewQuery ''COMMIT'' []" "[]" "[]"]
    by (simp add: body_def all_def)
  moreover have "has_suffix body '';''"
    using suf by (auto simp: has_suffix_def suffix_def intro: exI [of _ "t @ ''COMMIT''" for t])
  then have "q_sql (BuildAtomicQuery qs) = body"
    unfolding BuildAtomicQuery_def ConcatenateQueries_eq all_def [symmetric] body_def by (rule NewQuery_id)
  moreover have "q_args (BuildAtomicQuery qs) = concat (map q_args qs)"
    by (simp add: BuildAtomicQuery_def ConcatenateQueries_args)
  ultimately show ?thesis by (auto simp: has_prefix_def has_suffix_def prefix_def suffix_def)
qed

lemma BuildAtomicQuery_balanced:
  "(\<And>q. q \<in> set qs \<Longrightarrow> balanced q) \<Longrightarrow> balanced (BuildAtomicQuery qs)"
  unfolding BuildAtomicQuery_def
  by (rule balanced_concat) (auto simp: balanced_def)

text \<open>
  C19. The user-management query is one transaction (it starts with BEGIN; and ends with
  COMMIT;), it has exactly one placeholder per argument when the names in it hold no
  question mark, and its arguments are, for every host, user, host and password of the
  CREATE and again of the ALTER statement, then user and host once per granted table:
  no user name, host or password is spliced into the text.
\<close>

theorem BuildUserManagementSQL_balanced:
  assumes "us_Hosts user \<noteq> []" "holes (us_TLSType user) = 0" "list_all hole_free (us_Permissions user)"
  shows "\<exists>q. BuildUserManagementSQL user pass = Ok q \<and> balanced q \<and>
    has_prefix (q_sql q) ''BEGIN;'' \<and> has_suffix (q_sql q) ''COMMIT;'' \<and>
    q_args q = concat (map (\<lambda>h. [us_User user, h, pass]) (us_Hosts user)) @
               concat (map (\<lambda>h. [us_User user, h, pass]) (us_Hosts user)) @
               concat (map (\<lambda>_. concat (map (\<lambda>h. [us_User user, h]) (us_Hosts user)))
                 (concat (map up_Tables (us_Permissions user))))"
proof -
  define qs where "qs =
    [getCreateUserQuery (us_User user) pass (us_Hosts user) (us_TLSType user),
     getAlterUserQuery (us_User user) pass (us_Hosts user)] @
    (if us_Permissions user \<noteq> []
     then [permissionsToQuery (us_Permissions user) (us_User user) (us_Hosts user) (us_WithGrantOption user)] else [])"
  have "BuildUserManagementSQL user pass = Ok (BuildAtomicQuery qs)"
    using assms(1) by (simp add: BuildUserManagementSQL_def qs_def)
  moreover have "balanced (BuildAtomicQuery qs)"
    by (rule BuildAtomicQuery_balanced)
       (use assms in \<open>auto simp: qs_def create_alter_balanced permissionsToQuery_balanced split: if_splits\<close>)
  moreover have "concat (map q_args qs) = concat (map (\<lambda>h. [us_User user, h, pass]) (us_Hosts user)) @
               concat (map (\<lambda>h. [us_User user, h, pass]) (us_Hosts user)) @
               concat (map (\<lambda>_. concat (map (\<lambda>h. [us_User user, h]) (us_Hosts user)))
                 (concat (map up_Tables (us_Permissions user))))"
    by (auto simp: qs_def create_alter_args permissionsToQuery_args)
  ultimately show ?thesis using BuildAtomicQuery_shape [of qs] by auto
qed

definition sample_user :: UserSpec where
  "sample_user = \<lparr>us_User = ''app'', us_Hosts = [''%''],
     us_Permissions = [\<lparr>up_Database = ''shop'', up_Tables = [''*''], up_Privileges = [''SELECT'']\<rparr>],
     us_TLSType = ''NONE'', us_WithGrantOption = False, us_ClusterName = [], us_NameSpace = [],
     us_SecretName = [], us_SecretKey = []\<rparr>"

theorem BuildUserManagementSQL_balanced_witness:
  "us_Hosts sample_user \<noteq> [] \<and> (\<exists>q. BuildUserManagementSQL sample_user ''pw'' = Ok q \<and> balanced q \<and>
     q_args q = [''app'', ''%'', ''pw'', ''app'', ''%'', ''pw'', ''app'', ''%''])"
  using BuildUserManagementSQL_balanced [of sample_user "''pw''"]
  by (auto simp: sample_user_def hole_free_def)

text \<open>
  Without an allowed host the builder returns its documented error, whatever the other
  fields are, and it never fails otherwise.
\<close>

theorem BuildUserManagementSQL_error_iff:
  "(us_Hosts user = [] \<longleftrightarrow> BuildUserManagementSQL user pass = Fail (GErr ''no allowedHosts specified'')) \<and>
   (us_Hosts user \<noteq> [] \<longleftrightarrow> is_ok (BuildUserManagementSQL user pass))"
  by (simp add: BuildUserManagementSQL_def Let_def)

section \<open>What escaping guarantees\<close>

text \<open>
  MySQL's reading of a quoted string: a backslash takes the next character, which stands
  for itself unless it is one of the letter codes.
\<close>

definition unescape_code :: "char \<Rightarrow> char" where
  "unescape_code e =
     (if e = CHR ''0'' then CHR 0x00 else if e = CHR ''n'' then CHR 0x0A
      else if e = CHR ''r'' then CHR 0x0D else if e = CHR ''Z'' then CHR 0x1A else e)"

fun unescape :: "string \<Rightarrow> string" where
  "unescape [] = []"
| "unescape [c] = [c]"
| "unescape (c # e # cs) = (if c = backslash then unescape_code e # unescape cs else c # unescape (e # cs))"

text \<open>No character of the literal ends it: every quote and every backslash is escaped.\<close>

fun quote_safe :: "string \<Rightarrow> bool" where
  "quote_safe [] = True"
| "quote_safe [c] = (c \<noteq> backslash \<and> c \<noteq> quote1 \<and> c \<noteq> quote2)"
| "quote_safe (c # e # cs) =
     (if c = backslash then quote_safe cs else c \<noteq> quote1 \<and> c \<noteq> quote2 \<and> quote_safe (e # cs))"

lemma unescape_escape_code: "escape_code c = Some e \<Longrightarrow> unescape_code e = c"
  by (auto simp: escape_code_def unescape_code_def backslash_def quote1_def quote2_def split: if_splits)

lemma escape_code_None: "escape_code c = None \<Longrightarrow> c \<noteq> backslash \<and> c \<noteq> quote1 \<and> c \<noteq> quote2"
  by (auto simp: escape_code_def split: if_splits)

lemma unescape_plain: "c \<noteq> backslash \<Longrightarrow> unescape (c # s) = c # unescape s"
  by (cases s) auto

lemma quote_safe_plain:
  "c \<noteq> backslash \<Longrightarrow> quote_safe (c # s) \<longleftrightarrow> c \<noteq> quote1 \<and> c \<noteq> quote2 \<and> quote_safe s"
  by (cases s) auto

lemma unescape_Escape: "unescape (Escape s) = s"
  by (induction s) (auto split: option.split simp: unescape_escape_code unescape_plain dest: escape_code_None)

lemma quote_safe_Escape: "quote_safe (Escape s)"
  by (induction s) (auto split: option.split simp: quote_safe_plain dest: escape_code_None)

text \<open>
  C20. \<open>Escape\<close> is injective and invertible (reading the escaped text back gives the
  original string) and leaves no quote that could end a string literal; it at most
  doubles the length, the capacity the code reserves.
\<close>

theorem Escape_roundtrip:
  "unescape (Escape s) = s \<and> quote_safe (Escape s) \<and> length (Escape s) \<le> 2 * length s"
  by (intro conjI unescape_Escape quote_safe_Escape) (induction s, auto split: option.split)

text \<open>
  \<open>escapeID\<close> is the wildcard itself or a backquoted name with no backquote inside, so an
  identifier cannot close its quotes; two names that differ only in backquotes
  become the same identifier.
\<close>

theorem escapeID_quoted:
  "(ident \<noteq> ''*'' \<longrightarrow> (\<exists>body. escapeID ident = [backtick] @ body @ [backtick] \<and> backtick \<notin> set body \<and>
      body = filter (\<lambda>c. c \<noteq> backtick) ident)) \<and>
   (escapeID ident = ''*'' \<longleftrightarrow> ident = ''*'')"
  by (auto simp: escapeID_def remove_char_def backtick_def)

theorem escapeID_quoted_witness:
  "\<exists>body. escapeID ''a'' = [backtick] @ body @ [backtick] \<and> backtick \<notin> set body \<and> body = ''a''"
  using escapeID_quoted [of "''a''"] by (simp add: backtick_def)

end
