(* ===== verification/SqlCheck.thy ===== *)
theory SqlCheck
  imports UserSql Cluster
begin

text \<open>
  The probing half of \<open>internal/sql_runner.go\<close>: connection configuration, the replication and
  read-only checks. The Go interface \<open>SQLRunner\<close> is a record of operations over an
  arbitrary state \<open>'s\<close>, so the checks are proved for every implementation of it; the
  \<open>sql_runner\<close> locale is its contract.
\<close>

section \<open>The SQLRunner interface\<close>

text \<open>
  What \<open>QueryRowsContext\<close> gives: the column names, one scan result per row (a NULL column
  is the empty raw bytes), and \<open>rows.Err()\<close> once there is no next row.
\<close>

record Rows =
  rw_cols :: "string list res"
  rw_rows :: "string list res list"
  rw_err :: "gerr option"

text \<open>
  A non-negative or negative \<open>float64\<close> as \<open>(m, k)\<close>, the dyadic number \<open>m / 2 ^ k\<close>. The product
  by 100 is rounded to 53 bits.
\<close>

type_synonym float64 = "int \<times> nat"

definition f64_of_int :: "int \<Rightarrow> float64" where
  "f64_of_int i = (sgn i * int (round53 (nat \<bar>i\<bar>)), 0)"

definition f64_mul100 :: "float64 \<Rightarrow> float64" where
  "f64_mul100 x = (case x of (mant, k) \<Rightarrow> (sgn mant * int (round53 (nat \<bar>mant\<bar> * 100)), k))"

definition f64_less :: "float64 \<Rightarrow> float64 \<Rightarrow> bool" where
  "f64_less x y = (case (x, y) of ((mx, kx), (my, ky)) \<Rightarrow> mx * 2 ^ ky < my * 2 ^ kx)"

text \<open>
  The interface: a query that returns rows, one that scans a \<open>uint8\<close> or a \<open>float64\<close>, and a
  statement. \<open>sr_sleep\<close> is the \<open>time.Sleep\<close> of the retry loop.
\<close>

record 's SQLRunner =
  sr_rows :: "Query \<Rightarrow> ('s, Rows) go"
  sr_u8 :: "Query \<Rightarrow> ('s, nat) go"
  sr_f64 :: "Query \<Rightarrow> ('s, float64) go"
  sr_exec :: "Query \<Rightarrow> ('s, unit) go"
  sr_sleep :: "('s, unit) go"

section \<open>Connection configuration\<close>

record Config =
  cf_User :: string
  cf_Password :: string
  cf_Host :: string
  cf_Port :: nat

text \<open>
  \<open>get_cluster\<close> and \<open>get_secret\<close> are the two reads of the API server; the secret is its
  \<open>Data\<close> map.
\<close>

definition NewConfigFromClusterKey ::
  "('k \<Rightarrow> ('s, MysqlCluster) go) \<Rightarrow> (string \<Rightarrow> string \<Rightarrow> ('s, smap) go) \<Rightarrow> 'k \<Rightarrow> string \<Rightarrow> string \<Rightarrow> ('s, Config) go" where
  "NewConfigFromClusterKey get_cluster get_secret clusterKey userName host0 =
     bnd (get_cluster clusterKey) (\<lambda>cluster.
     bnd (get_secret (mc_Namespace cluster) (GetNameForResource cluster SecretRes)) (\<lambda>data.
       let host = (if host0 = LeaderHost then mc_Name cluster @ ''-leader.'' @ mc_Namespace cluster else host0) in
       if userName = OperatorUser then
         (case data ''operator-password'' of
            None \<Rightarrow> fail (GErr ''operator-password cannot be empty'')
          | Some password \<Rightarrow> ret \<lparr>cf_User = OperatorUser, cf_Password = password, cf_Host = host, cf_Port = MysqlPort\<rparr>)
       else if userName = RootUser then
         (case data ''internal-root-password'' of
            None \<Rightarrow> fail (GErr ''internal-root-password cannot be empty'')
          | Some password \<Rightarrow> ret \<lparr>cf_User = RootUser, cf_Password = password, cf_Host = host, cf_Port = MysqlPort\<rparr>)
       else fail (GErr (''MySQL user '' @ userName @ '' are not supported''))))"

definition GetMysqlDSN :: "Config \<Rightarrow> string" where
  "GetMysqlDSN c = cf_User c @ '':'' @ cf_Password c @ ''@tcp('' @ cf_Host c @ '':'' @ nat_str (cf_Port c) @
     '')/?timeout=5s&multiStatements=true&interpolateParams=true''"

text \<open>
  \<open>NewSQLRunner\<close>: \<open>open_db\<close> and \<open>ping_db\<close> are the driver's \<open>sql.Open\<close> and \<open>Ping\<close>, and
  \<open>mk\<close> the runner on the opened database. A configuration error is returned before
  anything is opened.
\<close>

definition NewSQLRunner ::
  "(string \<Rightarrow> ('s, unit) go) \<Rightarrow> (string \<Rightarrow> ('s, unit) go) \<Rightarrow> (Config \<Rightarrow> 'r) \<Rightarrow> (gerr + Config) \<Rightarrow> ('s, 'r) go" where
  "NewSQLRunner open_db ping_db mk cfg =
     (case cfg of
        Inl e \<Rightarrow> fail e
      | Inr c \<Rightarrow> bnd (open_db (GetMysqlDSN c)) (\<lambda>_. bnd (ping_db (GetMysqlDSN c)) (\<lambda>_. ret (mk c))))"

section \<open>The checks\<close>

definition errorConnectionStates :: "string list" where
  "errorConnectionStates =
     [''connecting to master'',
      ''reconnecting after a failed binlog dump request'',
      ''reconnecting after a failed master event read'',
      ''waiting to reconnect after a failed binlog dump request'',
      ''waiting to reconnect after a failed master event read'']"

fun column_index :: "nat \<Rightarrow> string list \<Rightarrow> string \<Rightarrow> nat option" where
  "column_index i [] colName = None"
| "column_index i (col # cols) colName = (if col = colName then Some i else column_index (Suc i) cols colName)"

text \<open>\<open>scanArgs\<close> has one entry per column.\<close>

definition columnValue :: "string list \<Rightarrow> string list \<Rightarrow> string \<Rightarrow> string" where
  "columnValue scanArgs cols colName =
     (case column_index 0 cols colName of None \<Rightarrow> [] | Some i \<Rightarrow> (if i < length scanArgs then scanArgs ! i else []))"

definition GlobalVariable_query :: "string \<Rightarrow> Query" where
  "GlobalVariable_query param = NewQuery ''select @@global.?'' [param]"

definition SlaveStatus_query :: Query where
  "SlaveStatus_query = NewQuery ''show slave status;'' []"

definition flag_check :: "'s SQLRunner \<Rightarrow> string \<Rightarrow> ('s, ConditionStatus \<times> gerr option) go" where
  "flag_check db param = bnd (attempt (sr_u8 db (GlobalVariable_query param))) (\<lambda>r. case r of
      Inl e \<Rightarrow> ret (CondUnknown, Some e)
    | Inr v \<Rightarrow> ret (if v = 0 then CondFalse else CondTrue, None))"

definition CheckReadOnly :: "'s SQLRunner \<Rightarrow> ('s, ConditionStatus \<times> gerr option) go" where
  "CheckReadOnly db = flag_check db ''read_only''"

definition CheckSuperReadOnly :: "'s SQLRunner \<Rightarrow> ('s, ConditionStatus \<times> gerr option) go" where
  "CheckSuperReadOnly db = flag_check db ''super_read_only''"

definition CheckSemSync :: "'s SQLRunner \<Rightarrow> ('s, ConditionStatus \<times> gerr option) go" where
  "CheckSemSync db = flag_check db ''rpl_semi_sync_slave_enabled''"

text \<open>
  \<open>strconv.ParseFloat\<close> on \<open>Seconds_Behind_Master\<close>, an unsigned integer column or NULL: a
  decimal number is rounded to \<open>float64\<close>; on anything else the error is dropped and the
  value is 0.
\<close>

definition seconds_behind :: "string \<Rightarrow> float64" where
  "seconds_behind s = (if s \<noteq> [] \<and> list_all is_digit s then f64_of_int (int (digits_val s)) else (0, 0))"

definition lag_verdict :: "int option \<Rightarrow> float64 \<Rightarrow> string \<Rightarrow> ConditionStatus" where
  "lag_verdict ReplicaLag longQueryTime secs =
     (let lagTime = (case ReplicaLag of Some l \<Rightarrow> f64_of_int l | None \<Rightarrow> f64_mul100 longQueryTime)
      in if f64_less lagTime (seconds_behind secs) then CondTrue else CondFalse)"

text \<open>The part of \<open>CheckSlaveStatus\<close> after the row has been scanned.\<close>

definition slave_row_verdict ::
  "'s SQLRunner \<Rightarrow> int option \<Rightarrow> string list \<Rightarrow> string list \<Rightarrow> ('s, ConditionStatus \<times> ConditionStatus \<times> gerr option) go" where
  "slave_row_verdict db ReplicaLag cols args =
     (let slaveIOState = to_lower (columnValue args cols ''Slave_IO_State'');
          slaveSQLRunning = columnValue args cols ''Slave_SQL_Running'';
          ioRunning = columnValue args cols ''Slave_IO_Running'';
          lastSQLError = columnValue args cols ''Last_SQL_Error'';
          secondsBehindMaster = columnValue args cols ''Seconds_Behind_Master''
      in if StringInArray slaveIOState errorConnectionStates
           then ret (CondUnknown, CondFalse, Some (GErr (''Slave_IO_State: '' @ slaveIOState)))
         else if ioRunning \<noteq> ''Yes'' then ret (CondUnknown, CondFalse, Some (GErr (''Last_SQL_Error: '' @ lastSQLError)))
         else if slaveSQLRunning \<noteq> ''Yes'' then ret (CondUnknown, CondFalse, Some (GErr (''Last_SQL_Error: '' @ lastSQLError)))
         else bnd (attempt (sr_f64 db (GlobalVariable_query ''long_query_time''))) (\<lambda>r. case r of
             Inl e \<Rightarrow> ret (CondUnknown, CondTrue, Some e)
           | Inr longQueryTime \<Rightarrow> ret (lag_verdict ReplicaLag longQueryTime secondsBehindMaster, CondTrue, None)))"

definition CheckSlaveStatus ::
  "'s SQLRunner \<Rightarrow> int option \<Rightarrow> ('s, ConditionStatus \<times> ConditionStatus \<times> gerr option) go" where
  "CheckSlaveStatus db ReplicaLag =
     bnd (attempt (sr_rows db SlaveStatus_query)) (\<lambda>r. case r of
       Inl e \<Rightarrow> ret (CondUnknown, CondUnknown, Some e)
     | Inr rows \<Rightarrow>
         (case rw_rows rows of
            [] \<Rightarrow> (case rw_err rows of
                Some e \<Rightarrow> ret (CondUnknown, CondUnknown, Some e)
              | None \<Rightarrow> ret (CondFalse, CondFalse, None))
          | row # _ \<Rightarrow> bnd (attempt (lift (rw_cols rows))) (\<lambda>c. case c of
                Inl e \<Rightarrow> ret (CondUnknown, CondUnknown, Some e)
              | Inr cols \<Rightarrow> bnd (attempt (lift row)) (\<lambda>a. case a of
                    Inl e \<Rightarrow> ret (CondUnknown, CondUnknown, Some e)
                  | Inr args \<Rightarrow> slave_row_verdict db ReplicaLag cols args))))"

text \<open>
  The retry loop: the results of the last attempt are kept, and with \<open>retry = 0\<close> they are
  the zero values of Go, the empty condition status and no error.
\<close>

fun slave_retry_loop ::
  "'s SQLRunner \<Rightarrow> int option \<Rightarrow> ConditionStatus \<times> ConditionStatus \<times> gerr option \<Rightarrow> nat \<Rightarrow>
   ('s, ConditionStatus \<times> ConditionStatus \<times> gerr option) go" where
  "slave_retry_loop db lag result 0 = ret result"
| "slave_retry_loop db lag result (Suc retry) =
     bnd (CheckSlaveStatus db lag) (\<lambda>(isLagged, isReplicating, err).
       if err = None then ret (isLagged, isReplicating, err)
       else bnd (sr_sleep db) (\<lambda>_. slave_retry_loop db lag (isLagged, isReplicating, err) retry))"

definition CheckSlaveStatusWithRetry ::
  "'s SQLRunner \<Rightarrow> nat \<Rightarrow> int option \<Rightarrow> ('s, ConditionStatus \<times> ConditionStatus \<times> gerr option) go" where
  "CheckSlaveStatusWithRetry db retry replicaLag = slave_retry_loop db replicaLag (CondEmpty, CondEmpty, None) retry"

definition CheckUserExists :: "'s SQLRunner \<Rightarrow> string \<Rightarrow> ('s, bool) go" where
  "CheckUserExists db userName =
     bnd (sr_rows db (NewQuery ''select user from mysql.user where user =?'' [userName])) (\<lambda>rows. ret (rw_rows rows \<noteq> []))"

fun processlist_loop :: "string list \<Rightarrow> string list res list \<Rightarrow> bool res" where
  "processlist_loop cols [] = Ok False"
| "processlist_loop cols (row # rows) = bind_res row (\<lambda>args.
     if str_contains (columnValue args cols ''State'') ''Master has sent all binlog to slave'' then Ok True
     else processlist_loop cols rows)"

definition CheckProcesslist :: "'s SQLRunner \<Rightarrow> ('s, bool) go" where
  "CheckProcesslist db =
     bnd (sr_rows db (NewQuery ''show processlist;'' [])) (\<lambda>rows.
     bnd (lift (rw_cols rows)) (\<lambda>cols. lift (processlist_loop cols (rw_rows rows))))"

definition DropUser :: "'s SQLRunner \<Rightarrow> string \<Rightarrow> string \<Rightarrow> ('s, unit) go" where
  "DropUser db user host = handle (sr_exec db (DropUser_query user host)) (\<lambda>e. fail (GErr ''failed to delete user''))"


section \<open>What the verdicts mean\<close>

lemma attempt_Ok: "m s = (Ok x, t) \<Longrightarrow> attempt m s = (Ok (Inr x), t)"
  by (simp add: attempt_def)

lemma attempt_Fail: "m s = (Fail e, t) \<Longrightarrow> attempt m s = (Ok (Inl e), t)"
  by (simp add: attempt_def)

lemma attempt_lift [simp]:
  "attempt (lift (Ok x)) = ret (Inr x)" "attempt (lift (Fail e)) = ret (Inl e)"
  by (rule ext, simp add: attempt_def lift_def ret_def)+

lemma bnd_Ok: "m s = (Ok x, t) \<Longrightarrow> bnd m f s = f x t"
  by (simp add: bnd_def)

lemma f64_small: "0 \<le> i \<Longrightarrow> i < 2 ^ 53 \<Longrightarrow> f64_of_int i = (i, 0)"
  by (auto simp: f64_of_int_def sgn_if round53_exact nat_less_iff)

lemma f64_neg_small: "i < 0 \<Longrightarrow> - i < 2 ^ 53 \<Longrightarrow> f64_of_int i = (i, 0)"
  by (auto simp: f64_of_int_def sgn_if round53_exact nat_less_iff)

lemma seconds_behind_nat: "n < 2 ^ 53 \<Longrightarrow> seconds_behind (nat_str n) = (int n, 0)"
  using nat_str_digits [of n] f64_small [of "int n"] by (simp add: seconds_behind_def)


text \<open>The columns of a well-formed status row.\<close>

definition slave_healthy :: "string list \<Rightarrow> string list \<Rightarrow> bool" where
  "slave_healthy cols args \<longleftrightarrow>
     to_lower (columnValue args cols ''Slave_IO_State'') \<notin> set errorConnectionStates \<and>
     columnValue args cols ''Slave_IO_Running'' = ''Yes'' \<and> columnValue args cols ''Slave_SQL_Running'' = ''Yes''"

lemma slave_row_verdict_result:
  assumes "slave_row_verdict db lag cols args s = (Ok (l, r, e), t)"
  shows "(r = CondTrue \<longleftrightarrow> slave_healthy cols args) \<and> (r \<noteq> CondTrue \<longrightarrow> r = CondFalse \<and> l = CondUnknown \<and> e \<noteq> None) \<and>
    (e = None \<longrightarrow> (\<exists>q. l = lag_verdict lag q (columnValue args cols ''Seconds_Behind_Master'')))"
  using assms
  by (auto simp: slave_row_verdict_def slave_healthy_def Let_def StringInArray_mem ret_def bnd_eq_Ok attempt_def
      split: if_splits prod.splits res.splits sum.splits)

text \<open>
  What the operator reads off one row of SHOW SLAVE STATUS. A replica counts as
  replicating exactly when its IO state is not one of the five connection failures and
  both threads run; otherwise the answer is not-replicating with an unknown lag and an
  error, never a silent success. Without an error the lag is the verdict on
  Seconds_Behind_Master. No row at all means neither lagged nor replicating.
\<close>

theorem CheckSlaveStatus_verdict:
  assumes "sr_rows db SlaveStatus_query s = (Ok rows, u)" "rw_cols rows = Ok cols"
    and "CheckSlaveStatus db lag s = (Ok (l, r, e), t)"
  shows "(rw_rows rows = [] \<and> rw_err rows = None \<longrightarrow> l = CondFalse \<and> r = CondFalse \<and> e = None) \<and>
    (\<forall>args rest. rw_rows rows = Ok args # rest \<longrightarrow>
       (r = CondTrue \<longleftrightarrow> slave_healthy cols args) \<and>
       (r \<noteq> CondTrue \<longrightarrow> r = CondFalse \<and> l = CondUnknown \<and> e \<noteq> None) \<and>
       (e = None \<longrightarrow> (\<exists>q. l = lag_verdict lag q (columnValue args cols ''Seconds_Behind_Master''))))"
proof -
  have step: "CheckSlaveStatus db lag s = (case rw_rows rows of
        [] \<Rightarrow> (case rw_err rows of Some e \<Rightarrow> (Ok (CondUnknown, CondUnknown, Some e), u) | None \<Rightarrow> (Ok (CondFalse, CondFalse, None), u))
      | row # _ \<Rightarrow> bnd (attempt (lift row)) (\<lambda>a. case a of
            Inl e \<Rightarrow> ret (CondUnknown, CondUnknown, Some e)
          | Inr args \<Rightarrow> slave_row_verdict db lag cols args) u)"
    using assms(1,2)
    by (auto simp: CheckSlaveStatus_def bnd_Ok [OF attempt_Ok] ret_def split: list.split option.split)
  show ?thesis
    using assms(3) slave_row_verdict_result [of db lag cols _ u l r e t]
    unfolding step by (auto simp: )
qed

text \<open>A runner on a log of queries that always answers with the same rows.\<close>

definition sample_db :: "Rows \<Rightarrow> Query list SQLRunner" where
  "sample_db rows = \<lparr>sr_rows = (\<lambda>q s. (Ok rows, s @ [q])), sr_u8 = (\<lambda>q s. (Ok 0, s @ [q])),
     sr_f64 = (\<lambda>q s. (Ok (10, 0), s @ [q])), sr_exec = (\<lambda>q s. (Ok (), s @ [q])), sr_sleep = (\<lambda>s. (Ok (), s))\<rparr>"

theorem CheckSlaveStatus_verdict_witness:
  "\<exists>rows l r e t. CheckSlaveStatus (sample_db rows) None [] = (Ok (l, r, e), t) \<and> r = CondFalse \<and> l = CondUnknown \<and> e \<noteq> None"
proof -
  define cols where "cols = [''Slave_IO_State'', ''Slave_IO_Running'', ''Slave_SQL_Running'']"
  define args where "args = [''Connecting to master'', ''Connecting'', ''Yes'']"
  define rows where "rows = \<lparr>rw_cols = Ok cols, rw_rows = [Ok args], rw_err = None\<rparr>"
  have q: "sr_rows (sample_db rows) SlaveStatus_query [] = (Ok rows, [SlaveStatus_query])"
    by (simp add: sample_db_def)
  have col: "columnValue args cols ''Slave_IO_State'' = ''Connecting to master''"
    by (simp add: columnValue_def cols_def args_def)
  have "to_lower ''Connecting to master'' = ''connecting to master''" by code_simp
  then have state: "StringInArray (to_lower (columnValue args cols ''Slave_IO_State'')) errorConnectionStates"
    by (simp add: StringInArray_mem errorConnectionStates_def col)
  have "slave_row_verdict (sample_db rows) None cols args =
      ret (CondUnknown, CondFalse, Some (GErr (''Slave_IO_State: '' @ to_lower (columnValue args cols ''Slave_IO_State''))))"
    unfolding slave_row_verdict_def Let_def if_P [OF state] ..
  then obtain l r e t where run: "CheckSlaveStatus (sample_db rows) None [] = (Ok (l, r, e), t)"
    by (simp add: CheckSlaveStatus_def sample_db_def rows_def bnd_def attempt_def ret_def lift_def)
  have "\<not> slave_healthy cols args"
    by (simp add: slave_healthy_def columnValue_def cols_def args_def)
  moreover have rows: "rw_cols rows = Ok cols" "rw_rows rows = [Ok args]" by (simp_all add: rows_def)
  ultimately have "r = CondFalse \<and> l = CondUnknown \<and> e \<noteq> None"
    using CheckSlaveStatus_verdict [OF q rows(1) run] by simp
  with run show ?thesis by (intro exI conjI) auto
qed

lemma lag_verdict_seconds:
  "0 \<le> lagmax \<Longrightarrow> lagmax < 2 ^ 31 \<Longrightarrow> secs < 2 ^ 53 \<Longrightarrow>
   lag_verdict (Some lagmax) q (nat_str secs) = (if lagmax < int secs then CondTrue else CondFalse)"
  by (simp add: lag_verdict_def seconds_behind_nat f64_small f64_less_def)

text \<open>
  With \<open>spec.replicaLag\<close> set, a replica is lagged exactly when it is strictly more
  seconds behind than the limit: the floating-point comparison is exact for every value
  the server can report. A NULL delay, which the server reports when it does not know, counts
  as zero seconds and so as not lagged.
\<close>

theorem lag_verdict_exact:
  assumes "0 \<le> lagmax" "lagmax < 2 ^ 31" "secs < 2 ^ 53"
  shows "(lag_verdict (Some lagmax) q (nat_str secs) = CondTrue \<longleftrightarrow> lagmax < int secs) \<and>
    lag_verdict (Some lagmax) q [] = CondFalse"
  using assms lag_verdict_seconds [OF assms]
  by (auto simp: lag_verdict_def seconds_behind_def f64_small f64_less_def)

theorem lag_verdict_exact_witness:
  "lag_verdict (Some 30) (10, 0) (nat_str 31) = CondTrue"
  using lag_verdict_exact [of 30 31 "(10, 0)"] by simp

section \<open>The contract of a runner\<close>

text \<open>
  A runner logs: every operation appends exactly one event for its query to the trace of
  the state, whatever the answer is.
\<close>

locale sql_runner =
  fixes db :: "'s SQLRunner" and tr :: "'s \<Rightarrow> 'e list" and ev :: "Query \<Rightarrow> 'e" and slp :: 'e
  assumes rows_ev: "tr (snd (sr_rows db q s)) = tr s @ [ev q]"
    and u8_ev: "tr (snd (sr_u8 db q s)) = tr s @ [ev q]"
    and f64_ev: "tr (snd (sr_f64 db q s)) = tr s @ [ev q]"
    and exec_ev: "tr (snd (sr_exec db q s)) = tr s @ [ev q]"
    and sleep_ev: "tr (snd (sr_sleep db s)) = tr s @ [slp]"
    and ev_inj: "ev q = ev q' \<longleftrightarrow> q = q'"
    and ev_slp: "ev q \<noteq> slp"
begin

lemma emits_ops:
  "A (ev q) \<Longrightarrow> emits tr A (sr_rows db q)" "A (ev q) \<Longrightarrow> emits tr A (sr_u8 db q)"
  "A (ev q) \<Longrightarrow> emits tr A (sr_f64 db q)" "A (ev q) \<Longrightarrow> emits tr A (sr_exec db q)"
  "A slp \<Longrightarrow> emits tr A (sr_sleep db)"
  by (simp_all add: emits_def rows_ev u8_ev f64_ev exec_ev sleep_ev)

lemma flag_check_emits: "A (ev (GlobalVariable_query p)) \<Longrightarrow> emits tr A (flag_check db p)"
  unfolding flag_check_def by (intro emits_intros emits_ops)

lemma slave_row_verdict_emits:
  "A (ev (GlobalVariable_query ''long_query_time'')) \<Longrightarrow> emits tr A (slave_row_verdict db lag cols args)"
  unfolding slave_row_verdict_def Let_def by (intro emits_intros emits_ops)

lemma CheckSlaveStatus_emits:
  assumes "A (ev SlaveStatus_query)" "A (ev (GlobalVariable_query ''long_query_time''))"
  shows "emits tr A (CheckSlaveStatus db lag)"
proof -
  have "emits tr A (case rw_rows rows of
            [] \<Rightarrow> (case rw_err rows of
                Some e \<Rightarrow> ret (CondUnknown, CondUnknown, Some e)
              | None \<Rightarrow> ret (CondFalse, CondFalse, None))
          | row # _ \<Rightarrow> bnd (attempt (lift (rw_cols rows))) (\<lambda>c. case c of
                Inl e \<Rightarrow> ret (CondUnknown, CondUnknown, Some e)
              | Inr cols \<Rightarrow> bnd (attempt (lift row)) (\<lambda>a. case a of
                    Inl e \<Rightarrow> ret (CondUnknown, CondUnknown, Some e)
                  | Inr args \<Rightarrow> slave_row_verdict db lag cols args)))" for rows
    by (cases "rw_rows rows")
       (auto intro!: emits_intros slave_row_verdict_emits assms(2) split: option.split)
  then show ?thesis
    unfolding CheckSlaveStatus_def by (intro emits_intros emits_ops assms(1))
qed

lemma retry_emits:
  assumes "A (ev SlaveStatus_query)" "A (ev (GlobalVariable_query ''long_query_time''))" "A slp"
  shows "emits tr A (slave_retry_loop db lag r n)"
proof (induction n arbitrary: r)
  case 0
  show ?case by (simp add: emits_intros)
next
  case (Suc n)
  show ?case
    by (auto intro!: emits_intros emits_ops CheckSlaveStatus_emits assms Suc split: prod.split)
qed

text \<open>One attempt sends the status query once and at most one more query.\<close>

lemma CheckSlaveStatus_trace:
  "\<exists>es. tr (snd (CheckSlaveStatus db lag s)) = tr s @ ev SlaveStatus_query # es \<and>
     list_all (\<lambda>e. e = ev (GlobalVariable_query ''long_query_time'')) es"
proof -
  obtain r u where u: "sr_rows db SlaveStatus_query s = (r, u)" by (cases "sr_rows db SlaveStatus_query s")
  have tu: "tr u = tr s @ [ev SlaveStatus_query]" using rows_ev [of SlaveStatus_query s] u by simp
  define k where "k = (\<lambda>rows :: Rows. case rw_rows rows of
            [] \<Rightarrow> (case rw_err rows of
                Some e \<Rightarrow> ret (CondUnknown, CondUnknown, Some e)
              | None \<Rightarrow> ret (CondFalse, CondFalse, None))
          | row # _ \<Rightarrow> bnd (attempt (lift (rw_cols rows))) (\<lambda>c. case c of
                Inl e \<Rightarrow> ret (CondUnknown, CondUnknown, Some e)
              | Inr cols \<Rightarrow> bnd (attempt (lift row)) (\<lambda>a. case a of
                    Inl e \<Rightarrow> ret (CondUnknown, CondUnknown, Some e)
                  | Inr args \<Rightarrow> slave_row_verdict db lag cols args)))"
  have k: "emits tr (\<lambda>e. e = ev (GlobalVariable_query ''long_query_time'')) (k rows)" for rows
    unfolding k_def
    by (cases "rw_rows rows")
       (auto intro!: emits_intros slave_row_verdict_emits split: option.split)
  have "snd (CheckSlaveStatus db lag s) = (case r of Ok rows \<Rightarrow> snd (k rows u) | _ \<Rightarrow> u)"
    unfolding CheckSlaveStatus_def k_def [symmetric]
    by (cases r) (simp_all add: bnd_def attempt_def u ret_def)
  then show ?thesis
    using emitsD [OF k, of _ u] tu by (cases r) auto
qed

lemma probe_queries_differ: "GlobalVariable_query p \<noteq> SlaveStatus_query"
  by (simp add: GlobalVariable_query_def SlaveStatus_query_def NewQuery_def)

lemma retry_count:
  "\<exists>es. tr (snd (slave_retry_loop db lag r n s)) = tr s @ es \<and>
     count_list es (ev SlaveStatus_query) \<le> n \<and> count_list es slp \<le> n"
proof (induction n arbitrary: r s)
  case 0
  show ?case by (simp add: ret_def)
next
  case (Suc n)
  obtain x u where u: "CheckSlaveStatus db lag s = (x, u)" by (cases "CheckSlaveStatus db lag s")
  from CheckSlaveStatus_trace [of lag s] u obtain es where
    es: "tr u = tr s @ ev SlaveStatus_query # es" "list_all (\<lambda>e. e = ev (GlobalVariable_query ''long_query_time'')) es"
    by auto
  have "e \<noteq> ev SlaveStatus_query \<and> e \<noteq> slp" if "e \<in> set es" for e
  proof -
    have "e = ev (GlobalVariable_query ''long_query_time'')" using es(2) that by (simp add: list_all_iff)
    then show ?thesis by (simp add: ev_inj ev_slp probe_queries_differ)
  qed
  then have cnt: "count_list es (ev SlaveStatus_query) = 0" "count_list es slp = 0"
    by (auto simp: count_list_0_iff)
  have stop: ?case if "snd (slave_retry_loop db lag r (Suc n) s) = u"
    using es cnt ev_slp [of SlaveStatus_query] by (simp add: that del: slave_retry_loop.simps)
  show ?case
  proof (cases x)
    case (Ok res)
    obtain l rp e where res: "res = (l, rp, e)" by (cases res)
    show ?thesis
    proof (cases "e = None")
      case True
      then show ?thesis using stop by (simp add: bnd_def u Ok res ret_def)
    next
      case False
      obtain y v where v: "sr_sleep db u = (y, v)" by (cases "sr_sleep db u")
      have tv: "tr v = tr u @ [slp]" using sleep_ev [of u] v by simp
      from Suc.IH [of "(l, rp, e)" v] obtain fs where
        fs: "tr (snd (slave_retry_loop db lag (l, rp, e) n v)) = tr v @ fs"
          "count_list fs (ev SlaveStatus_query) \<le> n" "count_list fs slp \<le> n" by auto
      have "\<exists>gs. tr (snd (slave_retry_loop db lag r (Suc n) s)) = tr v @ gs \<and>
          count_list gs (ev SlaveStatus_query) \<le> n \<and> count_list gs slp \<le> n"
        using fs False by (cases y) (auto simp: bnd_def u Ok res v)
      then obtain gs where "tr (snd (slave_retry_loop db lag r (Suc n) s)) = tr v @ gs"
        "count_list gs (ev SlaveStatus_query) \<le> n" "count_list gs slp \<le> n" by auto
      then show ?thesis
        using tv es cnt ev_slp [of SlaveStatus_query]
        by (auto simp del: slave_retry_loop.simps intro!: exI [of _ "ev SlaveStatus_query # es @ slp # gs"])
    qed
  qed (use stop in \<open>simp_all add: bnd_def u\<close>)
qed

end

end
