(* ===== verification/XenonApi.thy ===== *)
theory XenonApi
  imports ApiTypes
begin

text \<open>
  \<open>internal/xenon_request.go\<close>, \<open>internal/http_executor.go\<close> and \<open>internal/xenon_executor.go\<close>: the
  HTTP requests the operator sends to the xenon agents and the reading of their answers.
  The Go interface \<open>HttpClient\<close> is a record of operations; \<open>encoding/json\<close>'s decoding into
  \<open>map[string]interface{}\<close> is a value of the datatype \<open>json\<close>.
\<close>

section \<open>Base64\<close>

definition b64_alphabet :: string where
  "b64_alphabet = ''ABCDEFGHIJKLMNOPQRSTUVWXYZabcdefghijklmnopqrstuvwxyz0123456789+/''"

definition b64_char :: "nat \<Rightarrow> char" where
  "b64_char i = b64_alphabet ! i"

fun b64_bytes :: "nat list \<Rightarrow> string" where
  "b64_bytes [] = []"
| "b64_bytes [a] = [b64_char (a div 4), b64_char (a mod 4 * 16), CHR ''='', CHR ''='']"
| "b64_bytes [a, b] = [b64_char (a div 4), b64_char (a mod 4 * 16 + b div 16), b64_char (b mod 16 * 4), CHR ''='']"
| "b64_bytes (a # b # c # rest) =
     b64_char (a div 4) # b64_char (a mod 4 * 16 + b div 16) # b64_char (b mod 16 * 4 + c div 64) #
     b64_char (c mod 64) # b64_bytes rest"

text \<open>\<open>base64.StdEncoding.EncodeToString\<close>.\<close>

definition base64 :: "string \<Rightarrow> string" where
  "base64 s = b64_bytes (map of_char s)"

section \<open>Requests\<close>

datatype XenonHttpUrl = RaftStatusUrl | XenonPingUrl | ClusterAddUrl | ClusterRemoveUrl | RaftTryToLeaderUrl

fun url_path :: "XenonHttpUrl \<Rightarrow> string" where
  "url_path RaftStatusUrl = ''/v1/raft/status''"
| "url_path XenonPingUrl = ''/v1/xenon/ping''"
| "url_path ClusterAddUrl = ''/v1/cluster/add''"
| "url_path ClusterRemoveUrl = ''/v1/cluster/remove''"
| "url_path RaftTryToLeaderUrl = ''/v1/raft/trytoleader''"

datatype HttpMethod = MethodGet | MethodPost

text \<open>The map \<open>XenonHttpUrls\<close>; it has a method for each of the five constants.\<close>

fun XenonHttpUrls :: "XenonHttpUrl \<Rightarrow> HttpMethod option" where
  "XenonHttpUrls RaftStatusUrl = Some MethodGet"
| "XenonHttpUrls RaftTryToLeaderUrl = Some MethodPost"
| "XenonHttpUrls XenonPingUrl = Some MethodGet"
| "XenonHttpUrls ClusterAddUrl = Some MethodPost"
| "XenonHttpUrls ClusterRemoveUrl = Some MethodPost"

record RequestConfig =
  rc_rootPassword :: string
  rc_host :: string
  rc_xenonHttpUrl :: XenonHttpUrl
  rc_data :: "string option"

definition NewRequestConfig :: "string \<Rightarrow> string \<Rightarrow> XenonHttpUrl \<Rightarrow> string option \<Rightarrow> RequestConfig" where
  "NewRequestConfig host rootPasswd xenonHttpUrl data =
     \<lparr>rc_rootPassword = rootPasswd, rc_host = host, rc_xenonHttpUrl = xenonHttpUrl, rc_data = data\<rparr>"

record Request =
  rq_method :: HttpMethod
  rq_url :: string
  rq_body :: string
  rq_content_type :: "string option"
  rq_auth :: string

definition newXenonRequestUrl :: "string \<Rightarrow> XenonHttpUrl \<Rightarrow> string" where
  "newXenonRequestUrl host xenonHttpUrl = ''http://'' @ host @ '':'' @ nat_str XenonPeerPort @ url_path xenonHttpUrl"

text \<open>\<open>bad_url\<close> is the error of \<open>http.NewRequest\<close> on a URL that does not parse.\<close>

definition newHttpGetRequest :: "(string \<Rightarrow> gerr option) \<Rightarrow> RequestConfig \<Rightarrow> Request res" where
  "newHttpGetRequest bad_url cfg =
     (let url = newXenonRequestUrl (rc_host cfg) (rc_xenonHttpUrl cfg) in
      case bad_url url of Some e \<Rightarrow> Fail e
      | None \<Rightarrow> Ok \<lparr>rq_method = MethodGet, rq_url = url, rq_body = [], rq_content_type = None,
          rq_auth = ''Basic '' @ base64 (''root:'' @ rc_rootPassword cfg)\<rparr>)"

definition newHttpPostRequest :: "(string \<Rightarrow> gerr option) \<Rightarrow> RequestConfig \<Rightarrow> Request res" where
  "newHttpPostRequest bad_url cfg =
     (let reqBody = (case rc_data cfg of Some d \<Rightarrow> d | None \<Rightarrow> []);
          url = newXenonRequestUrl (rc_host cfg) (rc_xenonHttpUrl cfg) in
      case bad_url url of Some e \<Rightarrow> Fail e
      | None \<Rightarrow> Ok \<lparr>rq_method = MethodPost, rq_url = url, rq_body = reqBody,
          rq_content_type = Some ''application/x-www-form-urlencoded'',
          rq_auth = ''Basic '' @ base64 (''root:'' @ rc_rootPassword cfg)\<rparr>)"

definition NewXenonHttpRequest :: "(string \<Rightarrow> gerr option) \<Rightarrow> RequestConfig \<Rightarrow> Request res" where
  "NewXenonHttpRequest bad_url cfg =
     (case XenonHttpUrls (rc_xenonHttpUrl cfg) of
        None \<Rightarrow> Fail (GErr ''xenon http url does not exist or does not support'')
      | Some MethodGet \<Rightarrow> newHttpGetRequest bad_url cfg
      | Some MethodPost \<Rightarrow> newHttpPostRequest bad_url cfg)"

section \<open>Execution\<close>

datatype json =
    JNull
  | JBool bool
  | JNum string
  | JStr string
  | JArr "json list"
  | JObj "(string \<times> json) list"

text \<open>
  A response: the status code and the decoded body, \<open>None\<close> when it is not JSON. The
  interface \<open>HttpClient\<close> has the one operation \<open>Do\<close>; \<open>hc_bad_url\<close> is the URL check of
  \<open>http.NewRequest\<close>.
\<close>

record HttpResponse =
  hr_code :: nat
  hr_body :: "json option"

record 's HttpClient =
  hc_do :: "Request \<Rightarrow> ('s, HttpResponse) go"
  hc_bad_url :: "string \<Rightarrow> gerr option"

definition Execute :: "'s HttpClient \<Rightarrow> Request \<Rightarrow> ('s, json option) go" where
  "Execute cli req = bnd (hc_do cli req) (\<lambda>resp.
     if hr_code resp \<noteq> 200 then fail (GErr (''status code is '' @ nat_str (hr_code resp)))
     else ret (hr_body resp))"

text \<open>
  \<open>utils.UnmarshalJSON\<close> into a \<open>map[string]interface{}\<close>: an object, or null for the nil map;
  anything else is an error. A repeated key keeps its last value.
\<close>

definition unmarshal_object :: "json option \<Rightarrow> (string \<rightharpoonup> json) res" where
  "unmarshal_object body = (case body of
      Some (JObj kvs) \<Rightarrow> Ok (map_of (rev kvs))
    | Some JNull \<Rightarrow> Ok Map.empty
    | _ \<Rightarrow> Fail (GErr ''error unmarshal data''))"

text \<open>The type assertions \<open>v.(string)\<close> and \<open>v.([]interface{})\<close> panic on any other dynamic type.\<close>

fun assert_string :: "json option \<Rightarrow> string res" where
  "assert_string (Some (JStr s)) = Ok s"
| "assert_string _ = Panic ''interface conversion''"

fun assert_array :: "json option \<Rightarrow> json list res" where
  "assert_array (Some (JArr xs)) = Ok xs"
| "assert_array _ = Panic ''interface conversion''"

fun assert_strings :: "json list \<Rightarrow> string list res" where
  "assert_strings [] = Ok []"
| "assert_strings (x # xs) = bind_res (assert_string (Some x)) (\<lambda>s. bind_res (assert_strings xs) (\<lambda>ss. Ok (s # ss)))"

definition decode_raft_status :: "json option \<Rightarrow> RaftStatus res" where
  "decode_raft_status body =
     bind_res (unmarshal_object body) (\<lambda>out.
     bind_res (assert_array (out ''nodes'')) (\<lambda>nodesJson.
     bind_res (assert_strings nodesJson) (\<lambda>nodes.
     bind_res (assert_string (out ''state'')) (\<lambda>role.
     bind_res (assert_string (out ''leader'')) (\<lambda>leader.
       Ok \<lparr>rf_Role = role, rf_Leader = leader, rf_Nodes = nodes\<rparr>)))))"

text \<open>The methods of \<open>xenonExecutor\<close>; \<open>pw\<close> is its root password.\<close>

definition xenon_call :: "'s HttpClient \<Rightarrow> string \<Rightarrow> string \<Rightarrow> XenonHttpUrl \<Rightarrow> string option \<Rightarrow> string \<Rightarrow> ('s, json option) go" where
  "xenon_call cli pw host url data what =
     bnd (lift (NewXenonHttpRequest (hc_bad_url cli) (NewRequestConfig host pw url data))) (\<lambda>req.
     handle (Execute cli req) (\<lambda>e. fail (GErr what)))"

definition RaftStatus_call :: "'s HttpClient \<Rightarrow> string \<Rightarrow> string \<Rightarrow> ('s, RaftStatus) go" where
  "RaftStatus_call cli pw host =
     bnd (xenon_call cli pw host RaftStatusUrl None ''failed to get raft status'') (\<lambda>body. lift (decode_raft_status body))"

definition unit_call :: "'s HttpClient \<Rightarrow> string \<Rightarrow> string \<Rightarrow> XenonHttpUrl \<Rightarrow> string option \<Rightarrow> string \<Rightarrow> ('s, unit) go" where
  "unit_call cli pw host url data what = bnd (xenon_call cli pw host url data what) (\<lambda>_. ret ())"

definition RaftTryToLeader :: "'s HttpClient \<Rightarrow> string \<Rightarrow> string \<Rightarrow> ('s, unit) go" where
  "RaftTryToLeader cli pw host = unit_call cli pw host RaftTryToLeaderUrl None ''failed to execute raft/trytoleader''"

definition XenonPing :: "'s HttpClient \<Rightarrow> string \<Rightarrow> string \<Rightarrow> ('s, unit) go" where
  "XenonPing cli pw host = unit_call cli pw host XenonPingUrl None ''failed to ping''"

definition address_body :: "string \<Rightarrow> string" where
  "address_body a = ''{'' @ [CHR 0x22] @ ''address'' @ [CHR 0x22] @ '': '' @ [CHR 0x22] @ a @ [CHR 0x22] @ ''}''"

definition ClusterAdd :: "'s HttpClient \<Rightarrow> string \<Rightarrow> string \<Rightarrow> string \<Rightarrow> ('s, unit) go" where
  "ClusterAdd cli pw host toAdd =
     unit_call cli pw host ClusterAddUrl (Some (address_body toAdd)) ''failed to add host''"

definition ClusterRemove :: "'s HttpClient \<Rightarrow> string \<Rightarrow> string \<Rightarrow> string \<Rightarrow> ('s, unit) go" where
  "ClusterRemove cli pw host toRemove =
     unit_call cli pw host ClusterRemoveUrl (Some (address_body toRemove)) ''failed to remove host''"

section \<open>Properties of the requests\<close>

fun char_index :: "nat \<Rightarrow> string \<Rightarrow> char \<Rightarrow> nat" where
  "char_index i [] d = i"
| "char_index i (c # cs) d = (if c = d then i else char_index (Suc i) cs d)"

definition b64_val :: "char \<Rightarrow> nat" where
  "b64_val c = char_index 0 b64_alphabet c"

lemma char_index_nth: "distinct xs \<Longrightarrow> i < length xs \<Longrightarrow> char_index k xs (xs ! i) = k + i"
proof (induction xs arbitrary: i k)
  case (Cons x xs)
  then show ?case by (cases i) (auto simp: nth_Cons')
qed simp

lemma b64_alphabet_ok: "distinct b64_alphabet" "length b64_alphabet = 64" "CHR ''='' \<notin> set b64_alphabet"
  by (simp_all add: b64_alphabet_def)

lemma b64_val_char [simp]: "i < 64 \<Longrightarrow> b64_val (b64_char i) = i"
  using char_index_nth [OF b64_alphabet_ok(1), of i 0] by (simp add: b64_val_def b64_char_def b64_alphabet_ok)

lemma b64_char_pad [simp]: "i < 64 \<Longrightarrow> b64_char i \<noteq> CHR ''=''"
  using b64_alphabet_ok(2,3) nth_mem unfolding b64_char_def by metis

text \<open>The standard decoder, four characters at a time.\<close>

fun b64_decode :: "string \<Rightarrow> nat list" where
  "b64_decode (p # q # r # t # rest) =
     (let a = b64_val p * 4 + b64_val q div 16 in
      if r = CHR ''='' then [a]
      else let b = b64_val q mod 16 * 16 + b64_val r div 4 in
           if t = CHR ''='' then [a, b]
           else a # b # (b64_val r mod 4 * 64 + b64_val t) # b64_decode rest)"
| "b64_decode _ = []"

lemma b64_roundtrip: "list_all (\<lambda>x. x < 256) xs \<Longrightarrow> b64_decode (b64_bytes xs) = xs"
proof (induction xs rule: b64_bytes.induct)
  case (2 a)
  then show ?case by (simp add: less_mult_imp_div_less)
next
  case (3 a b)
  then have "a mod 4 * 16 + b div 16 < 64" "b mod 16 * 4 < 64" by auto
  with 3 show ?case by (simp add: less_mult_imp_div_less)
next
  case (4 a b c rest)
  then have "a mod 4 * 16 + b div 16 < 64" "b mod 16 * 4 + c div 64 < 64" by auto
  with 4 show ?case by (simp add: less_mult_imp_div_less)
qed simp


definition decode_text :: "string \<Rightarrow> string" where
  "decode_text s = map char_of (b64_decode s)"

lemma base64_roundtrip: "decode_text (base64 s) = s"
proof -
  have "list_all (\<lambda>x :: nat. x < 256) (map of_char s)" by (simp add: list_all_iff)
  then show ?thesis by (simp add: decode_text_def base64_def b64_roundtrip comp_def)
qed

text \<open>
  A request for any xenon operation goes to the agent's port on the given host and the
  path of the operation, with the method the agent expects (POST exactly for the three
  that change the cluster), the payload as its body, and a basic authorization that
  decodes to the root user and the password: the encoding loses nothing, whatever
  bytes the password has.
\<close>

theorem NewXenonHttpRequest_wellformed:
  assumes "bad_url (newXenonRequestUrl host url) = None"
  shows "\<exists>req. NewXenonHttpRequest bad_url (NewRequestConfig host pw url data) = Ok req \<and>
    rq_url req = ''http://'' @ host @ '':6601'' @ url_path url \<and>
    (rq_method req = MethodPost \<longleftrightarrow> url \<in> {ClusterAddUrl, ClusterRemoveUrl, RaftTryToLeaderUrl}) \<and>
    (rq_method req = MethodPost \<longrightarrow> rq_body req = (case data of Some d \<Rightarrow> d | None \<Rightarrow> [])) \<and>
    has_prefix (rq_auth req) ''Basic '' \<and> decode_text (drop 6 (rq_auth req)) = ''root:'' @ pw"
proof -
  have port: "nat_str XenonPeerPort = ''6601''"
    by (simp add: XenonPeerPort_def nat_str.simps)
  show ?thesis
    using assms
    by (cases url)
       (auto simp: NewXenonHttpRequest_def newHttpGetRequest_def newHttpPostRequest_def NewRequestConfig_def
          has_prefix_def base64_roundtrip newXenonRequestUrl_def port)
qed

theorem NewXenonHttpRequest_wellformed_witness:
  "\<exists>req. NewXenonHttpRequest (\<lambda>_. None) (NewRequestConfig ''h'' ''secret'' ClusterAddUrl (Some ''x'')) = Ok req \<and>
     rq_body req = ''x''"
  using NewXenonHttpRequest_wellformed [of "\<lambda>_. None" "''h''" ClusterAddUrl "''secret''" "Some ''x''"] by auto

lemma assert_string_cases: "assert_string v = (case v of Some (JStr s) \<Rightarrow> Ok s | _ \<Rightarrow> Panic ''interface conversion'')"
  by (cases v rule: assert_string.cases) auto

lemma assert_strings_Ok: "assert_strings xs = Ok ss \<longleftrightarrow> xs = map JStr ss"
proof (induction xs arbitrary: ss)
  case (Cons x xs)
  then show ?case
    by (cases x) (auto simp: bind_res_Ok)
qed auto

lemma assert_strings_total: "is_panic (assert_strings xs) \<longleftrightarrow> (\<nexists>ss. assert_strings xs = Ok ss)"
proof (induction xs)
  case (Cons x xs)
  show ?case
  proof (cases "\<exists>s. x = JStr s")
    case True
    with Cons show ?thesis by (cases "assert_strings xs") auto
  next
    case False
    then have "assert_string (Some x) = Panic ''interface conversion''" by (cases x) auto
    then show ?thesis by simp
  qed
qed simp

text \<open>A raft answer in the shape the agent documents.\<close>

definition raft_answer :: "(string \<rightharpoonup> json) \<Rightarrow> RaftStatus \<Rightarrow> bool" where
  "raft_answer out rs \<longleftrightarrow> out ''nodes'' = Some (JArr (map JStr (rf_Nodes rs))) \<and>
     out ''state'' = Some (JStr (rf_Role rs)) \<and> out ''leader'' = Some (JStr (rf_Leader rs))"

lemma assert_array_Ok: "assert_array v = Ok xs \<longleftrightarrow> v = Some (JArr xs)"
  by (cases v rule: assert_array.cases) auto

lemma assert_string_Ok: "assert_string v = Ok s \<longleftrightarrow> v = Some (JStr s)"
  by (cases v rule: assert_string.cases) auto

lemma decode_raft_status_Ok:
  "decode_raft_status body = Ok rs \<longleftrightarrow> (\<exists>out. unmarshal_object body = Ok out \<and> raft_answer out rs)"
  by (cases rs)
     (auto simp: decode_raft_status_def bind_res_Ok raft_answer_def assert_array_Ok assert_string_Ok assert_strings_Ok)

lemma assert_no_fail:
  "assert_string v \<noteq> Fail e" "assert_array v \<noteq> Fail e"
  by (cases v rule: assert_string.cases; simp) (cases v rule: assert_array.cases; simp)

lemma assert_strings_no_fail: "assert_strings xs \<noteq> Fail e"
  using assert_strings_total [of xs] by (cases "assert_strings xs") auto

lemma decode_raft_status_no_fail:
  "unmarshal_object body = Ok out \<Longrightarrow> decode_raft_status body \<noteq> Fail e"
  by (simp add: decode_raft_status_def bind_res_Fail assert_no_fail assert_strings_no_fail)

text \<open>
  The raft status is read with unchecked type assertions. An answer in the documented
  shape is decoded to exactly its fields; an answer that is not JSON, or not an object,
  is an error; but every JSON object that lacks one of the three fields, or has it with
  another type, and also a bare null, panics the operator instead of returning an error.
\<close>

theorem decode_raft_status_panics_iff:
  "(decode_raft_status body = Ok rs \<longleftrightarrow> (\<exists>out. unmarshal_object body = Ok out \<and> raft_answer out rs)) \<and>
   (is_panic (decode_raft_status body) \<longleftrightarrow>
     (\<exists>out. unmarshal_object body = Ok out \<and> (\<nexists>rs. raft_answer out rs))) \<and>
   is_panic (decode_raft_status (Some JNull))"
proof (intro conjI)
  show "decode_raft_status body = Ok rs \<longleftrightarrow> (\<exists>out. unmarshal_object body = Ok out \<and> raft_answer out rs)"
    by (rule decode_raft_status_Ok)
  show "is_panic (decode_raft_status body) \<longleftrightarrow> (\<exists>out. unmarshal_object body = Ok out \<and> (\<nexists>rs. raft_answer out rs))"
  proof (cases "unmarshal_object body")
    case (Ok out)
    then show ?thesis
      using decode_raft_status_Ok [of body] decode_raft_status_no_fail [OF Ok]
      by (cases "decode_raft_status body") auto
  next
    case (Panic p)
    then show ?thesis by (auto simp: unmarshal_object_def split: option.splits json.splits)
  qed (simp add: decode_raft_status_def)
  show "is_panic (decode_raft_status (Some JNull))"
    by (simp add: decode_raft_status_def unmarshal_object_def)
qed

section \<open>The contract of a client\<close>

text \<open>A client logs every request it is handed, whatever the answer is.\<close>

locale http_client =
  fixes cli :: "'s HttpClient" and tr :: "'s \<Rightarrow> 'e list" and ev :: "Request \<Rightarrow> 'e"
  assumes do_ev: "tr (snd (hc_do cli req s)) = tr s @ [ev req]"
begin

lemma Execute_emits: "A (ev req) \<Longrightarrow> emits tr A (Execute cli req)"
proof -
  assume "A (ev req)"
  then have "emits tr A (hc_do cli req)" by (simp add: emits_def do_ev)
  then show ?thesis unfolding Execute_def by (intro emits_intros)
qed

lemma xenon_call_emits:
  assumes "\<And>req. rq_url req = newXenonRequestUrl host url \<Longrightarrow>
      (rq_method req = MethodPost \<Longrightarrow> rq_body req = (case data of Some d \<Rightarrow> d | None \<Rightarrow> [])) \<Longrightarrow> A (ev req)"
  shows "emits tr A (xenon_call cli pw host url data what)"
proof -
  define r where "r = NewXenonHttpRequest (hc_bad_url cli) (NewRequestConfig host pw url data)"
  have "A (ev req)" if "r = Ok req" for req
    by (rule assms)
       (use that in \<open>cases url; auto simp: r_def NewXenonHttpRequest_def newHttpGetRequest_def
          newHttpPostRequest_def NewRequestConfig_def Let_def split: option.splits\<close>)+
  then have "emits tr A (handle (Execute cli req) (\<lambda>e. fail (GErr what)))" if "r = Ok req" for req
    using that by (intro emits_intros Execute_emits)
  then show ?thesis
    unfolding xenon_call_def r_def [symmetric]
    by (cases r) (auto simp: emits_def bnd_def lift_def)
qed

end

end
