(* ===== verification/World.thy ===== *)
theory World
  imports CtlTypes SqlCheck XenonApi
begin

text \<open>
  The world the syncers act on. Everything a syncer does outside its own memory (the API
  server, SQL connections, HTTP requests to xenon, commands in a pod, sleeping) is an
  event, appended to the trace of the state; what the outside answers is a function of the
  trace so far, given by the record \<open>Env\<close>, so every theorem that does not constrain
  \<open>Env\<close> holds for every behaviour of the cluster, including errors at any call and answers
  that change from one call to the next.

  The SQL runner and the HTTP client of the world are proved to keep the contracts
  \<open>sql_runner\<close> and \<open>http_client\<close>; so the lemmas proved in those locales hold of them.
\<close>

section \<open>The stateful set object\<close>

record PodTemplate =
  tp_Name :: string
  tp_Labels :: smap
  tp_Annotations :: smap
  tp_Spec :: PodSpec

text \<open>
  \<open>appsv1.StatefulSet\<close>: the part of the specification the operator sets, and the part of the
  status it reads. \<open>sf_Labels = None\<close> is the nil map. \<open>ps_Containers = []\<close> is the nil slice of
  a set that was not read from the API server.
\<close>

record StatefulSetObj =
  sf_Name :: string
  sf_Namespace :: string
  sf_Labels :: "smap option"
  sf_Annotations :: smap
  sf_Replicas :: int
  sf_ServiceName :: string
  sf_Selector :: smap
  sf_UpdateStrategy :: string
  sf_Template :: PodTemplate
  sf_VolumeClaimTemplates :: "VolumeClaim list"
  sf_Owned :: bool
  sf_UpdatedReplicas :: int
  sf_ReadyReplicas :: int
  sf_StatusReplicas :: int
  sf_UpdateRevision :: string

text \<open>\<open>err.Error()\<close>.\<close>

definition err_text :: "gerr \<Rightarrow> string" where
  "err_text e = (case e of GErr s \<Rightarrow> s | NotFound s \<Rightarrow> s | Invalid s \<Rightarrow> s | ApiErr s \<Rightarrow> s
     | OwnerDeleted \<Rightarrow> ''owner is deleted'' | IgnoreErr \<Rightarrow> ''ignored error''
     | WaitTimeout \<Rightarrow> ''timed out waiting for the condition'')"

section \<open>Events and answers\<close>

datatype event =
    EvHttp Request
  | EvSqlOpen string                       \<comment> \<open>data source name\<close>
  | EvSqlPing string
  | EvSql string Query                     \<comment> \<open>host, query or statement\<close>
  | EvSleep
  | EvExec string string string "string list"   \<comment> \<open>namespace, pod, container, command\<close>
  | EvGetCluster string string
  | EvGetSecret string string
  | EvListPods string smap string          \<comment> \<open>namespace, labels, further requirement\<close>
  | EvGetPod string string
  | EvSawPod Pod                           \<comment> \<open>the answer to \<open>EvGetPod\<close>\<close>
  | EvUpdatePod Pod
  | EvPatchPod Pod Pod                     \<comment> \<open>before, after\<close>
  | EvDeletePod Pod
  | EvListPVC string smap
  | EvGetPVC string string
  | EvSawPVC PVC
  | EvUpdatePVC PVC
  | EvDeletePVC string
  | EvListBackups string string            \<comment> \<open>namespace, cluster\<close>
  | EvGetSfs string
  | EvCreateSfs StatefulSetObj
  | EvUpdateSfs StatefulSetObj
  | EvDeleteSfs string
  | EvGetService string
  | EvDeleteService string
  | EvCtl ctl_event                        \<comment> \<open>see \<open>CtlTypes\<close>\<close>

record Env =
  we_err :: "event list \<Rightarrow> gerr option"
  we_now :: "event list \<Rightarrow> int"
  we_timeout :: "event list \<Rightarrow> bool"
  we_http :: "event list \<Rightarrow> HttpResponse"
  we_bad_url :: "string \<Rightarrow> gerr option"
  we_rows :: "event list \<Rightarrow> Rows"
  we_u8 :: "event list \<Rightarrow> nat"
  we_f64 :: "event list \<Rightarrow> float64"
  we_executor :: "event list \<Rightarrow> gerr option"
  we_stderr :: "event list \<Rightarrow> string"
  we_cluster :: "event list \<Rightarrow> MysqlCluster"
  we_secret :: "event list \<Rightarrow> smap"
  we_pods :: "event list \<Rightarrow> Pod list"
  we_pod :: "event list \<Rightarrow> Pod"
  we_pvcs :: "event list \<Rightarrow> PVC list"
  we_pvc :: "event list \<Rightarrow> PVC"
  we_backups :: "event list \<Rightarrow> Backup list"
  we_sfs :: "event list \<Rightarrow> StatefulSetObj"
  we_ctl :: "event list \<Rightarrow> CtlAnswers"

record World =
  w_trace :: "event list"

definition record_ev :: "event \<Rightarrow> ('z World_scheme, unit) go" where
  "record_ev e = modify (\<lambda>s. s\<lparr>w_trace := w_trace s @ [e]\<rparr>)"

text \<open>A call: the event, then the error the world answers with, if any.\<close>

definition call :: "Env \<Rightarrow> event \<Rightarrow> ('z World_scheme, unit) go" where
  "call E e = bnd (record_ev e) (\<lambda>_. bnd (gets (\<lambda>s. we_err E (w_trace s))) (\<lambda>r. case r of
      Some er \<Rightarrow> fail er | None \<Rightarrow> ret ()))"

definition query :: "Env \<Rightarrow> event \<Rightarrow> (event list \<Rightarrow> 'a) \<Rightarrow> ('z World_scheme, 'a) go" where
  "query E e f = bnd (call E e) (\<lambda>_. gets (\<lambda>s. f (w_trace s)))"

definition now :: "Env \<Rightarrow> ('z World_scheme, time) go" where
  "now E = gets (\<lambda>s. Some (we_now E (w_trace s)))"

lemma emits_record [emits_intros]: "A e \<Longrightarrow> emits w_trace A (record_ev e)"
  by (simp add: emits_def record_ev_def modify_def)

lemma emits_call [emits_intros]: "A e \<Longrightarrow> emits w_trace A (call E e)"
  unfolding call_def by (intro emits_intros)

lemma emits_query [emits_intros]: "A e \<Longrightarrow> emits w_trace A (query E e f)"
  unfolding query_def by (intro emits_intros)

lemma emits_now [emits_intros]: "emits w_trace A (now E)"
  unfolding now_def by (intro emits_intros)

lemma trace_call: "w_trace (snd (call E e s)) = w_trace s @ [e]"
  by (simp add: call_def record_ev_def bnd_def modify_def gets_def fail_def ret_def split: option.split)

lemma trace_query: "w_trace (snd (query E e f s)) = w_trace s @ [e]"
  using trace_call [of E e s]
  by (cases "call E e s"; cases "fst (call E e s)") (simp_all add: query_def bnd_def gets_def)

lemma call_run:
  "call E e s = ((case we_err E (w_trace s @ [e]) of Some er \<Rightarrow> Fail er | None \<Rightarrow> Ok ()), s\<lparr>w_trace := w_trace s @ [e]\<rparr>)"
  by (simp add: call_def record_ev_def bnd_def modify_def gets_def fail_def ret_def split: option.split)

text \<open>Calls change nothing but the trace.\<close>

lemma keeps_call [keeps_intros]: "(\<And>s t. P s \<Longrightarrow> P (s\<lparr>w_trace := t\<rparr>)) \<Longrightarrow> keeps P (call E e)"
  unfolding call_def record_ev_def by (intro keeps_intros) auto

lemma keeps_query [keeps_intros]: "(\<And>s t. P s \<Longrightarrow> P (s\<lparr>w_trace := t\<rparr>)) \<Longrightarrow> keeps P (query E e f)"
  unfolding query_def by (intro keeps_intros) auto

lemma keeps_now [keeps_intros]: "keeps P (now E)"
  unfolding now_def by (intro keeps_intros)

section \<open>The API server\<close>

definition get_cluster :: "Env \<Rightarrow> string \<times> string \<Rightarrow> ('z World_scheme, MysqlCluster) go" where
  "get_cluster E key = query E (EvGetCluster (fst key) (snd key)) (we_cluster E)"

definition get_secret :: "Env \<Rightarrow> string \<Rightarrow> string \<Rightarrow> ('z World_scheme, smap) go" where
  "get_secret E ns name = query E (EvGetSecret ns name) (we_secret E)"

definition list_pods :: "Env \<Rightarrow> string \<Rightarrow> smap \<Rightarrow> string \<Rightarrow> ('z World_scheme, Pod list) go" where
  "list_pods E ns sel extra = query E (EvListPods ns sel extra) (we_pods E)"

text \<open>The object a get returns has the requested name and namespace.\<close>

definition get_pod :: "Env \<Rightarrow> string \<Rightarrow> string \<Rightarrow> ('z World_scheme, Pod) go" where
  "get_pod E ns name = bnd (query E (EvGetPod ns name) (we_pod E)) (\<lambda>p0.
     let p = p0\<lparr>pod_Name := name, pod_Namespace := ns\<rparr> in bnd (record_ev (EvSawPod p)) (\<lambda>_. ret p))"

definition get_pvc :: "Env \<Rightarrow> string \<Rightarrow> string \<Rightarrow> ('z World_scheme, PVC) go" where
  "get_pvc E ns name = bnd (query E (EvGetPVC ns name) (we_pvc E)) (\<lambda>p0.
     let p = p0\<lparr>pvc_Name := name\<rparr> in bnd (record_ev (EvSawPVC p)) (\<lambda>_. ret p))"

lemma emits_reads [emits_intros]:
  "A (EvGetCluster (fst key) (snd key)) \<Longrightarrow> emits w_trace A (get_cluster E key)"
  "A (EvGetSecret ns name) \<Longrightarrow> emits w_trace A (get_secret E ns name)"
  "A (EvListPods ns sel extra) \<Longrightarrow> emits w_trace A (list_pods E ns sel extra)"
  unfolding get_cluster_def get_secret_def list_pods_def by (intro emits_intros; assumption)+

lemma emits_get_pod [emits_intros]:
  "A (EvGetPod ns name) \<Longrightarrow> (\<And>p. pod_Name p = name \<Longrightarrow> A (EvSawPod p)) \<Longrightarrow> emits w_trace A (get_pod E ns name)"
  unfolding get_pod_def Let_def by (intro emits_intros) simp_all

lemma emits_get_pvc [emits_intros]:
  "A (EvGetPVC ns name) \<Longrightarrow> (\<And>p. pvc_Name p = name \<Longrightarrow> A (EvSawPVC p)) \<Longrightarrow> emits w_trace A (get_pvc E ns name)"
  unfolding get_pvc_def Let_def by (intro emits_intros) simp_all

section \<open>SQL connections\<close>

definition world_sql :: "Env \<Rightarrow> string \<Rightarrow> 'z World_scheme SQLRunner" where
  "world_sql E host = \<lparr>
     sr_rows = (\<lambda>q. query E (EvSql host q) (we_rows E)),
     sr_u8 = (\<lambda>q. query E (EvSql host q) (we_u8 E)),
     sr_f64 = (\<lambda>q. query E (EvSql host q) (we_f64 E)),
     sr_exec = (\<lambda>q. call E (EvSql host q)),
     sr_sleep = record_ev EvSleep\<rparr>"

interpretation wsql: sql_runner "world_sql E host" w_trace "EvSql host" EvSleep for E host
  by unfold_locales (simp_all add: world_sql_def trace_query trace_call record_ev_def modify_def)

definition open_db :: "Env \<Rightarrow> string \<Rightarrow> ('z World_scheme, unit) go" where
  "open_db E dsn = call E (EvSqlOpen dsn)"

definition ping_db :: "Env \<Rightarrow> string \<Rightarrow> ('z World_scheme, unit) go" where
  "ping_db E dsn = call E (EvSqlPing dsn)"

text \<open>
  \<open>SQLRunnerFactory(NewConfigFromClusterKey(...))\<close>: the connection is named by its host \<open>h\<close>, and
  the runner on it is \<open>world_sql E h\<close>.
\<close>

definition runner_of :: "Env \<Rightarrow> gerr + Config \<Rightarrow> ('z World_scheme, string) go" where
  "runner_of E cfg = NewSQLRunner (open_db E) (ping_db E) cf_Host cfg"

definition config_of :: "Env \<Rightarrow> MysqlCluster \<Rightarrow> string \<Rightarrow> string \<Rightarrow> ('z World_scheme, Config) go" where
  "config_of E c user host = NewConfigFromClusterKey (get_cluster E) (get_secret E) (GetClusterKey c) user host"

text \<open>
  The goroutine that connects, and the \<open>select\<close> that gives up after five seconds: no runner
  on an error, nor when the timer (or the close function of an earlier connection that
  came late on the shared channel) wins the \<open>select\<close>.
\<close>

definition try_runner :: "Env \<Rightarrow> MysqlCluster \<Rightarrow> string \<Rightarrow> string \<Rightarrow> ('z World_scheme, string option) go" where
  "try_runner E c user host =
     bnd (attempt (config_of E c user host)) (\<lambda>cfg.
     bnd (attempt (runner_of E cfg)) (\<lambda>r. case r of
         Inl e \<Rightarrow> ret None
       | Inr h \<Rightarrow> bnd (gets (\<lambda>s. we_timeout E (w_trace s))) (\<lambda>late. ret (if late then None else Some h))))"

text \<open>Connecting reads the cluster and its secret and opens a connection, nothing else.\<close>

fun ev_connect :: "event \<Rightarrow> bool" where
  "ev_connect (EvGetCluster ns n) = True"
| "ev_connect (EvGetSecret ns n) = True"
| "ev_connect (EvSqlOpen d) = True"
| "ev_connect (EvSqlPing d) = True"
| "ev_connect _ = False"

lemma config_emits:
  assumes "\<And>e. ev_connect e \<Longrightarrow> A e"
  shows "emits w_trace A (config_of E c user host)"
proof -
  have A: "A (EvGetCluster ns n)" "A (EvGetSecret ns n)" for ns n by (simp_all add: assms)
  show ?thesis
    unfolding config_of_def NewConfigFromClusterKey_def Let_def
    by (intro emits_intros A)
qed

lemma runner_emits:
  assumes "\<And>e. ev_connect e \<Longrightarrow> A e"
  shows "emits w_trace A (runner_of E cfg)"
proof -
  have A: "A (EvSqlOpen d)" "A (EvSqlPing d)" for d by (simp_all add: assms)
  show ?thesis
    unfolding runner_of_def NewSQLRunner_def open_db_def ping_db_def
    by (intro emits_intros A)
qed

lemma try_runner_emits: "(\<And>e. ev_connect e \<Longrightarrow> A e) \<Longrightarrow> emits w_trace A (try_runner E c user host)"
  unfolding try_runner_def by (intro emits_intros config_emits runner_emits)

section \<open>Xenon and pod commands\<close>

definition world_http :: "Env \<Rightarrow> 'z World_scheme HttpClient" where
  "world_http E = \<lparr>hc_do = (\<lambda>req. query E (EvHttp req) (we_http E)), hc_bad_url = we_bad_url E\<rparr>"

interpretation whttp: http_client "world_http E" w_trace EvHttp for E
  by unfold_locales (simp add: world_http_def trace_query)

text \<open>\<open>NewPodExecutor\<close> loads the client configuration, which can fail.\<close>

definition NewPodExecutor :: "Env \<Rightarrow> ('z World_scheme, unit) go" where
  "NewPodExecutor E = bnd (gets (\<lambda>s. we_executor E (w_trace s))) (\<lambda>r. case r of Some e \<Rightarrow> fail e | None \<Rightarrow> ret ())"

lemma emits_NewPodExecutor [emits_intros]: "emits w_trace A (NewPodExecutor E)"
  unfolding NewPodExecutor_def by (intro emits_intros)

text \<open>\<open>PodExecutor\<close>: a command, its error, and the error made of a non-empty stderr.\<close>

definition run_in_xenon :: "Env \<Rightarrow> string \<Rightarrow> string \<Rightarrow> string list \<Rightarrow> ('z World_scheme, unit) go" where
  "run_in_xenon E ns pod cmd = bnd (query E (EvExec ns pod ''xenon'' cmd) (we_stderr E)) (\<lambda>stderr.
     if length stderr \<noteq> 0 then fail (GErr ''run command in xenon failed'') else ret ())"

definition SetGlobalSysVar :: "Env \<Rightarrow> string \<Rightarrow> string \<Rightarrow> string \<Rightarrow> ('z World_scheme, unit) go" where
  "SetGlobalSysVar E ns pod q = run_in_xenon E ns pod [''xenoncli'', ''mysql'', ''sysvar'', q]"

definition CloseXenonSemiCheck :: "Env \<Rightarrow> string \<Rightarrow> string \<Rightarrow> ('z World_scheme, unit) go" where
  "CloseXenonSemiCheck E ns pod = run_in_xenon E ns pod [''xenoncli'', ''raft'', ''disablechecksemisync'']"

definition XenonTryLeader :: "Env \<Rightarrow> string \<Rightarrow> string \<Rightarrow> ('z World_scheme, unit) go" where
  "XenonTryLeader E ns pod = run_in_xenon E ns pod [''xenoncli'', ''raft'', ''trytoleader'']"

lemma run_in_xenon_emits [emits_intros]:
  "A (EvExec ns pod ''xenon'' cmd) \<Longrightarrow> emits w_trace A (run_in_xenon E ns pod cmd)"
  unfolding run_in_xenon_def by (intro emits_intros)

text \<open>
  The checks of a node's replication state never write to the server. Whatever the
  server answers, and however many times the check is retried, the only things that reach
  it are SHOW SLAVE STATUS, at most once per allowed attempt, and the read of
  long_query_time; the retry loop sleeps at most once per attempt.
\<close>

theorem CheckSlaveStatusWithRetry_readonly:
  fixes s :: "'z World_scheme"
  shows "\<exists>es. w_trace (snd (CheckSlaveStatusWithRetry (world_sql E host) n lag s)) = w_trace s @ es \<and>
     set es \<subseteq> {EvSql host SlaveStatus_query, EvSql host (GlobalVariable_query ''long_query_time''), EvSleep} \<and>
     count_list es (EvSql host SlaveStatus_query) \<le> n \<and> count_list es EvSleep \<le> n"
proof -
  define m where "m = (CheckSlaveStatusWithRetry (world_sql E host) n lag :: ('z World_scheme, _) go)"
  define S where "S = {EvSql host SlaveStatus_query, EvSql host (GlobalVariable_query ''long_query_time''), EvSleep}"
  have count: "\<exists>es. w_trace (snd (m s)) = w_trace s @ es \<and>
      count_list es (EvSql host SlaveStatus_query) \<le> n \<and> count_list es EvSleep \<le> n"
    unfolding CheckSlaveStatusWithRetry_def m_def by (rule wsql.retry_count)
  have "emits w_trace (\<lambda>e. e \<in> S) m"
    unfolding CheckSlaveStatusWithRetry_def m_def by (rule wsql.retry_emits) (simp_all add: S_def)
  from emitsD [OF this, of s] have "\<exists>fs. w_trace (snd (m s)) = w_trace s @ fs \<and> set fs \<subseteq> S"
    by (simp add: list_all_iff subset_eq)
  with count have "\<exists>es. w_trace (snd (m s)) = w_trace s @ es \<and> set es \<subseteq> S \<and>
      count_list es (EvSql host SlaveStatus_query) \<le> n \<and> count_list es EvSleep \<le> n"
    by (metis same_append_eq)
  then show ?thesis unfolding m_def S_def .
qed

end
