(* ===== verification/StatusBase.thy ===== *)
theory StatusBase
  imports World
begin

text \<open>
  The state and the data structures of \<open>mysqlcluster/syncer/status.go\<close>: the arrays of cluster
  and node conditions, the table of node statuses, the state of the cluster, and the
  labels a pod gets from its node status.

  The state of the status syncer is the trace of the world, the \<open>MysqlCluster\<close> it holds
  (whose status it edits in place), and the pod list \<open>list.Items\<close>, whose label maps are
  shared with the copies the loops work on, so a label written through a copy is written
  here too.
\<close>

record StatusState = World +
  ss_cluster :: MysqlCluster
  ss_items :: "Pod list"

definition status_of :: "StatusState \<Rightarrow> MysqlClusterStatus" where
  "status_of s = mc_Status (ss_cluster s)"

definition upd_status :: "(MysqlClusterStatus \<Rightarrow> MysqlClusterStatus) \<Rightarrow> (StatusState, unit) go" where
  "upd_status f = modify (\<lambda>s. s\<lparr>ss_cluster := (ss_cluster s)\<lparr>mc_Status := f (mc_Status (ss_cluster s))\<rparr>\<rparr>)"

section \<open>Condition arrays\<close>

definition set_cluster_cond :: "nat \<Rightarrow> ClusterCondition \<Rightarrow> ClusterCondition list \<Rightarrow> ClusterCondition list" where
  "set_cluster_cond idx cond conds = (if cc_Status (conds ! idx) \<noteq> cc_Status cond then conds[idx := cond] else conds)"

text \<open>
  \<open>updateClusterCondition\<close>: an index out of range drops all conditions (the comment in the code: an
  object written by an older version); they are initialised again by the next sync.
\<close>

definition updateClusterCondition ::
  "nat \<Rightarrow> ClusterCondition \<Rightarrow> bool \<Rightarrow> MysqlClusterStatus \<Rightarrow> MysqlClusterStatus" where
  "updateClusterCondition idx cond force st =
     (if idx \<ge> length (st_Conditions st) then st\<lparr>st_Conditions := []\<rparr>
      else if force then st\<lparr>st_Conditions := (st_Conditions st)[idx := cond]\<rparr>
      else st\<lparr>st_Conditions := set_cluster_cond idx cond (st_Conditions st)\<rparr>)"

definition set_node_cond :: "nat \<Rightarrow> ConditionStatus \<times> time \<Rightarrow> NodeCondition list \<Rightarrow> NodeCondition list" where
  "set_node_cond idx c conds =
     (if nc_Status (conds ! idx) \<noteq> fst c
      then conds[idx := (conds ! idx)\<lparr>nc_Status := fst c, nc_LastTransitionTime := snd c\<rparr>] else conds)"

definition updateNodeCondition :: "time \<Rightarrow> nat \<Rightarrow> ConditionStatus \<Rightarrow> NodeStatus \<Rightarrow> NodeStatus res" where
  "updateNodeCondition t idx status node =
     (if idx < length (ns_Conditions node)
      then Ok (node\<lparr>ns_Conditions := set_node_cond idx (status, t) (ns_Conditions node)\<rparr>)
      else Panic ''index out of range'')"

text \<open>
  The contract both arrays keep: an update at a valid index changes that entry only, and
  only when its status changes, so a repeated report moves neither the entry nor its
  transition time.
\<close>

locale condition_array =
  fixes upd :: "nat \<Rightarrow> 'c \<Rightarrow> 'a list \<Rightarrow> 'a list" and view :: "'a \<Rightarrow> 'c" and st :: "'c \<Rightarrow> ConditionStatus"
  assumes len_upd: "length (upd i c xs) = length xs"
    and upd_other: "j \<noteq> i \<Longrightarrow> upd i c xs ! j = xs ! j"
    and upd_same: "st (view (xs ! i)) = st c \<Longrightarrow> upd i c xs = xs"
    and upd_new: "i < length xs \<Longrightarrow> st (view (xs ! i)) \<noteq> st c \<Longrightarrow> view (upd i c xs ! i) = c"
begin

lemma status_after: "i < length xs \<Longrightarrow> st (view (upd i c xs ! i)) = st c"
  by (cases "st (view (xs ! i)) = st c") (simp_all add: upd_same upd_new)

lemma upd_absorb:
  assumes "i < length xs" "st c = st c'"
  shows "upd i c' (upd i c xs) = upd i c xs"
  using status_after [OF assms(1), of c] assms(2) by (simp add: upd_same)

text \<open>Reporting a batch of statuses: every index holds the last status reported for it.\<close>

lemma batch_status:
  "i < length xs \<Longrightarrow>
   st (view (fold (\<lambda>p. upd (fst p) (snd p)) ps xs ! i)) =
     (case map_of (rev ps) i of Some c \<Rightarrow> st c | None \<Rightarrow> st (view (xs ! i)))"
proof (induction ps arbitrary: xs)
  case (Cons p ps)
  obtain k c where p: "p = (k, c)" by (cases p)
  have *: "length (upd k c xs) = length xs" by (rule len_upd)
  have "st (view (upd k c xs ! i)) = (if i = k then st c else st (view (xs ! i)))"
    using Cons.prems status_after [of k xs c] upd_other [of i k c xs] by auto
  with Cons.IH [of "upd k c xs"] Cons.prems show ?case
    by (auto simp: p * map_add_def split: option.split)
qed simp

end

interpretation cluster_conds: condition_array set_cluster_cond id cc_Status
  by unfold_locales (auto simp: set_cluster_cond_def)

interpretation node_conds: condition_array set_node_cond "\<lambda>c. (nc_Status c, nc_LastTransitionTime c)" fst
  by unfold_locales (auto simp: set_node_cond_def)

section \<open>The table of node statuses\<close>

fun node_index :: "nat \<Rightarrow> NodeStatus list \<Rightarrow> string \<Rightarrow> nat option" where
  "node_index i [] name = None"
| "node_index i (n # ns) name = (if ns_Name n = name then Some i else node_index (Suc i) ns name)"

definition new_cond :: "time \<Rightarrow> NodeConditionType \<Rightarrow> NodeCondition" where
  "new_cond t ty = \<lparr>nc_Type = ty, nc_Status = CondUnknown, nc_LastTransitionTime = t\<rparr>"

definition new_node :: "time \<Rightarrow> string \<Rightarrow> NodeConditionType list \<Rightarrow> NodeStatus" where
  "new_node t name tys = \<lparr>ns_Name = name, ns_Message = [], ns_RaftStatus = \<lparr>rf_Role = [], rf_Leader = [], rf_Nodes = []\<rparr>,
     ns_RoStatus = None, ns_Conditions = map (new_cond t) tys\<rparr>"

definition find_or_add :: "time \<Rightarrow> string \<Rightarrow> NodeConditionType list \<Rightarrow> NodeStatus list \<Rightarrow> nat \<times> NodeStatus list" where
  "find_or_add t name tys nodes = (case node_index 0 nodes name of
      Some i \<Rightarrow> (i, nodes)
    | None \<Rightarrow> (length nodes, nodes @ [new_node t name tys]))"

definition getNodeStatusIndex :: "time \<Rightarrow> string \<Rightarrow> NodeStatus list \<Rightarrow> nat \<times> NodeStatus list" where
  "getNodeStatusIndex t name nodes = find_or_add t name
     [NodeConditionLagged, NodeConditionLeader, NodeConditionReadOnly, NodeConditionReplicating] nodes"

definition getRoStatusIndex :: "time \<Rightarrow> string \<Rightarrow> NodeStatus list \<Rightarrow> nat \<times> NodeStatus list" where
  "getRoStatusIndex t name nodes = find_or_add t name
     [NodeConditionRoInitial, NodeConditionRoReadOnly, NodeConditionRoSemiClose, NodeConditionRoReplicating] nodes"

lemma node_index_Some:
  "node_index k ns name = Some i \<Longrightarrow> k \<le> i \<and> i - k < length ns \<and> ns_Name (ns ! (i - k)) = name"
proof (induction k ns name rule: node_index.induct)
  case (2 k n ns name)
  then show ?case by (auto simp: nth_Cons' split: if_splits)
qed simp

lemma node_index_None: "node_index k ns name = None \<longleftrightarrow> name \<notin> ns_Name ` set ns"
  by (induction k ns name rule: node_index.induct) auto

lemma find_or_add_known:
  assumes "name \<in> ns_Name ` set nodes"
  obtains i where "find_or_add t name tys nodes = (i, nodes)" "i < length nodes" "ns_Name (nodes ! i) = name"
proof -
  obtain i where i: "node_index 0 nodes name = Some i"
    using assms by (cases "node_index 0 nodes name") (simp_all add: node_index_None)
  then show thesis using that node_index_Some [OF i] by (simp add: find_or_add_def)
qed

lemma find_or_add_new:
  "name \<notin> ns_Name ` set nodes \<Longrightarrow> find_or_add t name tys nodes = (length nodes, nodes @ [new_node t name tys])"
  by (simp add: find_or_add_def flip: node_index_None [of 0])

lemma new_node_name [simp]: "ns_Name (new_node t name tys) = name"
  by (simp add: new_node_def)

text \<open>
  The node table is a table: looking a node up gives an index inside it whose entry has
  the asked name, a known node is found without changing the table, an unknown one is
  appended, with the four conditions of its kind unknown, and names never repeat.
\<close>

theorem getNodeStatusIndex_table:
  assumes "distinct (map ns_Name nodes)"
  shows "(case getNodeStatusIndex t name nodes of (i, nodes') \<Rightarrow>
      i < length nodes' \<and> ns_Name (nodes' ! i) = name \<and> distinct (map ns_Name nodes') \<and>
      (name \<in> ns_Name ` set nodes \<longrightarrow> nodes' = nodes) \<and>
      (name \<notin> ns_Name ` set nodes \<longrightarrow> (\<exists>n. nodes' = nodes @ [n] \<and> length (ns_Conditions n) = 4 \<and>
         list_all (\<lambda>c. nc_Status c = CondUnknown) (ns_Conditions n))))"
proof (cases "name \<in> ns_Name ` set nodes")
  case True
  then obtain i where "getNodeStatusIndex t name nodes = (i, nodes)" "i < length nodes" "ns_Name (nodes ! i) = name"
    unfolding getNodeStatusIndex_def by (rule find_or_add_known)
  with True assms show ?thesis by simp
next
  case False
  then show ?thesis
    using assms by (simp add: getNodeStatusIndex_def find_or_add_new) (simp add: new_node_def new_cond_def)
qed

theorem getNodeStatusIndex_table_witness:
  "case getNodeStatusIndex None ''a'' [new_node None ''b'' []] of (i, nodes') \<Rightarrow> distinct (map ns_Name nodes') \<and> i < length nodes'"
  using getNodeStatusIndex_table [of "[new_node None ''b'' []]" "''a''" None] by (auto split: prod.splits)

section \<open>The state of the cluster\<close>

text \<open>\<open>updateClusterStatus\<close>: the condition it returns, its index (\<open>None\<close> for -1), and the new state.\<close>

definition updateClusterStatus ::
  "time \<Rightarrow> int \<Rightarrow> MysqlClusterStatus \<Rightarrow> (ClusterCondition \<times> nat option) \<times> MysqlClusterStatus" where
  "updateClusterStatus t replicas st =
     (let cond = (\<lambda>ty. \<lparr>cc_Type = ty, cc_Status = CondTrue, cc_LastTransitionTime = t, cc_Reason = [], cc_Message = []\<rparr>);
          oldState = st_State st
      in if oldState = [] then ((cond ConditionInit, Some ClIndexInit), st\<lparr>st_State := ClusterInitState\<rparr>)
         else if oldState = ClusterUpdateState then ((cond oldState, Some ClIndexUpdate), st)
         else if replicas = 0 \<and> st_ReadyNodes st = 0
           then ((cond ConditionClose, Some ClIndexClose), st\<lparr>st_State := ClusterCloseState\<rparr>)
         else if (oldState = ClusterReadyState \<or> oldState = ClusterCloseState) \<and> replicas > st_ReadyNodes st
           then ((cond ConditionScaleOut, Some ClIndexScaleOut), st\<lparr>st_State := ClusterScaleOutState\<rparr>)
         else if (oldState = ClusterReadyState \<or> oldState = ClusterCloseState) \<and> replicas < st_ReadyNodes st
           then ((cond ConditionScaleIn, Some ClIndexScaleIn), st\<lparr>st_State := ClusterScaleInState\<rparr>)
         else ((cond oldState, None), st))"


text \<open>The transitions of the cluster state that one call can make.\<close>

inductive state_step :: "int \<Rightarrow> int \<Rightarrow> ClusterState \<Rightarrow> ClusterState \<Rightarrow> bool" for replicas ready where
  init: "state_step replicas ready [] ClusterInitState"
| updating: "state_step replicas ready ClusterUpdateState ClusterUpdateState"
| close: "st \<noteq> [] \<Longrightarrow> st \<noteq> ClusterUpdateState \<Longrightarrow> replicas = 0 \<Longrightarrow> ready = 0 \<Longrightarrow>
    state_step replicas ready st ClusterCloseState"
| scale_out: "st = ClusterReadyState \<or> st = ClusterCloseState \<Longrightarrow> replicas > ready \<Longrightarrow>
    state_step replicas ready st ClusterScaleOutState"
| scale_in: "st = ClusterReadyState \<or> st = ClusterCloseState \<Longrightarrow> \<not> (replicas = 0 \<and> ready = 0) \<Longrightarrow> replicas < ready \<Longrightarrow>
    state_step replicas ready st ClusterScaleInState"
| stay: "st \<noteq> [] \<Longrightarrow> st \<noteq> ClusterUpdateState \<Longrightarrow> \<not> (replicas = 0 \<and> ready = 0) \<Longrightarrow>
    (st = ClusterReadyState \<or> st = ClusterCloseState \<Longrightarrow> replicas = ready) \<Longrightarrow> state_step replicas ready st st"

inductive_cases state_step_elim: "state_step replicas ready st st'"

lemma state_names: "distinct [[], ClusterInitState, ClusterUpdateState, ClusterReadyState, ClusterCloseState,
    ClusterScaleInState, ClusterScaleOutState]"
  by (simp add: state_defs)

lemma updateClusterStatus_steps:
  "snd (updateClusterStatus t replicas st) = st\<lparr>st_State := st_State (snd (updateClusterStatus t replicas st))\<rparr> \<and>
   state_step replicas (st_ReadyNodes st) (st_State st) (st_State (snd (updateClusterStatus t replicas st)))"
  using state_names
  by (auto simp: updateClusterStatus_def Let_def intro: state_step.intros)

lemma state_step_deterministic:
  "state_step replicas ready st a \<Longrightarrow> state_step replicas ready st b \<Longrightarrow> a = b"
  using state_names
  by (elim state_step_elim) auto

text \<open>
  C11. The cluster state machine. \<open>updateClusterStatus\<close> changes the status only in its state, and
  the new state is the one successor the transition relation allows: no state is
  initialised, an update in progress is left alone, a cluster with no replicas wanted and
  none ready is closed, a ready or closed cluster whose counts differ scales in the
  direction of the difference, and everything else stays. A scaling or initialising
  cluster never changes direction here; only \<open>Sync\<close> makes it ready.
\<close>

theorem updateClusterStatus_state_machine:
  "snd (updateClusterStatus t replicas st) = st\<lparr>st_State := st_State (snd (updateClusterStatus t replicas st))\<rparr> \<and>
   (state_step replicas (st_ReadyNodes st) (st_State st) st' \<longleftrightarrow> st' = st_State (snd (updateClusterStatus t replicas st)))"
  using updateClusterStatus_steps [of t replicas st] state_step_deterministic by blast

section \<open>Labels of a pod\<close>

text \<open>What \<open>updatePodLabel\<close> puts in the label \<open>healthy\<close>.\<close>

definition node_healthy :: "NodeStatus \<Rightarrow> bool" where
  "node_healthy node =
     (let cond = (\<lambda>i. nc_Status (ns_Conditions node ! i)) in
      cond IndexLagged = CondFalse \<and>
      ((cond IndexLeader = CondFalse \<and> cond IndexReadOnly = CondTrue \<and> cond IndexReplicating = CondTrue) \<or>
       (cond IndexLeader = CondTrue \<and> cond IndexReplicating = CondFalse \<and> cond IndexReadOnly = CondFalse)))"

definition pod_gone :: "Pod \<Rightarrow> bool" where
  "pod_gone pod \<longleftrightarrow> pod_Deleting pod \<or> pod_Phase pod \<noteq> PodRunning"

definition mysql_unready :: "Pod \<Rightarrow> bool" where
  "mysql_unready pod \<longleftrightarrow> list_ex (\<lambda>c. cs_Name c = ''mysql'' \<and> \<not> cs_Ready c) (pod_ContainerStatuses pod)"

text \<open>The pod after the update, the node, and whether a patch is sent.\<close>

definition new_labels :: "Pod \<Rightarrow> NodeStatus \<Rightarrow> Pod \<times> NodeStatus \<times> bool" where
  "new_labels pod node =
     (let healthy = (if node_healthy node then ''yes'' else ''no'');
          (healthy, node) = (if pod_gone pod
            then (''no'', node\<lparr>ns_RaftStatus := (ns_RaftStatus node)\<lparr>rf_Role := Unknown\<rparr>\<rparr>) else (healthy, node));
          (healthy, updated) = (if mysql_unready pod then (''no'', True) else (healthy, False));
          (ls, updated) = (if lget (pod_Labels pod) ''healthy'' \<noteq> healthy
            then ((pod_Labels pod)(''healthy'' \<mapsto> healthy), True) else (pod_Labels pod, updated));
          role = rf_Role (ns_RaftStatus node);
          (ls, updated) = (if lget ls ''role'' \<noteq> role then (ls(''role'' \<mapsto> role), True) else (ls, updated))
      in (pod\<lparr>pod_Labels := ls\<rparr>, node, updated))"


text \<open>A healthy follower.\<close>

definition sample_node :: NodeStatus where
  "sample_node = \<lparr>ns_Name = ''sample-mysql-0'', ns_Message = [],
     ns_RaftStatus = \<lparr>rf_Role = ''FOLLOWER'', rf_Leader = [], rf_Nodes = []\<rparr>, ns_RoStatus = None,
     ns_Conditions = [\<lparr>nc_Type = NodeConditionLagged, nc_Status = CondFalse, nc_LastTransitionTime = None\<rparr>,
       \<lparr>nc_Type = NodeConditionLeader, nc_Status = CondFalse, nc_LastTransitionTime = None\<rparr>,
       \<lparr>nc_Type = NodeConditionReadOnly, nc_Status = CondTrue, nc_LastTransitionTime = None\<rparr>,
       \<lparr>nc_Type = NodeConditionReplicating, nc_Status = CondTrue, nc_LastTransitionTime = None\<rparr>]\<rparr>"

definition sample_pod :: Pod where
  "sample_pod = \<lparr>pod_Name = ''sample-mysql-0'', pod_Namespace = ''default'', pod_Labels = [''healthy'' \<mapsto> ''no''],
     pod_Deleting = False, pod_Phase = PodRunning, pod_Conditions = [], pod_ContainerStatuses = []\<rparr>"


end
