(* ===== verification/StatusNodes.thy ===== *)
theory StatusNodes
  imports StatusBase
begin

text \<open>
  The node handling of \<open>mysqlcluster/syncer/status.go\<close>: reading the raft status of a node, keeping
  xenon's member lists equal to the pods that should exist, the probe of every node
  (\<open>updateNodeStatus\<close>) with the labels it writes, and the trimming of the node table.
  \<open>pw\<close> is the root password stored in the xenon executor.
\<close>

section \<open>Reconciling xenon's members\<close>

definition removeNodesFromXenon :: "Env \<Rightarrow> string \<Rightarrow> string \<Rightarrow> string list \<Rightarrow> ('z World_scheme, unit) go" where
  "removeNodesFromXenon E pw host toRemove =
     bnd (XenonPing (world_http E) pw host) (\<lambda>_. each (\<lambda>removeHost. ClusterRemove (world_http E) pw host removeHost) toRemove)"

definition addNodesInXenon :: "Env \<Rightarrow> string \<Rightarrow> string \<Rightarrow> string list \<Rightarrow> ('z World_scheme, unit) go" where
  "addNodesInXenon E pw host toAdd =
     bnd (XenonPing (world_http E) pw host) (\<lambda>_. each (\<lambda>addHost. ClusterAdd (world_http E) pw host addHost) toAdd)"

definition getExpectXenonNodes :: "MysqlCluster \<Rightarrow> nat \<Rightarrow> string list" where
  "getExpectXenonNodes c readyNodes = map (peer_addr c) [0..<readyNodes]"

definition reconcileXenon :: "Env \<Rightarrow> string \<Rightarrow> MysqlCluster \<Rightarrow> nat \<Rightarrow> ('z World_scheme, unit) go" where
  "reconcileXenon E pw c readyNodes =
     (let expectXenonNodes = getExpectXenonNodes c readyNodes in
      each (\<lambda>nodeStatus.
          if has_prefix (ns_Name nodeStatus) (GetNameForResource c ReadOnlyHeadlessSVC) then ret ()
          else
            let toRemove = StringDiffIn (rf_Nodes (ns_RaftStatus nodeStatus)) expectXenonNodes;
                toAdd = StringDiffIn expectXenonNodes (rf_Nodes (ns_RaftStatus nodeStatus))
            in bnd (removeNodesFromXenon E pw (ns_Name nodeStatus) toRemove) (\<lambda>_.
               addNodesInXenon E pw (ns_Name nodeStatus) toAdd))
        (st_Nodes (mc_Status c)))"

subsection \<open>The commands it issues\<close>

datatype xcmd = Ping string | Remove string string | Add string string

fun run_xcmd :: "Env \<Rightarrow> string \<Rightarrow> xcmd \<Rightarrow> ('z World_scheme, unit) go" where
  "run_xcmd E pw (Ping h) = XenonPing (world_http E) pw h"
| "run_xcmd E pw (Remove h a) = ClusterRemove (world_http E) pw h a"
| "run_xcmd E pw (Add h a) = ClusterAdd (world_http E) pw h a"

fun xreq :: "Env \<Rightarrow> string \<Rightarrow> xcmd \<Rightarrow> Request res" where
  "xreq E pw (Ping h) = NewXenonHttpRequest (we_bad_url E) (NewRequestConfig h pw XenonPingUrl None)"
| "xreq E pw (Remove h a) = NewXenonHttpRequest (we_bad_url E) (NewRequestConfig h pw ClusterRemoveUrl (Some (address_body a)))"
| "xreq E pw (Add h a) = NewXenonHttpRequest (we_bad_url E) (NewRequestConfig h pw ClusterAddUrl (Some (address_body a)))"

definition node_plan :: "string list \<Rightarrow> NodeStatus \<Rightarrow> xcmd list" where
  "node_plan expect n =
     Ping (ns_Name n) # map (Remove (ns_Name n)) (StringDiffIn (rf_Nodes (ns_RaftStatus n)) expect) @
     Ping (ns_Name n) # map (Add (ns_Name n)) (StringDiffIn expect (rf_Nodes (ns_RaftStatus n)))"

definition raft_nodes :: "MysqlCluster \<Rightarrow> NodeStatus list" where
  "raft_nodes c = filter (\<lambda>n. \<not> has_prefix (ns_Name n) (GetNameForResource c ReadOnlyHeadlessSVC)) (st_Nodes (mc_Status c))"

definition xenon_plan :: "MysqlCluster \<Rightarrow> nat \<Rightarrow> xcmd list" where
  "xenon_plan c readyNodes = concat (map (node_plan (getExpectXenonNodes c readyNodes)) (raft_nodes c))"

lemma each_append: "each f (xs @ ys) = bnd (each f xs) (\<lambda>_. each f ys)"
  by (induction xs) (simp_all add: bnd_assoc)

lemma each_map: "each f (map g xs) = each (\<lambda>x. f (g x)) xs"
  by (induction xs) simp_all

lemma each_concat: "each (\<lambda>x. each f (g x)) xs = each f (concat (map g xs))"
  by (induction xs) (simp_all add: each_append)

lemma each_filter: "each (\<lambda>x. if P x then ret () else f x) xs = each f (filter (\<lambda>x. \<not> P x) xs)"
  by (induction xs) simp_all

lemma reconcileXenon_each: "reconcileXenon E pw c n = each (run_xcmd E pw) (xenon_plan c n)"
proof -
  have *: "bnd (removeNodesFromXenon E pw h xs) (\<lambda>_. addNodesInXenon E pw h ys) =
      each (run_xcmd E pw) (Ping h # map (Remove h) xs @ Ping h # map (Add h) ys)" for h xs ys
    by (simp add: removeNodesFromXenon_def addNodesInXenon_def each_append each_map bnd_assoc)
  show ?thesis
    unfolding reconcileXenon_def xenon_plan_def raft_nodes_def Let_def each_filter node_plan_def each_concat [symmetric] * ..
qed

lemma snd_handle_fail: "snd (handle m (\<lambda>e. fail (f e)) s) = snd (m s)"
  by (cases "m s"; cases "fst (m s)") (auto simp: handle_def fail_def)

lemma snd_bnd_ret: "snd (bnd m (\<lambda>x. ret (f x)) s) = snd (m s)"
  by (cases "m s"; cases "fst (m s)") (auto simp: bnd_def ret_def)

lemma bnd_lift: "bnd (lift r) f = (case r of Ok x \<Rightarrow> f x | Fail e \<Rightarrow> fail e | Panic p \<Rightarrow> panic p)"
  by (rule ext) (simp add: bnd_def lift_def fail_def panic_def split: res.split)

lemma world_http_bad [simp]: "hc_bad_url (world_http E) = we_bad_url E"
  by (simp add: world_http_def)

lemma unit_call_trace:
  "w_trace (snd (unit_call (world_http E) pw h url data what s)) =
     w_trace s @ (case NewXenonHttpRequest (we_bad_url E) (NewRequestConfig h pw url data) of Ok req \<Rightarrow> [EvHttp req] | _ \<Rightarrow> [])"
  "fst (unit_call (world_http E) pw h url data what s) = Ok () \<Longrightarrow>
     is_ok (NewXenonHttpRequest (we_bad_url E) (NewRequestConfig h pw url data))"
proof -
  define r where "r = NewXenonHttpRequest (we_bad_url E) (NewRequestConfig h pw url data)"
  have "w_trace (snd (Execute (world_http E) req s)) = w_trace s @ [EvHttp req]" for req
    using trace_query [of E "EvHttp req" "we_http E" s]
    by (cases "query E (EvHttp req) (we_http E) s"; cases "fst (query E (EvHttp req) (we_http E) s)")
       (simp_all add: Execute_def world_http_def bnd_def fail_def ret_def)
  then have ex: "w_trace (snd (handle (Execute (world_http E) req) (\<lambda>e. fail (GErr what)) s)) = w_trace s @ [EvHttp req]" for req
    by (simp add: snd_handle_fail)
  show "w_trace (snd (unit_call (world_http E) pw h url data what s)) =
     w_trace s @ (case NewXenonHttpRequest (we_bad_url E) (NewRequestConfig h pw url data) of Ok req \<Rightarrow> [EvHttp req] | _ \<Rightarrow> [])"
    unfolding r_def [symmetric]
    by (cases r) (simp_all add: unit_call_def xenon_call_def world_http_bad r_def [symmetric] snd_bnd_ret ex bnd_lift fail_def panic_def)
  show "is_ok (NewXenonHttpRequest (we_bad_url E) (NewRequestConfig h pw url data))"
    if "fst (unit_call (world_http E) pw h url data what s) = Ok ()"
    using that unfolding r_def [symmetric]
    by (cases r) (simp_all add: unit_call_def xenon_call_def world_http_bad r_def [symmetric] bnd_lift fail_def panic_def)
qed

lemma run_xcmd_trace:
  "w_trace (snd (run_xcmd E pw x s)) = w_trace s @ (case xreq E pw x of Ok req \<Rightarrow> [EvHttp req] | _ \<Rightarrow> [])"
  "fst (run_xcmd E pw x s) = Ok () \<Longrightarrow> is_ok (xreq E pw x)"
  by (cases x; simp add: XenonPing_def ClusterAdd_def ClusterRemove_def unit_call_trace)+


text \<open>\<open>sent E pw xs\<close>: the requests of a list of commands.\<close>

definition sent :: "Env \<Rightarrow> string \<Rightarrow> xcmd list \<Rightarrow> event list" where
  "sent E pw xs = concat (map (\<lambda>x. case xreq E pw x of Ok req \<Rightarrow> [EvHttp req] | _ \<Rightarrow> []) xs)"

lemma run_plan_trace:
  "\<exists>n. w_trace (snd (each (run_xcmd E pw) xs s)) = w_trace s @ sent E pw (take n xs) \<and>
     (fst (each (run_xcmd E pw) xs s) = Ok () \<longrightarrow> n = length xs \<and> list_all (\<lambda>x. is_ok (xreq E pw x)) xs)"
proof (induction xs arbitrary: s)
  case Nil
  show ?case by (simp add: ret_def sent_def)
next
  case (Cons x xs)
  obtain r u where u: "run_xcmd E pw x s = (r, u)" by (cases "run_xcmd E pw x s")
  have tu: "w_trace u = w_trace s @ sent E pw [x]"
    using run_xcmd_trace(1) [of E pw x s] u by (simp add: sent_def)
  show ?case
  proof (cases r)
    case (Ok y)
    from Cons.IH [of u] obtain n where n: "w_trace (snd (each (run_xcmd E pw) xs u)) = w_trace u @ sent E pw (take n xs)"
      "fst (each (run_xcmd E pw) xs u) = Ok () \<longrightarrow> n = length xs \<and> list_all (\<lambda>x. is_ok (xreq E pw x)) xs" by blast
    have "is_ok (xreq E pw x)" using run_xcmd_trace(2) [of E pw x s] u Ok by simp
    with n tu show ?thesis
      by (intro exI [of _ "Suc n"]) (simp add: bnd_def u Ok sent_def)
  next
    case (Fail e)
    then show ?thesis using tu by (intro exI [of _ 1]) (simp add: bnd_def u sent_def)
  next
    case (Panic e)
    then show ?thesis using tu by (intro exI [of _ 1]) (simp add: bnd_def u sent_def)
  qed
qed

text \<open>
  C8. \<open>reconcileXenon\<close> sends exactly its plan: for every node that is not a read-only one, in
  order, a ping, the removals, a ping, the additions. It stops at the first call that
  fails, so what has been sent is always a prefix of the plan; when it reports success
  the whole plan has been sent.
\<close>

theorem reconcileXenon_sends_plan:
  fixes s :: "'z World_scheme"
  shows "\<exists>n. w_trace (snd (reconcileXenon E pw c ready s)) = w_trace s @ sent E pw (take n (xenon_plan c ready)) \<and>
     (fst (reconcileXenon E pw c ready s) = Ok () \<longrightarrow>
        n = length (xenon_plan c ready) \<and> list_all (\<lambda>x. is_ok (xreq E pw x)) (xenon_plan c ready))"
  unfolding reconcileXenon_each by (rule run_plan_trace)

subsection \<open>Their effect on the members\<close>

text \<open>The members a node knows, after the commands have been applied.\<close>

fun members_after :: "string \<Rightarrow> xcmd list \<Rightarrow> string set \<Rightarrow> string set" where
  "members_after h [] M = M"
| "members_after h (Ping g # xs) M = members_after h xs M"
| "members_after h (Remove g a # xs) M = members_after h xs (if g = h then M - {a} else M)"
| "members_after h (Add g a # xs) M = members_after h xs (if g = h then insert a M else M)"

lemma members_after_append: "members_after h (xs @ ys) M = members_after h ys (members_after h xs M)"
  by (induction h xs M rule: members_after.induct) auto

lemma members_after_removes: "members_after h (map (Remove h) xs) M = M - set xs"
  by (induction xs arbitrary: M) auto

lemma members_after_adds: "members_after h (map (Add h) xs) M = M \<union> set xs"
  by (induction xs arbitrary: M) auto

fun xcmd_host :: "xcmd \<Rightarrow> string" where
  "xcmd_host (Ping h) = h"
| "xcmd_host (Remove h a) = h"
| "xcmd_host (Add h a) = h"

lemma members_after_other: "list_all (\<lambda>x. xcmd_host x \<noteq> h) xs \<Longrightarrow> members_after h xs M = M"
  by (induction h xs M rule: members_after.induct) auto

lemma node_plan_hosts: "x \<in> set (node_plan expect n) \<Longrightarrow> xcmd_host x = ns_Name n"
  by (auto simp: node_plan_def)

lemma node_plan_effect:
  "members_after (ns_Name n) (node_plan expect n) (set (rf_Nodes (ns_RaftStatus n))) = set expect"
  by (auto simp: node_plan_def members_after_append members_after_removes members_after_adds)

lemma plan_effect:
  "distinct (map ns_Name ns) \<Longrightarrow> n \<in> set ns \<Longrightarrow>
   members_after (ns_Name n) (concat (map (node_plan expect) ns)) (set (rf_Nodes (ns_RaftStatus n))) = set expect"
proof (induction ns)
  case (Cons m ns)
  have other: "members_after (ns_Name n) (node_plan expect m) M = M" if "ns_Name m \<noteq> ns_Name n" for M
    by (rule members_after_other) (use that node_plan_hosts [of _ expect m] in \<open>auto simp: list_all_iff\<close>)
  have "xcmd_host x \<noteq> ns_Name m" if x: "x \<in> set (concat (map (node_plan expect) ns))" for x
  proof -
    obtain n' where "n' \<in> set ns" "xcmd_host x = ns_Name n'" using x node_plan_hosts by auto
    then show ?thesis using Cons.prems(1) by force
  qed
  then have rest: "members_after (ns_Name m) (concat (map (node_plan expect) ns)) M = M" for M
    by (intro members_after_other) (simp add: list_all_iff)
  show ?case
  proof (cases "n = m")
    case True
    then show ?thesis by (simp add: members_after_append node_plan_effect rest)
  next
    case False
    with Cons.prems have "n \<in> set ns" "ns_Name m \<noteq> ns_Name n" by force+
    then show ?thesis using Cons by (simp add: members_after_append other)
  qed
qed simp

text \<open>
  C9. The plan reconciles the members: once it has been applied, every raft node of the
  table knows exactly the addresses of the ready ordinals \<open>0 .. ready-1\<close>, whatever it
  knew before; no expected member is ever removed on the way and none is added twice.
\<close>

theorem xenon_plan_reconciles:
  assumes "distinct (map ns_Name (st_Nodes (mc_Status c)))" "n \<in> set (raft_nodes c)"
  shows "members_after (ns_Name n) (xenon_plan c ready) (set (rf_Nodes (ns_RaftStatus n))) = peer_addr c ` {0..<ready} \<and>
    (\<forall>h a. Remove h a \<in> set (xenon_plan c ready) \<longrightarrow> a \<notin> peer_addr c ` {0..<ready}) \<and>
    (\<forall>a. Add (ns_Name n) a \<in> set (xenon_plan c ready) \<longrightarrow> a \<notin> set (rf_Nodes (ns_RaftStatus n)))"
proof (intro conjI allI impI)
  have d: "distinct (map ns_Name (raft_nodes c))"
    using assms(1) by (simp add: raft_nodes_def distinct_map_filter)
  show "members_after (ns_Name n) (xenon_plan c ready) (set (rf_Nodes (ns_RaftStatus n))) = peer_addr c ` {0..<ready}"
    unfolding xenon_plan_def plan_effect [OF d assms(2)] by (simp add: getExpectXenonNodes_def)
  show "a \<notin> peer_addr c ` {0..<ready}" if "Remove h a \<in> set (xenon_plan c ready)" for h a
    using that by (auto simp: xenon_plan_def node_plan_def getExpectXenonNodes_def)
  show "a \<notin> set (rf_Nodes (ns_RaftStatus n))" if "Add (ns_Name n) a \<in> set (xenon_plan c ready)" for a
  proof -
    from that obtain m where "m \<in> set (raft_nodes c)" "ns_Name m = ns_Name n"
      "a \<in> set (StringDiffIn (getExpectXenonNodes c ready) (rf_Nodes (ns_RaftStatus m)))"
      by (auto simp: xenon_plan_def node_plan_def)
    moreover from this d assms(2) have "m = n" by (auto simp: distinct_map inj_on_def)
    ultimately show ?thesis by simp
  qed
qed

definition one_node :: MysqlCluster where
  "one_node = sample\<lparr>mc_Status := sample_status\<lparr>st_Nodes := [sample_node]\<rparr>\<rparr>"

text \<open>A world in which every call succeeds.\<close>

definition all_well :: "Env \<Rightarrow> Env" where
  "all_well E = E\<lparr>we_err := (\<lambda>_. None), we_bad_url := (\<lambda>_. None), we_http := (\<lambda>_. \<lparr>hr_code = 200, hr_body = None\<rparr>)\<rparr>"

theorem reconcileXenon_sends_plan_witness:
  "\<forall>E pw (s :: World). w_trace (snd (reconcileXenon (all_well E) pw one_node 1 s)) = w_trace s @ sent (all_well E) pw (xenon_plan one_node 1)"
proof (intro allI)
  fix E pw and s :: World
  have "fst (run_xcmd (all_well E) pw x t) = Ok ()" for x and t :: World
    by (cases x)
       (simp_all add: XenonPing_def ClusterAdd_def ClusterRemove_def unit_call_def xenon_call_def Execute_def world_http_def
         query_def call_run all_well_def NewXenonHttpRequest_def newHttpGetRequest_def newHttpPostRequest_def
         newXenonRequestUrl_def NewRequestConfig_def bnd_def lift_def handle_def gets_def ret_def)
  then have "fst (each (run_xcmd (all_well E) pw) xs t) = Ok ()" for xs and t :: World
  proof (induction xs arbitrary: t)
    case (Cons x xs)
    obtain u where "run_xcmd (all_well E) pw x t = (Ok (), u)"
      using Cons.prems [of x t] by (metis prod.collapse)
    then show ?case using Cons by (simp add: bnd_def)
  qed (simp add: ret_def)
  then have "fst (reconcileXenon (all_well E) pw one_node 1 s) = Ok ()" by (simp add: reconcileXenon_each)
  with reconcileXenon_sends_plan [of "all_well E" pw one_node 1 s]
  show "w_trace (snd (reconcileXenon (all_well E) pw one_node 1 s)) = w_trace s @ sent (all_well E) pw (xenon_plan one_node 1)"
    by auto
qed

theorem xenon_plan_reconciles_witness:
  "members_after (ns_Name sample_node) (xenon_plan one_node 2) {} = peer_addr one_node ` {0..<2}"
proof -
  have "sample_node \<in> set (raft_nodes one_node)"
    by (simp add: raft_nodes_def one_node_def sample_node_def sample_defs has_prefix_def)
  then show ?thesis
    using xenon_plan_reconciles [of one_node sample_node 2]
    by (simp add: one_node_def sample_node_def sample_defs)
qed

end
