(* ===== verification/StatusProbe.thy ===== *)
theory StatusProbe
  imports StatusNodes
begin

text \<open>
  The probes of \<open>mysqlcluster/syncer/status.go\<close>: \<open>updateNodeStatus\<close> (raft role, replication and
  read-only state, labels, trimming of the node table) and \<open>RoCheckStatus\<close> for the read-only
  pods. The pointer \<open>node := &s.Status.Nodes[index]\<close> is the index.
\<close>

section \<open>Editing one node\<close>

definition nodes_of :: "StatusState \<Rightarrow> NodeStatus list" where
  "nodes_of s = st_Nodes (status_of s)"

definition set_nodes :: "NodeStatus list \<Rightarrow> (StatusState, unit) go" where
  "set_nodes ns = upd_status (\<lambda>st. st\<lparr>st_Nodes := ns\<rparr>)"

definition upd_node :: "nat \<Rightarrow> (NodeStatus \<Rightarrow> NodeStatus) \<Rightarrow> (StatusState, unit) go" where
  "upd_node i f = upd_status (\<lambda>st. st\<lparr>st_Nodes := (st_Nodes st)[i := f (st_Nodes st ! i)]\<rparr>)"

definition set_node_condition :: "Env \<Rightarrow> nat \<Rightarrow> nat \<Rightarrow> ConditionStatus \<Rightarrow> (StatusState, unit) go" where
  "set_node_condition E i idx status =
     bnd (now E) (\<lambda>t. bnd (gets (\<lambda>s. nodes_of s ! i)) (\<lambda>node.
     bnd (lift (updateNodeCondition t idx status node)) (\<lambda>node'. upd_node i (\<lambda>_. node'))))"

definition set_message :: "nat \<Rightarrow> string \<Rightarrow> (StatusState, unit) go" where
  "set_message i msg = upd_node i (\<lambda>n. n\<lparr>ns_Message := msg\<rparr>)"

text \<open>\<open>if err != nil { node.Message = err.Error() }\<close>.\<close>

definition note_error :: "nat \<Rightarrow> gerr option \<Rightarrow> (StatusState, unit) go" where
  "note_error i err = (case err of Some e \<Rightarrow> set_message i (err_text e) | None \<Rightarrow> ret ())"

section \<open>Cluster nodes\<close>

definition updateNodeRaftStatus :: "Env \<Rightarrow> string \<Rightarrow> nat \<Rightarrow> (StatusState, gerr option) go" where
  "updateNodeRaftStatus E pw i =
     bnd (upd_node i (\<lambda>n. n\<lparr>ns_RaftStatus := \<lparr>rf_Role = Unknown, rf_Leader = ''UNKNOWN'', rf_Nodes = []\<rparr>\<rparr>)) (\<lambda>_.
     bnd (gets (\<lambda>s. ns_Name (nodes_of s ! i))) (\<lambda>name.
     bnd (attempt (RaftStatus_call (world_http E) pw name)) (\<lambda>r. case r of
         Inl e \<Rightarrow> bnd (set_node_condition E i IndexLeader CondFalse) (\<lambda>_. ret (Some e))
       | Inr raft \<Rightarrow>
           bnd (upd_node i (\<lambda>n. n\<lparr>ns_RaftStatus := raft\<rparr>)) (\<lambda>_.
           bnd (set_node_condition E i IndexLeader (if rf_Role raft = Leader then CondTrue else CondFalse)) (\<lambda>_.
           ret None)))))"

definition checkNodeStatusRetry :: nat where "checkNodeStatusRetry = 3"

text \<open>
  The checks on a connection: lag, replication and read-only state; an error of the first is
  overwritten by one of the second.
\<close>

definition probe_node ::
  "Env \<Rightarrow> nat \<Rightarrow> int option \<Rightarrow> string option \<Rightarrow> (StatusState, ConditionStatus \<times> ConditionStatus \<times> ConditionStatus) go" where
  "probe_node E i lag runner = (case runner of
      None \<Rightarrow> ret (CondUnknown, CondUnknown, CondUnknown)
    | Some h \<Rightarrow> let db = world_sql E h in
        bnd (CheckSlaveStatusWithRetry db checkNodeStatusRetry lag) (\<lambda>(isLagged, isReplicating, err).
        bnd (note_error i err) (\<lambda>_.
        bnd (CheckReadOnly db) (\<lambda>(isReadOnly, err2).
        bnd (note_error i err2) (\<lambda>_. ret (isLagged, isReplicating, isReadOnly))))))"

text \<open>\<open>updatePodLabel\<close> on the pod at position \<open>k\<close> of the list and the node at index \<open>i\<close>.\<close>

definition set_item :: "nat \<Rightarrow> Pod \<Rightarrow> (StatusState, unit) go" where
  "set_item k p = modify (\<lambda>s. s\<lparr>ss_items := (ss_items s)[k := p]\<rparr>)"

definition ignore_not_found :: "(StatusState, unit) go \<Rightarrow> (StatusState, unit) go" where
  "ignore_not_found m = handle m (\<lambda>e. case e of NotFound _ \<Rightarrow> ret () | _ \<Rightarrow> fail e)"

definition updatePodLabel :: "Env \<Rightarrow> nat \<Rightarrow> nat \<Rightarrow> (StatusState, unit) go" where
  "updatePodLabel E k i =
     bnd (gets (\<lambda>s. ss_items s ! k)) (\<lambda>oldPod.
     bnd (gets (\<lambda>s. nodes_of s ! i)) (\<lambda>node.
     case new_labels oldPod node of (pod, node', updated) \<Rightarrow>
       bnd (upd_node i (\<lambda>_. node')) (\<lambda>_.
       bnd (set_item k pod) (\<lambda>_.
       if updated then ignore_not_found (call E (EvPatchPod oldPod pod)) else ret ()))))"

definition node_host :: "MysqlCluster \<Rightarrow> ResourceName \<Rightarrow> string \<Rightarrow> string" where
  "node_host c svc podName = podName @ ''.'' @ GetNameForResource c svc @ ''.'' @ mc_Namespace c"

text \<open>One iteration of the loop of \<open>updateNodeStatus\<close>; a label error is only logged.\<close>

definition update_one_node :: "Env \<Rightarrow> string \<Rightarrow> nat \<Rightarrow> (StatusState, unit) go" where
  "update_one_node E pw k =
     bnd (gets (\<lambda>s. ss_items s ! k)) (\<lambda>pod.
     bnd (gets ss_cluster) (\<lambda>c.
     let host = node_host c HeadlessSVC (pod_Name pod) in
     bnd (now E) (\<lambda>t.
     case getNodeStatusIndex t host (st_Nodes (mc_Status c)) of (i, nodes) \<Rightarrow>
     bnd (set_nodes nodes) (\<lambda>_.
     bnd (set_message i []) (\<lambda>_.
     bnd (updateNodeRaftStatus E pw i) (\<lambda>err.
     bnd (note_error i err) (\<lambda>_.
     bnd (try_runner E c OperatorUser host) (\<lambda>runner.
     bnd (probe_node E i (sp_ReplicaLag (mc_Spec c)) runner) (\<lambda>(isLagged, isReplicating, isReadOnly).
     bnd (set_node_condition E i IndexLagged isLagged) (\<lambda>_.
     bnd (set_node_condition E i IndexReplicating isReplicating) (\<lambda>_.
     bnd (set_node_condition E i IndexReadOnly isReadOnly) (\<lambda>_.
     bnd (attempt (updatePodLabel E k i)) (\<lambda>_. ret ())))))))))))))"

text \<open>
  Trimming: the first \<open>npods\<close> nodes, then the last \<open>spec.readonlys.num\<close>; Go's slice
  expression panics when that number is negative or larger than the table.
\<close>

definition trim_nodes :: "nat \<Rightarrow> ReadOnlyType option \<Rightarrow> NodeStatus list \<Rightarrow> NodeStatus list res" where
  "trim_nodes npods ro nodes =
     (if length nodes > npods then
        (case ro of
           None \<Rightarrow> Ok (take npods nodes)
         | Some r \<Rightarrow>
             if ro_Num r < 0 \<or> ro_Num r > int (length nodes) then Panic ''slice bounds out of range''
             else Ok (take npods nodes @ drop (length nodes - nat (ro_Num r)) nodes))
      else Ok nodes)"

definition updateNodeStatus :: "Env \<Rightarrow> string \<Rightarrow> (StatusState, unit) go" where
  "updateNodeStatus E pw =
     bnd (gets (\<lambda>s. length (ss_items s))) (\<lambda>n.
     bnd (each (update_one_node E pw) [0..<n]) (\<lambda>_.
     bnd (gets ss_cluster) (\<lambda>c.
     bnd (lift (trim_nodes n (sp_ReadOnlys (mc_Spec c)) (st_Nodes (mc_Status c)))) set_nodes)))"

section \<open>Read-only nodes\<close>

text \<open>\<open>strconv.ParseInt(s, 10, 64)\<close>, value only: 0 on a syntax error, the nearest bound out of range.\<close>

definition parse_int_value :: "string \<Rightarrow> int" where
  "parse_int_value s = (case atoi s of
      Ok v \<Rightarrow> v
    | _ \<Rightarrow> (let ds = (case s of c # cs \<Rightarrow> if c = CHR ''-'' \<or> c = CHR ''+'' then cs else s | [] \<Rightarrow> []) in
        if ds \<noteq> [] \<and> list_all is_digit ds then (if hd s = CHR ''-'' then - (2 ^ 63) else 2 ^ 63 - 1) else 0))"

text \<open>
  The message of a failing read-only node carries the time of the error; it is rewritten
  when more than ten seconds old. The subtraction is Go's 64-bit one.
\<close>

definition ro_error_message :: "int \<Rightarrow> string \<Rightarrow> gerr \<Rightarrow> string" where
  "ro_error_message nowt msg err =
     (let part = hd (split_on (CHR '' '') msg);
          last = (if length part = 0 then 0 else parse_int_value part);
          msg = (if length part = 0 then int_str nowt @ '' unixtime error:'' @ err_text err else msg)
      in if sint (of_int (nowt - last) :: 64 word) > 10 then int_str nowt @ '' unixseconds error:'' @ err_text err else msg)"

definition probe_ro ::
  "Env \<Rightarrow> nat \<Rightarrow> int option \<Rightarrow> string option \<Rightarrow>
   (StatusState, ConditionStatus \<times> ConditionStatus \<times> ConditionStatus \<times> ConditionStatus) go" where
  "probe_ro E i lag runner = (case runner of
      None \<Rightarrow> ret (CondUnknown, CondUnknown, CondUnknown, CondUnknown)
    | Some h \<Rightarrow> let db = world_sql E h in
        bnd (CheckReadOnly db) (\<lambda>(isReadonly, err).
        bnd (note_error i err) (\<lambda>_.
        bnd (CheckSuperReadOnly db) (\<lambda>(isSupperReadOnly, err).
        bnd (note_error i err) (\<lambda>_.
        bnd (CheckSemSync db) (\<lambda>(status, err).
        let isCloseSemi = (if err = None \<and> status = CondFalse then CondTrue else CondUnknown) in
        bnd (note_error i err) (\<lambda>_.
        bnd (CheckSlaveStatus db lag) (\<lambda>(_, isReplicating, err).
        bnd (case err of
            Some e \<Rightarrow> bnd (gets (\<lambda>s. we_now E (w_trace s))) (\<lambda>nowt. upd_node i (\<lambda>n. n\<lparr>ns_Message := ro_error_message nowt (ns_Message n) e\<rparr>))
          | None \<Rightarrow> set_message i []) (\<lambda>_.
        ret (isReadonly, isSupperReadOnly, isCloseSemi, isReplicating))))))))))"

definition ro_master :: "MysqlCluster \<Rightarrow> string" where
  "ro_master c =
     (if sp_Replicas (mc_Spec c) = 1
      then GetNameForResource c StatefulSet @ ''-0.'' @ GetNameForResource c StatefulSet @ ''.'' @ mc_Namespace c
      else (case sp_ReadOnlys (mc_Spec c) of
          None \<Rightarrow> []
        | Some r \<Rightarrow> (if length (ro_Host r) = 0 then mc_Name c @ ''-follower''
            else ro_Host r @ ''.'' @ GetNameForResource c StatefulSet @ ''.'' @ mc_Namespace c)))"

definition check_one_ro :: "Env \<Rightarrow> Pod \<Rightarrow> (StatusState, unit) go" where
  "check_one_ro E pod =
     bnd (gets ss_cluster) (\<lambda>c.
     let host = node_host c ReadOnlyHeadlessSVC (pod_Name pod) in
     bnd (now E) (\<lambda>t.
     case getRoStatusIndex t host (st_Nodes (mc_Status c)) of (i, nodes) \<Rightarrow>
     bnd (set_nodes nodes) (\<lambda>_.
     let isInitial = (if pod_Phase pod = PodRunning then CondTrue else CondUnknown) in
     bnd (try_runner E c OperatorUser host) (\<lambda>runner.
     bnd (probe_ro E i (sp_ReplicaLag (mc_Spec c)) runner) (\<lambda>(isReadonly, isSupperReadOnly, isCloseSemi, isReplicating).
     bnd (upd_node i (\<lambda>n. n\<lparr>ns_RoStatus := Some
        \<lparr>rst_ReadOnly = (isReadonly = CondTrue \<and> isSupperReadOnly = CondTrue),
         rst_Replication = (isReplicating = CondTrue \<and> isCloseSemi = CondTrue),
         rst_Master = ro_master c\<rparr>\<rparr>)) (\<lambda>_.
     bnd (set_node_condition E i 0 isInitial) (\<lambda>_.
     bnd (set_node_condition E i (IndexRoReadOnly - IndexRoInit) isReadonly) (\<lambda>_.
     bnd (set_node_condition E i (IndexRoSemiClose - IndexRoInit) isCloseSemi) (\<lambda>_.
     set_node_condition E i (IndexRoReplicating - IndexRoInit) isReplicating)))))))))"

definition RoCheckStatus :: "Env \<Rightarrow> Pod list \<Rightarrow> (StatusState, unit) go" where
  "RoCheckStatus E pods = each (check_one_ro E) pods"


section \<open>What a probe does to the world\<close>

definition probe_queries :: "Query set" where
  "probe_queries = {SlaveStatus_query, GlobalVariable_query ''long_query_time'', GlobalVariable_query ''read_only'',
     GlobalVariable_query ''super_read_only'', GlobalVariable_query ''rpl_semi_sync_slave_enabled''}"

text \<open>A patch that touches the two labels only.\<close>

definition label_patch :: "Pod \<Rightarrow> Pod \<Rightarrow> bool" where
  "label_patch old p \<longleftrightarrow> p = old\<lparr>pod_Labels := pod_Labels p\<rparr> \<and>
     (\<forall>k. k \<noteq> ''healthy'' \<and> k \<noteq> ''role'' \<longrightarrow> pod_Labels p k = pod_Labels old k)"

lemma new_labels_patch: "new_labels old node = (p, node', u) \<Longrightarrow> label_patch old p"
  by (auto simp: new_labels_def label_patch_def Let_def split: if_splits)

lemma emits_case_prod [emits_intros]:
  "(\<And>a b. x = (a, b) \<Longrightarrow> emits tr A (f a b)) \<Longrightarrow> emits tr A (case x of (a, b) \<Rightarrow> f a b)"
  by (cases x) simp

lemma emits_upd_status [emits_intros]: "emits w_trace A (upd_status f)"
  unfolding upd_status_def by (intro emits_intros) simp

lemma emits_node_edits [emits_intros]:
  "emits w_trace A (set_nodes ns)" "emits w_trace A (upd_node i f)" "emits w_trace A (set_message i msg)"
  "emits w_trace A (set_item k p)"
  unfolding set_nodes_def upd_node_def set_message_def set_item_def
  by (intro emits_intros; simp)+

lemma emits_note_error [emits_intros]: "emits w_trace A (note_error i err)"
  unfolding note_error_def by (intro emits_intros)

lemma emits_set_node_condition [emits_intros]: "emits w_trace A (set_node_condition E i idx st)"
  unfolding set_node_condition_def by (intro emits_intros)

text \<open>
  The probes proved against any set \<open>A\<close> of permitted events that admits connecting, HTTP
  requests, the five read-only queries and label patches.
\<close>

locale node_footprint =
  fixes A :: "event \<Rightarrow> bool"
  assumes A_connect: "ev_connect e \<Longrightarrow> A e" and A_http: "A (EvHttp req)" and A_sleep: "A EvSleep"
    and A_probe: "q \<in> probe_queries \<Longrightarrow> A (EvSql h q)"
    and A_patch: "label_patch p p' \<Longrightarrow> A (EvPatchPod p p')"
begin

lemma xenon_call_ok: "emits w_trace A (xenon_call (world_http E) pw host url data what)"
  by (rule whttp.xenon_call_emits) (rule A_http)

lemma RaftStatus_call_ok: "emits w_trace A (RaftStatus_call (world_http E) pw host)"
  unfolding RaftStatus_call_def by (intro emits_intros xenon_call_ok)

lemma raft_status_ok: "emits w_trace A (updateNodeRaftStatus E pw i)"
  unfolding updateNodeRaftStatus_def by (intro emits_intros RaftStatus_call_ok)

lemma connect_ok: "emits w_trace A (try_runner E c user host)"
  by (rule try_runner_emits) (rule A_connect)

lemma flag_ok:
  "emits w_trace A (CheckReadOnly (world_sql E h))" "emits w_trace A (CheckSuperReadOnly (world_sql E h))"
  "emits w_trace A (CheckSemSync (world_sql E h))"
  unfolding CheckReadOnly_def CheckSuperReadOnly_def CheckSemSync_def
  by (rule wsql.flag_check_emits; rule A_probe; simp add: probe_queries_def)+

lemma slave_ok: "emits w_trace A (CheckSlaveStatus (world_sql E h) lag)"
  by (rule wsql.CheckSlaveStatus_emits; rule A_probe; simp add: probe_queries_def)

lemma slave_retry_ok: "emits w_trace A (CheckSlaveStatusWithRetry (world_sql E h) n lag)"
  unfolding CheckSlaveStatusWithRetry_def
  by (rule wsql.retry_emits) (simp_all add: A_probe A_sleep probe_queries_def)

lemma probe_node_ok: "emits w_trace A (probe_node E i lag runner)"
  unfolding probe_node_def Let_def by (intro emits_intros slave_retry_ok flag_ok)

lemma probe_ro_ok: "emits w_trace A (probe_ro E i lag runner)"
  unfolding probe_ro_def Let_def by (intro emits_intros slave_ok flag_ok)

lemma label_ok: "emits w_trace A (updatePodLabel E k i)"
  unfolding updatePodLabel_def ignore_not_found_def
proof (intro emits_intros)
  show "A (EvPatchPod old p)" if "new_labels old node = (p, b)" "b = (node', u)" for old node p b node' u
    by (rule A_patch) (use new_labels_patch that in blast)
next
  fix e :: gerr
  show "emits w_trace A (case e of NotFound _ \<Rightarrow> ret () | _ \<Rightarrow> fail e)"
    by (cases e) (simp_all add: emits_intros)
qed

lemma update_one_node_ok: "emits w_trace A (update_one_node E pw k)"
  unfolding update_one_node_def Let_def
  by (intro emits_intros raft_status_ok connect_ok probe_node_ok label_ok)

lemma updateNodeStatus_ok: "emits w_trace A (updateNodeStatus E pw)"
  unfolding updateNodeStatus_def by (intro emits_intros update_one_node_ok)

lemma RoCheckStatus_ok: "emits w_trace A (RoCheckStatus E pods)"
  unfolding RoCheckStatus_def check_one_ro_def Let_def
  by (intro emits_intros connect_ok probe_ro_ok)

end

section \<open>Trimming the node table\<close>

text \<open>
  Trimming does what it is for when the table is laid out as the code expects, cluster
  nodes first and the read-only nodes last: the entries of deleted cluster pods go, those
  of the remaining pods and of all read-only pods stay, in order.
\<close>

theorem trim_nodes_layout:
  assumes "npods \<le> length cs" "int (length rs) = ro_Num r"
  shows "trim_nodes npods (Some r) (cs @ rs) = Ok (take npods cs @ rs)"
proof (cases "length (cs @ rs) > npods")
  case True
  have "length (cs @ rs) - nat (ro_Num r) = length cs" using assms(2) by auto
  then show ?thesis using True assms by (simp add: trim_nodes_def)
next
  case False
  then have "length rs = 0" "npods = length cs" using assms(1) unfolding length_append by linarith+
  then show ?thesis by (simp add: trim_nodes_def)
qed

definition ro_one :: ReadOnlyType where
  "ro_one = \<lparr>ro_Num = 1, ro_Host = [], ro_Resources = None, ro_Affinity = None, ro_Tolerations = None\<rparr>"

theorem trim_nodes_layout_witness:
  "trim_nodes 1 (Some ro_one) ([new_node None ''c0'' [], new_node None ''c1'' []] @ [new_node None ''r0'' []]) =
     Ok [new_node None ''c0'' [], new_node None ''r0'' []]"
  using trim_nodes_layout [of 1 "[new_node None ''c0'' [], new_node None ''c1'' []]" "[new_node None ''r0'' []]" ro_one]
  by (simp add: ro_one_def)

definition scaled_table :: "NodeStatus list" where
  "scaled_table =
     (let n0 = snd (getNodeStatusIndex None ''c0'' []); n1 = snd (getNodeStatusIndex None ''c1'' n0);
          n2 = snd (getRoStatusIndex None ''r0'' n1) in snd (getNodeStatusIndex None ''c2'' n2))"

text \<open>
  The layout is not kept by the syncer itself. New nodes are appended, so a cluster of two
  pods with one read-only pod that scales out to three has its third node after the
  read-only one; when it then scales in to two pods, trimming keeps the status of the
  deleted pod and drops that of the read-only pod, against the comment that read-only
  pods are always the last part of the table. A number of read-only pods larger than the
  table panics.
\<close>

theorem trim_nodes_loses_readonly:
  "(\<exists>ns. trim_nodes 2 (Some ro_one) scaled_table = Ok ns \<and> map ns_Name ns = [''c0'', ''c1'', ''c2'']) \<and>
   is_panic (trim_nodes 0 (Some (ro_one\<lparr>ro_Num := 9\<rparr>)) scaled_table)"
  by (simp add: scaled_table_def trim_nodes_def ro_one_def getNodeStatusIndex_def getRoStatusIndex_def find_or_add_def Let_def)

end
