(* ===== verification/StatusSync.thy ===== *)
theory StatusSync
  imports StatusProbe
begin

text \<open>
  The rest of \<open>mysqlcluster/syncer/status.go\<close>: rebuilding a labelled pod, the manual change of
  leader, the check of a remote cluster, the last backup, and \<open>Sync\<close> itself, composed as
  the code composes them.

  The repository is built with Go 1.17, where a loop variable is one variable for all
  iterations: a pointer \<open>&pod\<close> kept from the loop over the pods points, after the loop, to
  the last pod of the list. \<open>Sync\<close> keeps two such pointers, so they are modelled as two
  flags, and the pod they stand for is the last one.
\<close>

section \<open>Rebuilding a pod\<close>

definition item :: "nat \<Rightarrow> (StatusState, Pod) go" where
  "item k = gets (\<lambda>s. ss_items s ! k)"

definition put_label :: "string \<Rightarrow> string \<Rightarrow> Pod \<Rightarrow> Pod" where
  "put_label k v p = p\<lparr>pod_Labels := (pod_Labels p)(k \<mapsto> v)\<rparr>"

text \<open>
  The loop that looks for the donor pod: \<open>None\<close> is the early return, which gives the outer
  error back; that error is nil here, so the caller sees a success. \<open>Some (Some j)\<close>: pod
  \<open>j\<close> has been labelled as the donor.
\<close>

fun mark_donor :: "Env \<Rightarrow> int \<Rightarrow> nat \<Rightarrow> Pod list \<Rightarrow> (StatusState, nat option option) go" where
  "mark_donor E podNumber j [] = ret (Some None)"
| "mark_donor E podNumber j (other # rest) =
     (case GetOrdinal (pod_Name other) of
        Ok ord \<Rightarrow>
          if ord = podNumber then
            bnd (item j) (\<lambda>o0. let o1 = put_label LabelRebuildFrom ''true'' o0 in
            bnd (set_item j o1) (\<lambda>_. bnd (call E (EvUpdatePod o1)) (\<lambda>_. ret (Some (Some j)))))
          else mark_donor E podNumber (Suc j) rest
      | _ \<Rightarrow> ret None)"

definition choose_donor :: "Env \<Rightarrow> Pod \<Rightarrow> (StatusState, nat option option) go" where
  "choose_donor E pod =
     (let label = lget (pod_Labels pod) LableRebuild in
      if label \<noteq> ''true'' then
        (case atoi label of
           Ok podNumber \<Rightarrow> bnd (gets ss_items) (\<lambda>items. mark_donor E podNumber 0 items)
         | _ \<Rightarrow> fail (GErr ''rebuild label should be true, or number''))
      else ret (Some None))"

definition claim_name :: "MysqlCluster \<Rightarrow> ResourceName \<Rightarrow> int \<Rightarrow> string" where
  "claim_name c svc ordinal = ''data-'' @ GetNameForResource c svc @ ''-'' @ int_str ordinal"

definition delete_claim :: "Env \<Rightarrow> MysqlCluster \<Rightarrow> ResourceName \<Rightarrow> int \<Rightarrow> ('z World_scheme, unit) go" where
  "delete_claim E c svc ordinal =
     bnd (get_pvc E (mc_Namespace c) (claim_name c svc ordinal)) (\<lambda>_. call E (EvDeletePVC (claim_name c svc ordinal)))"

text \<open>
  \<open>AutoRebuild\<close> on the pod at position \<open>k\<close>. The donor label, when it falls on the same pod,
  is in the map the pod shares with the list.
\<close>

definition AutoRebuild :: "Env \<Rightarrow> nat \<Rightarrow> Pod \<Rightarrow> (StatusState, unit) go" where
  "AutoRebuild E k pod =
     bnd (lift (GetOrdinal (pod_Name pod))) (\<lambda>ordinal.
     bnd (choose_donor E pod) (\<lambda>donor. case donor of
       None \<Rightarrow> ret ()
     | Some j \<Rightarrow>
         let pod1 = (if j = Some k then put_label LabelRebuildFrom ''true'' pod else pod);
             pod2 = put_label ''healthy'' ''no'' pod1
         in bnd (set_item k pod2) (\<lambda>_.
            bnd (call E (EvUpdatePod pod2)) (\<lambda>_.
            bnd (call E (EvDeletePod pod2)) (\<lambda>_.
            bnd (gets ss_cluster) (\<lambda>c.
            if sp_MysqlVersion (mc_Spec c) = ''8.0'' then ret ()
            else delete_claim E c StatefulSet ordinal))))))"

text \<open>\<open>DoRoRebuild\<close>: the pod is one of the read-only list, the donors are cluster pods.\<close>

definition DoRoRebuild :: "Env \<Rightarrow> Pod \<Rightarrow> (StatusState, unit) go" where
  "DoRoRebuild E pod =
     (if length (lget (pod_Labels pod) LableRebuild) = 0 then ret ()
      else
        bnd (lift (GetOrdinal (pod_Name pod))) (\<lambda>ordinal.
        bnd (choose_donor E pod) (\<lambda>donor. case donor of
          None \<Rightarrow> ret ()
        | Some _ \<Rightarrow>
            let pod2 = put_label ''healthy'' ''no'' pod
            in bnd (call E (EvUpdatePod pod2)) (\<lambda>_.
               bnd (call E (EvDeletePod pod2)) (\<lambda>_.
               bnd (gets ss_cluster) (\<lambda>c. delete_claim E c ReadOnlyHeadlessSVC ordinal))))))"

section \<open>Manual change of leader\<close>

definition TryLeader :: "Env \<Rightarrow> nat \<Rightarrow> (StatusState, unit) go" where
  "TryLeader E k =
     bnd (NewPodExecutor E) (\<lambda>_.
     bnd (gets ss_cluster) (\<lambda>c.
     bnd (item k) (\<lambda>pod.
     bnd (attempt (XenonTryLeader E (mc_Namespace c) (pod_Name pod))) (\<lambda>r.
     let pod1 = pod\<lparr>pod_Labels := (pod_Labels pod)(LabelTryLeader := None)\<rparr> in
     bnd (set_item k pod1) (\<lambda>_. case r of Inl e \<Rightarrow> fail e | Inr _ \<Rightarrow> call E (EvUpdatePod pod1))))))"

definition super_read_only_on :: Query where
  "super_read_only_on = NewQuery ''SET GLOBAL super_read_only=on'' []"

text \<open>
  The \<open>select\<close> again: when the timer wins, the function returns nil without having made the
  leader read-only.
\<close>

definition SetLeaderReadOnly :: "Env \<Rightarrow> Pod \<Rightarrow> (StatusState, unit) go" where
  "SetLeaderReadOnly E pod =
     bnd (gets ss_cluster) (\<lambda>c.
     let host = pod_Name pod @ ''.'' @ mc_Name c @ ''-mysql.'' @ mc_Namespace c in
     bnd (attempt (config_of E c RootUser host)) (\<lambda>cfg.
     bnd (attempt (runner_of E cfg)) (\<lambda>r.
     bnd (gets (\<lambda>s. we_timeout E (w_trace s))) (\<lambda>late.
     if late then ret ()
     else (case r of Inl e \<Rightarrow> fail e | Inr h \<Rightarrow> sr_exec (world_sql E h) super_read_only_on)))))"

section \<open>Remote cluster and last backup\<close>

definition set_cluster_condition :: "nat \<Rightarrow> ClusterCondition \<Rightarrow> bool \<Rightarrow> (StatusState, unit) go" where
  "set_cluster_condition idx cond force = upd_status (updateClusterCondition idx cond force)"

text \<open>The condition reported for a remote cluster, from what \<open>CheckSlaveStatus\<close> said.\<close>

definition remote_condition :: "time \<Rightarrow> ConditionStatus \<Rightarrow> ClusterCondition" where
  "remote_condition t isReplicating =
     (if isReplicating = CondFalse
      then \<lparr>cc_Type = ConditionRemoteSlave, cc_Status = CondFalse, cc_LastTransitionTime = t,
            cc_Reason = ''need change master'', cc_Message = ''the leader is not slave''\<rparr>
      else \<lparr>cc_Type = ConditionRemoteSlave, cc_Status = CondTrue, cc_LastTransitionTime = t,
            cc_Reason = [], cc_Message = []\<rparr>)"

definition clusterSlaveCheck :: "Env \<Rightarrow> (StatusState, unit) go" where
  "clusterSlaveCheck E =
     bnd (gets ss_cluster) (\<lambda>c.
     if sp_RemoteCluster (mc_Spec c) = None then ret ()
     else
       let host = GetNameForResource c LeaderService @ ''.'' @ mc_Namespace c in
       bnd (config_of E c RootUser host) (\<lambda>cfg.
       bnd (runner_of E (Inr cfg)) (\<lambda>h.
       bnd (CheckSlaveStatus (world_sql E h) (sp_ReplicaLag (mc_Spec c))) (\<lambda>(_, isReplicating, _).
       bnd (now E) (\<lambda>t.
       let cond = remote_condition t isReplicating in
       bnd (if isReplicating = CondFalse then set_cluster_condition ClIndexRemoteSlave cond True else ret ()) (\<lambda>_.
       set_cluster_condition ClIndexRemoteSlave cond False))))))"

text \<open>
  \<open>sort.Slice\<close> by descending creation time: insertion sort, which is what Go uses for short
  slices; the result on equal keys is not specified by the library, and the property of
  the caller is proved for every sort that keeps the \<open>slice_sort\<close> contract.
\<close>

fun insert_desc :: "Backup \<Rightarrow> Backup list \<Rightarrow> Backup list" where
  "insert_desc b [] = [b]"
| "insert_desc b (c # cs) =
     (if time_before (b_CreationTimestamp b) (b_CreationTimestamp c) then c # insert_desc b cs else b # c # cs)"

definition sort_desc :: "Backup list \<Rightarrow> Backup list" where
  "sort_desc bs = foldr insert_desc bs []"

fun first_named :: "time \<Rightarrow> Backup list \<Rightarrow> Backup option" where
  "first_named created [] = None"
| "first_named created (b # bs) =
     (if bst_BackupName (b_Status b) \<noteq> [] \<and> time_before created (b_CreationTimestamp b) then Some b
      else first_named created bs)"

definition last_backup :: "(Backup list \<Rightarrow> Backup list) \<Rightarrow> time \<Rightarrow> Backup list \<Rightarrow> Backup option" where
  "last_backup sort_slice created bs = first_named created (sort_slice (filter (\<lambda>b. bst_Completed (b_Status b)) bs))"

definition updateLastBackup :: "Env \<Rightarrow> (StatusState, unit) go" where
  "updateLastBackup E =
     bnd (gets ss_cluster) (\<lambda>c.
     bnd (query E (EvListBackups (mc_Namespace c) (mc_Name c)) (we_backups E)) (\<lambda>bs.
     case last_backup sort_desc (mc_CreationTimestamp c) bs of
       None \<Rightarrow> ret ()
     | Some b \<Rightarrow> upd_status (\<lambda>st. st\<lparr>st_LastBackup := bst_BackupName (b_Status b),
         st_LastBackupGtid := bst_Gtid (b_Status b), st_LastBackupTime := b_CreationTimestamp b\<rparr>)))"

section \<open>Sync\<close>

definition fresh_condition :: "time \<Rightarrow> ClusterConditionType \<Rightarrow> ClusterCondition" where
  "fresh_condition t ty = \<lparr>cc_Type = ty, cc_Status = CondFalse, cc_LastTransitionTime = t, cc_Reason = [], cc_Message = []\<rparr>"

definition init_conditions :: "time \<Rightarrow> MysqlClusterStatus \<Rightarrow> MysqlClusterStatus" where
  "init_conditions t st =
     (if length (st_Conditions st) = 0
      then st\<lparr>st_Conditions := map (fresh_condition t)
        [ConditionInit, ConditionUpdate, ConditionReady, ConditionClose, ConditionError, ConditionScaleIn,
         ConditionScaleOut, ConditionRemoteSlave]\<rparr>
      else updateClusterCondition ClIndexError (fresh_condition t ConditionError) False st)"

text \<open>The variables the loop over the pods carries.\<close>

record SyncVars =
  sv_Leader :: bool
  sv_TryLeader :: bool
  sv_ready :: nat
  sv_cond :: ClusterCondition

text \<open>\<open>for _, cond := range pod.Status.Conditions\<close>.\<close>

definition pod_condition :: "Env \<Rightarrow> SyncVars \<Rightarrow> PodCondition \<Rightarrow> (StatusState, SyncVars) go" where
  "pod_condition E v pc = (case pc_Type pc of
      ContainersReady \<Rightarrow> ret (if pc_Status pc = CondTrue then v\<lparr>sv_ready := Suc (sv_ready v)\<rparr> else v)
    | PodScheduled \<Rightarrow>
        (if pc_Reason pc = ''Unschedulable'' then
           bnd (now E) (\<lambda>t.
           let cond = \<lparr>cc_Type = ConditionError, cc_Status = CondTrue, cc_LastTransitionTime = t,
                 cc_Reason = ''Unschedulable'', cc_Message = pc_Message pc\<rparr>
           in bnd (set_cluster_condition ClIndexError cond False) (\<lambda>_. ret (v\<lparr>sv_cond := cond\<rparr>)))
         else ret v)
    | OtherPodCondition \<Rightarrow> ret v)"

definition sync_pod :: "Env \<Rightarrow> SyncVars \<Rightarrow> nat \<Rightarrow> (StatusState, SyncVars) go" where
  "sync_pod E v k =
     bnd (item k) (\<lambda>pod.
     if length (lget (pod_Labels pod) LableRebuild) > 0 then
       bnd (attempt (AutoRebuild E k pod)) (\<lambda>_. ret v)
     else
       let v1 = (if length (lget (pod_Labels pod) LabelTryLeader) \<noteq> 0 then v\<lparr>sv_TryLeader := True\<rparr> else v);
           v2 = (if lget (pod_Labels pod) ''role'' = Leader then v1\<lparr>sv_Leader := True\<rparr> else v1)
       in each_acc (pod_condition E) v2 (pod_Conditions pod))"

text \<open>The block that acts on the two kept pointers; both are the last pod of the list.\<close>

definition change_leader :: "Env \<Rightarrow> SyncVars \<Rightarrow> nat \<Rightarrow> (StatusState, unit) go" where
  "change_leader E v n =
     (if sv_TryLeader v then
        bnd (if sv_Leader v then bnd (item (n - 1)) (\<lambda>pod. bnd (attempt (SetLeaderReadOnly E pod)) (\<lambda>_. ret ())) else ret ()) (\<lambda>_.
        bnd (attempt (TryLeader E (n - 1))) (\<lambda>_. ret ()))
      else ret ())"

text \<open>
  One round of the loop that should reset a condition: \<open>tmpCond\<close> is read (an index out of
  range panics) and changed, but it is \<open>clusterCondition\<close> that is stored.
\<close>

definition reset_condition :: "ClusterCondition \<Rightarrow> nat \<Rightarrow> MysqlClusterStatus \<Rightarrow> MysqlClusterStatus res" where
  "reset_condition cond ind st =
     (if ind < length (st_Conditions st) then Ok (updateClusterCondition ind cond False st)
      else Panic ''index out of range'')"

text \<open>The branch of \<open>Sync\<close> after a successful \<open>reconcileXenon\<close>.\<close>

definition mark_ready :: "ClusterCondition \<Rightarrow> MysqlClusterStatus \<Rightarrow> MysqlClusterStatus res" where
  "mark_ready cond0 st0 =
     (let cond = cond0\<lparr>cc_Type := ConditionReady\<rparr>;
          st1 = updateClusterCondition ClIndexReady cond False (st0\<lparr>st_State := ClusterReadyState\<rparr>)
      in bind_res (reset_condition cond ClIndexInit st1) (\<lambda>st2.
         bind_res (reset_condition cond ClIndexScaleIn st2) (\<lambda>st3. reset_condition cond ClIndexScaleOut st3)))"

definition check_ready :: "Env \<Rightarrow> string \<Rightarrow> SyncVars \<Rightarrow> (StatusState, unit) go" where
  "check_ready E pw v =
     bnd (upd_status (\<lambda>st. st\<lparr>st_ReadyNodes := int (sv_ready v)\<rparr>)) (\<lambda>_.
     bnd (gets ss_cluster) (\<lambda>c.
     if int (sv_ready v) = sp_Replicas (mc_Spec c) \<and> sp_Replicas (mc_Spec c) \<noteq> 0 then
       bnd (attempt (reconcileXenon E pw c (sv_ready v))) (\<lambda>r. case r of
           Inl e \<Rightarrow> set_cluster_condition ClIndexError ((sv_cond v)\<lparr>cc_Message := err_text e, cc_Type := ConditionError\<rparr>) False
         | Inr _ \<Rightarrow> bnd (gets status_of) (\<lambda>st. bnd (lift (mark_ready (sv_cond v) st)) (\<lambda>st'. upd_status (\<lambda>_. st'))))
     else ret ()))"

definition updateReadOnlyNodeStatus :: "Env \<Rightarrow> (StatusState, unit) go" where
  "updateReadOnlyNodeStatus E =
     bnd (gets ss_cluster) (\<lambda>c.
     let labels = (GetLabels c)(''app.kubernetes.io/name'' \<mapsto> ''mysql-readonly'', ''readonly'' \<mapsto> ''true'') in
     bnd (list_pods E (mc_Namespace c) labels []) (\<lambda>pods.
     bnd (RoCheckStatus E pods) (\<lambda>_.
     each (\<lambda>pod. bnd (attempt (DoRoRebuild E pod)) (\<lambda>_. ret ())) pods)))"

definition begin_sync :: "Env \<Rightarrow> (StatusState, ClusterCondition) go" where
  "begin_sync E =
     bnd (now E) (\<lambda>t. bnd (upd_status (init_conditions t)) (\<lambda>_.
     bnd (gets ss_cluster) (\<lambda>c.
     case updateClusterStatus t (sp_Replicas (mc_Spec c)) (mc_Status c) of ((cond, ind), st) \<Rightarrow>
     bnd (upd_status (\<lambda>_. st)) (\<lambda>_.
     bnd (case ind of Some i \<Rightarrow> set_cluster_condition i cond False | None \<Rightarrow> ret ()) (\<lambda>_. ret cond)))))"

definition Status_Sync :: "Env \<Rightarrow> string \<Rightarrow> (StatusState, unit) go" where
  "Status_Sync E pw =
     bnd (begin_sync E) (\<lambda>cond.
     bnd (gets ss_cluster) (\<lambda>c.
     bnd (list_pods E (mc_Namespace c) (GetLabels c) ''!readonly'') (\<lambda>pods.
     bnd (modify (\<lambda>s. s\<lparr>ss_items := pods\<rparr>)) (\<lambda>_.
     bnd (each_acc (sync_pod E) \<lparr>sv_Leader = False, sv_TryLeader = False, sv_ready = 0, sv_cond = cond\<rparr> [0..<length pods]) (\<lambda>v.
     bnd (change_leader E v (length pods)) (\<lambda>_.
     bnd (check_ready E pw v) (\<lambda>_.
     bnd (attempt (clusterSlaveCheck E)) (\<lambda>_.
     bnd (attempt (updateReadOnlyNodeStatus E)) (\<lambda>_.
     bnd (attempt (updateLastBackup E)) (\<lambda>_.
     updateNodeStatus E pw))))))))))"


section \<open>What a sync may do to the cluster\<close>

text \<open>The permitted events.\<close>

fun sync_ok :: "event \<Rightarrow> bool" where
  "sync_ok (EvDeletePod p) = (lget (pod_Labels p) LableRebuild \<noteq> [])"
| "sync_ok (EvPatchPod old p) = label_patch old p"
| "sync_ok (EvSql h q) = (q \<in> probe_queries \<or> q = super_read_only_on)"
| "sync_ok (EvExec ns p ct cmd) = (ct = ''xenon'' \<and> cmd = [''xenoncli'', ''raft'', ''trytoleader''])"
| "sync_ok (EvDeletePVC n) = has_prefix n ''data-''"
| "sync_ok (EvUpdatePVC p) = False"
| "sync_ok (EvListPVC ns l) = False"
| "sync_ok (EvGetSfs n) = False"
| "sync_ok (EvCreateSfs x) = False"
| "sync_ok (EvUpdateSfs x) = False"
| "sync_ok (EvDeleteSfs n) = False"
| "sync_ok (EvGetService n) = False"
| "sync_ok (EvDeleteService n) = False"
| "sync_ok _ = True"

lemma connect_sync_ok: "ev_connect e \<Longrightarrow> sync_ok e"
  by (cases e) auto

interpretation sync: node_footprint sync_ok
  by unfold_locales (auto intro: connect_sync_ok)

lemma emits_item [emits_intros]: "emits w_trace A (item k)"
  unfolding item_def by (intro emits_intros)

lemma mark_donor_ok: "emits w_trace sync_ok (mark_donor E n j ps)"
proof (induction E n j ps rule: mark_donor.induct)
  case (2 E n j other rest)
  then show ?case
    by (cases "GetOrdinal (pod_Name other)") (auto simp: Let_def intro!: emits_intros)
qed (simp add: emits_intros)

lemma choose_donor_ok: "emits w_trace sync_ok (choose_donor E pod)"
  unfolding choose_donor_def Let_def
  by (cases "atoi (lget (pod_Labels pod) LableRebuild)") (auto intro!: emits_intros mark_donor_ok)

lemma claim_prefix: "has_prefix (claim_name c svc n) ''data-''"
  by (simp add: claim_name_def has_prefix_def)

lemma delete_claim_ok: "emits w_trace sync_ok (delete_claim E c svc n)"
  unfolding delete_claim_def by (intro emits_intros) (simp_all add: claim_prefix)

lemma label_keys: "LableRebuild \<noteq> ''healthy''" "LableRebuild \<noteq> LabelRebuildFrom"
  by (simp_all add: LableRebuild_def LabelRebuildFrom_def)

lemma put_label_rebuild [simp]:
  "lget (pod_Labels (put_label ''healthy'' v p)) LableRebuild = lget (pod_Labels p) LableRebuild"
  "lget (pod_Labels (put_label LabelRebuildFrom v p)) LableRebuild = lget (pod_Labels p) LableRebuild"
  by (simp_all add: put_label_def label_keys)

lemma AutoRebuild_ok:
  assumes "lget (pod_Labels pod) LableRebuild \<noteq> []"
  shows "emits w_trace sync_ok (AutoRebuild E k pod)"
  unfolding AutoRebuild_def Let_def
  by (intro emits_intros choose_donor_ok delete_claim_ok) (simp_all add: assms)

lemma DoRoRebuild_ok: "emits w_trace sync_ok (DoRoRebuild E pod)"
  unfolding DoRoRebuild_def Let_def
  by (intro emits_intros choose_donor_ok delete_claim_ok) simp_all

lemma TryLeader_ok: "emits w_trace sync_ok (TryLeader E k)"
  unfolding TryLeader_def Let_def XenonTryLeader_def by (intro emits_intros) simp_all

lemma SetLeaderReadOnly_ok: "emits w_trace sync_ok (SetLeaderReadOnly E pod)"
  unfolding SetLeaderReadOnly_def Let_def
  by (intro emits_intros config_emits runner_emits wsql.emits_ops) (simp_all add: connect_sync_ok)

lemma emits_set_cluster_condition [emits_intros]: "emits w_trace A (set_cluster_condition i c f)"
  unfolding set_cluster_condition_def by (intro emits_intros)

lemma clusterSlaveCheck_ok: "emits w_trace sync_ok (clusterSlaveCheck E)"
  unfolding clusterSlaveCheck_def Let_def
  by (intro emits_intros config_emits runner_emits sync.slave_ok connect_sync_ok)

lemma updateLastBackup_ok: "emits w_trace sync_ok (updateLastBackup E)"
  unfolding updateLastBackup_def by (intro emits_intros) simp

lemma pod_condition_ok: "emits w_trace sync_ok (pod_condition E v pc)"
  unfolding pod_condition_def Let_def by (cases "pc_Type pc") (auto intro!: emits_intros)

lemma sync_pod_ok: "emits w_trace sync_ok (sync_pod E v k)"
  unfolding sync_pod_def Let_def
  by (intro emits_intros AutoRebuild_ok pod_condition_ok) simp

lemma change_leader_ok: "emits w_trace sync_ok (change_leader E v n)"
  unfolding change_leader_def by (intro emits_intros SetLeaderReadOnly_ok TryLeader_ok)

lemma reconcileXenon_ok: "emits w_trace sync_ok (reconcileXenon E pw c n)"
proof -
  have "emits w_trace sync_ok (run_xcmd E pw x)" for x
    by (cases x) (auto simp: XenonPing_def ClusterAdd_def ClusterRemove_def unit_call_def
        intro!: emits_intros sync.xenon_call_ok)
  then show ?thesis unfolding reconcileXenon_each by (intro emits_intros)
qed

lemma check_ready_ok: "emits w_trace sync_ok (check_ready E pw v)"
  unfolding check_ready_def by (intro emits_intros reconcileXenon_ok)

lemma updateReadOnlyNodeStatus_ok: "emits w_trace sync_ok (updateReadOnlyNodeStatus E)"
  unfolding updateReadOnlyNodeStatus_def Let_def
  by (intro emits_intros sync.RoCheckStatus_ok DoRoRebuild_ok) simp

lemma begin_sync_ok: "emits w_trace sync_ok (begin_sync E)"
  unfolding begin_sync_def by (intro emits_intros)



section \<open>Rebuilding, step by step\<close>

text \<open>
  A monitor over the events of one rebuild: only the pod itself is deleted, and a claim only
  after it, only the data claim of its ordinal, and not for MySQL 8.0.
\<close>

fun is_delete :: "event \<Rightarrow> bool" where
  "is_delete (EvDeletePVC n) = True"
| "is_delete (EvDeletePod p) = True"
| "is_delete _ = False"

fun rebuild_order :: "MysqlCluster \<Rightarrow> Pod \<Rightarrow> bool \<Rightarrow> event list \<Rightarrow> bool" where
  "rebuild_order c pod deleted [] = True"
| "rebuild_order c pod deleted (EvDeletePVC n # es) =
     (deleted \<and> sp_MysqlVersion (mc_Spec c) \<noteq> ''8.0'' \<and>
      (case GetOrdinal (pod_Name pod) of Ok ord \<Rightarrow> n = claim_name c StatefulSet ord | _ \<Rightarrow> False) \<and>
      rebuild_order c pod deleted es)"
| "rebuild_order c pod deleted (EvDeletePod p # es) = (pod_Name p = pod_Name pod \<and> rebuild_order c pod True es)"
| "rebuild_order c pod deleted (e # es) = rebuild_order c pod deleted es"

lemma rebuild_order_append:
  "list_all (\<lambda>e. \<not> is_delete e) es \<Longrightarrow> rebuild_order c pod d (es @ fs) = rebuild_order c pod d fs"
  by (induction es) (auto elim: is_delete.elims(3))

lemma mark_donor_no_delete: "emits w_trace (\<lambda>e. \<not> is_delete e) (mark_donor E n j ps)"
proof (induction E n j ps rule: mark_donor.induct)
  case (2 E n j other rest)
  then show ?case
    by (cases "GetOrdinal (pod_Name other)") (auto simp: Let_def intro!: emits_intros)
qed (simp add: emits_intros)

lemma choose_donor_no_delete: "emits w_trace (\<lambda>e. \<not> is_delete e) (choose_donor E pod)"
  unfolding choose_donor_def Let_def
  by (cases "atoi (lget (pod_Labels pod) LableRebuild)") (auto intro!: emits_intros mark_donor_no_delete)

lemma keeps_item [keeps_intros]: "keeps P (item k)"
  unfolding item_def by (intro keeps_intros)

lemma keeps_set_item [keeps_intros]: "(\<And>s xs. P s \<Longrightarrow> P (s\<lparr>ss_items := xs\<rparr>)) \<Longrightarrow> keeps P (set_item k p)"
  unfolding set_item_def by (intro keeps_intros)

lemma mark_donor_keeps:
  assumes "\<And>s t. P s \<Longrightarrow> P (s\<lparr>w_trace := t\<rparr>)" "\<And>s xs. P s \<Longrightarrow> P (s\<lparr>ss_items := xs\<rparr>)"
  shows "keeps P (mark_donor E n j ps)"
proof (induction E n j ps rule: mark_donor.induct)
  case (2 E n j other rest)
  then show ?case
    by (cases "GetOrdinal (pod_Name other)") (auto simp: Let_def intro!: keeps_intros assms)
qed (simp add: keeps_intros)

lemma choose_donor_keeps:
  assumes "\<And>s t. P s \<Longrightarrow> P (s\<lparr>w_trace := t\<rparr>)" "\<And>s xs. P s \<Longrightarrow> P (s\<lparr>ss_items := xs\<rparr>)"
  shows "keeps P (choose_donor E pod)"
  unfolding choose_donor_def Let_def
  by (cases "atoi (lget (pod_Labels pod) LableRebuild)") (auto intro!: keeps_intros mark_donor_keeps assms)

lemma put_label_name [simp]: "pod_Name (put_label k v p) = pod_Name p"
  by (simp add: put_label_def)

text \<open>The destructive half of \<open>AutoRebuild\<close>.\<close>

lemma destroy_order:
  assumes "GetOrdinal (pod_Name pod) = Ok ordinal" "pod_Name pod2 = pod_Name pod"
  shows "\<exists>es. w_trace (snd (bnd (set_item k pod2) (\<lambda>_.
            bnd (call E (EvUpdatePod pod2)) (\<lambda>_.
            bnd (call E (EvDeletePod pod2)) (\<lambda>_.
            bnd (gets ss_cluster) (\<lambda>c.
            if sp_MysqlVersion (mc_Spec c) = ''8.0'' then ret ()
            else delete_claim E c StatefulSet ordinal)))) s)) = w_trace s @ es \<and> rebuild_order (ss_cluster s) pod False es"
  using assms
  by (auto simp: bnd_def set_item_def modify_def call_run gets_def ret_def delete_claim_def get_pvc_def query_def
      record_ev_def Let_def split: option.split)

text \<open>
  C5. A rebuild deletes in the safe order. Whatever fails on the way, the events of one
  \<open>AutoRebuild\<close> delete no pod but the one asked for, and its data claim only after the pod
  has been deleted, only the claim of its own ordinal, and never for MySQL 8.0, whose
  nodes are cloned onto the old volume.
\<close>

theorem AutoRebuild_order:
  "\<exists>es. w_trace (snd (AutoRebuild E k pod s)) = w_trace s @ es \<and> rebuild_order (ss_cluster s) pod False es"
proof (cases "GetOrdinal (pod_Name pod)")
  case (Ok ordinal)
  obtain r u where u: "choose_donor E pod s = (r, u)" by (cases "choose_donor E pod s")
  from emitsD [OF choose_donor_no_delete, of E pod s] u obtain es where
    es: "w_trace u = w_trace s @ es" "list_all (\<lambda>e. \<not> is_delete e) es" by auto
  have cl: "ss_cluster u = ss_cluster s"
    using keepsD [OF choose_donor_keeps [of "\<lambda>t. ss_cluster t = ss_cluster s" E pod], of s] u by simp
  have stop: ?thesis if "snd (AutoRebuild E k pod s) = u"
    using es rebuild_order_append [OF es(2), of "ss_cluster s" pod False "[]"] that by auto
  show ?thesis
  proof (cases r)
    case r: (Ok donor)
    show ?thesis
    proof (cases donor)
      case None
      then show ?thesis using stop by (simp add: AutoRebuild_def bnd_lift Ok bnd_def u r ret_def)
    next
      case (Some j)
      define pod2 where "pod2 = put_label ''healthy'' ''no'' (if j = Some k then put_label LabelRebuildFrom ''true'' pod else pod)"
      have name: "pod_Name pod2 = pod_Name pod" by (simp add: pod2_def)
      from destroy_order [OF Ok name, of k E u] obtain fs where fs:
        "w_trace (snd (bnd (set_item k pod2) (\<lambda>_.
            bnd (call E (EvUpdatePod pod2)) (\<lambda>_.
            bnd (call E (EvDeletePod pod2)) (\<lambda>_.
            bnd (gets ss_cluster) (\<lambda>c.
            if sp_MysqlVersion (mc_Spec c) = ''8.0'' then ret ()
            else delete_claim E c StatefulSet ordinal)))) u)) = w_trace u @ fs" "rebuild_order (ss_cluster u) pod False fs"
        by blast
      have "AutoRebuild E k pod s = (bnd (set_item k pod2) (\<lambda>_.
            bnd (call E (EvUpdatePod pod2)) (\<lambda>_.
            bnd (call E (EvDeletePod pod2)) (\<lambda>_.
            bnd (gets ss_cluster) (\<lambda>c.
            if sp_MysqlVersion (mc_Spec c) = ''8.0'' then ret ()
            else delete_claim E c StatefulSet ordinal)))) u)"
        by (simp add: AutoRebuild_def bnd_lift Ok bnd_def [of "choose_donor E pod"] u r Some pod2_def Let_def)
      with fs es cl show ?thesis
        using rebuild_order_append [OF es(2), of "ss_cluster s" pod False fs] by auto
    qed
  qed (use stop in \<open>simp_all add: AutoRebuild_def bnd_lift Ok bnd_def u\<close>)
next
  case (Fail e)
  then show ?thesis by (simp add: AutoRebuild_def bnd_lift fail_def)
next
  case (Panic e)
  then show ?thesis by (simp add: AutoRebuild_def bnd_lift panic_def)
qed


text \<open>
  A rebuild can be skipped in silence. When the rebuild label names a donor number and
  the first pod of the list has a name without an ordinal, the loop returns the outer
  error, which is nil: \<open>AutoRebuild\<close> reports success and has done nothing, not even
  refused, so the pod with the label is neither deleted nor marked.
\<close>

theorem AutoRebuild_silent_skip:
  assumes "GetOrdinal (pod_Name pod) = Ok ordinal" "lget (pod_Labels pod) LableRebuild \<noteq> ''true''"
    and "atoi (lget (pod_Labels pod) LableRebuild) = Ok donor"
    and "ss_items s = other # rest" "\<not> is_ok (GetOrdinal (pod_Name other))"
  shows "AutoRebuild E k pod s = (Ok (), s)"
  using assms
  by (cases "GetOrdinal (pod_Name other)")
     (simp_all add: AutoRebuild_def bnd_lift choose_donor_def bnd_def gets_def ret_def)

definition sample_state :: "Pod list \<Rightarrow> StatusState" where
  "sample_state ps = \<lparr>w_trace = [], ss_cluster = sample, ss_items = ps\<rparr>"

definition skip_pod :: Pod where
  "skip_pod = \<lparr>pod_Name = ''sample-mysql-1'', pod_Namespace = ''default'', pod_Labels = [''rebuild'' \<mapsto> ''0''],
     pod_Deleting = False, pod_Phase = PodRunning, pod_Conditions = [], pod_ContainerStatuses = []\<rparr>"

definition debug_pod :: Pod where
  "debug_pod = \<lparr>pod_Name = ''debug'', pod_Namespace = ''default'', pod_Labels = Map.empty,
     pod_Deleting = False, pod_Phase = PodRunning, pod_Conditions = [], pod_ContainerStatuses = []\<rparr>"

theorem AutoRebuild_silent_skip_witness:
  "\<forall>E. AutoRebuild E 1 skip_pod (sample_state [debug_pod, skip_pod]) = (Ok (), sample_state [debug_pod, skip_pod])"
proof
  fix E
  have "nat_str 1 = ''1''" "nat_str 0 = ''0''" by (simp_all add: nat_str.simps)
  then have one: "atoi ''1'' = Ok 1" and zero: "atoi ''0'' = Ok 0" using atoi_nat_str [of 1] atoi_nat_str [of 0] by simp_all
  show "AutoRebuild E 1 skip_pod (sample_state [debug_pod, skip_pod]) = (Ok (), sample_state [debug_pod, skip_pod])"
  proof (rule AutoRebuild_silent_skip)
    show "GetOrdinal (pod_Name skip_pod) = Ok 1" by (simp add: skip_pod_def GetOrdinal_def one)
    show "atoi (lget (pod_Labels skip_pod) LableRebuild) = Ok 0" by (simp add: skip_pod_def LableRebuild_def zero)
    show "lget (pod_Labels skip_pod) LableRebuild \<noteq> ''true''" by (simp add: skip_pod_def LableRebuild_def)
    show "ss_items (sample_state [debug_pod, skip_pod]) = debug_pod # [skip_pod]" by (simp add: sample_state_def)
    show "\<not> is_ok (GetOrdinal (pod_Name debug_pod))" by (simp add: debug_pod_def GetOrdinal_def)
  qed
qed

section \<open>Changing the leader\<close>

text \<open>
  Two small extensions of the trace logic: the result of a call (\<open>yields\<close>), and events under
  an invariant of the state (\<open>guarded\<close>).
\<close>

definition yields :: "('a \<Rightarrow> bool) \<Rightarrow> ('s, 'a) go \<Rightarrow> bool" where
  "yields Q m \<longleftrightarrow> (\<forall>s x t. m s = (Ok x, t) \<longrightarrow> Q x)"

definition guarded :: "('s \<Rightarrow> bool) \<Rightarrow> ('s \<Rightarrow> 'e list) \<Rightarrow> ('e \<Rightarrow> bool) \<Rightarrow> ('s, 'a) go \<Rightarrow> bool" where
  "guarded P tr A m \<longleftrightarrow> (\<forall>s. P s \<longrightarrow> P (snd (m s)) \<and> (\<exists>es. tr (snd (m s)) = tr s @ es \<and> list_all A es))"

lemma guardedI: "emits tr A m \<Longrightarrow> keeps P m \<Longrightarrow> guarded P tr A m"
  by (auto simp: guarded_def emits_def keeps_def)

lemma guarded_bnd:
  assumes "guarded P tr A m" "\<And>x. guarded P tr A (f x)"
  shows "guarded P tr A (bnd m f)"
  unfolding guarded_def
proof (intro allI impI)
  fix s assume "P s"
  obtain r t where m: "m s = (r, t)" by (cases "m s")
  from assms(1) \<open>P s\<close> m obtain es where es: "P t" "tr t = tr s @ es" "list_all A es"
    unfolding guarded_def by fastforce
  show "P (snd (bnd m f s)) \<and> (\<exists>es. tr (snd (bnd m f s)) = tr s @ es \<and> list_all A es)"
  proof (cases r)
    case (Ok x)
    from assms(2) [of x] es(1) obtain fs where "P (snd (f x t))" "tr (snd (f x t)) = tr t @ fs" "list_all A fs"
      unfolding guarded_def by blast
    with es m Ok show ?thesis by (auto simp: bnd_def)
  qed (use es m in \<open>auto simp: bnd_def\<close>)
qed

lemma guarded_gets:
  "(\<And>s. P s \<Longrightarrow> guarded P tr A (g (f s))) \<Longrightarrow> guarded P tr A (bnd (gets f) g)"
  unfolding guarded_def by (auto simp: bnd_def gets_def)

lemma emits_bnd_yields:
  assumes "emits tr A m" "yields Q m" "\<And>x. Q x \<Longrightarrow> emits tr A (f x)"
  shows "emits tr A (bnd m f)"
  unfolding emits_def
proof
  fix s
  obtain r t where m: "m s = (r, t)" by (cases "m s")
  from emitsD [OF assms(1), of s] m obtain es where es: "tr t = tr s @ es" "list_all A es" by auto
  show "\<exists>es. tr (snd (bnd m f s)) = tr s @ es \<and> list_all A es"
  proof (cases r)
    case (Ok x)
    with assms(2) m have "Q x" by (auto simp: yields_def)
    from emitsD [OF assms(3) [OF this], of t] obtain fs where "tr (snd (f x t)) = tr t @ fs" "list_all A fs" by auto
    with es m Ok show ?thesis by (auto simp: bnd_def)
  qed (use es m in \<open>auto simp: bnd_def\<close>)
qed

lemma yields_attempt: "yields Q m \<Longrightarrow> yields (\<lambda>r. \<forall>x. r = Inr x \<longrightarrow> Q x) (attempt m)"
  unfolding yields_def attempt_def by (auto split: prod.splits res.splits)

lemma yields_config:
  assumes "host \<noteq> LeaderHost"
  shows "yields (\<lambda>cfg. cf_Host cfg = host) (config_of E c user host)"
  using assms
  by (auto simp: yields_def config_of_def NewConfigFromClusterKey_def bnd_eq_Ok Let_def fail_def ret_def
      split: if_splits option.splits)

lemma yields_runner: "yields (\<lambda>h. h = cf_Host cfg) (runner_of E (Inr cfg))"
  by (auto simp: yields_def runner_of_def NewSQLRunner_def bnd_eq_Ok ret_def)

text \<open>Every command and write of the event is directed at the pod called \<open>n\<close>.\<close>

fun targets :: "string \<Rightarrow> event \<Rightarrow> bool" where
  "targets n (EvExec ns p ct cmd) = (p = n)"
| "targets n (EvUpdatePod p) = (pod_Name p = n)"
| "targets n (EvSql h q) = has_prefix h (n @ ''.'')"
| "targets n _ = True"

lemma connect_targets: "ev_connect e \<Longrightarrow> targets n e"
  by (cases e) auto

lemma SetLeaderReadOnly_targets: "emits w_trace (targets (pod_Name pod)) (SetLeaderReadOnly E pod)"
proof -
  have host: "x @ ''.'' @ y \<noteq> LeaderHost" for x y
  proof
    assume "x @ ''.'' @ y = LeaderHost"
    then have "CHR ''.'' \<in> set LeaderHost" by (metis append_Cons in_set_conv_decomp)
    then show False by (simp add: LeaderHost_def)
  qed
  have runner: "emits w_trace (targets n) (runner_of E cfg)" for n cfg
    by (rule runner_emits) (rule connect_targets)
  have config: "emits w_trace (targets n) (config_of E c user h)" for n c user h
    by (rule config_emits) (rule connect_targets)
  have y: "yields (\<lambda>r. \<forall>x. r = Inr x \<longrightarrow> (\<exists>g. cfg = Inr g \<and> x = cf_Host g)) (attempt (runner_of E cfg))" for cfg
    by (rule yields_attempt)
       (cases cfg, auto simp: yields_def runner_of_def NewSQLRunner_def bnd_eq_Ok ret_def fail_def)
  have exec: "emits w_trace (targets n) (sr_exec (world_sql E h) q)" if "has_prefix h (n @ ''.'')" for n h q
    by (rule wsql.emits_ops) (simp add: that)
  show ?thesis
    unfolding SetLeaderReadOnly_def Let_def
    apply (rule emits_bnd, rule emits_basic)
    apply (rule emits_bnd_yields [OF _ yields_attempt [OF yields_config [OF host]]])
     apply (rule emits_attempt, rule config)
    apply (rule emits_bnd_yields [OF _ y])
     apply (rule emits_attempt, rule runner)
    apply (rule emits_bnd, rule emits_basic)
    subgoal for c cfg r late
      by (cases r) (auto simp: has_prefix_def intro!: exec emits_basic)
    done
qed

lemma keeps_world [keeps_intros]:
  assumes "\<And>s t. P s \<Longrightarrow> P (s\<lparr>w_trace := t\<rparr>)"
  shows "keeps P (NewPodExecutor E)" "keeps P (XenonTryLeader E ns p)" "keeps P (config_of E c user host)"
    "keeps P (runner_of E cfg)" "keeps P (sr_exec (world_sql E h) q)"
  unfolding NewPodExecutor_def XenonTryLeader_def run_in_xenon_def config_of_def NewConfigFromClusterKey_def
    runner_of_def NewSQLRunner_def world_sql_def get_cluster_def get_secret_def open_db_def ping_db_def Let_def SQLRunner.simps
  by (intro keeps_intros; simp add: assms)+

text \<open>
  The manual change of leader acts on the wrong pods. The code keeps pointers to the
  labelled pod and to the leader while it loops over the pods, but both point to the
  loop variable, so after the loop they are the last pod: every command sent into a pod,
  every pod update and every statement of \<open>change_leader\<close> is directed at the last pod of the
  list, whichever pods carry the labels.
\<close>

theorem change_leader_hits_last:
  fixes s :: StatusState
  shows "\<exists>es. w_trace (snd (change_leader E v n s)) = w_trace s @ es \<and>
    list_all (targets (pod_Name (ss_items s ! (n - 1)))) es"
proof -
  define nm where "nm = pod_Name (ss_items s ! (n - 1))"
  define P where "P = (\<lambda>t :: StatusState. pod_Name (ss_items t ! (n - 1)) = nm)"
  have P_trace: "P (t\<lparr>w_trace := x\<rparr>)" if "P t" for t x using that by (simp add: P_def)
  have P_item: "P (t\<lparr>ss_items := (ss_items t)[n - 1 := p]\<rparr>)" if "P t" "pod_Name p = nm" for t p
    using that by (cases "n - 1 < length (ss_items t)") (simp_all add: P_def list_update_beyond)
  have leader: "guarded P w_trace (targets nm) (attempt (SetLeaderReadOnly E pod))" if "pod_Name pod = nm" for pod
    using SetLeaderReadOnly_targets [of pod E] that
    unfolding SetLeaderReadOnly_def Let_def
    by (intro guardedI emits_attempt keeps_intros P_trace) auto
  have exec: "guarded P w_trace (targets nm) (attempt (XenonTryLeader E ns nm))" for ns
    unfolding XenonTryLeader_def
    by (intro guardedI emits_intros keeps_attempt keeps_world [unfolded XenonTryLeader_def] P_trace) simp_all
  have put: "guarded P w_trace (targets nm) (set_item (n - 1) p)" if "pod_Name p = nm" for p
    unfolding set_item_def using that by (intro guardedI emits_intros keeps_intros P_item) simp_all
  have upd: "guarded P w_trace (targets nm) (case r of Inl e \<Rightarrow> fail e | Inr _ \<Rightarrow> call E (EvUpdatePod p))"
    if "pod_Name p = nm" for p and r :: "gerr + unit"
    using that by (intro guardedI emits_intros keeps_intros P_trace) simp_all
  have exe: "guarded P w_trace (targets nm) (NewPodExecutor E)"
    by (intro guardedI emits_intros keeps_intros P_trace)
  have "guarded P w_trace (targets nm) (TryLeader E (n - 1))"
    unfolding TryLeader_def item_def Let_def
    apply (rule guarded_bnd [OF exe], rule guarded_gets, rule guarded_gets)
    subgoal premises prems for s t
      using prems(2) exec put upd by (intro guarded_bnd) (auto simp: P_def)
    done
  then have take: "guarded P w_trace (targets nm) (attempt (TryLeader E (n - 1)))"
    by (simp add: guarded_def)
  have nop: "guarded P w_trace (targets nm) (ret ())"
    by (intro guardedI emits_intros keeps_intros)
  have first: "guarded P w_trace (targets nm) (bnd (item (n - 1)) (\<lambda>pod. bnd (attempt (SetLeaderReadOnly E pod)) (\<lambda>_. ret ())))"
    unfolding item_def by (intro guarded_gets guarded_bnd leader nop) (simp add: P_def)
  have "guarded P w_trace (targets nm) (change_leader E v n)"
    unfolding change_leader_def
    by (cases "sv_TryLeader v"; cases "sv_Leader v")
       (simp_all only: if_True if_False guarded_bnd [OF first] guarded_bnd [OF nop] guarded_bnd [OF take] take nop first)
  moreover have "P s" by (simp add: P_def nm_def)
  ultimately show ?thesis unfolding guarded_def nm_def by blast
qed

section \<open>Becoming ready\<close>

lemma set_cluster_cond_length [simp]: "length (set_cluster_cond i c cs) = length cs"
  by (rule cluster_conds.len_upd)

lemma set_cluster_cond_Nil [simp]: "set_cluster_cond i c cs = [] \<longleftrightarrow> cs = []"
  by (simp flip: length_0_conv)

lemma updateClusterCondition_in:
  "i < length (st_Conditions st) \<Longrightarrow>
   st_Conditions (updateClusterCondition i c False st) = set_cluster_cond i c (st_Conditions st) \<and>
   st_State (updateClusterCondition i c False st) = st_State st"
  by (simp add: updateClusterCondition_def)

text \<open>
  When the cluster becomes ready, the conditions for initialising and scaling are not
  reset. The code means to set Initializing, ScaleIn and ScaleOut to false, but stores
  the Ready condition in their places: afterwards all four have status true. With fewer
  than seven conditions in the status the branch panics.
\<close>

theorem mark_ready_sets_all_true:
  assumes "cc_Status cond = CondTrue"
  shows "(is_panic (mark_ready cond st) \<longleftrightarrow> length (st_Conditions st) < 7) \<and>
    (\<forall>st'. mark_ready cond st = Ok st' \<longrightarrow> st_State st' = ClusterReadyState \<and>
       (\<forall>i\<in>{ClIndexReady, ClIndexInit, ClIndexScaleIn, ClIndexScaleOut}. cc_Status (st_Conditions st' ! i) = CondTrue))"
proof (cases "length (st_Conditions st) < 7")
  case True
  then show ?thesis
    by (auto simp: mark_ready_def reset_condition_def updateClusterCondition_def cl_index_defs Let_def)
next
  case False
  define rc where "rc = cond\<lparr>cc_Type := ConditionReady\<rparr>"
  define cs where "cs = fold (\<lambda>p. set_cluster_cond (fst p) (snd p))
    [(2, rc), (0, rc), (5, rc), (6, rc)] (st_Conditions st)"
  have ok: "mark_ready cond st = Ok (st\<lparr>st_State := ClusterReadyState, st_Conditions := cs\<rparr>)"
  proof -
    have "st_Conditions st \<noteq> []" using False by auto
    then show ?thesis using False
      by (simp add: mark_ready_def reset_condition_def updateClusterCondition_def cl_index_defs Let_def cs_def rc_def)
  qed
  have "cc_Status (cs ! i) = (case map_of (rev [(2, rc), (0, rc), (5, rc), (6, rc)]) i of
      Some c \<Rightarrow> cc_Status c | None \<Rightarrow> cc_Status (st_Conditions st ! i))" if "i < 7" for i
    using cluster_conds.batch_status [of i "st_Conditions st" "[(2, rc), (0, rc), (5, rc), (6, rc)]"] False that
    by (simp only: cs_def id_apply)
  then have "cc_Status (cs ! i) = CondTrue" if "i \<in> {0, 2, 5, 6}" for i
    using that assms by (auto simp: rc_def)
  then show ?thesis using False ok by (simp add: cl_index_defs)
qed

end
