(* ===== verification/StatusLaws.thy ===== *)
theory StatusLaws
  imports StatusSync
begin

text \<open>
  What a whole \<open>Sync\<close> of the status syncer does to the cluster status, the report on a remote
  cluster, and the choice of the last backup.
\<close>

section \<open>What the probes keep\<close>

lemma keeps_case_prod [keeps_intros]:
  "(\<And>a b. x = (a, b) \<Longrightarrow> keeps P (f a b)) \<Longrightarrow> keeps P (case x of (a, b) \<Rightarrow> f a b)"
  by (cases x) simp

text \<open>
  A predicate of the syncer's state that looks neither at the trace, nor at the pods, nor at
  the node table: kept by everything that does not write a cluster condition.
\<close>

locale status_view =
  fixes P :: "StatusState \<Rightarrow> bool"
  assumes P_trace: "P s \<Longrightarrow> P (s\<lparr>w_trace := t\<rparr>)" and P_items: "P s \<Longrightarrow> P (s\<lparr>ss_items := ps\<rparr>)"
    and P_nodes: "P s \<Longrightarrow> P (s\<lparr>ss_cluster := (ss_cluster s)\<lparr>mc_Status := (mc_Status (ss_cluster s))\<lparr>st_Nodes := ns\<rparr>\<rparr>\<rparr>)"
begin

lemmas P_rules = P_trace P_items P_nodes

lemma keeps_sql:
  "keeps P (sr_rows (world_sql E h) q)" "keeps P (sr_u8 (world_sql E h) q)" "keeps P (sr_f64 (world_sql E h) q)"
  "keeps P (sr_exec (world_sql E h) q)" "keeps P (sr_sleep (world_sql E h))"
  unfolding world_sql_def SQLRunner.simps record_ev_def by (intro keeps_intros P_rules; assumption)+

lemma keeps_flag: "keeps P (flag_check (world_sql E h) param)"
  unfolding flag_check_def by (intro keeps_intros keeps_sql)

lemma keeps_row_verdict: "keeps P (slave_row_verdict (world_sql E h) lag cols args)"
  unfolding slave_row_verdict_def Let_def by (intro keeps_intros keeps_sql)

lemma keeps_slave: "keeps P (CheckSlaveStatus (world_sql E h) lag)"
  unfolding CheckSlaveStatus_def
proof (intro keeps_intros keeps_sql)
  fix rows
  show "keeps P (case rw_rows rows of
            [] \<Rightarrow> (case rw_err rows of Some e \<Rightarrow> ret (CondUnknown, CondUnknown, Some e) | None \<Rightarrow> ret (CondFalse, CondFalse, None))
          | row # _ \<Rightarrow> bnd (attempt (lift (rw_cols rows))) (\<lambda>c. case c of
                Inl e \<Rightarrow> ret (CondUnknown, CondUnknown, Some e)
              | Inr cols \<Rightarrow> bnd (attempt (lift row)) (\<lambda>a. case a of
                    Inl e \<Rightarrow> ret (CondUnknown, CondUnknown, Some e)
                  | Inr args \<Rightarrow> slave_row_verdict (world_sql E h) lag cols args)))"
    by (cases "rw_rows rows"; simp) (intro keeps_intros keeps_row_verdict)+
qed

lemma keeps_retry: "keeps P (slave_retry_loop (world_sql E h) lag r n)"
  by (induction n arbitrary: r) (auto intro!: keeps_intros keeps_slave keeps_sql)

lemma keeps_edits:
  "keeps P (set_nodes ns)" "keeps P (upd_node i f)" "keeps P (set_message i msg)" "keeps P (set_item k p)"
  "keeps P (note_error i err)" "keeps P (set_node_condition E i idx st)"
  unfolding set_nodes_def upd_node_def set_message_def set_item_def note_error_def set_node_condition_def upd_status_def
  by (intro keeps_intros P_rules; assumption)+

lemma keeps_connect: "keeps P (try_runner E c user host)"
  unfolding try_runner_def by (intro keeps_intros P_trace)

lemma keeps_xenon: "keeps P (xenon_call (world_http E) pw h url data what)"
  unfolding xenon_call_def Execute_def world_http_def HttpClient.simps by (intro keeps_intros P_trace)

lemma keeps_raft: "keeps P (updateNodeRaftStatus E pw i)"
  unfolding updateNodeRaftStatus_def RaftStatus_call_def by (intro keeps_intros keeps_edits keeps_xenon)

lemma keeps_probe_node: "keeps P (probe_node E i lag r)"
  unfolding probe_node_def CheckSlaveStatusWithRetry_def CheckReadOnly_def Let_def
  by (intro keeps_intros keeps_edits keeps_flag keeps_retry)

lemma keeps_probe_ro: "keeps P (probe_ro E i lag r)"
  unfolding probe_ro_def CheckReadOnly_def CheckSuperReadOnly_def CheckSemSync_def Let_def
  by (intro keeps_intros keeps_edits keeps_flag keeps_slave)

lemma keeps_label: "keeps P (updatePodLabel E k i)"
proof -
  have "keeps P (case e of NotFound _ \<Rightarrow> ret () | _ \<Rightarrow> fail e)" for e :: gerr
    by (cases e) (simp_all add: keeps_intros)
  then show ?thesis
    unfolding updatePodLabel_def ignore_not_found_def by (intro keeps_intros keeps_edits P_trace)
qed

lemma keeps_updateNodeStatus: "keeps P (updateNodeStatus E pw)"
  unfolding updateNodeStatus_def update_one_node_def Let_def
  by (intro keeps_intros keeps_edits keeps_raft keeps_connect keeps_probe_node keeps_label)

lemma keeps_RoCheckStatus: "keeps P (RoCheckStatus E pods)"
  unfolding RoCheckStatus_def check_one_ro_def Let_def
  by (intro keeps_intros keeps_edits keeps_connect keeps_probe_ro)

lemma keeps_reconcile: "keeps P (reconcileXenon E pw c n)"
proof -
  have "keeps P (run_xcmd E pw x)" for x
    by (cases x) (auto simp: XenonPing_def ClusterAdd_def ClusterRemove_def unit_call_def
        intro!: keeps_intros keeps_xenon)
  then show ?thesis unfolding reconcileXenon_each by (intro keeps_intros)
qed

lemma keeps_delete_claim: "keeps P (delete_claim E c svc n)"
  unfolding delete_claim_def get_pvc_def record_ev_def Let_def by (intro keeps_intros P_trace)

lemma keeps_AutoRebuild: "keeps P (AutoRebuild E k pod)"
  unfolding AutoRebuild_def Let_def
  by (intro keeps_intros choose_donor_keeps P_rules keeps_delete_claim)

lemma keeps_DoRoRebuild: "keeps P (DoRoRebuild E pod)"
  unfolding DoRoRebuild_def Let_def
  by (intro keeps_intros choose_donor_keeps P_rules keeps_delete_claim)

lemma keeps_change_leader: "keeps P (change_leader E v n)"
  unfolding change_leader_def TryLeader_def SetLeaderReadOnly_def Let_def
  by (intro keeps_intros P_rules)

lemma keeps_ro: "keeps P (updateReadOnlyNodeStatus E)"
  unfolding updateReadOnlyNodeStatus_def list_pods_def Let_def
  by (intro keeps_intros P_trace keeps_RoCheckStatus keeps_DoRoRebuild)

end

section \<open>The status after a sync\<close>

text \<open>Eight conditions, and the state either \<open>st\<close> or ready.\<close>

definition sync_shape :: "ClusterState \<Rightarrow> StatusState \<Rightarrow> bool" where
  "sync_shape st s \<longleftrightarrow> length (st_Conditions (status_of s)) = 8 \<and> st_State (status_of s) \<in> {st, ClusterReadyState}"

interpretation shape: status_view "sync_shape st" for st
  by unfold_locales (simp_all add: sync_shape_def status_of_def)

lemma updateClusterCondition_shape:
  assumes "length (st_Conditions st) = 8" "i < 8"
  shows "length (st_Conditions (updateClusterCondition i c force st)) = 8 \<and>
    st_State (updateClusterCondition i c force st) = st_State st \<and>
    st_ReadyNodes (updateClusterCondition i c force st) = st_ReadyNodes st"
  using assms by (simp add: updateClusterCondition_def)

lemma shape_condition: "i < 8 \<Longrightarrow> keeps (sync_shape st) (set_cluster_condition i c force)"
  unfolding set_cluster_condition_def upd_status_def
  by (intro keeps_modify) (simp add: sync_shape_def status_of_def updateClusterCondition_shape)

lemma mark_ready_shape:
  assumes "mark_ready c st = Ok st'" "length (st_Conditions st) = 8"
  shows "length (st_Conditions st') = 8 \<and> st_State st' = ClusterReadyState"
  using assms
  by (auto simp: mark_ready_def reset_condition_def Let_def bind_res_Ok updateClusterCondition_shape cl_index_defs
      split: if_splits)

lemma check_ready_run:
  "keeps (sync_shape st) (bnd (gets status_of) (\<lambda>st0. bnd (lift (mark_ready c st0)) (\<lambda>st'. upd_status (\<lambda>_. st'))))"
  unfolding keeps_def
proof (intro allI impI)
  fix s assume s: "sync_shape st s"
  show "sync_shape st (snd (bnd (gets status_of) (\<lambda>st0. bnd (lift (mark_ready c st0)) (\<lambda>st'. upd_status (\<lambda>_. st'))) s))"
    using s mark_ready_shape [of c "status_of s"]
    by (cases "mark_ready c (status_of s)")
       (auto simp: bnd_def gets_def lift_def upd_status_def modify_def sync_shape_def status_of_def)
qed

lemma shape_check_ready: "keeps (sync_shape st) (check_ready E pw v)"
proof -
  have "keeps (sync_shape st) (upd_status (\<lambda>x. x\<lparr>st_ReadyNodes := n\<rparr>))" for n
    unfolding upd_status_def by (intro keeps_modify) (simp add: sync_shape_def status_of_def)
  then show ?thesis
    unfolding check_ready_def
    by (intro keeps_intros check_ready_run shape_condition shape.keeps_reconcile) (simp_all add: cl_index_defs)
qed

lemma shape_remote: "keeps (sync_shape st) (clusterSlaveCheck E)"
  unfolding clusterSlaveCheck_def Let_def
  by (intro keeps_intros shape_condition shape.keeps_slave shape.P_trace) (simp_all add: cl_index_defs)

lemma shape_backup: "keeps (sync_shape st) (updateLastBackup E)"
  unfolding updateLastBackup_def upd_status_def
  by (intro keeps_intros shape.P_trace) (simp_all add: sync_shape_def status_of_def)

lemma shape_sync_pod: "keeps (sync_shape st) (sync_pod E v k)"
proof -
  have "keeps (sync_shape st) (pod_condition E w pc)" for w pc
    unfolding pod_condition_def Let_def
    by (cases "pc_Type pc") (auto intro!: keeps_intros shape_condition simp: cl_index_defs)
  then show ?thesis unfolding sync_pod_def Let_def by (intro keeps_intros shape.keeps_AutoRebuild)
qed

text \<open>After the first part of \<open>Sync\<close> the state is the successor.\<close>

lemma begin_sync_run:
  assumes "length (st_Conditions (status_of s)) = 0 \<or> length (st_Conditions (status_of s)) = 8"
  shows "\<exists>cond s1 st. begin_sync E s = (Ok cond, s1) \<and>
    state_step (sp_Replicas (mc_Spec (ss_cluster s))) (st_ReadyNodes (status_of s)) (st_State (status_of s)) st \<and>
    sync_shape st s1"
proof -
  define t where "t = Some (we_now E (w_trace s))"
  define sa where "sa = init_conditions t (status_of s)"
  have a: "length (st_Conditions sa) = 8" "st_State sa = st_State (status_of s)" "st_ReadyNodes sa = st_ReadyNodes (status_of s)"
    using assms by (auto simp: sa_def init_conditions_def updateClusterCondition_shape cl_index_defs)
  obtain cond ind sb where u: "updateClusterStatus t (sp_Replicas (mc_Spec (ss_cluster s))) sa = ((cond, ind), sb)"
    by (metis surj_pair)
  have step: "state_step (sp_Replicas (mc_Spec (ss_cluster s))) (st_ReadyNodes sa) (st_State sa) (st_State sb)"
    and sb: "sb = sa\<lparr>st_State := st_State sb\<rparr>"
    using updateClusterStatus_steps [of t "sp_Replicas (mc_Spec (ss_cluster s))" sa] unfolding u snd_conv by blast+
  have cs: "st_Conditions sb = st_Conditions sa" by (subst sb) simp
  have ind: "i < 8" if "ind = Some i" for i
    using u that by (auto simp: updateClusterStatus_def cl_index_defs Let_def split: if_splits)
  have run: "begin_sync E s = (Ok cond, s\<lparr>ss_cluster := (ss_cluster s)\<lparr>mc_Status :=
      (case ind of Some i \<Rightarrow> updateClusterCondition i cond False sb | None \<Rightarrow> sb)\<rparr>\<rparr>)"
    using u
    by (simp add: begin_sync_def now_def bnd_def gets_def upd_status_def modify_def t_def [symmetric] sa_def
        status_of_def set_cluster_condition_def ret_def split: option.split)
  have "sync_shape (st_State sb) (s\<lparr>ss_cluster := (ss_cluster s)\<lparr>mc_Status :=
      (case ind of Some i \<Rightarrow> updateClusterCondition i cond False sb | None \<Rightarrow> sb)\<rparr>\<rparr>)"
    using a(1) cs ind by (cases ind) (auto simp: sync_shape_def status_of_def updateClusterCondition_shape)
  with run step a show ?thesis by auto
qed

text \<open>
  C3. The status after a sync. If the condition array is empty (a new cluster) or has its
  eight entries, then after a sync, however it ends (an error, a panic on the way) and
  whatever the world answers, it has eight entries, and the state is the one successor of
  the old state under the state machine, or Ready.
\<close>

theorem Status_Sync_state:
  assumes "length (st_Conditions (status_of s)) = 0 \<or> length (st_Conditions (status_of s)) = 8"
  shows "length (st_Conditions (status_of (snd (Status_Sync E pw s)))) = 8 \<and>
    (st_State (status_of (snd (Status_Sync E pw s))) = ClusterReadyState \<or>
     state_step (sp_Replicas (mc_Spec (ss_cluster s))) (st_ReadyNodes (status_of s)) (st_State (status_of s))
       (st_State (status_of (snd (Status_Sync E pw s)))))"
proof -
  from begin_sync_run [OF assms] obtain cond s1 st where b: "begin_sync E s = (Ok cond, s1)"
    "state_step (sp_Replicas (mc_Spec (ss_cluster s))) (st_ReadyNodes (status_of s)) (st_State (status_of s)) st"
    "sync_shape st s1" by blast
  define rest where "rest = (\<lambda>cond.
     bnd (gets ss_cluster) (\<lambda>c.
     bnd (list_pods E (mc_Namespace c) (GetLabels c) ''!readonly'') (\<lambda>pods.
     bnd (modify (\<lambda>s. s\<lparr>ss_items := pods\<rparr>)) (\<lambda>_.
     bnd (each_acc (sync_pod E) \<lparr>sv_Leader = False, sv_TryLeader = False, sv_ready = 0, sv_cond = cond\<rparr> [0..<length pods]) (\<lambda>v.
     bnd (change_leader E v (length pods)) (\<lambda>_.
     bnd (check_ready E pw v) (\<lambda>_.
     bnd (attempt (clusterSlaveCheck E)) (\<lambda>_.
     bnd (attempt (updateReadOnlyNodeStatus E)) (\<lambda>_.
     bnd (attempt (updateLastBackup E)) (\<lambda>_.
     updateNodeStatus E pw))))))))))"
  have "keeps (sync_shape st) (rest cond)"
    unfolding rest_def list_pods_def
    by (intro keeps_intros shape.P_rules shape_sync_pod shape.keeps_change_leader shape_check_ready shape_remote
        shape.keeps_ro shape_backup shape.keeps_updateNodeStatus)
  moreover have "snd (Status_Sync E pw s) = snd (rest cond s1)"
    unfolding Status_Sync_def rest_def bnd_def [of "begin_sync E"] b(1) by simp
  ultimately have "sync_shape st (snd (Status_Sync E pw s))"
    using b(3) by (simp add: keeps_def)
  with b(2) show ?thesis by (auto simp: sync_shape_def)
qed

theorem Status_Sync_state_witness:
  "\<forall>E pw. length (st_Conditions (status_of (snd (Status_Sync E pw (sample_state []))))) = 8"
proof (intro allI)
  fix E pw
  have "length (st_Conditions (status_of (sample_state []))) = 0"
    by (simp add: sample_state_def status_of_def sample_defs)
  then show "length (st_Conditions (status_of (snd (Status_Sync E pw (sample_state []))))) = 8"
    using Status_Sync_state [of "sample_state []" E pw] by blast
qed

section \<open>The report on a remote cluster\<close>

lemma CheckSlaveStatus_query_fails:
  assumes "we_err E (w_trace s @ [EvSql h SlaveStatus_query]) = Some e"
  shows "CheckSlaveStatus (world_sql E h) lag s =
    (Ok (CondUnknown, CondUnknown, Some e), s\<lparr>w_trace := w_trace s @ [EvSql h SlaveStatus_query]\<rparr>)"
  using assms
  by (simp add: CheckSlaveStatus_def world_sql_def query_def call_run bnd_def attempt_def ret_def)

text \<open>
  An unreachable replication status counts as a working one. When the operator has
  connected to the leader but SHOW SLAVE STATUS fails, nothing is known about the
  replication; the condition RemoteSlave of a complete condition array nevertheless ends
  up with status True, because only the answer False is treated as a failure.
\<close>

theorem clusterSlaveCheck_unknown_is_true:
  assumes "sp_RemoteCluster (mc_Spec (ss_cluster s)) \<noteq> None" and "7 < length (st_Conditions (status_of s))"
    and "bnd (config_of E (ss_cluster s) RootUser
        (GetNameForResource (ss_cluster s) LeaderService @ ''.'' @ mc_Namespace (ss_cluster s)))
      (\<lambda>cfg. runner_of E (Inr cfg)) s = (Ok h, u)"
    and "we_err E (w_trace u @ [EvSql h SlaveStatus_query]) = Some e"
  shows "cc_Status (st_Conditions (status_of (snd (clusterSlaveCheck E s))) ! ClIndexRemoteSlave) = CondTrue"
proof -
  define host where "host = GetNameForResource (ss_cluster s) LeaderService @ ''.'' @ mc_Namespace (ss_cluster s)"
  have "keeps (\<lambda>x. ss_cluster x = ss_cluster s) (bnd (config_of E (ss_cluster s) RootUser host) (\<lambda>cfg. runner_of E (Inr cfg)))"
    by (intro keeps_intros) simp_all
  from keepsD [OF this, of s] have cl: "ss_cluster u = ss_cluster s"
    using assms(3) by (simp add: host_def)
  from assms(3) obtain cfg v where run: "config_of E (ss_cluster s) RootUser host s = (Ok cfg, v)"
    "runner_of E (Inr cfg) v = (Ok h, u)"
    unfolding bnd_eq_Ok host_def by blast
  define u' where "u' = u\<lparr>w_trace := w_trace u @ [EvSql h SlaveStatus_query]\<rparr>"
  have "clusterSlaveCheck E s = (bnd (now E) (\<lambda>t. set_cluster_condition ClIndexRemoteSlave (remote_condition t CondUnknown) False)) u'"
  proof -
    obtain rc where rc: "sp_RemoteCluster (mc_Spec (ss_cluster s)) = Some rc" using assms(1) by blast
    show ?thesis
      unfolding clusterSlaveCheck_def Let_def bnd_Ok [OF gets_def] host_def [symmetric] rc
      apply (simp only: if_False if_True option.distinct)
      apply (subst bnd_Ok, rule run(1))
      apply (subst bnd_Ok, rule run(2))
      apply (subst bnd_Ok, rule CheckSlaveStatus_query_fails [OF assms(4)])
      apply (simp add: u'_def)
      done
  qed
  then show ?thesis
    using assms(2) cl cluster_conds.status_after [of 7 "st_Conditions (status_of s)"]
    by (simp add: now_def bnd_def gets_def set_cluster_condition_def upd_status_def modify_def status_of_def u'_def
        updateClusterCondition_def cl_index_defs remote_condition_def)
qed

definition remote_state :: StatusState where
  "remote_state = (let c = sample\<lparr>mc_Spec := sample_spec\<lparr>sp_RemoteCluster := Some \<lparr>rs_Name = ''other'', rs_NameSpace = ''far''\<rparr>\<rparr>,
        mc_Status := init_conditions None sample_status\<rparr> in
     \<lparr>w_trace = [], ss_cluster = c, ss_items = []\<rparr>)"

text \<open>The answers of a world in which only the query of the slave status fails.\<close>

definition no_slave_status :: "Env \<Rightarrow> Env" where
  "no_slave_status E = E\<lparr>we_err := (\<lambda>tr. case last tr of EvSql h q \<Rightarrow> Some (GErr ''gone away'') | _ \<Rightarrow> None),
     we_cluster := (\<lambda>_. sample), we_secret := (\<lambda>_. [''internal-root-password'' \<mapsto> ''pw''])\<rparr>"

theorem clusterSlaveCheck_unknown_is_true_witness:
  "\<forall>E. cc_Status (st_Conditions (status_of (snd (clusterSlaveCheck (no_slave_status E) remote_state))) ! ClIndexRemoteSlave) = CondTrue"
proof
  fix E
  let ?c = "ss_cluster remote_state"
  let ?h = "GetNameForResource ?c LeaderService @ ''.'' @ mc_Namespace ?c"
  have "\<exists>u. bnd (config_of (no_slave_status E) ?c RootUser ?h) (\<lambda>cfg. runner_of (no_slave_status E) (Inr cfg)) remote_state = (Ok ?h, u)"
    by (simp add: config_of_def NewConfigFromClusterKey_def runner_of_def NewSQLRunner_def get_cluster_def get_secret_def
        query_def open_db_def ping_db_def call_run bnd_def gets_def ret_def no_slave_status_def remote_state_def
        sample_defs Let_def RootUser_def OperatorUser_def LeaderHost_def)
  then obtain u where u: "bnd (config_of (no_slave_status E) ?c RootUser ?h) (\<lambda>cfg. runner_of (no_slave_status E) (Inr cfg)) remote_state = (Ok ?h, u)" ..
  show "cc_Status (st_Conditions (status_of (snd (clusterSlaveCheck (no_slave_status E) remote_state))) ! ClIndexRemoteSlave) = CondTrue"
  proof (rule clusterSlaveCheck_unknown_is_true [OF _ _ u])
    show "sp_RemoteCluster (mc_Spec ?c) \<noteq> None" by (simp add: remote_state_def)
    show "7 < length (st_Conditions (status_of remote_state))"
      by (simp add: remote_state_def status_of_def init_conditions_def sample_status_def)
    show "we_err (no_slave_status E) (w_trace u @ [EvSql ?h SlaveStatus_query]) = Some (GErr ''gone away'')"
      by (simp add: no_slave_status_def)
  qed
qed

text \<open>
  The remaining witnesses: a plan for one node, and conditions that are all there.
\<close>

theorem mark_ready_sets_all_true_witness:
  "\<exists>st'. mark_ready (fresh_condition None ConditionInit\<lparr>cc_Status := CondTrue\<rparr>) (init_conditions None sample_status) = Ok st' \<and>
     cc_Status (st_Conditions st' ! ClIndexInit) = CondTrue"
proof -
  let ?c = "fresh_condition None ConditionInit\<lparr>cc_Status := CondTrue\<rparr>"
  have t: "cc_Status ?c = CondTrue" by simp
  have "\<exists>st'. mark_ready ?c (init_conditions None sample_status) = Ok st'"
    by (simp add: mark_ready_def reset_condition_def init_conditions_def sample_status_def updateClusterCondition_def
        cl_index_defs Let_def)
  then show ?thesis using mark_ready_sets_all_true [OF t, of "init_conditions None sample_status"] by auto
qed

section \<open>The last backup\<close>

text \<open>
  The contract of \<open>sort.Slice\<close>: a permutation of the slice in which no element comes after
  one it is less than. Nothing is promised about the order of equal elements.
\<close>

locale slice_sort =
  fixes srt :: "'a list \<Rightarrow> 'a list" and less :: "'a \<Rightarrow> 'a \<Rightarrow> bool"
  assumes perm: "set (srt xs) = set xs" and sorted: "sorted_wrt (\<lambda>a b. \<not> less b a) (srt xs)"
begin

text \<open>The first element with a property is minimal among those with the property.\<close>

lemma first_minimal:
  assumes "srt xs = as @ b # bs" "\<forall>a\<in>set as. \<not> Q a" "c \<in> set xs" "Q c" "c \<noteq> b"
  shows "\<not> less c b"
proof -
  from assms(3) have "c \<in> set (as @ b # bs)" using perm [of xs] assms(1) by simp
  with assms(2,4,5) have "c \<in> set bs" by auto
  then show ?thesis using sorted [of xs] unfolding assms(1) by (simp add: sorted_wrt_append)
qed

end

definition newer :: "Backup \<Rightarrow> Backup \<Rightarrow> bool" where
  "newer a b \<longleftrightarrow> time_before (b_CreationTimestamp b) (b_CreationTimestamp a)"

lemma time_before_total: "\<not> time_before a b \<Longrightarrow> time_before a c \<Longrightarrow> time_before b c"
  by (auto simp: time_before_def split: option.splits)

lemma set_insert_desc: "set (insert_desc b cs) = insert b (set cs)"
  by (induction cs) auto

lemma sorted_insert_desc:
  "sorted_wrt (\<lambda>a b. \<not> newer b a) cs \<Longrightarrow> sorted_wrt (\<lambda>a b. \<not> newer b a) (insert_desc b cs)"
proof (induction cs)
  case (Cons c cs)
  then show ?case
    by (auto simp: newer_def set_insert_desc dest: time_before_trans time_before_total
        intro: time_before_irrefl [THEN notE])
qed simp

interpretation desc: slice_sort sort_desc newer
proof
  show "set (sort_desc xs) = set xs" for xs
    by (induction xs) (simp_all add: sort_desc_def set_insert_desc)
  show "sorted_wrt (\<lambda>a b. \<not> newer b a) (sort_desc xs)" for xs
    by (induction xs) (simp_all add: sort_desc_def sorted_insert_desc)
qed

lemma first_named_split:
  "first_named created bs = Some b \<Longrightarrow> \<exists>as cs. bs = as @ b # cs \<and>
     (\<forall>a\<in>set as. \<not> (bst_BackupName (b_Status a) \<noteq> [] \<and> time_before created (b_CreationTimestamp a))) \<and>
     bst_BackupName (b_Status b) \<noteq> [] \<and> time_before created (b_CreationTimestamp b)"
proof (induction bs)
  case (Cons c bs)
  show ?case
  proof (cases "bst_BackupName (b_Status c) \<noteq> [] \<and> time_before created (b_CreationTimestamp c)")
    case True
    with Cons.prems show ?thesis by (intro exI [of _ "[]"] exI [of _ bs]) auto
  next
    case False
    with Cons obtain as cs where "bs = as @ b # cs"
      "\<forall>a\<in>set as. \<not> (bst_BackupName (b_Status a) \<noteq> [] \<and> time_before created (b_CreationTimestamp a))"
      "bst_BackupName (b_Status b) \<noteq> [] \<and> time_before created (b_CreationTimestamp b)"
      by (auto split: if_splits)
    with False show ?thesis by (intro exI [of _ "c # as"] exI [of _ cs]) auto
  qed
qed simp

lemma first_named_None:
  "first_named created bs = None \<longleftrightarrow>
     (\<forall>b\<in>set bs. \<not> (bst_BackupName (b_Status b) \<noteq> [] \<and> time_before created (b_CreationTimestamp b)))"
  by (induction bs) auto

text \<open>The backups the status may name.\<close>

definition usable :: "time \<Rightarrow> Backup \<Rightarrow> bool" where
  "usable created b \<longleftrightarrow> bst_Completed (b_Status b) \<and> bst_BackupName (b_Status b) \<noteq> [] \<and>
     time_before created (b_CreationTimestamp b)"

text \<open>
  C17. The backup recorded as the last one is a completed backup with a name, younger than
  the cluster, and no other such backup is newer; none is recorded only if there is none.
\<close>

theorem last_backup_newest:
  "(last_backup sort_desc created bs = None \<longleftrightarrow> (\<forall>b\<in>set bs. \<not> usable created b)) \<and>
   (\<forall>b. last_backup sort_desc created bs = Some b \<longrightarrow> b \<in> set bs \<and> usable created b \<and>
      (\<forall>c\<in>set bs. usable created c \<longrightarrow> \<not> time_before (b_CreationTimestamp b) (b_CreationTimestamp c)))"
proof (intro conjI allI impI)
  let ?done = "filter (\<lambda>b. bst_Completed (b_Status b)) bs"
  show "last_backup sort_desc created bs = None \<longleftrightarrow> (\<forall>b\<in>set bs. \<not> usable created b)"
    by (auto simp: last_backup_def first_named_None desc.perm usable_def)
  fix b assume "last_backup sort_desc created bs = Some b"
  then obtain as cs where srt: "sort_desc ?done = as @ b # cs"
    and as: "\<forall>a\<in>set as. \<not> (bst_BackupName (b_Status a) \<noteq> [] \<and> time_before created (b_CreationTimestamp a))"
    and b: "bst_BackupName (b_Status b) \<noteq> []" "time_before created (b_CreationTimestamp b)"
    unfolding last_backup_def using first_named_split by blast
  have mem: "b \<in> set ?done" using desc.perm [of ?done] unfolding srt by auto
  then show "b \<in> set bs" "usable created b" using b by (auto simp: usable_def)
  show "\<forall>c\<in>set bs. usable created c \<longrightarrow> \<not> time_before (b_CreationTimestamp b) (b_CreationTimestamp c)"
  proof (intro ballI impI)
    fix c assume c: "c \<in> set bs" "usable created c"
    show "\<not> time_before (b_CreationTimestamp b) (b_CreationTimestamp c)"
    proof (cases "c = b")
      case True
      then show ?thesis by (simp add: time_before_irrefl)
    next
      case False
      have "\<not> newer c b"
        by (rule desc.first_minimal [OF srt as]) (use c False in \<open>auto simp: usable_def\<close>)
      then show ?thesis by (simp add: newer_def)
    qed
  qed
qed

definition backup_at :: "int \<Rightarrow> string \<Rightarrow> Backup" where
  "backup_at t name = \<lparr>b_Name = name, b_CreationTimestamp = Some t,
     b_Spec = \<lparr>bk_Image = [], bk_HostName = [], bk_NFSServerAddress = [], bk_ClusterName = ''sample'', bk_HistoryLimit = None\<rparr>,
     b_Status = \<lparr>bst_Completed = True, bst_BackupName = name, bst_BackupDate = [], bst_BackupType = ''S3'',
       bst_Gtid = [], bst_Conditions = []\<rparr>, b_Namespace = [], b_Labels = Map.empty\<rparr>"

theorem last_backup_newest_witness:
  "\<exists>b. last_backup sort_desc (Some 0) [backup_at 5 ''old'', backup_at 9 ''new''] = Some b \<and> b_CreationTimestamp b = Some 9"
proof -
  let ?bs = "[backup_at 5 ''old'', backup_at 9 ''new'']"
  have u: "usable (Some 0) (backup_at t n)" if "t > 0" "n \<noteq> []" for t n
    using that by (simp add: usable_def backup_at_def time_before_def)
  then have "last_backup sort_desc (Some 0) ?bs \<noteq> None"
    using last_backup_newest [of "Some 0" ?bs] by simp
  then obtain b where b: "last_backup sort_desc (Some 0) ?bs = Some b" by blast
  then have "b \<in> set ?bs" "\<not> time_before (b_CreationTimestamp b) (Some 9)"
    using last_backup_newest [of "Some 0" ?bs] u [of 9 "''new''"] by (simp_all add: backup_at_def)
  then show ?thesis using b by (auto simp: backup_at_def time_before_def)
qed

end
