(* ===== verification/InnoDB.thy ===== *)
theory InnoDB
  imports Cluster
begin

text \<open>
  \<open>EnsureMysqlConf\<close> and \<open>sizeToBytes\<close> of \<open>mysqlcluster/mysqlcluster.go\<close>: the InnoDB buffer
  pool, its instances and the redo log size, computed from the resource requests in
  64-bit words and binary64 floating point.
\<close>

section \<open>The InnoDB settings\<close>

definition kb :: "64 word" where "kb = 1024"
definition mb :: "64 word" where "mb = 1048576"
definition gb :: "64 word" where "gb = 1073741824"

text \<open>\<open>strings.IndexFunc(s, unicode.IsLetter)\<close> splits the string at its first letter.\<close>

definition sizeToBytes :: "string \<Rightarrow> 64 word res" where
  "sizeToBytes s0 =
     (let s = to_upper (trim_space s0);
          num = takeWhile (\<lambda>ch. \<not> is_letter ch) s;
          u = dropWhile (\<lambda>ch. \<not> is_letter ch) s
      in if u = [] then bind_res (parse_uint s) (\<lambda>n. Ok (of_nat n))
         else bind_res (parse_uint num) (\<lambda>n.
           if u = ''K'' then Ok (of_nat n * kb)
           else if u = ''M'' then Ok (of_nat n * mb)
           else if u = ''G'' then Ok (of_nat n * gb)
           else Fail (GErr ''format error, must be a positive integer with a unit of measurement like K, M or G'')))"

text \<open>\<open>math.Ceil(float64(cpu) / 1000)\<close> for a signed milli-CPU count.\<close>

definition cpu_ceil :: "int \<Rightarrow> int" where
  "cpu_ceil cpu = (if cpu \<ge> 0 then int (fl_ceil_quot (nat cpu) 1000) else - int (fl_floor_quot (nat (- cpu)) 1000))"

text \<open>Go's signed division by two truncates towards zero.\<close>

definition half_quot :: "int \<Rightarrow> int" where
  "half_quot v = (if v < 0 then - ((- v) div 2) else v div 2)"

text \<open>
  \<open>uint64(0.45 * float64(mem))\<close> and the like, with the doubles nearest to 0.45, 0.6 and
  0.8 written as integers over powers of two.
\<close>

definition pool_bounds :: "64 word \<Rightarrow> 64 word \<times> 64 word" where
  "pool_bounds mem =
     (if mem \<le> 1 * gb
      then (of_nat (fl_scale 8106479329266893 54 (unat mem)), of_nat (fl_scale 5404319552844595 53 (unat mem)))
      else (of_nat (fl_scale 5404319552844595 53 (unat mem)), of_nat (fl_scale 7205759403792794 53 (unat mem))))"

definition pool_size :: "smap \<Rightarrow> 64 word \<Rightarrow> 64 word" where
  "pool_size conf mem =
     (case pool_bounds mem of (defaultSize, maxSize) \<Rightarrow>
      case conf ''innodb_buffer_pool_size'' of
        None \<Rightarrow> Max64 defaultSize (128 * mb)
      | Some s \<Rightarrow> (case sizeToBytes s of
          Ok nums \<Rightarrow> Min64 (Max64 nums (128 * mb)) maxSize
        | _ \<Rightarrow> Max64 defaultSize (128 * mb)))"

definition pool_instances :: "int \<Rightarrow> 64 word \<Rightarrow> int" where
  "pool_instances cpu pool = max (min (cpu_ceil cpu) (int (fl_floor_quot (unat pool) (unat gb)))) 1"

text \<open>The part of \<open>EnsureMysqlConf\<close> that sizes the redo log.\<close>

definition log_file_size :: "int \<Rightarrow> 64 word \<Rightarrow> 64 word res" where
  "log_file_size logGroups pool =
     (if pool < 8 * gb then
        (if (of_int logGroups :: 64 word) = 0 then Panic ''integer divide by zero''
         else Ok ((512 * mb) div of_int logGroups))
      else if pool \<le> 128 * gb then Ok (1 * gb)
      else Ok (2 * gb))"

definition configured_groups :: "smap \<Rightarrow> int" where
  "configured_groups conf = (case atoi (lget conf ''innodb_log_file_groups'') of Ok n \<Rightarrow> n | _ \<Rightarrow> 1)"

definition log_file_conf :: "(string \<Rightarrow> int option) \<Rightarrow> string \<Rightarrow> 64 word \<Rightarrow> smap \<Rightarrow> smap res" where
  "log_file_conf parse_quantity volume_size pool conf =
     (if conf ''innodb_log_file_size'' = None then
        bind_res (log_file_size (configured_groups conf) pool) (\<lambda>size.
          case parse_quantity volume_size of
            None \<Rightarrow> Ok conf
          | Some q \<Rightarrow>
              let size = (if (of_int (half_quot q) :: 64 word) < size then 1073741824 else size)
              in Ok (conf(''innodb_log_file_size'' \<mapsto> nat_str (unat size))))
      else Ok conf)"

definition EnsureMysqlConf :: "(string \<Rightarrow> int option) \<Rightarrow> MysqlCluster \<Rightarrow> MysqlCluster res" where
  "EnsureMysqlConf parse_quantity c =
     (let o1 = sp_MysqlOpts (mc_Spec c);
          conf = mo_MysqlConf o1;
          mem = of_int (rr_mem_request (mo_Resources o1));
          cpu = rr_cpu_limit_milli (mo_Resources o1);
          pool = pool_size conf mem;
          conf1 = conf(''innodb_buffer_pool_size'' \<mapsto> nat_str (unat pool),
                       ''innodb_buffer_pool_instances'' \<mapsto> int_str (pool_instances cpu pool))
      in bind_res (log_file_conf parse_quantity (pe_Size (sp_Persistence (mc_Spec c))) pool conf1) (\<lambda>conf2.
           let conf3 = (if conf2 ''log_error'' = None \<and> mo_LogfilePVC o1 \<noteq> None
                        then conf2(''log-error'' \<mapsto> ''/var/log/mysql/mysql-error.log'') else conf2)
           in Ok (c\<lparr>mc_Spec := (mc_Spec c)\<lparr>sp_MysqlOpts := o1\<lparr>mo_MysqlConf := conf3\<rparr>\<rparr>\<rparr>)))"

section \<open>Properties\<close>

lemma trim_space_id: "s \<noteq> [] \<Longrightarrow> \<not> is_space (hd s) \<Longrightarrow> \<not> is_space (last s) \<Longrightarrow> trim_space s = s"
proof -
  assume s: "s \<noteq> []" "\<not> is_space (hd s)" "\<not> is_space (last s)"
  have 1: "dropWhile is_space s = s" using s(1,2) by (cases s) auto
  have "rev s \<noteq> []" "\<not> is_space (hd (rev s))" using s(1,3) by (simp_all add: hd_rev)
  then have "dropWhile is_space (rev s) = rev s" by (cases "rev s") auto
  with 1 show ?thesis by (simp add: trim_space_def)
qed

lemma digit_class: "is_digit ch \<Longrightarrow> \<not> is_space ch \<and> \<not> is_lower ch \<and> \<not> is_upper ch \<and> \<not> is_letter ch"
  by (auto simp: is_digit_def is_space_def is_lower_def is_upper_def is_letter_def)

lemma nat_str_class:
  "ch \<in> set (nat_str n) \<Longrightarrow> \<not> is_space ch \<and> \<not> is_lower ch \<and> \<not> is_letter ch"
  using nat_str_chars digit_class by blast

lemma nat_str_ends: "\<not> is_space (hd (nat_str n))" "\<not> is_space (last (nat_str n))"
  using nat_str_class hd_in_set last_in_set nat_str_nonempty by metis+

lemma to_upper_nat_str: "to_upper (nat_str n) = nat_str n"
  by (auto simp: to_upper_def nat_str_class intro!: map_idI)

lemma sizeToBytes_plain: "n < 2 ^ 64 \<Longrightarrow> sizeToBytes (nat_str n) = Ok (of_nat n)"
proof -
  assume n: "n < 2 ^ 64"
  have "trim_space (nat_str n) = nat_str n"
    by (rule trim_space_id) (simp_all add: nat_str_ends)
  moreover have "dropWhile (\<lambda>ch. \<not> is_letter ch) (nat_str n) = []" by (auto simp: nat_str_class)
  ultimately show ?thesis using n by (simp add: sizeToBytes_def Let_def to_upper_nat_str parse_uint_nat_str)
qed

lemma letter_not_space: "is_letter u \<Longrightarrow> \<not> is_space u"
  by (auto simp: is_letter_def is_lower_def is_upper_def is_space_def)

lemma sizeToBytes_letter:
  assumes "n < 2 ^ 64" "is_letter u" "to_upper [u] = [U]" "is_letter U"
  shows "sizeToBytes (nat_str n @ [u]) =
    (if U = CHR ''K'' then Ok (of_nat n * kb) else if U = CHR ''M'' then Ok (of_nat n * mb)
     else if U = CHR ''G'' then Ok (of_nat n * gb)
     else Fail (GErr ''format error, must be a positive integer with a unit of measurement like K, M or G''))"
proof -
  have 1: "trim_space (nat_str n @ [u]) = nat_str n @ [u]"
    by (rule trim_space_id) (use assms(2) in \<open>simp_all add: nat_str_ends hd_append letter_not_space\<close>)
  have 2: "to_upper (nat_str n @ [u]) = nat_str n @ [U]"
    using to_upper_nat_str [of n] assms(3) by (simp add: to_upper_def)
  have 3: "takeWhile (\<lambda>ch. \<not> is_letter ch) (nat_str n @ [U]) = nat_str n"
    "dropWhile (\<lambda>ch. \<not> is_letter ch) (nat_str n @ [U]) = [U]"
    using assms(4) by (simp_all add: takeWhile_append dropWhile_append nat_str_class)
  show ?thesis
    unfolding sizeToBytes_def Let_def 1 2 3 by (simp add: parse_uint_nat_str [OF assms(1)])
qed

lemma unit_letters:
  "is_letter (CHR ''k'')" "is_letter (CHR ''K'')" "is_letter (CHR ''m'')" "is_letter (CHR ''M'')"
  "is_letter (CHR ''g'')" "is_letter (CHR ''G'')" "is_letter (CHR ''T'')"
  "to_upper ''k'' = ''K''" "to_upper ''K'' = ''K''" "to_upper ''m'' = ''M''" "to_upper ''M'' = ''M''"
  "to_upper ''g'' = ''G''" "to_upper ''G'' = ''G''" "to_upper ''T'' = ''T''"
  by code_simp+

lemma unat_mult_unit: "n < 2 ^ 64 \<Longrightarrow> unat ((of_nat n :: 64 word) * k) = (n * unat k) mod 2 ^ 64"
  by (simp add: unat_word_ariths unat_of_nat)

text \<open>
  \<open>sizeToBytes\<close> reads back what it documents: a decimal number is itself, and with the
  unit K, M or G (upper or lower case) it is scaled by 1024, 1024^2 or 1024^3, in 64-bit
  arithmetic: the product wraps modulo 2^64 without an error. Any other unit is an
  error.
\<close>

theorem sizeToBytes_units:
  assumes "n < 2 ^ 64"
  shows "sizeToBytes (nat_str n) = Ok (of_nat n) \<and>
    (\<forall>u \<in> {CHR ''k'', CHR ''K''}. \<exists>w. sizeToBytes (nat_str n @ [u]) = Ok w \<and> unat w = (n * 1024) mod 2 ^ 64) \<and>
    (\<forall>u \<in> {CHR ''m'', CHR ''M''}. \<exists>w. sizeToBytes (nat_str n @ [u]) = Ok w \<and> unat w = (n * 1024 ^ 2) mod 2 ^ 64) \<and>
    (\<forall>u \<in> {CHR ''g'', CHR ''G''}. \<exists>w. sizeToBytes (nat_str n @ [u]) = Ok w \<and> unat w = (n * 1024 ^ 3) mod 2 ^ 64) \<and>
    \<not> is_ok (sizeToBytes (nat_str n @ ''T''))"
  using assms
  by (simp add: sizeToBytes_plain sizeToBytes_letter [OF assms] unit_letters unat_mult_unit kb_def mb_def gb_def)

theorem sizeToBytes_units_witness:
  "\<exists>w. sizeToBytes (nat_str 512 @ [CHR ''m'']) = Ok w \<and> unat w = 536870912"
  using sizeToBytes_units [of 512] by simp

lemma fl_scale_pool:
  "fl_scale 8106479329266893 54 m \<le> m" "fl_scale 5404319552844595 53 m \<le> m" "fl_scale 7205759403792794 53 m \<le> m"
  using fl_scale_le [of 8106479329266893 1 54 m] fl_scale_le [of 5404319552844595 1 53 m]
    fl_scale_le [of 7205759403792794 1 53 m] by simp_all

lemma pool_bounds_le:
  assumes "pool_bounds mem = (d, m)"
  shows "unat d \<le> unat mem \<and> unat m \<le> unat mem"
proof -
  have small: "unat (of_nat n :: 64 word) \<le> unat mem" if "n \<le> unat mem" for n
    using that by (simp add: unat_of_nat)
  show ?thesis using assms fl_scale_pool [of "unat mem"]
    by (auto simp: pool_bounds_def small split: if_splits)
qed

text \<open>
  The buffer pool never outgrows the memory request by more than the 128 MiB floor:
  a size configured by the user is clamped to at most the memory request (whatever its
  value, wrapped or not), a computed one is at least 128 MiB and at most the larger of
  that floor and the request.
\<close>

theorem pool_size_bounds:
  "unat (pool_size conf mem) \<le> max (unat mem) (2 ^ 27) \<and>
   (\<forall>s nums. conf ''innodb_buffer_pool_size'' = Some s \<longrightarrow> sizeToBytes s = Ok nums \<longrightarrow>
      unat (pool_size conf mem) \<le> unat mem) \<and>
   (conf ''innodb_buffer_pool_size'' = None \<longrightarrow> 2 ^ 27 \<le> unat (pool_size conf mem))"
proof -
  obtain d m where dm: "pool_bounds mem = (d, m)" by (cases "pool_bounds mem")
  note le = pool_bounds_le [OF dm]
  have "unat (128 * mb) = 2 ^ 27" by (simp add: mb_def)
  then show ?thesis using le
    by (auto simp: pool_size_def dm unat_Max64 unat_Min64 split: option.split res.split)
qed

theorem pool_size_bounds_witness:
  "unat (pool_size [''innodb_buffer_pool_size'' \<mapsto> nat_str 99 @ ''g''] 1073741824) \<le> 1073741824"
proof -
  obtain w where "sizeToBytes (nat_str 99 @ ''g'') = Ok w"
    by (simp add: sizeToBytes_letter unit_letters)
  with pool_size_bounds [of "[''innodb_buffer_pool_size'' \<mapsto> nat_str 99 @ ''g'']" 1073741824]
  show ?thesis by simp
qed

lemma atoi_range: "atoi s = Ok v \<Longrightarrow> - (2 ^ 63) \<le> v \<and> v < 2 ^ 63"
  by (auto simp: atoi_def Let_def split: if_splits prod.splits)

lemma of_int_word_zero:
  assumes "- (2 ^ 63) \<le> v" "v < 2 ^ 63"
  shows "(of_int v :: 64 word) = 0 \<longleftrightarrow> v = 0"
proof
  assume "(of_int v :: 64 word) = 0"
  then have "(2 :: int) ^ 64 dvd v" by (simp add: word_of_int_eq_0_iff)
  then obtain k where k: "v = 2 ^ 64 * k" by (auto elim: dvdE)
  with assms have "- 1 \<le> 2 * k" "2 * k < 1" by simp_all
  then have "k = 0" by linarith
  with k show "v = 0" by simp
qed simp

lemma log_file_conf_cases:
  "log_file_conf pq sz pool conf =
     (if conf ''innodb_log_file_size'' = None \<and> pool < 8 * gb \<and> atoi (lget conf ''innodb_log_file_groups'') = Ok 0
      then Panic ''integer divide by zero''
      else Ok (case log_file_conf pq sz pool conf of Ok conf' \<Rightarrow> conf' | _ \<Rightarrow> conf))"
proof -
  have "(of_int (configured_groups conf) :: 64 word) = 0 \<longleftrightarrow> atoi (lget conf ''innodb_log_file_groups'') = Ok 0"
    by (auto simp: configured_groups_def of_int_word_zero dest: atoi_range split: res.split)
  then show ?thesis
    by (auto simp: log_file_conf_def log_file_size_def Let_def split: option.split)
qed

lemma log_file_conf_keeps:
  "log_file_conf pq sz pool conf = Ok conf' \<Longrightarrow> k \<noteq> ''innodb_log_file_size'' \<Longrightarrow> conf' k = conf k"
  by (auto simp: log_file_conf_def bind_res_Ok Let_def split: if_splits option.splits)

text \<open>
  C21. \<open>EnsureMysqlConf\<close> panics (integer division by zero) exactly when the redo log size is
  not configured, the pool is below 8 GiB and the configured number of log groups is the
  number zero; it never returns an error, so in every other case it sets both pool keys,
  with at least one pool instance.
\<close>

theorem EnsureMysqlConf_panics_iff:
  "(is_panic (EnsureMysqlConf pq c) \<longleftrightarrow>
      mo_MysqlConf (sp_MysqlOpts (mc_Spec c)) ''innodb_log_file_size'' = None \<and>
      pool_size (mo_MysqlConf (sp_MysqlOpts (mc_Spec c))) (of_int (rr_mem_request (mo_Resources (sp_MysqlOpts (mc_Spec c))))) < 8 * gb \<and>
      atoi (lget (mo_MysqlConf (sp_MysqlOpts (mc_Spec c))) ''innodb_log_file_groups'') = Ok 0) \<and>
   (\<not> is_panic (EnsureMysqlConf pq c) \<longrightarrow>
      (\<exists>c' n. EnsureMysqlConf pq c = Ok c' \<and> 1 \<le> n \<and>
         mo_MysqlConf (sp_MysqlOpts (mc_Spec c')) ''innodb_buffer_pool_instances'' = Some (int_str n) \<and>
         mo_MysqlConf (sp_MysqlOpts (mc_Spec c')) ''innodb_buffer_pool_size'' =
           Some (nat_str (unat (pool_size (mo_MysqlConf (sp_MysqlOpts (mc_Spec c)))
              (of_int (rr_mem_request (mo_Resources (sp_MysqlOpts (mc_Spec c)))))))))) "
proof -
  define conf where "conf = mo_MysqlConf (sp_MysqlOpts (mc_Spec c))"
  define pool where "pool = pool_size conf (of_int (rr_mem_request (mo_Resources (sp_MysqlOpts (mc_Spec c)))))"
  define conf1 where "conf1 = conf(''innodb_buffer_pool_size'' \<mapsto> nat_str (unat pool),
      ''innodb_buffer_pool_instances'' \<mapsto> int_str (pool_instances (rr_cpu_limit_milli (mo_Resources (sp_MysqlOpts (mc_Spec c)))) pool))"
  define stage where "stage = log_file_conf pq (pe_Size (sp_Persistence (mc_Spec c))) pool conf1"
  define bad where "bad \<longleftrightarrow> conf ''innodb_log_file_size'' = None \<and> pool < 8 * gb \<and>
      atoi (lget conf ''innodb_log_file_groups'') = Ok 0"
  have E: "EnsureMysqlConf pq c = bind_res stage (\<lambda>conf2.
      Ok (c\<lparr>mc_Spec := (mc_Spec c)\<lparr>sp_MysqlOpts := (sp_MysqlOpts (mc_Spec c))
        \<lparr>mo_MysqlConf := (if conf2 ''log_error'' = None \<and> mo_LogfilePVC (sp_MysqlOpts (mc_Spec c)) \<noteq> None
           then conf2(''log-error'' \<mapsto> ''/var/log/mysql/mysql-error.log'') else conf2)\<rparr>\<rparr>\<rparr>))"
    by (simp only: EnsureMysqlConf_def Let_def conf_def pool_def conf1_def stage_def)
  have stage: "stage = (if bad then Panic ''integer divide by zero''
      else Ok (case stage of Ok conf' \<Rightarrow> conf' | _ \<Rightarrow> conf1))"
    unfolding stage_def by (subst log_file_conf_cases) (simp add: bad_def conf1_def lget_def)
  show ?thesis
    unfolding conf_def [symmetric] pool_def [symmetric] bad_def [symmetric]
  proof (cases bad)
    case True
    with stage E show "(is_panic (EnsureMysqlConf pq c) \<longleftrightarrow> bad) \<and> (\<not> is_panic (EnsureMysqlConf pq c) \<longrightarrow>
      (\<exists>c' n. EnsureMysqlConf pq c = Ok c' \<and> 1 \<le> n \<and>
         mo_MysqlConf (sp_MysqlOpts (mc_Spec c')) ''innodb_buffer_pool_instances'' = Some (int_str n) \<and>
         mo_MysqlConf (sp_MysqlOpts (mc_Spec c')) ''innodb_buffer_pool_size'' = Some (nat_str (unat pool))))"
      by simp
  next
    case False
    with stage obtain conf2 where ok: "stage = Ok conf2" by metis
    then have "conf2 k = conf1 k" if "k \<noteq> ''innodb_log_file_size''" for k
      using that log_file_conf_keeps by (simp add: stage_def)
    then have keys: "conf2 ''innodb_buffer_pool_instances'' = Some (int_str (pool_instances
        (rr_cpu_limit_milli (mo_Resources (sp_MysqlOpts (mc_Spec c)))) pool))"
      "conf2 ''innodb_buffer_pool_size'' = Some (nat_str (unat pool))"
      by (simp_all add: conf1_def)
    have "1 \<le> pool_instances i pool" for i by (simp add: pool_instances_def)
    with keys False show "(is_panic (EnsureMysqlConf pq c) \<longleftrightarrow> bad) \<and> (\<not> is_panic (EnsureMysqlConf pq c) \<longrightarrow>
      (\<exists>c' n. EnsureMysqlConf pq c = Ok c' \<and> 1 \<le> n \<and>
         mo_MysqlConf (sp_MysqlOpts (mc_Spec c')) ''innodb_buffer_pool_instances'' = Some (int_str n) \<and>
         mo_MysqlConf (sp_MysqlOpts (mc_Spec c')) ''innodb_buffer_pool_size'' = Some (nat_str (unat pool))))"
      unfolding E ok by auto
  qed
qed

theorem EnsureMysqlConf_panics_iff_witness:
  "\<exists>c' n. EnsureMysqlConf (\<lambda>_. None)
      (sample\<lparr>mc_Spec := sample_spec\<lparr>sp_MysqlOpts := sample_opts\<lparr>mo_MysqlConf := [''innodb_log_file_size'' \<mapsto> ''1G'']\<rparr>\<rparr>\<rparr>) = Ok c' \<and> 1 \<le> n \<and>
     mo_MysqlConf (sp_MysqlOpts (mc_Spec c')) ''innodb_buffer_pool_instances'' = Some (int_str n)"
proof -
  define c where "c = sample\<lparr>mc_Spec := sample_spec\<lparr>sp_MysqlOpts := sample_opts\<lparr>mo_MysqlConf := [''innodb_log_file_size'' \<mapsto> ''1G'']\<rparr>\<rparr>\<rparr>"
  have "\<not> is_panic (EnsureMysqlConf (\<lambda>_. None) c)"
    using EnsureMysqlConf_panics_iff [of "\<lambda>_. None" c] by (auto simp: c_def)
  then show ?thesis
    using EnsureMysqlConf_panics_iff [of "\<lambda>_. None" c] unfolding c_def by metis
qed

end
