(* ===== verification/SfsBase.thy ===== *)
theory SfsBase
  imports World InnoDB
begin

text \<open>
  The stateful set syncer (\<open>mysqlcluster/syncer/statefulset.go\<close>), first part: its state, the
  construction of the wanted stateful set (\<open>mutate\<close>), the comparison that decides on an
  update (\<open>sfsUpdated\<close>), and the rolling update of the pods (\<open>updatePod\<close>, \<open>applyNWait\<close>).

  Third-party functions are the record \<open>Lib\<close>: mergo's merge of two pod specifications,
  the semantic equality of two templates, setting a controller reference, parsing a
  quantity, validating a label value, recognising the AlreadyExists error; and how many times each
  polling loop gets to try its condition before its time limit, which nothing in the
  code fixes.
\<close>

record SfsState = World +
  fs_cluster :: MysqlCluster
  fs_sfs :: StatefulSetObj
  fs_NeedUpgrade :: bool
  fs_cmRev :: string
  fs_sctRev :: string

record Lib =
  lib_env :: "string \<times> string"
  lib_merge :: "PodSpec \<Rightarrow> PodSpec \<Rightarrow> PodSpec res"
  lib_template_eq :: "PodTemplate \<Rightarrow> PodTemplate \<Rightarrow> bool"
  lib_set_ref :: "string \<Rightarrow> gerr option"
  lib_parse_quantity :: "string \<Rightarrow> int option"
  lib_label_value :: "string \<Rightarrow> gerr option"
  lib_already_exists :: "gerr \<Rightarrow> bool"
  lib_try_healthy :: nat
  lib_try_delete :: nat
  lib_try_restart :: nat
  lib_try_expand :: nat
  lib_try_readonly :: nat

definition set_sfs :: "(StatefulSetObj \<Rightarrow> StatefulSetObj) \<Rightarrow> (SfsState, unit) go" where
  "set_sfs f = modify (\<lambda>s. s\<lparr>fs_sfs := f (fs_sfs s)\<rparr>)"

definition set_cluster :: "(MysqlCluster \<Rightarrow> MysqlCluster) \<Rightarrow> (SfsState, unit) go" where
  "set_cluster f = modify (\<lambda>s. s\<lparr>fs_cluster := f (fs_cluster s)\<rparr>)"

text \<open>\<open>NewStatefulSetSyncer\<close>: an empty object with the name and the namespace.\<close>

definition empty_template :: PodTemplate where
  "empty_template = \<lparr>tp_Name = [], tp_Labels = Map.empty, tp_Annotations = Map.empty,
     tp_Spec = \<lparr>ps_InitContainers = [], ps_Containers = [], ps_Volumes = [], ps_SchedulerName = [],
       ps_ServiceAccountName = [], ps_Affinity = None, ps_PriorityClassName = [], ps_Tolerations = []\<rparr>\<rparr>"

definition empty_sfs :: "string \<Rightarrow> string \<Rightarrow> StatefulSetObj" where
  "empty_sfs name ns = \<lparr>sf_Name = name, sf_Namespace = ns, sf_Labels = None, sf_Annotations = Map.empty, sf_Replicas = 1,
     sf_ServiceName = [], sf_Selector = Map.empty, sf_UpdateStrategy = [], sf_Template = empty_template,
     sf_VolumeClaimTemplates = [], sf_Owned = False, sf_UpdatedReplicas = 0, sf_ReadyReplicas = 0,
     sf_StatusReplicas = 0, sf_UpdateRevision = []\<rparr>"

definition NewStatefulSetSyncer :: "MysqlCluster \<Rightarrow> bool \<Rightarrow> string \<Rightarrow> string \<Rightarrow> SfsState" where
  "NewStatefulSetSyncer c up cmRev sctRev = \<lparr>w_trace = [], fs_cluster = c,
     fs_sfs = empty_sfs (GetNameForResource c StatefulSet) (mc_Namespace c),
     fs_NeedUpgrade = up, fs_cmRev = cmRev, fs_sctRev = sctRev\<rparr>"

section \<open>Reading and writing stateful sets\<close>

definition get_sfs :: "Env \<Rightarrow> string \<Rightarrow> string \<Rightarrow> ('z World_scheme, StatefulSetObj) go" where
  "get_sfs E ns name = bnd (query E (EvGetSfs name) (we_sfs E)) (\<lambda>f. ret (f\<lparr>sf_Name := name, sf_Namespace := ns\<rparr>))"

text \<open>
  The client stores the server's answer in the object it sent: the specification is the one
  sent (defaulting by the server is left out), the status is the stored one.
\<close>

definition with_status :: "StatefulSetObj \<Rightarrow> StatefulSetObj \<Rightarrow> StatefulSetObj" where
  "with_status f g = f\<lparr>sf_UpdatedReplicas := sf_UpdatedReplicas g, sf_ReadyReplicas := sf_ReadyReplicas g,
     sf_StatusReplicas := sf_StatusReplicas g, sf_UpdateRevision := sf_UpdateRevision g\<rparr>"

definition put_sfs :: "Env \<Rightarrow> (StatefulSetObj \<Rightarrow> event) \<Rightarrow> StatefulSetObj \<Rightarrow> ('z World_scheme, StatefulSetObj) go" where
  "put_sfs E ev f = bnd (query E (ev f) (we_sfs E)) (\<lambda>g. ret (with_status f g))"

section \<open>mutate\<close>

definition needs_update :: "MysqlCluster \<Rightarrow> StatefulSetObj \<Rightarrow> bool" where
  "needs_update c f = (case ps_Containers (tp_Spec (sf_Template f)) of
      [] \<Rightarrow> False | k # _ \<Rightarrow> ct_Image k \<noteq> mo_Image (sp_MysqlOpts (mc_Spec c)))"

text \<open>Writing a key of a Go map that is kept as a list of its entries.\<close>

definition put_kv :: "string \<Rightarrow> string \<Rightarrow> (string \<times> string) list \<Rightarrow> (string \<times> string) list" where
  "put_kv k v xs = (k, v) # filter (\<lambda>p. fst p \<noteq> k) xs"

definition template_labels :: "MysqlCluster \<Rightarrow> smap" where
  "template_labels c =
     (fold (\<lambda>p m. m(fst p \<mapsto> snd p)) (pp_Labels (sp_PodPolicy (mc_Spec c))) (GetLabels c))
       (''role'' \<mapsto> Candidate, ''healthy'' \<mapsto> ''no'')"

definition template_annotations :: "MysqlCluster \<Rightarrow> string \<Rightarrow> string \<Rightarrow> (string \<times> string) list" where
  "template_annotations c cmRev sctRev =
     (let a0 = pp_Annotations (sp_PodPolicy (mc_Spec c));
          a1 = (if me_Enabled (sp_MetricsOpts (mc_Spec c))
                then put_kv ''prometheus.io/port'' (nat_str MetricsPort) (put_kv ''prometheus.io/scrape'' ''true'' a0) else a0)
      in put_kv ''secret_rev'' sctRev (put_kv ''config_rev'' cmRev a1))"

text \<open>
  The annotation map of the template is the map of the pod policy itself unless that is
  empty, so the entries written to the template are written to the cluster's specification.
\<close>

definition share_annotations :: "(string \<times> string) list \<Rightarrow> MysqlCluster \<Rightarrow> MysqlCluster" where
  "share_annotations as c =
     (if pp_Annotations (sp_PodPolicy (mc_Spec c)) = [] then c
      else c\<lparr>mc_Spec := (mc_Spec c)\<lparr>sp_PodPolicy := (sp_PodPolicy (mc_Spec c))\<lparr>pp_Annotations := as\<rparr>\<rparr>\<rparr>)"

definition set_spec :: "MysqlCluster \<Rightarrow> (string \<times> string) list \<Rightarrow> StatefulSetObj \<Rightarrow> StatefulSetObj" where
  "set_spec c as f = f\<lparr>
     sf_Labels := (if needs_update c f then Some [''needUpdate'' \<mapsto> ''true''] else sf_Labels f),
     sf_ServiceName := GetNameForResource c StatefulSet,
     sf_Replicas := sp_Replicas (mc_Spec c),
     sf_Selector := GetSelectorLabels c,
     sf_UpdateStrategy := ''OnDelete'',
     sf_Template := (sf_Template f)\<lparr>tp_Labels := template_labels c, tp_Annotations := map_of as\<rparr>\<rparr>"

definition marked_update :: "StatefulSetObj \<Rightarrow> bool" where
  "marked_update f = (case sf_Labels f of None \<Rightarrow> False | Some ls \<Rightarrow> lget ls ''needUpdate'' = ''true'')"

text \<open>The volume claims: on an error the slice is assigned nil before the error is returned.\<close>

definition mutate_claims :: "Lib \<Rightarrow> (SfsState, unit) go" where
  "mutate_claims L =
     bnd (gets fs_cluster) (\<lambda>c.
     if pe_Enabled (sp_Persistence (mc_Spec c)) \<or> mo_LogfilePVC (sp_MysqlOpts (mc_Spec c)) \<noteq> None then
       (case EnsureVolumeClaimTemplates (lib_parse_quantity L) (lib_set_ref L) c of (r, c') \<Rightarrow>
        bnd (set_cluster (\<lambda>_. c')) (\<lambda>_. case r of
            Ok vs \<Rightarrow> set_sfs (\<lambda>f. f\<lparr>sf_VolumeClaimTemplates := vs\<rparr>)
          | Fail e \<Rightarrow> bnd (set_sfs (\<lambda>f. f\<lparr>sf_VolumeClaimTemplates := []\<rparr>)) (\<lambda>_. fail e)
          | Panic p \<Rightarrow> panic p))
     else ret ())"

definition mutate_owner :: "Lib \<Rightarrow> (SfsState, unit) go" where
  "mutate_owner L =
     bnd (gets fs_cluster) (\<lambda>c. bnd (gets fs_sfs) (\<lambda>f.
     if mc_DeletionTimestamp c = None then
       (case lib_set_ref L (sf_Name f) of Some e \<Rightarrow> fail e | None \<Rightarrow> set_sfs (\<lambda>f. f\<lparr>sf_Owned := True\<rparr>))
     else if mc_CreationTimestamp c = None then fail (GErr ''owner is deleted'')
     else ret ()))"

definition mutate :: "Lib \<Rightarrow> (SfsState, unit) go" where
  "mutate L =
     bnd (gets id) (\<lambda>s.
     let c = fs_cluster s;
         as = template_annotations c (fs_cmRev s) (fs_sctRev s);
         f1 = set_spec c as (fs_sfs s)
     in bnd (modify (\<lambda>s. s\<lparr>fs_sfs := f1, fs_cluster := share_annotations as c, fs_NeedUpgrade := marked_update f1\<rparr>)) (\<lambda>_.
        bnd (lift (ensurePodSpec (lib_env L) (marked_update f1) (share_annotations as c))) (\<lambda>src.
        bnd (lift (lib_merge L (tp_Spec (sf_Template f1)) src)) (\<lambda>spec.
        bnd (set_sfs (\<lambda>f. f\<lparr>sf_Template := (sf_Template f)
              \<lparr>tp_Spec := spec\<lparr>ps_Tolerations := pp_Tolerations (sp_PodPolicy (mc_Spec c))\<rparr>\<rparr>\<rparr>)) (\<lambda>_.
        bnd (mutate_claims L) (\<lambda>_. mutate_owner L))))))"

definition sfsUpdated :: "Lib \<Rightarrow> StatefulSetObj \<Rightarrow> StatefulSetObj \<Rightarrow> bool" where
  "sfsUpdated L existing f =
     (let resizeVolume = (case (sf_VolumeClaimTemplates existing, sf_VolumeClaimTemplates f) of
            (v # _, w # _) \<Rightarrow> vc_Storage v \<noteq> vc_Storage w | _ \<Rightarrow> False)
      in sf_Replicas existing \<noteq> sf_Replicas f \<or> \<not> lib_template_eq L (sf_Template existing) (sf_Template f) \<or>
         sf_UpdateStrategy existing \<noteq> sf_UpdateStrategy f \<or> resizeVolume)"

section \<open>The rolling update\<close>

text \<open>\<open>wait.PollImmediate\<close> over a local variable \<open>x\<close> that the condition rewrites.\<close>

primrec poll_acc :: "nat \<Rightarrow> ('x \<Rightarrow> ('s, bool \<times> 'x) go) \<Rightarrow> 'x \<Rightarrow> ('s, 'x) go" where
  "poll_acc 0 c x = fail WaitTimeout"
| "poll_acc (Suc n) c x = bnd (c x) (\<lambda>(stop, y). if stop then ret y else poll_acc n c y)"

definition revision :: "Pod \<Rightarrow> string" where
  "revision p = lget (pod_Labels p) ''controller-revision-hash''"

definition marked_healthy :: "Pod \<Rightarrow> bool" where
  "marked_healthy p \<longleftrightarrow> lget (pod_Labels p) ''healthy'' = ''yes''"

definition delete_step :: "Env \<Rightarrow> int \<Rightarrow> string \<Rightarrow> Pod \<Rightarrow> ('z World_scheme, bool \<times> Pod) go" where
  "delete_step E replicas hash pod =
     bnd (attempt (get_pod E (pod_Namespace pod) (pod_Name pod))) (\<lambda>r. case r of
         Inl _ \<Rightarrow> ret (False, pod)
       | Inr p \<Rightarrow>
           if replicas = 0 then ret (True, p)
           else if pod_Deleting p then ret (False, p)
           else if revision p \<noteq> hash then bnd (call E (EvDeletePod p)) (\<lambda>_. ret (False, p))
           else ret (True, p))"

definition is_not_found :: "gerr \<Rightarrow> bool" where
  "is_not_found e = (case e of NotFound _ \<Rightarrow> True | _ \<Rightarrow> False)"

definition restart_verdict :: "int \<Rightarrow> string \<Rightarrow> Pod \<Rightarrow> ('s, bool \<times> Pod) go" where
  "restart_verdict replicas hash p =
     bnd (lift (GetOrdinal (pod_Name p))) (\<lambda>ordinal.
     if ordinal \<ge> replicas then ret (True, p)
     else if pod_Phase p = PodFailed then fail (GErr (''pod '' @ pod_Name p @ '' is in failed phase''))
     else if marked_healthy p \<and> revision p = hash then ret (True, p)
     else if marked_healthy p \<and> revision p \<noteq> hash
       then fail (GErr (''pod '' @ pod_Name p @ '' is ready, wait next schedule''))
     else ret (False, p))"

definition restart_step :: "Env \<Rightarrow> int \<Rightarrow> string \<Rightarrow> Pod \<Rightarrow> ('z World_scheme, bool \<times> Pod) go" where
  "restart_step E replicas hash pod =
     bnd (attempt (get_pod E (pod_Namespace pod) (pod_Name pod))) (\<lambda>r. case r of
         Inl e \<Rightarrow> if is_not_found e then restart_verdict replicas hash pod else fail e
       | Inr p \<Rightarrow> restart_verdict replicas hash p)"

definition set_state :: "ClusterState \<Rightarrow> (SfsState, unit) go" where
  "set_state st = set_cluster (\<lambda>c. c\<lparr>mc_Status := (mc_Status c)\<lparr>st_State := st\<rparr>\<rparr>)"

definition applyNWait :: "Env \<Rightarrow> Lib \<Rightarrow> Pod \<Rightarrow> (SfsState, unit) go" where
  "applyNWait E L pod =
     bnd (gets (\<lambda>s. sf_UpdateRevision (fs_sfs s))) (\<lambda>hash.
     if hash = [] then fail (GErr ''update revision is empty'')
     else
       bnd (gets (\<lambda>s. sp_Replicas (mc_Spec (fs_cluster s)))) (\<lambda>replicas.
       bnd (if revision pod = hash then ret pod
            else bnd (set_state ClusterUpdateState) (\<lambda>_. poll_acc (lib_try_delete L) (delete_step E replicas hash) pod)) (\<lambda>p.
       bnd (poll_acc (lib_try_restart L) (restart_step E replicas hash) p) (\<lambda>_. ret ()))))"

definition backupIsRunning :: "Env \<Rightarrow> (SfsState, bool) go" where
  "backupIsRunning E =
     bnd (gets id) (\<lambda>s.
     bnd (query E (EvListBackups (sf_Namespace (fs_sfs s)) (mc_Name (fs_cluster s))) (we_backups E)) (\<lambda>bs.
     ret (list_ex (\<lambda>b. \<not> bst_Completed (b_Status b)) bs)))"

text \<open>The wait for a healthy pod, the error of the get being ignored.\<close>

definition health_step :: "Env \<Rightarrow> Pod \<Rightarrow> ('z World_scheme, bool \<times> Pod) go" where
  "health_step E pod =
     bnd (attempt (get_pod E (pod_Namespace pod) (pod_Name pod))) (\<lambda>r.
     let p = (case r of Inl _ \<Rightarrow> pod | Inr p \<Rightarrow> p) in ret (marked_healthy p, p))"

definition wait_healthy :: "Env \<Rightarrow> Lib \<Rightarrow> Pod \<Rightarrow> ('z World_scheme, Pod) go" where
  "wait_healthy E L pod = handle (poll_acc (lib_try_healthy L) (health_step E) pod)
     (\<lambda>_. fail (GErr (''can't start/continue 'update': pod['' @ pod_Name pod @ ''] is unhealthy'')))"

text \<open>The zero pod has the empty name: \<open>leaderPod.Name == ""\<close> also for a leader without a name.\<close>

definition no_leader :: "Pod option \<Rightarrow> bool" where
  "no_leader l = (case l of None \<Rightarrow> True | Some p \<Rightarrow> pod_Name p = [])"

fun update_followers :: "Env \<Rightarrow> Lib \<Rightarrow> Pod list \<Rightarrow> Pod option \<Rightarrow> (SfsState, Pod option) go" where
  "update_followers E L [] leader = ret leader"
| "update_followers E L (pod # pods) leader =
     bnd (wait_healthy E L pod) (\<lambda>p.
     if lget (pod_Labels p) ''role'' = Leader \<and> no_leader leader then update_followers E L pods (Some p)
     else bnd (applyNWait E L p) (\<lambda>_. update_followers E L pods leader))"

definition updatePod :: "Env \<Rightarrow> Lib \<Rightarrow> (SfsState, unit) go" where
  "updatePod E L =
     bnd (gets id) (\<lambda>s. let f = fs_sfs s; c = fs_cluster s in
     if sf_UpdatedReplicas f = sf_Replicas f then ret ()
     else if sf_ReadyReplicas f < sf_StatusReplicas f then ret ()
     else
       bnd (attempt (backupIsRunning E)) (\<lambda>b.
       if b = Inr True then fail (GErr ''can't start/continue 'update': waiting for all backup completed'')
       else
         bnd (list_pods E (sf_Namespace f) (GetLabels c) []) (\<lambda>pods.
         bnd (update_followers E L pods None) (\<lambda>leader. case leader of
             None \<Rightarrow> ret ()
           | Some l \<Rightarrow> if pod_Name l \<noteq> [] then applyNWait E L l else ret ()))))"

end
