(* ===== verification/SfsSync.thy ===== *)
theory SfsSync
  imports SfsBase
begin

text \<open>
  The stateful set syncer, second part: creating and updating the set, the surplus claims, the
  expansion of claims, the replication from a remote cluster, the read-only stateful set
  (\<open>mysqlcluster/syncer/readonly_statefulset.go\<close>), and \<open>Sync\<close>.
\<close>

section \<open>Claims\<close>

definition list_pvcs :: "Env \<Rightarrow> string \<Rightarrow> smap \<Rightarrow> ('z World_scheme, PVC list) go" where
  "list_pvcs E ns sel = query E (EvListPVC ns sel) (we_pvcs E)"

text \<open>The claim is deleted when its ordinal is not below the number of replicas.\<close>

definition surplus :: "int \<Rightarrow> PVC \<Rightarrow> bool" where
  "surplus replicas item \<longleftrightarrow> \<not> pvc_Deleting item \<and>
     (case GetOrdinal (pvc_Name item) of Ok ordinal \<Rightarrow> ordinal \<ge> replicas | _ \<Rightarrow> False)"

definition clean_claims :: "Env \<Rightarrow> int \<Rightarrow> smap \<Rightarrow> (SfsState, unit) go" where
  "clean_claims E replicas sel =
     (if replicas = 0 then ret ()
      else bnd (gets fs_sfs) (\<lambda>f. bnd (list_pvcs E (sf_Namespace f) sel) (\<lambda>pvcs.
        each (\<lambda>item. if surplus replicas item then call E (EvDeletePVC (pvc_Name item)) else ret ()) pvcs)))"

definition updatePVC :: "Env \<Rightarrow> (SfsState, unit) go" where
  "updatePVC E = bnd (gets fs_cluster) (\<lambda>c. clean_claims E (sp_Replicas (mc_Spec c)) (GetLabels c))"

definition first_claim :: "StatefulSetObj \<Rightarrow> VolumeClaim res" where
  "first_claim f = (case sf_VolumeClaimTemplates f of [] \<Rightarrow> Panic ''index out of range'' | v # _ \<Rightarrow> Ok v)"

definition canExpandPVC :: "Env \<Rightarrow> Lib \<Rightarrow> (SfsState, bool) go" where
  "canExpandPVC E L =
     bnd (gets fs_sfs) (\<lambda>f.
     bnd (attempt (get_sfs E (sf_Namespace f) (sf_Name f))) (\<lambda>r.
     if (case r of Inl e \<Rightarrow> is_not_found e | Inr _ \<Rightarrow> False) then ret False
     else
       bnd (case r of Inl _ \<Rightarrow> ret () | Inr g \<Rightarrow> set_sfs (\<lambda>_. g)) (\<lambda>_.
       bnd (gets fs_sfs) (\<lambda>f1.
       bnd (lift (first_claim f1)) (\<lambda>old.
       bnd (attempt (mutate L)) (\<lambda>m. case m of
           Inl _ \<Rightarrow> ret False
         | Inr _ \<Rightarrow>
             bnd (gets fs_sfs) (\<lambda>f2.
             bnd (lift (first_claim f2)) (\<lambda>new. ret (vc_Storage old < vc_Storage new)))))))))"

text \<open>
  One attempt of the wait after a claim has been changed. \<open>larger\<close> says whether a capacity above the
  request counts as done; it does for the cluster's own claims only.
\<close>

definition expand_step :: "Env \<Rightarrow> bool \<Rightarrow> string \<Rightarrow> PVC \<Rightarrow> ('z World_scheme, bool) go" where
  "expand_step E larger ns item =
     bnd (get_pvc E ns (pvc_Name item)) (\<lambda>cur. case pvc_Conditions cur of
         None \<Rightarrow> ret ((larger \<and> pvc_Capacity cur > pvc_Request item) \<or> pvc_Capacity cur = pvc_Request item)
       | Some [] \<Rightarrow> panic ''index out of range''
       | Some (status # _) \<Rightarrow> ret (status = ''FileSystemResizePending''))"

definition expand_claim :: "Env \<Rightarrow> Lib \<Rightarrow> bool \<Rightarrow> PVC \<Rightarrow> (SfsState, unit) go" where
  "expand_claim E L larger item0 =
     bnd (gets fs_sfs) (\<lambda>f. bnd (lift (first_claim f)) (\<lambda>v.
     let item = item0\<lparr>pvc_Request := vc_Storage v\<rparr> in
     bnd (call E (EvUpdatePVC item)) (\<lambda>_.
     poll (lib_try_expand L) (expand_step E larger (sf_Namespace f) item))))"

definition doExpandPVCs :: "Env \<Rightarrow> Lib \<Rightarrow> (SfsState, unit) go" where
  "doExpandPVCs E L =
     bnd (gets id) (\<lambda>s.
     bnd (list_pvcs E (sf_Namespace (fs_sfs s)) (GetLabels (fs_cluster s))) (\<lambda>pvcs.
     each (expand_claim E L True) pvcs))"

datatype Op = OpNone | OpCreated | OpUpdated

definition create_sfs :: "Env \<Rightarrow> (SfsState, unit) go" where
  "create_sfs E = bnd (gets fs_sfs) (\<lambda>f. bnd (put_sfs E EvCreateSfs f) (\<lambda>g. set_sfs (\<lambda>_. g)))"

definition update_sfs :: "Env \<Rightarrow> (SfsState, unit) go" where
  "update_sfs E = bnd (gets fs_sfs) (\<lambda>f. bnd (put_sfs E EvUpdateSfs f) (\<lambda>g. set_sfs (\<lambda>_. g)))"

definition expandPVCs :: "Env \<Rightarrow> Lib \<Rightarrow> (SfsState, Op) go" where
  "expandPVCs E L =
     bnd (gets fs_sfs) (\<lambda>f.
     bnd (call E (EvDeleteSfs (sf_Name f))) (\<lambda>_.
     bnd (doExpandPVCs E L) (\<lambda>_.
     bnd (create_sfs E) (\<lambda>_. ret OpCreated))))"

section \<open>Replication from a remote cluster\<close>

definition getRemoteClusterInternalRootPass :: "Env \<Rightarrow> RemoteSourceStruct \<Rightarrow> ('z World_scheme, string) go" where
  "getRemoteClusterInternalRootPass E rc =
     bnd (get_cluster E (rs_NameSpace rc, rs_Name rc)) (\<lambda>cluster.
     bnd (get_secret E (mc_Namespace cluster) (GetNameForResource cluster SecretRes)) (\<lambda>data.
     case data ''internal-root-password'' of
       None \<Rightarrow> fail (GErr ''internal-root-password cannot be empty'')
     | Some password \<Rightarrow> ret password))"

text \<open>The SQL text; \<open>nl\<close> is what follows the comma of the raw string.\<close>

definition quoted :: "string \<Rightarrow> string" where
  "quoted s = CHR 0x27 # s @ [CHR 0x27]"

definition change_master :: "string \<Rightarrow> string \<Rightarrow> string \<Rightarrow> string \<Rightarrow> string" where
  "change_master reset nl host password =
     ''stop slave;'' @ reset @ ''CHANGE MASTER TO MASTER_HOST='' @ quoted host @ '', MASTER_PORT='' @ nat_str 3306 @
     '', MASTER_USER='' @ quoted ''root'' @ '', MASTER_PASSWORD='' @ quoted password @ '','' @ nl @
     ''MASTER_AUTO_POSITION=1; start slave;''"

definition remote_host :: "RemoteSourceStruct \<Rightarrow> string" where
  "remote_host rc = rs_Name rc @ ''-leader.'' @ rs_NameSpace rc"

definition start_slave :: Query where "start_slave = NewQuery ''start slave;'' []"

definition nl_tab :: string where "nl_tab = [CHR 0x0A, CHR 0x09]"

definition follow_remote :: "'s SQLRunner \<Rightarrow> int option \<Rightarrow> RemoteSourceStruct \<Rightarrow> string \<Rightarrow> ('s, unit) go" where
  "follow_remote db lag rc pass =
     bnd (CheckSlaveStatus db lag) (\<lambda>(_, isReplicating, err).
     bnd (case err of
         Some e \<Rightarrow> if has_prefix (err_text e) ''Slave_IO_State: connecting to master''
                  then sr_exec db (NewQuery (change_master ''reset slave;'' nl_tab (remote_host rc) pass) []) else ret ()
       | None \<Rightarrow> ret ()) (\<lambda>_.
     if isReplicating = CondFalse then
       handle (sr_exec db start_slave) (\<lambda>_. sr_exec db (NewQuery (change_master [] nl_tab (remote_host rc) pass) []))
     else ret ()))"

definition checkAndUpdateRemoteStatus :: "Env \<Rightarrow> RemoteSourceStruct \<Rightarrow> (SfsState, unit) go" where
  "checkAndUpdateRemoteStatus E rc =
     bnd (get_cluster E (rs_NameSpace rc, rs_Name rc)) (\<lambda>cluster.
     bnd (gets fs_cluster) (\<lambda>c.
     if st_State (mc_Status cluster) \<noteq> ClusterReadyState \<or> st_State (mc_Status c) \<noteq> ClusterReadyState then ret ()
     else
       let host = GetNameForResource c LeaderService @ ''.'' @ mc_Namespace c in
       bnd (config_of E c RootUser host) (\<lambda>cfg.
       bnd (runner_of E (Inr cfg)) (\<lambda>h.
       bnd (getRemoteClusterInternalRootPass E rc) (\<lambda>pass.
       follow_remote (world_sql E h) (sp_ReplicaLag (mc_Spec c)) rc pass)))))"

section \<open>Creating and updating the set\<close>

definition podsAllUpdated :: "Env \<Rightarrow> Lib \<Rightarrow> (SfsState, bool) go" where
  "podsAllUpdated E L =
     bnd (gets id) (\<lambda>s. let hash = sf_UpdateRevision (fs_sfs s) in
     case lib_label_value L hash of
       Some _ \<Rightarrow> ret False
     | None \<Rightarrow>
         bnd (attempt (list_pods E (sf_Namespace (fs_sfs s)) (GetLabels (fs_cluster s))
                (''controller-revision-hash!='' @ hash))) (\<lambda>r. case r of
             Inl _ \<Rightarrow> ret False | Inr pods \<Rightarrow> ret (pods = [])))"

text \<open>The branch of \<open>createOrUpdate\<close> in which neither the set nor a pod has to change.\<close>

definition all_updated :: "Env \<Rightarrow> (SfsState, Op) go" where
  "all_updated E =
     bnd (gets fs_cluster) (\<lambda>c.
     bnd (case sp_RemoteCluster (mc_Spec c) of None \<Rightarrow> ret () | Some rc \<Rightarrow> checkAndUpdateRemoteStatus E rc) (\<lambda>_.
     bnd (gets fs_sfs) (\<lambda>f.
     bnd (if sf_Labels f \<noteq> None \<and> sf_ReadyReplicas f = sf_StatusReplicas f
          then bnd (set_sfs (\<lambda>f. f\<lparr>sf_Labels := None\<rparr>)) (\<lambda>_. update_sfs E) else ret ()) (\<lambda>_.
     ret OpNone))))"

definition createOrUpdate :: "Env \<Rightarrow> Lib \<Rightarrow> (SfsState, Op) go" where
  "createOrUpdate E L =
     bnd (gets fs_sfs) (\<lambda>f.
     bnd (attempt (get_sfs E (sf_Namespace f) (sf_Name f))) (\<lambda>r. case r of
       Inl e \<Rightarrow>
         if \<not> is_not_found e then fail e
         else bnd (mutate L) (\<lambda>_. bnd (create_sfs E) (\<lambda>_. ret OpCreated))
     | Inr existing \<Rightarrow>
         bnd (set_sfs (\<lambda>_. existing)) (\<lambda>_.
         bnd (mutate L) (\<lambda>_.
         bnd (gets fs_sfs) (\<lambda>f1.
         if \<not> sfsUpdated L existing f1 then
           bnd (podsAllUpdated E L) (\<lambda>all. if all then all_updated E
             else bnd (updatePod E L) (\<lambda>_. bnd (updatePVC E) (\<lambda>_. ret OpUpdated)))
         else
           bnd (update_sfs E) (\<lambda>_. bnd (updatePod E L) (\<lambda>_. bnd (updatePVC E) (\<lambda>_. ret OpUpdated))))))))"

definition SingleLeaderAction :: "Env \<Rightarrow> (SfsState, unit) go" where
  "SingleLeaderAction E =
     bnd (gets fs_cluster) (\<lambda>c.
     if sp_Replicas (mc_Spec c) \<noteq> 1 then ret ()
     else if st_State (mc_Status c) \<noteq> ClusterReadyState then ret ()
     else
       bnd (NewPodExecutor E) (\<lambda>_. let podName = mc_Name c @ ''-mysql-0'' in
       bnd (CloseXenonSemiCheck E (mc_Namespace c) podName) (\<lambda>_.
       SetGlobalSysVar E (mc_Namespace c) podName ''SET GLOBAL rpl_semi_sync_master_enabled=off'')))"

section \<open>The read-only stateful set\<close>

definition getReadOnlyStatefulSetName :: "MysqlCluster \<Rightarrow> string" where
  "getReadOnlyStatefulSetName c = mc_Name c @ ''-ro''"

definition readOnlyLables :: "MysqlCluster \<Rightarrow> smap" where
  "readOnlyLables c = (GetLabels c)(''app.kubernetes.io/name'' \<mapsto> ''mysql-readonly'', ''readonly'' \<mapsto> ''true'')"

text \<open>
  \<open>calcInnodbParam\<close>: the computation of \<open>EnsureMysqlConf\<close> from the resources of the read-only
  pods, without looking at a configured pool size.
\<close>

definition calcInnodbParam :: "MysqlCluster \<Rightarrow> ResourceRequirements \<Rightarrow> (string \<times> string \<times> string) res" where
  "calcInnodbParam c r =
     (let pool = Max64 (fst (pool_bounds (of_int (rr_mem_request r)))) (128 * mb);
          instances = pool_instances (rr_cpu_limit_milli r) pool
      in bind_res (log_file_size (configured_groups (mo_MysqlConf (sp_MysqlOpts (mc_Spec c)))) pool) (\<lambda>size.
         Ok (nat_str (unat pool), int_str instances, nat_str (unat size))))"

definition ROIbPool :: string where "ROIbPool = ''IB_POOL''"
definition ROIbInst :: string where "ROIbInst = ''IB_INST''"
definition ROIbLog :: string where "ROIbLog = ''IB_LOG''"

definition readonly_probe :: Probe where
  "readonly_probe = probe15 (ExecProbe [''sh'', ''-c'',
       ''if [ -f '' @ quoted ''/var/lib/mysql/sleep-forever'' @
       '' ] ;then exit 0 ; fi; test $(mysql -uroot -NB -e '' @ [CHR 0x22] @ ''SELECT 1'' @ [CHR 0x22] @ '') -eq 1'']) 10 3"

text \<open>The containers: those of the cluster's set except xenon and mysql, then a mysql of its own.\<close>

definition readonly_containers :: "Lib \<Rightarrow> bool \<Rightarrow> MysqlCluster \<Rightarrow> ReadOnlyType \<Rightarrow> Container list \<Rightarrow> (Container list \<times> Container list) res" where
  "readonly_containers L up c ro running =
     bind_res (EnsureContainer (lib_env L) up ''init-sidecar'' c) (\<lambda>initSidecar.
     bind_res (EnsureContainer (lib_env L) up ''init-mysql'' c) (\<lambda>initMysql0.
     let initMysql = (case ro_Resources ro of None \<Rightarrow> initMysql0 | Some r \<Rightarrow> initMysql0\<lparr>ct_Resources := r\<rparr>);
         others = filter (\<lambda>v. ct_Name v \<noteq> ''xenon'' \<and> ct_Name v \<noteq> ''mysql'') running
     in bind_res (EnsureContainer (lib_env L) up ''mysql'' c) (\<lambda>mysql0.
        let mysql1 = mysql0\<lparr>ct_ReadinessProbe := Some readonly_probe\<rparr> in
        case ro_Resources ro of
          None \<Rightarrow> Ok ([initSidecar, initMysql], others @ [mysql1])
        | Some r \<Rightarrow> bind_res (calcInnodbParam c r) (\<lambda>(ib_pool, ib_inst, ib_logsize).
            Ok ([initSidecar\<lparr>ct_Env := ct_Env initSidecar @
                   [val_env ROIbPool ib_pool, val_env ROIbInst ib_inst, val_env ROIbLog ib_logsize]\<rparr>, initMysql],
                others @ [mysql1\<lparr>ct_Resources := r\<rparr>])))))"

definition GetReadonlyStatefulSet :: "Lib \<Rightarrow> bool \<Rightarrow> MysqlCluster \<Rightarrow> ReadOnlyType \<Rightarrow> StatefulSetObj \<Rightarrow> StatefulSetObj res" where
  "GetReadonlyStatefulSet L up c ro f =
     bind_res (readonly_containers L up c ro (ps_Containers (tp_Spec (sf_Template f)))) (\<lambda>(inits, conts).
     let name = getReadOnlyStatefulSetName c; pol = sp_PodPolicy (mc_Spec c) in Ok
     ((empty_sfs name (mc_Namespace c))\<lparr>
        sf_Annotations := mc_Annotations c, sf_Replicas := ro_Num ro, sf_Selector := readOnlyLables c,
        sf_ServiceName := GetNameForResource c ReadOnlyHeadlessSVC,
        sf_Template := \<lparr>tp_Name = name, tp_Labels = readOnlyLables c,
          tp_Annotations = (tp_Annotations (sf_Template f))(''host-name'' \<mapsto> ro_Host ro),
          tp_Spec = \<lparr>ps_InitContainers = inits, ps_Containers = conts, ps_Volumes = EnsureVolumes c,
            ps_SchedulerName = pp_SchedulerName pol, ps_ServiceAccountName = GetNameForResource c ServiceAccountRes,
            ps_Affinity = ro_Affinity ro, ps_PriorityClassName = pp_PriorityClassName pol,
            ps_Tolerations = (case ro_Tolerations ro of Some ts \<Rightarrow> ts | None \<Rightarrow> pp_Tolerations pol)\<rparr>\<rparr>,
        sf_VolumeClaimTemplates := sf_VolumeClaimTemplates f\<rparr>))"

definition buildHostName :: "StatefulSetObj \<Rightarrow> nat \<Rightarrow> string" where
  "buildHostName f i = sf_Name f @ ''-'' @ nat_str i @ ''.'' @ sf_Name f @ ''.'' @ sf_Namespace f"

definition buildMasterName :: "MysqlCluster \<Rightarrow> ReadOnlyType \<Rightarrow> StatefulSetObj \<Rightarrow> string" where
  "buildMasterName c ro f =
     (if sp_Replicas (mc_Spec c) = 1 then sf_ServiceName f @ ''-0.'' @ sf_ServiceName f @ ''.'' @ mc_Namespace c
      else if length (ro_Host ro) = 0 then mc_Name c @ ''-follower''
      else ro_Host ro @ ''.'' @ sf_ServiceName f @ ''.'' @ mc_Namespace c)"

text \<open>One setting: read it (an error ends the function), and write it when it is not as wanted.\<close>

definition ensure_flag :: "('s, ConditionStatus \<times> gerr option) go \<Rightarrow> (ConditionStatus \<Rightarrow> bool) \<Rightarrow> 's SQLRunner \<Rightarrow> string \<Rightarrow> ('s, unit) go" where
  "ensure_flag check bad db stmt =
     bnd check (\<lambda>(status, err). case err of
         Some e \<Rightarrow> fail e
       | None \<Rightarrow> if bad status then bnd (attempt (sr_exec db (NewQuery stmt []))) (\<lambda>_. ret ()) else ret ())"

definition make_readonly :: "'s SQLRunner \<Rightarrow> int option \<Rightarrow> string \<Rightarrow> string \<Rightarrow> ('s, unit) go" where
  "make_readonly db lag master pass =
     bnd (ensure_flag (CheckReadOnly db) (\<lambda>st. st \<noteq> CondTrue) db ''SET GLOBAL read_only=on'') (\<lambda>_.
     bnd (ensure_flag (CheckSuperReadOnly db) (\<lambda>st. st \<noteq> CondTrue) db ''SET GLOBAL super_read_only=on'') (\<lambda>_.
     bnd (ensure_flag (CheckSemSync db) (\<lambda>st. st = CondTrue) db ''SET GLOBAL rpl_semi_sync_slave_enabled=off'') (\<lambda>_.
     bnd (CheckSlaveStatus db lag) (\<lambda>(_, isReplicating, _).
     if isReplicating = CondFalse then
       bnd (attempt (sr_exec db start_slave)) (\<lambda>r. case r of
           Inr _ \<Rightarrow> ret ()
         | Inl _ \<Rightarrow> bnd (attempt (sr_exec db (NewQuery (change_master [] [CHR 0x0A] master pass) []))) (\<lambda>_. ret ()))
     else ret ()))))"

text \<open>The goroutine that connects, and the timer; see \<open>try_runner\<close>.\<close>

definition putMySQLReadOnly :: "Env \<Rightarrow> ReadOnlyType \<Rightarrow> string \<Rightarrow> (SfsState, unit) go" where
  "putMySQLReadOnly E ro host =
     bnd (gets fs_cluster) (\<lambda>c. bnd (gets fs_sfs) (\<lambda>f.
     bnd (attempt (config_of E c RootUser host)) (\<lambda>cfg.
     bnd (attempt (runner_of E cfg)) (\<lambda>r.
     bnd (gets (\<lambda>s. we_timeout E (w_trace s))) (\<lambda>late.
     case (cfg, r) of
       (Inl e, Inl e') \<Rightarrow> fail (if late then e else e')
     | (Inl e, Inr _) \<Rightarrow> fail e
     | (Inr _, Inl e') \<Rightarrow> if late then ret () else fail e'
     | (Inr g, Inr h) \<Rightarrow>
         if late then ret ()
         else make_readonly (world_sql E h) (sp_ReplicaLag (mc_Spec c)) (buildMasterName c ro f) (cf_Password g))))))"

definition ReadOnlyCanExtend :: "Env \<Rightarrow> StatefulSetObj \<Rightarrow> (SfsState, bool) go" where
  "ReadOnlyCanExtend E roSfs =
     bnd (attempt (get_sfs E (sf_Namespace roSfs) (sf_Name roSfs))) (\<lambda>r.
     if (case r of Inl e \<Rightarrow> is_not_found e | Inr _ \<Rightarrow> False) then ret False
     else
       bnd (lift (first_claim (case r of Inr g \<Rightarrow> g | Inl _ \<Rightarrow> empty_sfs [] []))) (\<lambda>old.
       bnd (lift (first_claim roSfs)) (\<lambda>new. ret (vc_Storage old < vc_Storage new))))"

definition ExtendReadOnlyPVCs :: "Env \<Rightarrow> Lib \<Rightarrow> StatefulSetObj \<Rightarrow> (SfsState, unit) go" where
  "ExtendReadOnlyPVCs E L roSfs =
     bnd (call E (EvDeleteSfs (sf_Name roSfs))) (\<lambda>_.
     bnd (gets id) (\<lambda>s.
     bnd (list_pvcs E (sf_Namespace (fs_sfs s)) (readOnlyLables (fs_cluster s))) (\<lambda>pvcs.
     bnd (each (expand_claim E L False) pvcs) (\<lambda>_. call E (EvCreateSfs roSfs)))))"

definition deletePvcReadOnly :: "Env \<Rightarrow> ReadOnlyType \<Rightarrow> (SfsState, unit) go" where
  "deletePvcReadOnly E ro = bnd (gets fs_cluster) (\<lambda>c. clean_claims E (ro_Num ro) (readOnlyLables c))"

text \<open>No read-only pods are wanted: the set, its claims and its two services are removed.\<close>

definition drop_service :: "Env \<Rightarrow> string \<Rightarrow> ('z World_scheme, unit) go" where
  "drop_service E name =
     bnd (attempt (call E (EvGetService name))) (\<lambda>r. case r of
         Inr _ \<Rightarrow> bnd (attempt (call E (EvDeleteService name))) (\<lambda>_. ret ())
       | Inl e \<Rightarrow> if is_not_found e then ret ()
                  else bnd (attempt (call E (EvDeleteService []))) (\<lambda>_. ret ()))"

definition remove_readonly :: "Env \<Rightarrow> (SfsState, unit) go" where
  "remove_readonly E =
     bnd (gets id) (\<lambda>s. let c = fs_cluster s; name = getReadOnlyStatefulSetName c in
     bnd (attempt (get_sfs E (mc_Namespace c) name)) (\<lambda>r.
     bnd (if (case r of Inl e \<Rightarrow> is_not_found e | Inr _ \<Rightarrow> False) then ret ()
          else
            bnd (attempt (call E (EvDeleteSfs (case r of Inr g \<Rightarrow> sf_Name g | Inl _ \<Rightarrow> [])))) (\<lambda>_.
            bnd (list_pvcs E (sf_Namespace (fs_sfs s)) (readOnlyLables c)) (\<lambda>pvcs.
            each (\<lambda>item. call E (EvDeletePVC (pvc_Name item))) pvcs))) (\<lambda>_.
     bnd (drop_service E (GetNameForResource c ReadOnlyHeadlessSVC)) (\<lambda>_.
     drop_service E (GetNameForResource c ReadOnlySvc)))))"

text \<open>\<open>currentStatefulset.Spec = readonlyStatefulSet.Spec\<close>.\<close>

definition with_spec :: "StatefulSetObj \<Rightarrow> StatefulSetObj \<Rightarrow> StatefulSetObj" where
  "with_spec f g = f\<lparr>sf_Replicas := sf_Replicas g, sf_ServiceName := sf_ServiceName g, sf_Selector := sf_Selector g,
     sf_UpdateStrategy := sf_UpdateStrategy g, sf_Template := sf_Template g,
     sf_VolumeClaimTemplates := sf_VolumeClaimTemplates g\<rparr>"

definition is_invalid :: "gerr \<Rightarrow> bool" where
  "is_invalid e = (case e of Invalid _ \<Rightarrow> True | _ \<Rightarrow> False)"

text \<open>Step 3: the update, and the expansion of the claims when the API server calls it invalid.\<close>

definition update_readonly :: "Env \<Rightarrow> Lib \<Rightarrow> StatefulSetObj \<Rightarrow> StatefulSetObj \<Rightarrow> (SfsState, StatefulSetObj) go" where
  "update_readonly E L roSfs cur =
     handle (put_sfs E EvUpdateSfs cur) (\<lambda>e.
       bnd (if is_invalid e then ReadOnlyCanExtend E roSfs else ret False) (\<lambda>b.
       if b then handle (bnd (ExtendReadOnlyPVCs E L roSfs) (\<lambda>_. ret cur)) (\<lambda>_. fail (GErr ''extend readonly's pvc''))
       else fail (GErr ''update readonly statefulset'')))"

text \<open>Steps 1 to 3: create the set if there is none, then update the object that was (or was not) read.\<close>

definition put_readonly_sfs :: "Env \<Rightarrow> Lib \<Rightarrow> StatefulSetObj \<Rightarrow> (SfsState, StatefulSetObj) go" where
  "put_readonly_sfs E L roSfs =
     bnd (attempt (get_sfs E (sf_Namespace roSfs) (sf_Name roSfs))) (\<lambda>r.
     bnd (case r of
         Inr g \<Rightarrow> ret g
       | Inl e \<Rightarrow>
           if is_not_found e then
             handle (bnd (call E (EvCreateSfs roSfs)) (\<lambda>_. ret (empty_sfs [] [])))
               (\<lambda>e. if lib_already_exists L e then ret (empty_sfs [] []) else fail (GErr ''create readonlhy statefulset''))
           else fail (GErr ''get readonly deployment'')) (\<lambda>cur0.
     update_readonly E L roSfs (with_spec cur0 roSfs)))"

definition ready_step :: "Env \<Rightarrow> StatefulSetObj \<Rightarrow> StatefulSetObj \<Rightarrow> ('z World_scheme, bool \<times> StatefulSetObj) go" where
  "ready_step E roSfs cur =
     bnd (get_sfs E (sf_Namespace roSfs) (sf_Name roSfs)) (\<lambda>g. ret (sf_ReadyReplicas g = sf_StatusReplicas g, g))"

definition SfsReadOnly :: "Env \<Rightarrow> Lib \<Rightarrow> (SfsState, unit) go" where
  "SfsReadOnly E L =
     bnd (gets id) (\<lambda>s. let c = fs_cluster s in
     case sp_ReadOnlys (mc_Spec c) of
       None \<Rightarrow> remove_readonly E
     | Some ro \<Rightarrow>
         if st_State (mc_Status c) = ClusterReadyState then
           bnd (lift (GetReadonlyStatefulSet L (fs_NeedUpgrade s) c ro (fs_sfs s))) (\<lambda>ro0.
           bnd (case lib_set_ref L (sf_Name ro0) of Some e \<Rightarrow> fail e | None \<Rightarrow> ret (ro0\<lparr>sf_Owned := True\<rparr>)) (\<lambda>roSfs.
           bnd (put_readonly_sfs E L roSfs) (\<lambda>cur.
           bnd (deletePvcReadOnly E ro) (\<lambda>_.
           bnd (poll_acc (lib_try_readonly L) (ready_step E roSfs) cur) (\<lambda>cur1.
           each (\<lambda>i. putMySQLReadOnly E ro (buildHostName cur1 i)) [0..<nat (sf_StatusReplicas cur1)])))))
         else ret ())"

section \<open>Sync\<close>

text \<open>The result of a sync: the operation, the type of the Kubernetes event if there is one, the error.\<close>

record SyncOutcome =
  so_Operation :: Op
  so_EventType :: "string option"
  so_err :: "gerr option"

definition Sfs_Sync :: "Env \<Rightarrow> Lib \<Rightarrow> (SfsState, SyncOutcome) go" where
  "Sfs_Sync E L =
     bnd (attempt (createOrUpdate E L)) (\<lambda>r. case r of
         Inl e \<Rightarrow>
           if e = OwnerDeleted \<or> e = IgnoreErr then ret \<lparr>so_Operation = OpNone, so_EventType = None, so_err = None\<rparr>
           else
             bnd (if is_invalid e then canExpandPVC E L else ret False) (\<lambda>b.
             if b then bnd (attempt (expandPVCs E L)) (\<lambda>x. ret (case x of
                 Inl e' \<Rightarrow> \<lparr>so_Operation = OpNone, so_EventType = None, so_err = Some e'\<rparr>
               | Inr op \<Rightarrow> \<lparr>so_Operation = op, so_EventType = None, so_err = None\<rparr>))
             else ret \<lparr>so_Operation = OpNone, so_EventType = Some ''Warning'', so_err = Some e\<rparr>)
       | Inr op \<Rightarrow>
           bnd (attempt (SfsReadOnly E L)) (\<lambda>_.
           bnd (attempt (SingleLeaderAction E)) (\<lambda>x. ret
             \<lparr>so_Operation = op, so_EventType = Some ''Normal'', so_err = (case x of Inl e \<Rightarrow> Some e | Inr _ \<Rightarrow> None)\<rparr>)))"

end
