(* ===== verification/Monitor.thy ===== *)
theory Monitor
  imports World
begin

text \<open>
  A program logic for properties of the order of events. A monitor is a deterministic
  automaton over events that stops when an event is not allowed; \<open>monitors P d q m Q\<close> says that
  from any state satisfying \<open>P\<close>, \<open>m\<close> keeps \<open>P\<close> and appends to the trace a word the monitor
  accepts from \<open>q\<close>, and that \<open>Q\<close> relates the result and the state the monitor ends in. The
  rules are those of a weakest-precondition calculus.
\<close>

fun run_monitor :: "('q \<Rightarrow> event \<Rightarrow> 'q option) \<Rightarrow> 'q \<Rightarrow> event list \<Rightarrow> 'q option" where
  "run_monitor d q [] = Some q"
| "run_monitor d q (e # es) = (case d q e of None \<Rightarrow> None | Some q' \<Rightarrow> run_monitor d q' es)"

lemma run_monitor_append:
  "run_monitor d q es = Some q' \<Longrightarrow> run_monitor d q (es @ fs) = run_monitor d q' fs"
  by (induction es arbitrary: q) (auto split: option.splits)

definition trace_free :: "('z World_scheme \<Rightarrow> bool) \<Rightarrow> bool" where
  "trace_free P \<longleftrightarrow> (\<forall>s t. P s \<longrightarrow> P (s\<lparr>w_trace := t\<rparr>))"

definition monitors ::
  "(('z World_scheme) \<Rightarrow> bool) \<Rightarrow> ('q \<Rightarrow> event \<Rightarrow> 'q option) \<Rightarrow> 'q \<Rightarrow> ('z World_scheme, 'a) go \<Rightarrow> ('a res \<Rightarrow> 'q \<Rightarrow> bool) \<Rightarrow> bool" where
  "monitors P d q m Q \<longleftrightarrow> (\<forall>s. P s \<longrightarrow> P (snd (m s)) \<and>
     (\<exists>es q'. w_trace (snd (m s)) = w_trace s @ es \<and> run_monitor d q es = Some q' \<and> Q (fst (m s)) q'))"

lemma monitorsD:
  assumes "monitors P d q m Q" "P s" "m s = (r, t)"
  obtains es q' where "P t" "w_trace t = w_trace s @ es" "run_monitor d q es = Some q'" "Q r q'"
  using assms unfolding monitors_def by (metis fst_conv snd_conv)

lemma monitors_conseq:
  "monitors P d q m Q \<Longrightarrow> (\<And>r q'. Q r q' \<Longrightarrow> R r q') \<Longrightarrow> monitors P d q m R"
  unfolding monitors_def by blast

lemma monitors_ret: "Q (Ok x) q \<Longrightarrow> monitors P d q (ret x) Q"
  by (simp add: monitors_def ret_def)

lemma monitors_fail: "Q (Fail e) q \<Longrightarrow> monitors P d q (fail e) Q"
  by (simp add: monitors_def fail_def)

lemma monitors_lift: "Q r q \<Longrightarrow> monitors P d q (lift r) Q"
  by (simp add: monitors_def lift_def)

lemma monitors_gets: "(\<And>s. P s \<Longrightarrow> Q (Ok (f s)) q) \<Longrightarrow> monitors P d q (gets f) Q"
  by (simp add: monitors_def gets_def)

lemma monitors_modify:
  "(\<And>s. P s \<Longrightarrow> P (f s) \<and> w_trace (f s) = w_trace s) \<Longrightarrow> Q (Ok ()) q \<Longrightarrow> monitors P d q (modify f) Q"
  by (simp add: monitors_def modify_def)

lemma monitors_bnd:
  assumes "monitors P d q m (\<lambda>r q'. case r of Ok x \<Rightarrow> monitors P d q' (f x) Q | Fail e \<Rightarrow> Q (Fail e) q' | Panic p \<Rightarrow> Q (Panic p) q')"
  shows "monitors P d q (bnd m f) Q"
  unfolding monitors_def
proof (intro allI impI)
  fix s assume "P s"
  obtain r t where m: "m s = (r, t)" by (cases "m s")
  from monitorsD [OF assms \<open>P s\<close> m] obtain es q' where es: "P t" "w_trace t = w_trace s @ es" "run_monitor d q es = Some q'"
    "case r of Ok x \<Rightarrow> monitors P d q' (f x) Q | Fail e \<Rightarrow> Q (Fail e) q' | Panic p \<Rightarrow> Q (Panic p) q'" .
  show "P (snd (bnd m f s)) \<and> (\<exists>es q'. w_trace (snd (bnd m f s)) = w_trace s @ es \<and> run_monitor d q es = Some q' \<and>
      Q (fst (bnd m f s)) q')"
  proof (cases r)
    case (Ok x)
    obtain r' u where fx: "f x t = (r', u)" by (cases "f x t")
    from es(4) Ok have "monitors P d q' (f x) Q" by simp
    from monitorsD [OF this es(1) fx] obtain fs q'' where
      "P u" "w_trace u = w_trace t @ fs" "run_monitor d q' fs = Some q''" "Q r' q''" .
    with es m Ok fx show ?thesis by (auto simp: bnd_def run_monitor_append)
  qed (use es m in \<open>auto simp: bnd_def\<close>)
qed

lemma monitors_attempt:
  assumes "monitors P d q m (\<lambda>r q'. case r of Ok x \<Rightarrow> Q (Ok (Inr x)) q' | Fail e \<Rightarrow> Q (Ok (Inl e)) q' | Panic p \<Rightarrow> Q (Panic p) q')"
  shows "monitors P d q (attempt m) Q"
  unfolding monitors_def
proof (intro allI impI)
  fix s assume "P s"
  obtain r t where m: "m s = (r, t)" by (cases "m s")
  from monitorsD [OF assms \<open>P s\<close> m] obtain es q' where es: "P t" "w_trace t = w_trace s @ es" "run_monitor d q es = Some q'"
    "case r of Ok x \<Rightarrow> Q (Ok (Inr x)) q' | Fail e \<Rightarrow> Q (Ok (Inl e)) q' | Panic p \<Rightarrow> Q (Panic p) q'" .
  then show "P (snd (attempt m s)) \<and> (\<exists>es q'. w_trace (snd (attempt m s)) = w_trace s @ es \<and> run_monitor d q es = Some q' \<and>
      Q (fst (attempt m s)) q')"
    by (cases r) (auto simp: attempt_def m)
qed

lemma monitors_handle:
  assumes "monitors P d q m (\<lambda>r q'. case r of Ok x \<Rightarrow> Q (Ok x) q' | Fail e \<Rightarrow> monitors P d q' (h e) Q | Panic p \<Rightarrow> Q (Panic p) q')"
  shows "monitors P d q (handle m h) Q"
proof -
  have "handle m h = bnd (attempt m) (\<lambda>r. case r of Inl e \<Rightarrow> h e | Inr x \<Rightarrow> ret x)"
    by (rule ext) (simp add: handle_def bnd_def attempt_def ret_def split: prod.split res.split)
  moreover have "monitors P d q (bnd (attempt m) (\<lambda>r. case r of Inl e \<Rightarrow> h e | Inr x \<Rightarrow> ret x)) Q"
    by (intro monitors_bnd monitors_attempt monitors_conseq [OF assms])
       (auto split: res.splits intro: monitors_ret)
  ultimately show ?thesis by simp
qed

lemma monitors_if:
  "(b \<Longrightarrow> monitors P d q m Q) \<Longrightarrow> (\<not> b \<Longrightarrow> monitors P d q n Q) \<Longrightarrow> monitors P d q (if b then m else n) Q"
  by simp

lemma monitors_record:
  assumes "trace_free P" "d q e = Some q'" "Q (Ok ()) q'"
  shows "monitors P d q (record_ev e) Q"
  using assms unfolding monitors_def record_ev_def modify_def trace_free_def
  by (auto intro!: exI [of _ "[e]"])

lemma monitors_call:
  assumes "trace_free P" "d q e = Some q'" "Q (Ok ()) q'" "\<And>er. Q (Fail er) q'"
  shows "monitors P d q (call E e) Q"
  using assms unfolding monitors_def call_run trace_free_def
  by (auto intro!: exI [of _ "[e]"] split: option.split)

lemma monitors_query:
  assumes "trace_free P" "d q e = Some q'" "\<And>x. Q (Ok x) q'" "\<And>er. Q (Fail er) q'"
  shows "monitors P d q (query E e f) Q"
  unfolding query_def
  by (rule monitors_bnd, rule monitors_call, rule assms(1), rule assms(2)) (simp_all add: assms monitors_gets)

lemma monitors_list_pods:
  assumes "trace_free P" "d q (EvListPods ns sel extra) = Some q'"
    "\<And>x. Q (Ok x) q'" "\<And>er. Q (Fail er) q'"
  shows "monitors P d q (list_pods E ns sel extra) Q"
  unfolding list_pods_def by (rule monitors_query) (rule assms)+

lemma monitors_get_pod:
  assumes "trace_free P" "d q (EvGetPod ns name) = Some q1"
    and "\<And>e. Q (Fail e) q1"
    and "\<And>p. pod_Name p = name \<Longrightarrow> pod_Namespace p = ns \<Longrightarrow> \<exists>q2. d q1 (EvSawPod p) = Some q2 \<and> Q (Ok p) q2"
  shows "monitors P d q (get_pod E ns name) Q"
  unfolding get_pod_def Let_def
proof (rule monitors_bnd, rule monitors_query)
  show "trace_free P" "d q (EvGetPod ns name) = Some q1" by (rule assms)+
  fix p0 :: Pod
  let ?p = "p0\<lparr>pod_Name := name, pod_Namespace := ns\<rparr>"
  obtain q2 where q2: "d q1 (EvSawPod ?p) = Some q2" "Q (Ok ?p) q2" using assms(4) [of ?p] by auto
  have "monitors P d q1 (bnd (record_ev (EvSawPod ?p)) (\<lambda>_. ret ?p)) Q"
    by (rule monitors_bnd, rule monitors_record, rule assms(1), rule q2(1)) (simp add: monitors_ret q2(2))
  then show "case Ok p0 of Ok x \<Rightarrow> monitors P d q1 (bnd (record_ev (EvSawPod (x\<lparr>pod_Name := name, pod_Namespace := ns\<rparr>)))
          (\<lambda>_. ret (x\<lparr>pod_Name := name, pod_Namespace := ns\<rparr>))) Q | Fail e \<Rightarrow> Q (Fail e) q1 | Panic p \<Rightarrow> Q (Panic p) q1"
    by simp
qed (simp add: assms(3))

section \<open>Results of successful runs\<close>

text \<open>
  \<open>passes P d q m Q\<close>: the same with a postcondition on successful runs only; whatever the result, the
  events are accepted.
\<close>

definition passes ::
  "(('z World_scheme) \<Rightarrow> bool) \<Rightarrow> ('q \<Rightarrow> event \<Rightarrow> 'q option) \<Rightarrow> 'q \<Rightarrow> ('z World_scheme, 'a) go \<Rightarrow> ('a \<Rightarrow> 'q \<Rightarrow> bool) \<Rightarrow> bool" where
  "passes P d q m Q \<longleftrightarrow> monitors P d q m (\<lambda>r q'. \<forall>x. r = Ok x \<longrightarrow> Q x q')"

lemma passesD:
  assumes "passes P d q m Q" "P s"
  shows "\<exists>es q'. w_trace (snd (m s)) = w_trace s @ es \<and> run_monitor d q es = Some q' \<and>
    (\<forall>x. fst (m s) = Ok x \<longrightarrow> Q x q')"
  using assms unfolding passes_def monitors_def by blast

lemma passes_weaken: "passes P d q m Q \<Longrightarrow> (\<And>x q'. Q x q' \<Longrightarrow> R x q') \<Longrightarrow> passes P d q m R"
  unfolding passes_def by (erule monitors_conseq) blast

lemma passes_basic:
  "Q x q \<Longrightarrow> passes P d q (ret x) Q" "passes P d q (fail e) Q" "passes P d q (panic p) Q"
  "(\<And>x. r = Ok x \<Longrightarrow> Q x q) \<Longrightarrow> passes P d q (lift r) Q"
  "(\<And>s. P s \<Longrightarrow> Q (f s) q) \<Longrightarrow> passes P d q (gets f) Q"
  unfolding passes_def
  by (auto simp: go_simps monitors_def)

lemma passes_modify:
  "(\<And>s. P s \<Longrightarrow> P (f s) \<and> w_trace (f s) = w_trace s) \<Longrightarrow> Q () q \<Longrightarrow> passes P d q (modify f) Q"
  unfolding passes_def by (rule monitors_modify) auto

lemma passes_bnd: "passes P d q m (\<lambda>x q'. passes P d q' (f x) Q) \<Longrightarrow> passes P d q (bnd m f) Q"
  unfolding passes_def by (rule monitors_bnd, erule monitors_conseq) (auto split: res.split)

lemma passes_bnd_gets:
  "(\<And>s. P s \<Longrightarrow> passes P d q (g (f s)) Q) \<Longrightarrow> passes P d q (bnd (gets f) g) Q"
  by (intro passes_bnd passes_basic)

lemma passes_if:
  "(b \<Longrightarrow> passes P d q m Q) \<Longrightarrow> (\<not> b \<Longrightarrow> passes P d q n Q) \<Longrightarrow> passes P d q (if b then m else n) Q"
  by simp

lemma passes_handle_fail: "passes P d q m Q \<Longrightarrow> passes P d q (handle m (\<lambda>e. fail (h e))) Q"
  unfolding passes_def by (rule monitors_handle, erule monitors_conseq) (auto split: res.split intro: monitors_fail)

lemma passes_call:
  "trace_free P \<Longrightarrow> d q e = Some q' \<Longrightarrow> Q () q' \<Longrightarrow> passes P d q (call E e) Q"
  unfolding passes_def by (rule monitors_call) auto

lemma passes_query:
  "trace_free P \<Longrightarrow> d q e = Some q' \<Longrightarrow> (\<And>x. Q x q') \<Longrightarrow> passes P d q (query E e f) Q"
  unfolding passes_def by (rule monitors_query) auto

lemma passes_attempt_query:
  "trace_free P \<Longrightarrow> d q e = Some q' \<Longrightarrow> (\<And>r. Q r q') \<Longrightarrow> passes P d q (attempt (query E e f)) Q"
  unfolding passes_def by (rule monitors_attempt, rule monitors_query) auto

lemma passes_attempt_get_pod:
  assumes "trace_free P" "d q (EvGetPod ns name) = Some q1" "\<And>e. Q (Inl e) q1"
    and "\<And>p :: Pod. pod_Name p = name \<Longrightarrow> pod_Namespace p = ns \<Longrightarrow> \<exists>q2. d q1 (EvSawPod p) = Some q2 \<and> Q (Inr p) q2"
  shows "passes P d q (attempt (get_pod E ns name)) Q"
  unfolding passes_def
  by (rule monitors_attempt, rule monitors_get_pod, rule assms(1), rule assms(2)) (use assms(3,4) in force)+

end
