(* ===== verification/SfsLaws.thy ===== *)
theory SfsLaws
  imports SfsSync Monitor
begin

text \<open>
  Laws of the stateful set syncer: the rolling update replaces one pod at a time and the
  leader last, only surplus claims are deleted, and what \<open>mutate\<close> makes of the template.
\<close>

section \<open>One pod at a time\<close>

text \<open>
  The monitor of a rolling update to the revision \<open>hash\<close>. Its state is the pod being replaced, if
  any, and the pod seen by the event just before. A pod may be deleted only right after it has
  been seen, with an old revision and not already being deleted, while replicas are wanted
  and no other pod is being replaced; the replacement is over when the pod is seen healthy with
  the new revision (a pod above the number of replicas will not come back and is not waited for).
\<close>

definition replaced :: "string \<Rightarrow> Pod \<Rightarrow> bool" where
  "replaced hash p \<longleftrightarrow> marked_healthy p \<and> revision p = hash"

definition superfluous :: "int \<Rightarrow> string \<Rightarrow> bool" where
  "superfluous replicas name = (case GetOrdinal name of Ok n \<Rightarrow> n \<ge> replicas | _ \<Rightarrow> False)"

fun roll :: "string \<Rightarrow> int \<Rightarrow> string option \<times> Pod option \<Rightarrow> event \<Rightarrow> (string option \<times> Pod option) option" where
  "roll hash replicas (pend, saw) (EvSawPod p) =
     Some (if pend = Some (pod_Name p) \<and> replaced hash p then None else pend, Some p)"
| "roll hash replicas (pend, saw) (EvDeletePod p) =
     (if saw = Some p \<and> revision p \<noteq> hash \<and> \<not> pod_Deleting p \<and> replicas \<noteq> 0 \<and> (pend = None \<or> pend = Some (pod_Name p))
      then Some (if superfluous replicas (pod_Name p) then pend else Some (pod_Name p), None) else None)"
| "roll hash replicas (pend, saw) e = Some (pend, None)"

definition rolling :: "string \<Rightarrow> int \<Rightarrow> event list \<Rightarrow> bool" where
  "rolling hash replicas es \<longleftrightarrow> run_monitor (roll hash replicas) (None, None) es \<noteq> None"

text \<open>The state predicate the update keeps: its target revision and the number of replicas.\<close>

definition target :: "string \<Rightarrow> int \<Rightarrow> SfsState \<Rightarrow> bool" where
  "target hash replicas s \<longleftrightarrow> sf_UpdateRevision (fs_sfs s) = hash \<and> sp_Replicas (mc_Spec (fs_cluster s)) = replicas"

lemma target_trace: "trace_free (target hash replicas)"
  by (simp add: trace_free_def target_def)

text \<open>Invariant of the two waits of \<open>applyNWait\<close>, with the local pod \<open>p\<close> called \<open>n\<close>.\<close>

definition waiting :: "string \<Rightarrow> int \<Rightarrow> string \<Rightarrow> Pod \<Rightarrow> string option \<times> Pod option \<Rightarrow> bool" where
  "waiting hash replicas n p q \<longleftrightarrow> pod_Name p = n \<and>
     (fst q = None \<or> fst q = Some n \<and> \<not> superfluous replicas n \<and> \<not> replaced hash p)"

text \<open>The deletion loop may leave its pod replaced in the eyes of the monitor or still pending.\<close>

definition deleting :: "int \<Rightarrow> string \<Rightarrow> Pod \<Rightarrow> string option \<times> Pod option \<Rightarrow> bool" where
  "deleting replicas n p q \<longleftrightarrow> pod_Name p = n \<and> (fst q = None \<or> fst q = Some n \<and> \<not> superfluous replicas n)"

lemma passes_poll_acc:
  assumes step: "\<And>x q. I x q \<Longrightarrow> passes P d q (c x) (\<lambda>(stop, y) q'. if stop then Q y q' else I y q')"
    and "I x q"
  shows "passes P d q (poll_acc n c x) Q"
  using assms(2)
proof (induction n arbitrary: x q)
  case (Suc n)
  show ?case
    unfolding poll_acc.simps
    by (rule passes_bnd, rule passes_weaken [OF step [OF Suc.prems]]) (auto intro: passes_basic Suc.IH split: if_splits)
qed (simp add: passes_basic)

lemma delete_step_monitored:
  assumes "deleting replicas n p q"
  shows "passes (target hash replicas) (roll hash replicas) q (delete_step E replicas hash p)
    (\<lambda>(stop, y) q'. if stop then waiting hash replicas n y q' else deleting replicas n y q')"
proof -
  obtain pend saw where q: "q = (pend, saw)" by (cases q)
  show ?thesis
    unfolding delete_step_def q
    apply (rule passes_bnd, rule passes_attempt_get_pod, rule target_trace, simp)
    subgoal using assms by (simp add: q deleting_def passes_basic)
    subgoal for p'
      using assms
      by (auto simp: q deleting_def waiting_def replaced_def intro!: passes_basic passes_bnd passes_call target_trace split: if_splits)
    done
qed


lemma restart_verdict_monitored:
  assumes "waiting hash replicas n p q"
  shows "passes P d q (restart_verdict replicas hash p)
    (\<lambda>(stop, y) q'. if stop then fst q' = None else waiting hash replicas n y q')"
  unfolding restart_verdict_def
  by (intro passes_bnd passes_basic(4) passes_if passes_basic(1,2))
     (use assms in \<open>auto simp: waiting_def superfluous_def replaced_def\<close>)

lemma restart_step_monitored:
  assumes "waiting hash replicas n p q"
  shows "passes (target hash replicas) (roll hash replicas) q (restart_step E replicas hash p)
    (\<lambda>(stop, y) q'. if stop then fst q' = None else waiting hash replicas n y q')"
proof -
  obtain pend saw where q: "q = (pend, saw)" by (cases q)
  show ?thesis
    unfolding restart_step_def q
    apply (rule passes_bnd, rule passes_attempt_get_pod, rule target_trace, simp)
    subgoal for e
      unfolding sum.case
      by (intro passes_if restart_verdict_monitored passes_basic(2)) (use assms in \<open>simp add: q waiting_def\<close>)
    subgoal for p'
      unfolding roll.simps sum.case
      by (intro exI conjI refl restart_verdict_monitored) (use assms in \<open>auto simp: q waiting_def split: if_splits\<close>)
    done
qed

lemma keep_target:
  "passes (target hash replicas) d q (set_state st) (\<lambda>_ q'. q' = q)"
  unfolding set_state_def set_cluster_def by (rule passes_modify) (auto simp: target_def)

lemma applyNWait_monitored:
  assumes "fst q = None"
  shows "passes (target hash replicas) (roll hash replicas) q (applyNWait E L pod) (\<lambda>_ q'. fst q' = None)"
proof -
  have wait: "passes (target hash replicas) (roll hash replicas) q'
      (bnd (poll_acc (lib_try_restart L) (restart_step E replicas hash) p) (\<lambda>_. ret ())) (\<lambda>_ q'. fst q' = None)"
    if "waiting hash replicas (pod_Name pod) p q'" for p q'
    by (rule passes_bnd, rule passes_poll_acc [where I = "waiting hash replicas (pod_Name pod)" and Q = "\<lambda>_ q'. passes _ _ q' _ _"])
       (use that in \<open>auto intro!: passes_weaken [OF restart_step_monitored] passes_basic split: if_splits\<close>)
  have del: "passes (target hash replicas) (roll hash replicas) q
      (bnd (set_state ClusterUpdateState) (\<lambda>_. poll_acc (lib_try_delete L) (delete_step E replicas hash) pod))
      (waiting hash replicas (pod_Name pod))"
    by (rule passes_bnd, rule passes_weaken [OF keep_target], simp,
        rule passes_poll_acc [where I = "deleting replicas (pod_Name pod)"], rule delete_step_monitored)
       (use assms in \<open>simp_all add: deleting_def\<close>)
  show ?thesis
    unfolding applyNWait_def
    apply (rule passes_bnd_gets)
    subgoal for s
      apply (rule passes_if, rule passes_basic)
      apply (rule passes_bnd_gets)
      subgoal for s'
        apply (rule passes_bnd, rule passes_if)
        subgoal by (rule passes_basic) (use assms wait in \<open>simp add: target_def waiting_def\<close>)
        subgoal using passes_weaken [OF del wait] by (simp add: target_def)
        done
      done
    done
qed

lemma wait_healthy_monitored:
  assumes "fst q = None"
  shows "passes (target hash replicas) (roll hash replicas) q (wait_healthy E L pod) (\<lambda>p q'. fst q' = None)"
proof -
  have step: "passes (target hash replicas) (roll hash replicas) q (health_step E p) (\<lambda>(stop, y) q'. fst q' = None)"
    if "fst q = None" for p q
    unfolding health_step_def Let_def
    by (rule passes_bnd, rule passes_attempt_get_pod, rule target_trace)
       (use that in \<open>cases q, auto intro!: passes_basic\<close>)+
  show ?thesis
    unfolding wait_healthy_def
    by (rule passes_handle_fail, rule passes_poll_acc [where I = "\<lambda>_ q. fst q = None"])
       (use assms in \<open>auto intro: passes_weaken [OF step]\<close>)
qed

lemma update_followers_monitored:
  "fst q = None \<Longrightarrow>
   passes (target hash replicas) (roll hash replicas) q (update_followers E L pods leader) (\<lambda>_ q'. fst q' = None)"
proof (induction pods arbitrary: q leader)
  case (Cons pod pods)
  show ?case
    unfolding update_followers.simps
    by (rule passes_bnd, rule passes_weaken [OF wait_healthy_monitored [OF Cons.prems]], rule passes_if)
       (auto intro!: Cons.IH passes_bnd intro: passes_weaken [OF applyNWait_monitored])
qed (simp add: passes_basic)

lemma backupIsRunning_monitored:
  "fst q = None \<Longrightarrow> passes (target hash replicas) (roll hash replicas) q (attempt (backupIsRunning E)) (\<lambda>_ q'. fst q' = None)"
proof -
  assume "fst q = None"
  have "attempt (backupIsRunning E) = bnd (gets id) (\<lambda>s. bnd (attempt (query E
     (EvListBackups (sf_Namespace (fs_sfs s)) (mc_Name (fs_cluster s))) (we_backups E)))
     (\<lambda>r. ret (case r of Inl e \<Rightarrow> Inl e | Inr bs \<Rightarrow> Inr (list_ex (\<lambda>b. \<not> bst_Completed (b_Status b)) bs))))"
    by (rule ext) (simp add: backupIsRunning_def attempt_def bnd_def gets_def ret_def split: prod.split res.split)
  moreover have "passes (target hash replicas) (roll hash replicas) q (bnd (gets id) (\<lambda>s. bnd (attempt (query E
     (EvListBackups (sf_Namespace (fs_sfs s)) (mc_Name (fs_cluster s))) (we_backups E)))
     (\<lambda>r. ret (case r of Inl e \<Rightarrow> Inl e | Inr bs \<Rightarrow> Inr (list_ex (\<lambda>b. \<not> bst_Completed (b_Status b)) bs))))) (\<lambda>_ q'. fst q' = None)"
    using \<open>fst q = None\<close>
    by (cases q) (auto intro!: passes_bnd_gets passes_bnd passes_attempt_query passes_basic target_trace)
  ultimately show ?thesis by simp
qed


section \<open>The leader is replaced last\<close>

text \<open>The monitor that collects the names of the deleted pods; it never stops.\<close>

fun deletions :: "string set \<Rightarrow> event \<Rightarrow> string set option" where
  "deletions q (EvDeletePod p) = Some (insert (pod_Name p) q)"
| "deletions q e = Some q"

definition anything :: "SfsState \<Rightarrow> bool" where "anything s \<longleftrightarrow> True"

lemma anything_simps [simp]: "anything s" "trace_free anything"
  by (simp_all add: anything_def trace_free_def)

lemma deletions_member:
  "run_monitor deletions q es = Some q' \<Longrightarrow> EvDeletePod p \<in> set es \<Longrightarrow> pod_Name p \<in> q'"
proof -
  have mono: "run_monitor deletions q es = Some q' \<Longrightarrow> q \<subseteq> q'" for q q' es
  proof (induction es arbitrary: q)
    case (Cons e es)
    show ?case
    proof (cases "\<exists>p. e = EvDeletePod p")
      case True
      with Cons show ?thesis by fastforce
    next
      case False
      then have "deletions q e = Some q" by (cases e) auto
      with Cons show ?thesis by simp
    qed
  qed simp
  show "run_monitor deletions q es = Some q' \<Longrightarrow> EvDeletePod p \<in> set es \<Longrightarrow> pod_Name p \<in> q'"
  proof (induction es arbitrary: q)
    case (Cons e es)
    then obtain q1 where q1: "deletions q e = Some q1" "run_monitor deletions q1 es = Some q'"
      by (auto split: option.splits)
    with Cons mono [OF q1(2)] show ?case by auto
  qed simp
qed

lemma get_pod_deletions:
  assumes "\<And>e. Q (Inl e) q" "\<And>p. pod_Name p = name \<Longrightarrow> Q (Inr p) q"
  shows "passes anything deletions q (attempt (get_pod E ns name)) Q"
  by (rule passes_attempt_get_pod, simp, simp) (simp_all add: assms)

lemma restart_verdict_deletions:
  "pod_Name p = n \<Longrightarrow> passes P d q (restart_verdict replicas hash p) (\<lambda>(stop, y) q'. pod_Name y = n \<and> q' = q)"
  unfolding restart_verdict_def by (intro passes_bnd passes_basic(4) passes_if passes_basic(1,2)) simp_all

lemma restart_step_deletions:
  assumes "pod_Name p = n"
  shows "passes anything deletions q (restart_step E replicas hash p) (\<lambda>(stop, y) q'. pod_Name y = n \<and> q' = q)"
  unfolding restart_step_def
  apply (rule passes_bnd, rule get_pod_deletions)
  subgoal unfolding sum.case by (intro passes_if restart_verdict_deletions passes_basic(2)) (rule assms)
  subgoal unfolding sum.case by (rule restart_verdict_deletions) (simp add: assms)
  done

lemma delete_step_deletions:
  assumes "pod_Name p = n"
  shows "passes anything deletions q (delete_step E replicas hash p)
    (\<lambda>(stop, y) q'. pod_Name y = n \<and> q' \<subseteq> insert n q)"
  unfolding delete_step_def
  apply (rule passes_bnd, rule get_pod_deletions)
  subgoal using assms by (auto intro!: passes_basic)
  subgoal using assms by (auto intro!: passes_basic passes_bnd passes_call)
  done

lemma applyNWait_deletions:
  "passes anything deletions q (applyNWait E L pod) (\<lambda>_ q'. q' \<subseteq> insert (pod_Name pod) q)"
proof -
  let ?n = "pod_Name pod"
  have wait: "passes anything deletions q' (bnd (poll_acc (lib_try_restart L) (restart_step E replicas hash) p) (\<lambda>_. ret ()))
      (\<lambda>_ q'. q' \<subseteq> insert ?n q)" if "pod_Name p = ?n" "q' \<subseteq> insert ?n q" for p q' replicas hash
    by (rule passes_bnd, rule passes_poll_acc [where I = "\<lambda>p q'. pod_Name p = ?n \<and> q' \<subseteq> insert ?n q"])
       (use that in \<open>auto intro!: passes_weaken [OF restart_step_deletions] passes_basic split: if_splits\<close>)
  have del: "passes anything deletions q
      (bnd (set_state ClusterUpdateState) (\<lambda>_. poll_acc (lib_try_delete L) (delete_step E replicas hash) pod))
      (\<lambda>p q'. pod_Name p = ?n \<and> q' \<subseteq> insert ?n q)" for replicas hash
    unfolding set_state_def set_cluster_def
    by (rule passes_bnd, rule passes_modify, simp,
        rule passes_poll_acc [where I = "\<lambda>p q'. pod_Name p = ?n \<and> q' \<subseteq> insert ?n q"])
       (auto intro!: passes_weaken [OF delete_step_deletions] split: if_splits)
  show ?thesis
    unfolding applyNWait_def
    by (intro passes_bnd_gets passes_if passes_basic(2) passes_bnd passes_basic(1) wait passes_weaken [OF del]) auto
qed

lemma wait_healthy_deletions:
  "passes anything deletions q (wait_healthy E L pod)
     (\<lambda>p q'. pod_Name p = pod_Name pod \<and> marked_healthy p \<and> q' = q)"
proof -
  have step: "passes anything deletions q' (health_step E p)
      (\<lambda>(stop, y) q'. pod_Name y = pod_Name pod \<and> q' = q \<and> stop = marked_healthy y)"
    if "pod_Name p = pod_Name pod" "q' = q" for p q'
    unfolding health_step_def Let_def
    by (rule passes_bnd, rule get_pod_deletions) (use that in \<open>auto intro!: passes_basic\<close>)
  show ?thesis
    unfolding wait_healthy_def
    by (rule passes_handle_fail, rule passes_poll_acc [where I = "\<lambda>p q'. pod_Name p = pod_Name pod \<and> q' = q"])
       (auto intro: passes_weaken [OF step])
qed

text \<open>What is known of the leader found so far, if any: healthy, in the role, and not deleted.\<close>

definition good_leader :: "string set \<Rightarrow> Pod option \<Rightarrow> bool" where
  "good_leader q leader \<longleftrightarrow> (\<forall>l. leader = Some l \<longrightarrow> lget (pod_Labels l) ''role'' = Leader \<and> marked_healthy l \<and>
     (pod_Name l \<noteq> [] \<longrightarrow> pod_Name l \<notin> q))"

lemma disjoint_grow: "r \<subseteq> insert n q \<Longrightarrow> n \<notin> S \<Longrightarrow> q \<inter> S = {} \<Longrightarrow> r \<inter> S = {}"
  by blast

lemma update_followers_deletions:
  "distinct (map pod_Name pods) \<Longrightarrow> q \<inter> pod_Name ` set pods = {} \<Longrightarrow>
   (\<And>l. leader = Some l \<Longrightarrow> pod_Name l \<notin> pod_Name ` set pods \<or> pod_Name l = []) \<Longrightarrow> good_leader q leader \<Longrightarrow>
   passes anything deletions q (update_followers E L pods leader) (\<lambda>leader' q'. good_leader q' leader')"
proof (induction pods arbitrary: q leader)
  case (Cons pod pods)
  show ?case
    unfolding update_followers.simps
    apply (rule passes_bnd, rule passes_weaken [OF wait_healthy_deletions], rule passes_if)
    subgoal for p q'
      by (rule Cons.IH) (use Cons.prems in \<open>auto simp: good_leader_def\<close>)
    subgoal for p q'
      apply (rule passes_bnd, rule passes_weaken [OF applyNWait_deletions])
      subgoal for u q''
        apply (rule Cons.IH)
        subgoal using Cons.prems(1) by simp
        subgoal premises ps
          by (rule disjoint_grow [of q'' "pod_Name pod" q]) (use ps Cons.prems(1,2) in auto)
        subgoal using Cons.prems(3) by auto
        subgoal using Cons.prems(3,4) by (auto simp: good_leader_def)
        done
      done
    done
qed (simp add: passes_basic)

text \<open>
  The leader is replaced last. When the loop over the pods ends with a leader found, that
  pod was healthy and in the role of leader when it was looked at, and none of the pods deleted so
  far is the leader; it is handed back to be replaced after all the others. Pod names are unique in a
  namespace.
\<close>

theorem update_followers_spare_leader:
  assumes "distinct (map pod_Name pods)"
    and "update_followers E L pods None s = (Ok (Some l), t)"
    and "pod_Name l \<noteq> []"
  shows "lget (pod_Labels l) ''role'' = Leader \<and> marked_healthy l \<and>
    (\<exists>es. w_trace t = w_trace s @ es \<and> pod_Name l \<notin> pod_Name ` {p. EvDeletePod p \<in> set es})"
proof -
  have "passes anything deletions {} (update_followers E L pods None) (\<lambda>leader q'. good_leader q' leader)"
    by (rule update_followers_deletions) (use assms(1) in \<open>simp_all add: good_leader_def\<close>)
  from passesD [OF this, of s] assms(2) obtain es q' where
    "w_trace t = w_trace s @ es" "run_monitor deletions {} es = Some q'" "good_leader q' (Some l)" by auto
  with assms(3) show ?thesis
    by (auto simp: good_leader_def dest: deletions_member)
qed

definition leader_pod :: Pod where
  "leader_pod = \<lparr>pod_Name = ''a-mysql-0'', pod_Namespace = ''ns'',
     pod_Labels = [''role'' \<mapsto> ''LEADER'', ''healthy'' \<mapsto> ''yes''], pod_Deleting = False, pod_Phase = PodRunning,
     pod_Conditions = [], pod_ContainerStatuses = []\<rparr>"

theorem update_followers_spare_leader_witness:
  "lget (pod_Labels leader_pod) ''role'' = Leader \<and> marked_healthy leader_pod"
proof -
  fix E :: Env and L :: Lib and s :: SfsState
  let ?E = "E\<lparr>we_err := (\<lambda>_. None), we_pod := (\<lambda>_. leader_pod)\<rparr>"
  let ?L = "L\<lparr>lib_try_healthy := 1\<rparr>"
  obtain t where "update_followers ?E ?L [leader_pod] None s = (Ok (Some leader_pod), t)"
    by (simp add: wait_healthy_def health_step_def get_pod_def query_def call_run record_ev_def marked_healthy_def
        leader_pod_def Leader_def no_leader_def bnd_def handle_def attempt_def go_simps Let_def)
  from update_followers_spare_leader [OF _ this] show ?thesis
    by (simp add: leader_pod_def marked_healthy_def Leader_def)
qed

section \<open>Claims, template and read-only set\<close>

text \<open>What a clean-up of claims may do.\<close>

fun claim_event :: "int \<Rightarrow> event \<Rightarrow> bool" where
  "claim_event replicas (EvListPVC ns sel) = (replicas \<noteq> 0)"
| "claim_event replicas (EvDeletePVC n) = (replicas \<noteq> 0 \<and> (\<exists>k. GetOrdinal n = Ok k \<and> k \<ge> replicas))"
| "claim_event replicas _ = False"

lemma clean_claims_emits: "emits w_trace (claim_event replicas) (clean_claims E replicas sel)"
proof -
  have "claim_event replicas (EvDeletePVC (pvc_Name p))" if "surplus replicas p" "replicas \<noteq> 0" for p
    using that by (auto simp: surplus_def split: res.splits)
  then show ?thesis
    unfolding clean_claims_def list_pvcs_def by (intro emits_intros) simp_all
qed

text \<open>
  C22. Scaling in deletes surplus claims only. Whatever the cluster answers, the step lists claims and
  deletes claims whose ordinal is not below the number of replicas, and does nothing at all
  for a cluster scaled to zero; so the data of a pod that is wanted is never deleted by it.
\<close>

theorem updatePVC_surplus_only:
  "\<exists>es. w_trace (snd (updatePVC E s)) = w_trace s @ es \<and>
     list_all (claim_event (sp_Replicas (mc_Spec (fs_cluster s)))) es"
  using emitsD [OF clean_claims_emits, where s = s]
  by (simp add: updatePVC_def bnd_def gets_def)

lemma fold_put: "fold (\<lambda>p m. m(fst p \<mapsto> snd p)) ps m k = (case map_of (rev ps) k of None \<Rightarrow> m k | Some v \<Rightarrow> Some v)"
  by (induction ps rule: rev_induct) (auto split: option.split)

lemma selector_keys: "GetSelectorLabels c k = Some v \<Longrightarrow> GetLabels c k = Some v \<and> k \<noteq> ''role'' \<and> k \<noteq> ''healthy''"
  by (simp add: GetSelectorLabels_def GetLabels_def Let_def split: if_splits option.split)

text \<open>
  When the pod template matches the selector of its set, which the API server requires: exactly when
  no label of the pod policy gives another value to a key of the selector. The labels of
  the policy are written over the operator's own.
\<close>

theorem template_matches_selector_iff:
  "GetSelectorLabels c \<subseteq>\<^sub>m template_labels c \<longleftrightarrow>
     (\<nexists>k v w. map_of (rev (pp_Labels (sp_PodPolicy (mc_Spec c)))) k = Some v \<and> GetSelectorLabels c k = Some w \<and> v \<noteq> w)"
proof -
  let ?ps = "pp_Labels (sp_PodPolicy (mc_Spec c))"
  have "template_labels c k = (case map_of (rev ?ps) k of None \<Rightarrow> Some w | Some v \<Rightarrow> Some v)"
    if "GetSelectorLabels c k = Some w" for k w
    using selector_keys [OF that] by (auto simp: template_labels_def fold_put split: option.split)
  then show ?thesis
    by (auto simp: map_le_def dom_def split: option.split) (metis option.case_eq_if option.exhaust_sel option.inject)+
qed

lemma update_readonly_trace:
  "\<exists>es. w_trace (snd (update_readonly E L f g s)) = w_trace s @ EvUpdateSfs g # es"
proof -
  let ?s = "s\<lparr>w_trace := w_trace s @ [EvUpdateSfs g]\<rparr>"
  let ?h = "\<lambda>e. bnd (if is_invalid e then ReadOnlyCanExtend E f else ret False) (\<lambda>b.
       if b then handle (bnd (ExtendReadOnlyPVCs E L f) (\<lambda>_. ret g)) (\<lambda>_. fail (GErr ''extend readonly's pvc''))
       else fail (GErr ''update readonly statefulset''))"
  have h: "emits w_trace (\<lambda>_. True) (?h e)" for e
    unfolding ReadOnlyCanExtend_def ExtendReadOnlyPVCs_def get_sfs_def list_pvcs_def expand_claim_def Let_def
      expand_step_def
    by (intro emits_intros TrueI) (auto split: list.split intro: emits_intros)
  show ?thesis
  proof (cases "we_err E (w_trace ?s)")
    case None
    then show ?thesis
      by (simp add: update_readonly_def put_sfs_def query_def call_run bnd_def handle_def go_simps)
  next
    case (Some e)
    then have "update_readonly E L f g s = ?h e ?s"
      by (simp add: update_readonly_def put_sfs_def query_def call_run bnd_def handle_def)
    with emitsD [OF h, of e ?s] show ?thesis by auto
  qed
qed

text \<open>
  Creating the read-only set does not end the step: after a successful create the code goes on to
  update the object it could not read, which has no name.
\<close>

theorem put_readonly_sfs_updates_nameless:
  assumes "we_err E (w_trace s @ [EvGetSfs (sf_Name f)]) = Some (NotFound m)"
    and "we_err E (w_trace s @ [EvGetSfs (sf_Name f), EvCreateSfs f]) = None"
  shows "\<exists>g es. w_trace (snd (put_readonly_sfs E L f s)) =
      w_trace s @ [EvGetSfs (sf_Name f), EvCreateSfs f, EvUpdateSfs g] @ es \<and> sf_Name g = [] \<and> sf_Template g = sf_Template f"
proof -
  let ?g = "with_spec (empty_sfs [] []) f"
  let ?t = "s\<lparr>w_trace := w_trace s @ [EvGetSfs (sf_Name f), EvCreateSfs f]\<rparr>"
  have "put_readonly_sfs E L f s = update_readonly E L f ?g ?t"
    using assms
    by (simp add: put_readonly_sfs_def get_sfs_def query_def call_run is_not_found_def bnd_def attempt_def handle_def go_simps)
  moreover obtain es where "w_trace (snd (update_readonly E L f ?g ?t)) = w_trace ?t @ EvUpdateSfs ?g # es"
    using update_readonly_trace by blast
  ultimately show ?thesis by (auto simp: with_spec_def empty_sfs_def)
qed

theorem put_readonly_sfs_updates_nameless_witness:
  "\<forall>E L (s :: SfsState). \<exists>g es. w_trace (snd (put_readonly_sfs (E\<lparr>we_err := (\<lambda>t. if length t = 1 then Some (NotFound ''absent'') else None)\<rparr>) L
      (empty_sfs ''ro'' ''ns'') (s\<lparr>w_trace := []\<rparr>))) =
     [EvGetSfs ''ro'', EvCreateSfs (empty_sfs ''ro'' ''ns''), EvUpdateSfs g] @ es \<and> sf_Name g = []"
proof (intro allI)
  fix E :: Env and L and s :: SfsState
  let ?f = "empty_sfs ''ro'' ''ns''"
  let ?E = "E\<lparr>we_err := (\<lambda>t. if length t = 1 then Some (NotFound ''absent'') else None)\<rparr>"
  let ?s = "s\<lparr>w_trace := []\<rparr>"
  have name: "sf_Name ?f = ''ro''" by (simp add: empty_sfs_def)
  have "we_err ?E (w_trace ?s @ [EvGetSfs (sf_Name ?f)]) = Some (NotFound ''absent'')"
    and "we_err ?E (w_trace ?s @ [EvGetSfs (sf_Name ?f), EvCreateSfs ?f]) = None" by simp_all
  from put_readonly_sfs_updates_nameless [OF this, of L]
  show "\<exists>g es. w_trace (snd (put_readonly_sfs ?E L ?f ?s)) = [EvGetSfs ''ro'', EvCreateSfs ?f, EvUpdateSfs g] @ es \<and> sf_Name g = []"
    by (auto simp: name)
qed

end
