(* ===== verification/Webhook.thy ===== *)
theory Webhook
  imports Cluster
begin

text \<open>
  The validating webhook of \<open>MysqlCluster\<close> (\<open>api/v1alpha1/mysqlcluster_webhook.go\<close>). Quantities and
  semantic versions are parsed by libraries and the config map is looked up at the API server, so these are
  parameters: \<open>wl_quantity\<close>, \<open>wl_semver\<close> (\<open>None\<close> for an error, after which the code goes on with
  the zero version) and \<open>wl_config_map\<close> (the error of the lookup, if any).
\<close>

record WebhookLib =
  wl_quantity :: "string \<Rightarrow> int res"
  wl_semver :: "string \<Rightarrow> (nat \<times> nat \<times> nat) option"
  wl_config_map :: "string \<Rightarrow> string \<Rightarrow> gerr option"

definition forbidden :: "string \<Rightarrow> unit res" where
  "forbidden s = Fail (ApiErr (''forbidden: '' @ s))"

text \<open>
  \<open>net.ParseIP\<close> of a string without a colon: four decimal octets, without leading zeros.
\<close>

definition octet :: "string \<Rightarrow> bool" where
  "octet p \<longleftrightarrow> p \<noteq> [] \<and> list_all is_digit p \<and> digits_val p \<le> 255 \<and> (length p > 1 \<longrightarrow> hd p \<noteq> CHR ''0'')"

definition is_ipv4 :: "string \<Rightarrow> bool" where
  "is_ipv4 s \<longleftrightarrow> (let ps = split_on (CHR ''.'') s in length ps = 4 \<and> list_all octet ps)"

definition validateNFSServerAddress :: "MysqlCluster \<Rightarrow> unit res" where
  "validateNFSServerAddress r =
     (let addr = sp_NFSServerAddress (mc_Spec r);
          ipStr = split_on (CHR '':'') addr
      in if length addr \<noteq> 0 \<and> length ipStr = 0 then forbidden ''nfsServerAddress should be set as IP:/PATH or IP''
         else let isIP = is_ipv4 (ipStr ! 0) in
           if length addr \<noteq> 0 \<and> \<not> isIP then forbidden ''nfsServerAddress should be set as  IP:/PATH or IP''
           else if length (sp_BackupSchedule (mc_Spec r)) \<noteq> 0 \<and> length (sp_BackupSecretName (mc_Spec r)) = 0 \<and> \<not> isIP
             then forbidden ''backupSchedule is set without any backupSecretName or nfsServerAddress''
           else Ok ())"

definition validateVolumeSize :: "WebhookLib \<Rightarrow> MysqlCluster \<Rightarrow> MysqlCluster \<Rightarrow> unit res" where
  "validateVolumeSize L r old =
     bind_res (wl_quantity L (pe_Size (sp_Persistence (mc_Spec old)))) (\<lambda>oldStorageSize.
     bind_res (wl_quantity L (pe_Size (sp_Persistence (mc_Spec r)))) (\<lambda>newStorageSize.
     if oldStorageSize > newStorageSize then forbidden ''volesize can not be decreased'' else Ok ()))"

definition validateLowTableCase :: "MysqlCluster \<Rightarrow> MysqlCluster \<Rightarrow> unit res" where
  "validateLowTableCase r old =
     (let conf = (\<lambda>c. lget (mo_MysqlConf (sp_MysqlOpts (mc_Spec c))) ''lower_case_table_names'') in
      if str_contains (mo_Image (sp_MysqlOpts (mc_Spec r))) ''8.0'' \<and> conf old \<noteq> conf r
      then forbidden ''lower_case_table_names cannot be changed in MySQL8.0+'' else Ok ())"

definition image_version :: "WebhookLib \<Rightarrow> string \<Rightarrow> nat \<times> nat \<times> nat" where
  "image_version L img = (case wl_semver L (last (split_on (CHR '':'') img)) of Some v \<Rightarrow> v | None \<Rightarrow> (0, 0, 0))"

definition validateMysqlVersionAndImage :: "WebhookLib \<Rightarrow> MysqlCluster \<Rightarrow> MysqlCluster \<Rightarrow> unit res" where
  "validateMysqlVersionAndImage L r old =
     (let img = mo_Image (sp_MysqlOpts (mc_Spec r)); oldImage = mo_Image (sp_MysqlOpts (mc_Spec old));
          version = sp_MysqlVersion (mc_Spec r)
      in if img \<noteq> [] \<and> version \<noteq> [] then
           if \<not> str_contains img version then forbidden ''spec.MysqlOpts.Image and spec.MysqlVersion are conflict''
           else if img \<noteq> oldImage then
             (case (image_version L img, image_version L oldImage) of ((major, minor, patch), (major', minor', patch')) \<Rightarrow>
              if major < major' \<or> (major = major' \<and> minor < minor') \<or> (major = major' \<and> minor = minor' \<and> patch < patch')
              then forbidden ''spec.MysqlOpts.Image cannot downgrade''
              else if major' = 5 \<and> major = 8 then forbidden ''spec.MysqlOpts.Image do not support upgrade from 5 to 8''
              else Ok ())
           else Ok ()
         else Ok ())"

definition validateMysqlVersion :: "MysqlCluster \<Rightarrow> unit res" where
  "validateMysqlVersion r =
     (let version = sp_MysqlVersion (mc_Spec r); img = pp_SidecarImage (sp_PodPolicy (mc_Spec r)) in
      if version = ''5.7'' then
        (if \<not> str_contains img ''57'' then forbidden (''spec.MysqlVersion is 5.7, but spec.PodPolicy.SidecarImage is not 5.7, is '' @ img) else Ok ())
      else if version = ''8.0'' then
        (if \<not> str_contains img ''80'' then forbidden (''spec.MysqlVersion is 8.0, but spec.PodPolicy.SidecarImage is not 8.0, is '' @ img) else Ok ())
      else forbidden ''spec.MysqlVersion is not provided'')"

definition validBothS3NFS :: "MysqlCluster \<Rightarrow> unit res" where
  "validBothS3NFS r =
     (if sp_BothS3NFS (mc_Spec r) \<noteq> None \<and>
         (length (sp_NFSServerAddress (mc_Spec r)) = 0 \<or> length (sp_BackupSecretName (mc_Spec r)) = 0)
      then forbidden ''if BothS3NFS is set, backupSchedule/backupSecret/nfsAddress should not empty'' else Ok ())"

definition ValidMySQLTemplate :: "WebhookLib \<Rightarrow> MysqlCluster \<Rightarrow> unit res" where
  "ValidMySQLTemplate L r =
     (let tmplName = mo_MysqlConfTemplate (sp_MysqlOpts (mc_Spec r)) in
      if length tmplName \<noteq> 0 then
        (case wl_config_map L tmplName (mc_Namespace r) of Some e \<Rightarrow> forbidden ''configmap is not exist!'' | None \<Rightarrow> Ok ())
      else Ok ())"

definition ValidataRo :: "MysqlCluster \<Rightarrow> unit res" where
  "ValidataRo r =
     (let err = forbidden ''spec.readonly's hostname is not exist in the cluster'' in
      case sp_ReadOnlys (mc_Spec r) of
        None \<Rightarrow> Ok ()
      | Some ro \<Rightarrow>
          if length (ro_Host ro) = 0 then Ok ()
          else let p = mc_Name r @ ''-mysql-'' in
            if \<not> has_prefix (ro_Host ro) p then err
            else (case atoi (drop (length p) (ro_Host ro)) of
                Ok num \<Rightarrow> if num \<ge> sp_Replicas (mc_Spec r) \<or> num < 0 then err else Ok ()
              | _ \<Rightarrow> err))"

definition ValidateCreate :: "WebhookLib \<Rightarrow> MysqlCluster \<Rightarrow> unit res" where
  "ValidateCreate L r =
     bind_res (validateNFSServerAddress r) (\<lambda>_. bind_res (validBothS3NFS r) (\<lambda>_.
     bind_res (validateMysqlVersionAndImage L r r) (\<lambda>_. bind_res (ValidMySQLTemplate L r) (\<lambda>_. validateMysqlVersion r))))"

definition ValidateUpdate :: "WebhookLib \<Rightarrow> MysqlCluster \<Rightarrow> MysqlCluster \<Rightarrow> unit res" where
  "ValidateUpdate L r old =
     bind_res (validateVolumeSize L r old) (\<lambda>_. bind_res (validateLowTableCase r old) (\<lambda>_.
     bind_res (validBothS3NFS r) (\<lambda>_. bind_res (validateMysqlVersionAndImage L r old) (\<lambda>_.
     bind_res (ValidMySQLTemplate L r) (\<lambda>_. bind_res (validateMysqlVersion r) (\<lambda>_.
     bind_res (validateNFSServerAddress r) (\<lambda>_. ValidataRo r)))))))"

section \<open>What is accepted\<close>

lemma forbidden_simps [simp]: "forbidden s \<noteq> Ok ()" "\<not> is_panic (forbidden s)"
  by (simp_all add: forbidden_def)

text \<open>The order of versions, the first differing component deciding.\<close>

definition version_le :: "nat \<times> nat \<times> nat \<Rightarrow> nat \<times> nat \<times> nat \<Rightarrow> bool" where
  "version_le v w = (case (v, w) of ((a, b, c), (a', b', c')) \<Rightarrow> a < a' \<or> a = a' \<and> (b < b' \<or> b = b' \<and> c \<le> c'))"

lemma volume_ok:
  "validateVolumeSize L r old = Ok () \<longleftrightarrow> (\<exists>a b. wl_quantity L (pe_Size (sp_Persistence (mc_Spec old))) = Ok a \<and>
     wl_quantity L (pe_Size (sp_Persistence (mc_Spec r))) = Ok b \<and> a \<le> b)"
  by (cases "wl_quantity L (pe_Size (sp_Persistence (mc_Spec old)))"; cases "wl_quantity L (pe_Size (sp_Persistence (mc_Spec r)))")
     (auto simp: validateVolumeSize_def)

lemma table_case_ok:
  "validateLowTableCase r old = Ok () \<longleftrightarrow> (str_contains (mo_Image (sp_MysqlOpts (mc_Spec r))) ''8.0'' \<longrightarrow>
     lget (mo_MysqlConf (sp_MysqlOpts (mc_Spec old))) ''lower_case_table_names'' =
     lget (mo_MysqlConf (sp_MysqlOpts (mc_Spec r))) ''lower_case_table_names'')"
  by (simp add: validateLowTableCase_def Let_def)

lemma version_image_ok:
  "validateMysqlVersionAndImage L r old = Ok () \<longleftrightarrow>
     (let img = mo_Image (sp_MysqlOpts (mc_Spec r)); old_img = mo_Image (sp_MysqlOpts (mc_Spec old)) in
      img \<noteq> [] \<and> sp_MysqlVersion (mc_Spec r) \<noteq> [] \<longrightarrow> str_contains img (sp_MysqlVersion (mc_Spec r)) \<and>
        (img \<noteq> old_img \<longrightarrow> version_le (image_version L old_img) (image_version L img) \<and>
          \<not> (fst (image_version L old_img) = 5 \<and> fst (image_version L img) = 8)))"
  by (auto simp: validateMysqlVersionAndImage_def Let_def version_le_def split: prod.split)

lemma mysql_version_ok:
  "validateMysqlVersion r = Ok () \<longleftrightarrow>
     sp_MysqlVersion (mc_Spec r) = ''5.7'' \<and> str_contains (pp_SidecarImage (sp_PodPolicy (mc_Spec r))) ''57'' \<or>
     sp_MysqlVersion (mc_Spec r) = ''8.0'' \<and> str_contains (pp_SidecarImage (sp_PodPolicy (mc_Spec r))) ''80''"
  by (simp add: validateMysqlVersion_def Let_def)

lemma nfs_ok:
  "validateNFSServerAddress r = Ok () \<longleftrightarrow>
     (sp_NFSServerAddress (mc_Spec r) \<noteq> [] \<longrightarrow> is_ipv4 (hd (split_on (CHR '':'') (sp_NFSServerAddress (mc_Spec r))))) \<and>
     (sp_BackupSchedule (mc_Spec r) \<noteq> [] \<longrightarrow> sp_BackupSecretName (mc_Spec r) \<noteq> [] \<or>
        is_ipv4 (hd (split_on (CHR '':'') (sp_NFSServerAddress (mc_Spec r)))))"
  by (auto simp: validateNFSServerAddress_def Let_def hd_conv_nth)

lemma both_ok:
  "validBothS3NFS r = Ok () \<longleftrightarrow> (sp_BothS3NFS (mc_Spec r) \<noteq> None \<longrightarrow>
     sp_NFSServerAddress (mc_Spec r) \<noteq> [] \<and> sp_BackupSecretName (mc_Spec r) \<noteq> [])"
  by (auto simp: validBothS3NFS_def)

lemmas webhook_ok = volume_ok table_case_ok version_image_ok mysql_version_ok nfs_ok both_ok

lemma update_ok:
  "ValidateUpdate L r old = Ok () \<longleftrightarrow> validateVolumeSize L r old = Ok () \<and> validateLowTableCase r old = Ok () \<and>
     validBothS3NFS r = Ok () \<and> validateMysqlVersionAndImage L r old = Ok () \<and> ValidMySQLTemplate L r = Ok () \<and>
     validateMysqlVersion r = Ok () \<and> validateNFSServerAddress r = Ok () \<and> ValidataRo r = Ok ()"
  by (auto simp: ValidateUpdate_def bind_res_Ok)

text \<open>
  C26. What an accepted update guarantees: the data volume does not shrink; the MySQL image does not
  go back in version and does not cross from 5 to 8; the table case setting of MySQL 8.0 is
  kept; the version is 5.7 or 8.0 and names the sidecar image; an NFS address starts with an IPv4 address. (An image
  tag that is not a semantic version counts as version zero, so from such an old image every step is accepted.)
\<close>

theorem ValidateUpdate_safe:
  assumes "ValidateUpdate L r old = Ok ()"
    and "img = mo_Image (sp_MysqlOpts (mc_Spec r))" "old_img = mo_Image (sp_MysqlOpts (mc_Spec old))"
  shows "(\<exists>a b. wl_quantity L (pe_Size (sp_Persistence (mc_Spec old))) = Ok a \<and>
        wl_quantity L (pe_Size (sp_Persistence (mc_Spec r))) = Ok b \<and> a \<le> b) \<and>
     (img \<noteq> [] \<longrightarrow> version_le (image_version L old_img) (image_version L img) \<and>
        (img \<noteq> old_img \<longrightarrow> \<not> (fst (image_version L old_img) = 5 \<and> fst (image_version L img) = 8))) \<and>
     (str_contains img ''8.0'' \<longrightarrow> lget (mo_MysqlConf (sp_MysqlOpts (mc_Spec old))) ''lower_case_table_names'' =
         lget (mo_MysqlConf (sp_MysqlOpts (mc_Spec r))) ''lower_case_table_names'') \<and>
     (sp_MysqlVersion (mc_Spec r) = ''5.7'' \<or> sp_MysqlVersion (mc_Spec r) = ''8.0'') \<and>
     (sp_NFSServerAddress (mc_Spec r) \<noteq> [] \<longrightarrow> is_ipv4 (hd (split_on (CHR '':'') (sp_NFSServerAddress (mc_Spec r)))))"
proof -
  have refl: "version_le v v" for v by (simp add: version_le_def split: prod.split)
  from assms(1) have ok: "validateVolumeSize L r old = Ok ()" "validateLowTableCase r old = Ok ()"
    "validateMysqlVersionAndImage L r old = Ok ()" "validateMysqlVersion r = Ok ()" "validateNFSServerAddress r = Ok ()"
    by (simp_all add: update_ok)
  show ?thesis
    using ok refl [of "image_version L img"] unfolding webhook_ok assms(2,3) Let_def by auto
qed

text \<open>The cluster with a read-only section naming the pod \<open>s\<close> of its set.\<close>

definition naming :: "MysqlCluster \<Rightarrow> ReadOnlyType \<Rightarrow> string \<Rightarrow> MysqlCluster" where
  "naming r ro s = r\<lparr>mc_Spec := (mc_Spec r)\<lparr>sp_ReadOnlys := Some (ro\<lparr>ro_Host := mc_Name r @ ''-mysql-'' @ s\<rparr>)\<rparr>\<rparr>"

lemma ValidataRo_naming:
  "ValidataRo (naming r ro s) = Ok () \<longleftrightarrow> (\<exists>n. atoi s = Ok n \<and> 0 \<le> n \<and> n < sp_Replicas (mc_Spec r))"
proof -
  have "has_prefix (mc_Name r @ ''-mysql-'' @ s) (mc_Name r @ ''-mysql-'')"
    by (simp add: has_prefix_def)
  then show ?thesis
    by (cases "atoi s") (auto simp: ValidataRo_def naming_def Let_def)
qed

text \<open>
  Which host a read-only section may name on an update: the pod of the set with an ordinal below the replicas,
  and no other ordinal; but also a name that no pod has, since the number after the prefix may
  have a sign and leading zeros.
\<close>

theorem ValidataRo_accepts:
  assumes "i < 2 ^ 63" and "0 < sp_Replicas (mc_Spec r)"
  shows "(ValidataRo (naming r ro (nat_str i)) = Ok () \<longleftrightarrow> int i < sp_Replicas (mc_Spec r)) \<and>
     ValidataRo (naming r ro ''+00'') = Ok () \<and> (\<nexists>k. nat_str k = ''+00'')"
proof -
  have "atoi ''+00'' = Ok 0" by code_simp
  moreover have "nat_str k \<noteq> ''+00''" for k
    using nat_str_chars [of "CHR ''+''" k] not_digit_chars by auto
  ultimately show ?thesis
    using assms by (auto simp: ValidataRo_naming atoi_nat_str)
qed

section \<open>Witnesses\<close>

definition plain_lib :: WebhookLib where
  "plain_lib = \<lparr>wl_quantity = (\<lambda>s. Ok (int (length s))), wl_semver = (\<lambda>s. if s = ''5.7.34'' then Some (5, 7, 34) else Some (5, 7, 35)),
     wl_config_map = (\<lambda>_ _. None)\<rparr>"

text \<open>A cluster on MySQL 5.7 with the image tag \<open>t\<close> and an NFS server.\<close>

definition on_57 :: "MysqlCluster \<Rightarrow> string \<Rightarrow> MysqlCluster" where
  "on_57 r t = r\<lparr>mc_Spec := (mc_Spec r)\<lparr>
     sp_MysqlOpts := (sp_MysqlOpts (mc_Spec r))\<lparr>mo_Image := ''p:'' @ t, mo_MysqlConfTemplate := [], mo_MysqlConf := Map.empty\<rparr>,
     sp_MysqlVersion := ''5.7'', sp_PodPolicy := (sp_PodPolicy (mc_Spec r))\<lparr>pp_SidecarImage := ''s57''\<rparr>,
     sp_NFSServerAddress := ''10.0.0.1:/b'', sp_BackupSchedule := [], sp_BothS3NFS := None, sp_ReadOnlys := None\<rparr>\<rparr>"

theorem ValidateUpdate_safe_witness:
  "\<forall>r. ValidateUpdate plain_lib (on_57 r ''5.7.35'') (on_57 r ''5.7.34'') = Ok () \<and>
     version_le (image_version plain_lib ''p:5.7.34'') (image_version plain_lib ''p:5.7.35'')"
proof
  fix r
  have ok: "ValidateUpdate plain_lib (on_57 r ''5.7.35'') (on_57 r ''5.7.34'') = Ok ()"
    unfolding update_ok webhook_ok
    by (simp add: on_57_def plain_lib_def image_version_def version_le_def is_ipv4_def octet_def is_digit_def
        digits_val_def digit_val_def ValidMySQLTemplate_def ValidataRo_def Let_def)
  moreover from ValidateUpdate_safe [OF ok refl refl]
  have "version_le (image_version plain_lib ''p:5.7.34'') (image_version plain_lib ''p:5.7.35'')"
    by (simp add: on_57_def)
  ultimately show "ValidateUpdate plain_lib (on_57 r ''5.7.35'') (on_57 r ''5.7.34'') = Ok () \<and>
     version_le (image_version plain_lib ''p:5.7.34'') (image_version plain_lib ''p:5.7.35'')" by simp
qed

theorem ValidataRo_accepts_witness:
  "\<forall>r ro. ValidataRo (naming (r\<lparr>mc_Spec := (mc_Spec r)\<lparr>sp_Replicas := 3\<rparr>\<rparr>) ro (nat_str 2)) = Ok ()"
  using ValidataRo_accepts [of 2] by auto

end
