(* ===== verification/BackupCron.thy ===== *)
theory BackupCron
  imports StatusLaws "HOL-Library.Multiset"
begin

text \<open>
  Scheduled backups of v1alpha1: the job the operator's own cron runs (\<open>backup/cronbackup.go\<close>) and the
  reconciler that keeps the cron's entries (\<open>controllers/backupcron_controller.go\<close>).

  The cron is a library: its entries are an answer of the world, and \<open>Remove\<close> and \<open>Schedule\<close> are calls. \<open>parse\<close>
  is \<open>cron.Parse\<close>. The job under test is the entry that holds it; listing, creating and deleting backups
  are calls of the API server.
\<close>

section \<open>The cron job\<close>

definition list_backups :: "Env \<Rightarrow> ctl_event \<Rightarrow> ('z World_scheme, Backup list) go" where
  "list_backups E ev = query E (EvCtl ev) (\<lambda>t. ca_backups (we_ctl E t))"

definition recurrentBackupLabels :: "CronEntry \<Rightarrow> smap" where
  "recurrentBackupLabels j = [''recurrent'' \<mapsto> ''true'', ''cluster'' \<mapsto> ce_ClusterName j]"

text \<open>The selector is built and not passed to the list call.\<close>

definition scheduledBackupsRunningCount :: "Env \<Rightarrow> ('z World_scheme, nat) go" where
  "scheduledBackupsRunningCount E =
     bnd (attempt (list_backups E EvListAllBackups)) (\<lambda>r. case r of
         Inl _ \<Rightarrow> ret 0
       | Inr bs \<Rightarrow> ret (length (filter (\<lambda>b. \<not> bst_Completed (b_Status b)) bs)))"

definition backupNeedRun :: "Env \<Rightarrow> CronEntry \<Rightarrow> ('z World_scheme, bool) go" where
  "backupNeedRun E j =
     bnd (attempt (get_cluster E (ce_Namespace j, ce_ClusterName j))) (\<lambda>r. case r of
         Inl _ \<Rightarrow> ret False
       | Inr c \<Rightarrow> ret (sp_Replicas (mc_Spec c) \<noteq> 0))"

text \<open>The deletions go on after an error.\<close>

definition delete_backup :: "Env \<Rightarrow> Backup \<Rightarrow> ('z World_scheme, unit) go" where
  "delete_backup E b = bnd (attempt (call E (EvCtl (EvDeleteBackup (b_Name b))))) (\<lambda>_. ret ())"

definition backupGC :: "Env \<Rightarrow> CronEntry \<Rightarrow> int \<Rightarrow> ('z World_scheme, unit) go" where
  "backupGC E j limit =
     bnd (attempt (list_backups E (EvListBackupsBy (ce_Namespace j) (recurrentBackupLabels j)))) (\<lambda>r. case r of
         Inl _ \<Rightarrow> ret ()
       | Inr bs \<Rightarrow> each (delete_backup E) (drop (nat limit) (sort_desc bs)))"

text \<open>The layout \<open>2006-01-02t15-04-05\<close>.\<close>

definition name_time :: "go_time \<Rightarrow> string" where
  "name_time t = two_digits (t_year t div 100) @ two_digits (t_year t) @ ''-'' @ two_digits (t_month t) @ ''-'' @
     two_digits (t_day t) @ ''t'' @ two_digits (t_hour t) @ ''-'' @ two_digits (t_minute t) @ ''-'' @ two_digits (t_second t)"

definition createBackup :: "Env \<Rightarrow> CronEntry \<Rightarrow> ('z World_scheme, unit) go" where
  "createBackup E j =
     bnd (gets (\<lambda>s. ca_clock (we_ctl E (w_trace s)))) (\<lambda>clock.
     call E (EvCtl (EvCreateBackup
      \<lparr>b_Name = ce_ClusterName j @ ''-'' @ ce_BackupType j @ ''-'' @ name_time clock,
       b_CreationTimestamp = None,
       b_Spec = \<lparr>bk_Image = ce_Image j, bk_HostName = ce_ClusterName j @ ''-mysql-0'',
         bk_NFSServerAddress = ce_NFSServerAddress j, bk_ClusterName = ce_ClusterName j, bk_HistoryLimit = None\<rparr>,
       b_Status = \<lparr>bst_Completed = False, bst_BackupName = [], bst_BackupDate = [], bst_BackupType = [], bst_Gtid = [],
         bst_Conditions = []\<rparr>,
       b_Namespace = ce_Namespace j, b_Labels = recurrentBackupLabels j\<rparr>)))"

text \<open>\<open>Run\<close>; the deferred collection runs however the job ends. The count is asked for once more to log it.\<close>

definition run_backup :: "Env \<Rightarrow> CronEntry \<Rightarrow> ('z World_scheme, unit) go" where
  "run_backup E j =
     bnd (backupNeedRun E j) (\<lambda>need.
     if \<not> need then ret ()
     else bnd (scheduledBackupsRunningCount E) (\<lambda>n.
       if n > 0 then bnd (scheduledBackupsRunningCount E) (\<lambda>_. ret ())
       else bnd (attempt (createBackup E j)) (\<lambda>_. ret ())))"

definition CronJob_Run :: "Env \<Rightarrow> CronEntry \<Rightarrow> ('z World_scheme, unit) go" where
  "CronJob_Run E j =
     bnd (run_backup E j) (\<lambda>_. case ce_BackupScheduleJobsHistoryLimit j of None \<Rightarrow> ret () | Some limit \<Rightarrow> backupGC E j limit)"

section \<open>The reconciler\<close>

definition cron_remove :: "Env \<Rightarrow> string \<Rightarrow> ('z World_scheme, unit) go" where
  "cron_remove E name = call E (EvCtl (EvCronRemove name))"

definition new_entry :: "string \<times> string \<Rightarrow> MysqlCluster \<Rightarrow> opaque \<Rightarrow> string \<Rightarrow> CronEntry" where
  "new_entry env c schedule ty =
     \<lparr>ce_Name = mc_Name c @ ty, ce_Schedule = schedule, ce_ClusterName = mc_Name c, ce_Namespace = mc_Namespace c,
      ce_BackupScheduleJobsHistoryLimit = sp_BackupScheduleJobsHistoryLimit (mc_Spec c),
      ce_Image = GetImage (fst env) (snd env) (pp_SidecarImage (sp_PodPolicy (mc_Spec c))),
      ce_NFSServerAddress = (if ty \<noteq> ''s3'' then sp_NFSServerAddress (mc_Spec c) else []), ce_BackupType = ty\<rparr>"

definition updateClusterSchedule ::
  "Env \<Rightarrow> string \<times> string \<Rightarrow> MysqlCluster \<Rightarrow> opaque \<Rightarrow> string \<Rightarrow> ('z World_scheme, unit) go" where
  "updateClusterSchedule E env c schedule ty =
     bnd (gets (\<lambda>s. ca_entries (we_ctl E (w_trace s)))) (\<lambda>entries.
     let register = record_ev (EvCtl (EvCronSchedule (new_entry env c schedule ty)));
         image_now = GetImage (fst env) (snd env) (pp_SidecarImage (sp_PodPolicy (mc_Spec c)))
     in case find (\<lambda>j. ce_ClusterName j = mc_Name c \<and> ce_Namespace j = mc_Namespace c \<and> ce_BackupType j = ty) entries of
          None \<Rightarrow> register
        | Some j \<Rightarrow>
            if ce_Schedule j \<noteq> schedule \<or> ce_NFSServerAddress j \<noteq> sp_NFSServerAddress (mc_Spec c)
            then bnd (cron_remove E (mc_Name c @ ty)) (\<lambda>_. register)
            else if ce_Image j \<noteq> image_now then record_ev (EvCtl (EvCronImage (ce_Name j) image_now)) else ret ())"

definition ClearBothS3NFS :: "Env \<Rightarrow> MysqlCluster \<Rightarrow> ('z World_scheme, unit) go" where
  "ClearBothS3NFS E c =
     bnd (gets (\<lambda>s. ca_entries (we_ctl E (w_trace s)))) (\<lambda>entries.
     case find (\<lambda>j. ce_ClusterName j = mc_Name c \<and> ce_Namespace j = mc_Namespace c \<and>
         (ce_BackupType j = ''nfs'' \<or> ce_BackupType j = ''s3'')) entries of
       None \<Rightarrow> ret () | Some j \<Rightarrow> cron_remove E (mc_Name c @ ce_BackupType j))"

definition forget :: "('s, unit) go \<Rightarrow> ('s, unit) go" where
  "forget m = bnd (attempt m) (\<lambda>_. ret ())"

definition register_schedule :: "Env \<Rightarrow> string \<times> string \<Rightarrow> (string \<Rightarrow> opaque res) \<Rightarrow> MysqlCluster \<Rightarrow> string \<Rightarrow> string \<Rightarrow> ('z World_scheme, unit) go" where
  "register_schedule E env parse c sche ty =
     (case parse sche of
        Ok schedule \<Rightarrow> updateClusterSchedule E env c schedule ty
      | Fail e \<Rightarrow> fail (GErr (''failed to parse schedule: '' @ err_text e))
      | Panic p \<Rightarrow> panic p)"

definition clear_wrapped :: "Env \<Rightarrow> MysqlCluster \<Rightarrow> ('z World_scheme, unit) go" where
  "clear_wrapped E c = handle (ClearBothS3NFS E c) (\<lambda>e. fail (GErr (''failed to clear cronjob: '' @ err_text e)))"

text \<open>On a cluster that is not found the instance is still the empty object, whose name is removed.\<close>

definition BackupCron_Reconcile ::
  "Env \<Rightarrow> string \<times> string \<Rightarrow> (string \<Rightarrow> opaque res) \<Rightarrow> string \<times> string \<Rightarrow> ('z World_scheme, unit) go" where
  "BackupCron_Reconcile E env parse key =
     bnd (attempt (get_cluster E key)) (\<lambda>r. case r of
       Inl e \<Rightarrow> (case e of NotFound _ \<Rightarrow> forget (cron_remove E []) | _ \<Rightarrow> fail e)
     | Inr c \<Rightarrow>
       bnd (lift (ValidateSpec c)) (\<lambda>_.
       bnd (if sp_Replicas (mc_Spec c) = 0
            then bnd (forget (cron_remove E (mc_Name c @ ''auto''))) (\<lambda>_. clear_wrapped E c) else ret ()) (\<lambda>_.
       if length (sp_BackupSchedule (mc_Spec c)) = 0 \<and> sp_BothS3NFS (mc_Spec c) = None
       then forget (cron_remove E (mc_Name c @ ''auto''))
       else (case sp_BothS3NFS (mc_Spec c) of
           Some both \<Rightarrow> each (\<lambda>(sche, ty). register_schedule E env parse c sche ty)
             [(bs_NFSSchedule both, ''nfs''), (bs_S3Schedule both, ''s3'')]
         | None \<Rightarrow> bnd (clear_wrapped E c) (\<lambda>_. register_schedule E env parse c (sp_BackupSchedule (mc_Spec c)) ''auto'')))))"

section \<open>What a run does\<close>

fun creates :: "event \<Rightarrow> bool" where
  "creates (EvCtl (EvCreateBackup b)) = True"
| "creates _ = False"

lemma emits_forget [emits_intros]: "emits tr A m \<Longrightarrow> emits tr A (forget m)"
  unfolding forget_def by (intro emits_intros)

lemma count_emits: "A (EvCtl EvListAllBackups) \<Longrightarrow> emits w_trace A (scheduledBackupsRunningCount E)"
  unfolding scheduledBackupsRunningCount_def list_backups_def by (intro emits_intros)

lemma count_busy:
  assumes "we_err E (w_trace s @ [EvCtl EvListAllBackups]) = None"
    and "\<exists>b \<in> set (ca_backups (we_ctl E (w_trace s @ [EvCtl EvListAllBackups]))). \<not> bst_Completed (b_Status b)"
  shows "\<exists>n. scheduledBackupsRunningCount E s = (Ok n, s\<lparr>w_trace := w_trace s @ [EvCtl EvListAllBackups]\<rparr>) \<and> n > 0"
  using assms
  by (auto simp: scheduledBackupsRunningCount_def list_backups_def query_def call_run bnd_def attempt_def gets_def ret_def
      filter_empty_conv simp flip: length_greater_0_conv)

lemma gc_emits:
  "A (EvCtl (EvListBackupsBy (ce_Namespace j) (recurrentBackupLabels j))) \<Longrightarrow> (\<And>n. A (EvCtl (EvDeleteBackup n))) \<Longrightarrow>
   emits w_trace A (backupGC E j limit)"
  unfolding backupGC_def list_backups_def delete_backup_def by (intro emits_intros)

text \<open>
  One unfinished backup anywhere, of any cluster in any namespace, keeps a scheduled backup from being created:
  the run counts all backups there are, since the selector it builds for its own is not used.
\<close>

theorem CronJob_Run_blocked:
  assumes "\<And>t. we_err E (t @ [EvCtl EvListAllBackups]) = None"
    and "\<And>t. \<exists>b \<in> set (ca_backups (we_ctl E (t @ [EvCtl EvListAllBackups]))). \<not> bst_Completed (b_Status b)"
  shows "\<exists>es. w_trace (snd (CronJob_Run E j s)) = w_trace s @ es \<and> list_all (\<lambda>e. \<not> creates e) es"
proof -
  have busy: "bnd (scheduledBackupsRunningCount E) (\<lambda>n. if n > 0 then m else m') = bnd (scheduledBackupsRunningCount E) (\<lambda>_. m)"
    for m m' :: "('z World_scheme, unit) go"
  proof
    fix x :: "'z World_scheme"
    obtain n where "scheduledBackupsRunningCount E x = (Ok n, x\<lparr>w_trace := w_trace x @ [EvCtl EvListAllBackups]\<rparr>)" "n > 0"
      using count_busy [OF assms] by blast
    then show "bnd (scheduledBackupsRunningCount E) (\<lambda>n. if n > 0 then m else m') x = bnd (scheduledBackupsRunningCount E) (\<lambda>_. m) x"
      by (simp add: bnd_def)
  qed
  have "emits w_trace (\<lambda>e. \<not> creates e) (CronJob_Run E j)"
    unfolding CronJob_Run_def run_backup_def busy backupNeedRun_def
    by (intro emits_intros count_emits gc_emits) simp_all
  then show ?thesis by (rule emitsD)
qed

lemma mset_insert_desc: "mset (insert_desc b cs) = add_mset b (mset cs)"
  by (induction cs) auto

lemma mset_sort_desc: "mset (sort_desc bs) = mset bs"
  by (induction bs) (simp_all add: sort_desc_def mset_insert_desc)

lemma each_delete_trace:
  "fst (each (delete_backup E) bs s) = Ok () \<and>
   w_trace (snd (each (delete_backup E) bs s)) = w_trace s @ map (\<lambda>b. EvCtl (EvDeleteBackup (b_Name b))) bs"
proof (induction bs arbitrary: s)
  case (Cons b bs)
  let ?t = "s\<lparr>w_trace := w_trace s @ [EvCtl (EvDeleteBackup (b_Name b))]\<rparr>"
  have "delete_backup E b s = (Ok (), ?t)"
    by (simp add: delete_backup_def call_run bnd_def attempt_def ret_def split: option.split)
  with Cons [of ?t] show ?case by (simp add: bnd_def)
qed (simp add: ret_def)

text \<open>
  C23. The collection keeps the newest backups: of the cluster's recurrent backups it deletes all but \<open>limit\<close>, whatever the
  answers to the deletions, and none that is newer than one it keeps.
\<close>

theorem backupGC_keeps_newest:
  assumes "we_err E (w_trace s @ [ev]) = None" and "bs = ca_backups (we_ctl E (w_trace s @ [ev]))"
    and "ev = EvCtl (EvListBackupsBy (ce_Namespace j) (recurrentBackupLabels j))" and "0 \<le> limit"
  shows "\<exists>kept gone. w_trace (snd (backupGC E j limit s)) = w_trace s @ ev # map (\<lambda>b. EvCtl (EvDeleteBackup (b_Name b))) gone \<and>
     mset (kept @ gone) = mset bs \<and> int (length kept) = min limit (int (length bs)) \<and>
     (\<forall>k \<in> set kept. \<forall>g \<in> set gone. \<not> newer g k)"
proof (intro exI conjI)
  let ?kept = "take (nat limit) (sort_desc bs)" and ?gone = "drop (nat limit) (sort_desc bs)"
  have "backupGC E j limit s = each (delete_backup E) ?gone (s\<lparr>w_trace := w_trace s @ [ev]\<rparr>)"
    using assms(1-3) by (simp add: backupGC_def list_backups_def query_def call_run bnd_def attempt_def gets_def)
  then show "w_trace (snd (backupGC E j limit s)) = w_trace s @ ev # map (\<lambda>b. EvCtl (EvDeleteBackup (b_Name b))) ?gone"
    by (simp add: each_delete_trace)
  show "mset (?kept @ ?gone) = mset bs" by (simp add: mset_sort_desc)
  have "length (sort_desc bs) = length bs" using mset_sort_desc [of bs] by (metis size_mset)
  with assms(4) show "int (length ?kept) = min limit (int (length bs))" by auto
  show "\<forall>k \<in> set ?kept. \<forall>g \<in> set ?gone. \<not> newer g k"
    using desc.sorted [of bs] by (metis append_take_drop_id sorted_wrt_append)
qed

section \<open>What the reconciler leaves behind\<close>

text \<open>
  The entry of a cluster that is gone stays in the cron: the reconciler removes the entry named after the
  object it did not get, which has no name.
\<close>

theorem BackupCron_Reconcile_forgets:
  assumes "we_err E (w_trace s @ [EvGetCluster (fst key) (snd key)]) = Some (NotFound m)"
  shows "BackupCron_Reconcile E env parse key s =
     (Ok (), s\<lparr>w_trace := w_trace s @ [EvGetCluster (fst key) (snd key), EvCtl (EvCronRemove [])]\<rparr>)"
  using assms
  by (simp add: BackupCron_Reconcile_def get_cluster_def query_def call_run bnd_def attempt_def forget_def cron_remove_def ret_def
      split: option.split)

text \<open>
  The S3 schedule of a cluster that also has an NFS address is taken out of the cron and put back on every
  reconcile, changed or not: its entry is registered without the address and then compared with it.
\<close>

theorem updateClusterSchedule_s3_again:
  assumes "new_entry env c schedule ''s3'' = j" and "find (\<lambda>j. ce_ClusterName j = mc_Name c \<and> ce_Namespace j = mc_Namespace c \<and>
       ce_BackupType j = ''s3'') (ca_entries (we_ctl E (w_trace s))) = Some j"
    and "sp_NFSServerAddress (mc_Spec c) \<noteq> []" and "we_err E (w_trace s @ [EvCtl (EvCronRemove (mc_Name c @ ''s3''))]) = None"
  shows "updateClusterSchedule E env c schedule ''s3'' s =
     (Ok (), s\<lparr>w_trace := w_trace s @ [EvCtl (EvCronRemove (mc_Name c @ ''s3'')), EvCtl (EvCronSchedule j)]\<rparr>)"
proof -
  have "ce_NFSServerAddress j \<noteq> sp_NFSServerAddress (mc_Spec c)" using assms(1,3) by (auto simp: new_entry_def)
  then show ?thesis
    using assms
    by (simp add: updateClusterSchedule_def cron_remove_def call_run bnd_def gets_def record_ev_def modify_def Let_def)
qed

section \<open>Witnesses\<close>

definition quiet :: "Env \<Rightarrow> Env" where
  "quiet E = E\<lparr>we_err := \<lambda>_. None\<rparr>"

definition with_backups :: "Backup list \<Rightarrow> Env \<Rightarrow> Env" where
  "with_backups bs E = (quiet E)\<lparr>we_ctl := \<lambda>_. (we_ctl E [])\<lparr>ca_backups := bs\<rparr>\<rparr>"

lemma quiet_simps [simp]:
  "we_err (quiet E) t = None" "we_err (with_backups bs E) t = None" "ca_backups (we_ctl (with_backups bs E) t) = bs"
  by (simp_all add: quiet_def with_backups_def)

theorem CronJob_Run_blocked_witness:
  "\<forall>E b j (s :: World). \<exists>es. w_trace (snd (CronJob_Run (with_backups [b\<lparr>b_Status := (b_Status b)\<lparr>bst_Completed := False\<rparr>\<rparr>] E) j s)) =
     w_trace s @ es \<and> list_all (\<lambda>e. \<not> creates e) es"
  by (intro allI, rule CronJob_Run_blocked) simp_all

theorem backupGC_keeps_newest_witness:
  "\<forall>E b j (s :: World). \<exists>kept gone. w_trace (snd (backupGC (with_backups [b] E) j 0 s)) =
     w_trace s @ EvCtl (EvListBackupsBy (ce_Namespace j) (recurrentBackupLabels j)) # map (\<lambda>b. EvCtl (EvDeleteBackup (b_Name b))) gone \<and>
     mset (kept @ gone) = mset [b] \<and> int (length kept) = min 0 (int (length [b]))"
proof (intro allI)
  fix E b j and s :: World
  show "\<exists>kept gone. w_trace (snd (backupGC (with_backups [b] E) j 0 s)) =
     w_trace s @ EvCtl (EvListBackupsBy (ce_Namespace j) (recurrentBackupLabels j)) # map (\<lambda>b. EvCtl (EvDeleteBackup (b_Name b))) gone \<and>
     mset (kept @ gone) = mset [b] \<and> int (length kept) = min 0 (int (length [b]))"
    using backupGC_keeps_newest [of "with_backups [b] E" s "EvCtl (EvListBackupsBy (ce_Namespace j) (recurrentBackupLabels j))" "[b]" j 0]
    by (simp only: quiet_simps refl le_refl simp_thms) blast
qed

theorem BackupCron_Reconcile_forgets_witness:
  "\<forall>E env parse (s :: World). BackupCron_Reconcile (E\<lparr>we_err := \<lambda>_. Some (NotFound [])\<rparr>) env parse (''ns'', ''c'') s =
     (Ok (), s\<lparr>w_trace := w_trace s @ [EvGetCluster ''ns'' ''c'', EvCtl (EvCronRemove [])]\<rparr>)"
  by (intro allI, subst BackupCron_Reconcile_forgets [where m = "[]"]) simp_all

theorem updateClusterSchedule_s3_again_witness:
  "\<forall>E c (s :: World). \<exists>j. updateClusterSchedule ((quiet E)\<lparr>we_ctl := \<lambda>_. (we_ctl E [])\<lparr>ca_entries :=
        [new_entry ([], []) (c\<lparr>mc_Spec := (mc_Spec c)\<lparr>sp_NFSServerAddress := ''n''\<rparr>\<rparr>) ''x'' ''s3'']\<rparr>\<rparr>) ([], [])
      (c\<lparr>mc_Spec := (mc_Spec c)\<lparr>sp_NFSServerAddress := ''n''\<rparr>\<rparr>) ''x'' ''s3'' s =
     (Ok (), s\<lparr>w_trace := w_trace s @ [EvCtl (EvCronRemove (mc_Name c @ ''s3'')), EvCtl (EvCronSchedule j)]\<rparr>)"
proof (intro allI)
  fix E and c :: MysqlCluster and s :: World
  let ?c = "c\<lparr>mc_Spec := (mc_Spec c)\<lparr>sp_NFSServerAddress := ''n''\<rparr>\<rparr>"
  let ?E = "(quiet E)\<lparr>we_ctl := \<lambda>_. (we_ctl E [])\<lparr>ca_entries := [new_entry ([], []) ?c ''x'' ''s3'']\<rparr>\<rparr>"
  show "\<exists>j. updateClusterSchedule ?E ([], []) ?c ''x'' ''s3'' s =
     (Ok (), s\<lparr>w_trace := w_trace s @ [EvCtl (EvCronRemove (mc_Name c @ ''s3'')), EvCtl (EvCronSchedule j)]\<rparr>)"
    using updateClusterSchedule_s3_again [OF refl, of ?c ?E s "([], [])" "''x''"] by (auto simp: new_entry_def quiet_def)
qed

end
