(* ===== verification/BackupJobs.thy ===== *)
theory BackupJobs
  imports World
begin

text \<open>
  The v1alpha1 backup: the wrapper of \<open>backup/backup.go\<close>, its conditions (\<open>backup/status.go\<close>), the job syncer
  (\<open>backup/syncer/job.go\<close>) and the reconciler (\<open>controllers/backup_controller.go\<close>).

  \<open>kb_backup\<close> is the backup the reconciler works on. The syncer of the job is run by
  \<open>syncer.Sync\<close> of the presslabs library, which is a parameter \<open>sync\<close>: it gets \<open>SyncFn\<close> and the object and
  returns the error of the sync.
\<close>

section \<open>backup.go\<close>

definition GetNameForJob :: "Backup \<Rightarrow> string" where
  "GetNameForJob b = b_Name b @ ''-bak''"

definition GetBackupURL :: "Backup \<Rightarrow> string \<Rightarrow> string \<Rightarrow> string" where
  "GetBackupURL b clusterName hostName =
     (if length hostName \<noteq> 0 then hostName @ ''.'' @ clusterName @ ''-mysql.'' @ b_Namespace b @ '':'' @ nat_str XBackupPort
      else clusterName @ ''-leader.'' @ b_Namespace b @ '':'' @ nat_str XBackupPort)"

section \<open>status.go\<close>

fun condExists :: "string \<Rightarrow> BackupCondition list \<Rightarrow> nat option" where
  "condExists ty [] = None"
| "condExists ty (c # cs) = (if bc_Type c = ty then Some 0 else map_option Suc (condExists ty cs))"

definition GetBackupCondition :: "string \<Rightarrow> BackupCondition list \<Rightarrow> BackupCondition option" where
  "GetBackupCondition ty cs = (case condExists ty cs of Some i \<Rightarrow> Some (cs ! i) | None \<Rightarrow> None)"

text \<open>\<open>t\<close> is the time of the call.\<close>

definition UpdateStatusCondition ::
  "time \<Rightarrow> string \<Rightarrow> ConditionStatus \<Rightarrow> string \<Rightarrow> string \<Rightarrow> BackupCondition list \<Rightarrow> BackupCondition list" where
  "UpdateStatusCondition t ty status reason msg cs =
     (let new = \<lparr>bc_Type = ty, bc_Status = status, bc_LastTransitionTime = None, bc_Reason = reason, bc_Message = msg\<rparr> in
      if length cs = 0 then [new\<lparr>bc_LastTransitionTime := t\<rparr>]
      else (case condExists ty cs of
          Some i \<Rightarrow>
            let cond = cs ! i in
            cs[i := (if bc_Status cond \<noteq> status then new\<lparr>bc_LastTransitionTime := t\<rparr>
                     else new\<lparr>bc_LastTransitionTime := bc_LastTransitionTime cond\<rparr>)]
        | None \<Rightarrow> cs @ [new\<lparr>bc_LastTransitionTime := t\<rparr>]))"

section \<open>The job syncer\<close>

record BkState = World +
  kb_backup :: Backup

definition set_status :: "(BackupStatus \<Rightarrow> BackupStatus) \<Rightarrow> Backup \<Rightarrow> Backup" where
  "set_status f b = b\<lparr>b_Status := f (b_Status b)\<rparr>"

definition update_condition :: "time \<Rightarrow> string \<Rightarrow> ConditionStatus \<Rightarrow> string \<Rightarrow> string \<Rightarrow> BackupStatus \<Rightarrow> BackupStatus" where
  "update_condition t ty status reason msg st =
     st\<lparr>bst_Conditions := UpdateStatusCondition t ty status reason msg (bst_Conditions st)\<rparr>"

definition jobCondition :: "string \<Rightarrow> Job \<Rightarrow> JobCondition option" where
  "jobCondition ty job = find (\<lambda>c. jc_Type c = ty) (job_Conditions job)"

text \<open>An annotation that is not empty overwrites a field of the status.\<close>

definition if_set :: "string \<Rightarrow> string \<Rightarrow> string" where
  "if_set v old = (if v \<noteq> [] then v else old)"

definition note_complete :: "time \<Rightarrow> Job \<Rightarrow> JobCondition \<Rightarrow> BackupStatus \<Rightarrow> BackupStatus" where
  "note_complete t job cond st0 =
     (let st = update_condition t BackupComplete (jc_Status cond) (jc_Reason cond) (jc_Message cond) st0;
          a = lget (job_Annotations job)
      in st\<lparr>bst_Completed := (bst_Completed st \<or> jc_Status cond = CondTrue),
            bst_BackupName := if_set (a ''backupName'') (bst_BackupName st),
            bst_BackupDate := if_set (a ''backupDate'') (bst_BackupDate st),
            bst_BackupType := if_set (a ''backupType'') (bst_BackupType st),
            bst_Gtid := if_set (a ''gtid'') (bst_Gtid st)\<rparr>)"

definition note_failed :: "time \<Rightarrow> JobCondition \<Rightarrow> BackupStatus \<Rightarrow> BackupStatus" where
  "note_failed t cond st0 =
     (let st = update_condition t BackupComplete CondFalse (jc_Reason cond) (jc_Message cond)
            (update_condition t BackupFailed (jc_Status cond) (jc_Reason cond) (jc_Message cond) st0)
      in st\<lparr>bst_Completed := (bst_Completed st \<or> jc_Status cond = CondTrue)\<rparr>)"

definition updateStatus :: "time \<Rightarrow> Job \<Rightarrow> BackupStatus \<Rightarrow> BackupStatus" where
  "updateStatus t job st0 =
     (let st1 = update_condition t BackupStart CondTrue ''backup has started'' ''backup has started''
            (st0\<lparr>bst_Completed := False\<rparr>);
          st2 = (case jobCondition JobComplete job of None \<Rightarrow> st1 | Some cond \<Rightarrow> note_complete t job cond st1)
      in case jobCondition JobFailed job of None \<Rightarrow> st2 | Some cond \<Rightarrow> note_failed t cond st2)"

text \<open>\<open>fmt.Sprintf\<close> with the verb \<open>%s\<close> only.\<close>

fun sprintf_s :: "string \<Rightarrow> string list \<Rightarrow> string" where
  "sprintf_s [] args = []"
| "sprintf_s (c # cs) args =
     (if c = CHR ''%'' \<and> cs \<noteq> [] \<and> hd cs = CHR ''s'' then
        (case args of a # as \<Rightarrow> a @ sprintf_s (tl cs) as | [] \<Rightarrow> ''%!s(MISSING)'' @ sprintf_s (tl cs) [])
      else c # sprintf_s cs args)"

definition annotation_script :: string where
  "annotation_script =
     ''curl -X PATCH -H '' @ [CHR 0x22] @ ''Authorization: Bearer $(cat /var/run/secrets/kubernetes.io/serviceaccount/token)'' @
     [CHR 0x22] @ '' -H '' @ [CHR 0x22] @ ''Content-Type: application/json-patch+json'' @ [CHR 0x22] @ '' '' @ [CHR 0x5C] @
     [CHR 0x0A] @ [CHR 0x09] @ [CHR 0x09] @
     ''--cacert /var/run/secrets/kubernetes.io/serviceaccount/ca.crt https://$KUBERNETES_SERVICE_HOST:$KUBERNETES_PORT_443_TCP_PORT/apis/batch/v1/namespaces/%s/jobs/%s '' @
     [CHR 0x5C] @ [CHR 0x0A] @ [CHR 0x09] @ [CHR 0x09] @ '' -d '' @ [CHR 0x22] @ ''[{'' @ [CHR 0x5C] @ [CHR 0x22] @ ''op'' @
     [CHR 0x5C] @ [CHR 0x22] @ '': '' @ [CHR 0x5C] @ [CHR 0x22] @ ''add'' @ [CHR 0x5C] @ [CHR 0x22] @ '', '' @ [CHR 0x5C] @
     [CHR 0x22] @ ''path'' @ [CHR 0x5C] @ [CHR 0x22] @ '': '' @ [CHR 0x5C] @ [CHR 0x22] @ ''/metadata/annotations/backupName'' @
     [CHR 0x5C] @ [CHR 0x22] @ '', '' @ [CHR 0x5C] @ [CHR 0x22] @ ''value'' @ [CHR 0x5C] @ [CHR 0x22] @ '': '' @ [CHR 0x5C] @
     [CHR 0x22] @ ''%s'' @ [CHR 0x5C] @ [CHR 0x22] @ ''}, {'' @ [CHR 0x5C] @ [CHR 0x22] @ ''op'' @ [CHR 0x5C] @ [CHR 0x22] @
     '': '' @ [CHR 0x5C] @ [CHR 0x22] @ ''add'' @ [CHR 0x5C] @ [CHR 0x22] @ '', '' @ [CHR 0x5C] @ [CHR 0x22] @ ''path'' @
     [CHR 0x5C] @ [CHR 0x22] @ '': '' @ [CHR 0x5C] @ [CHR 0x22] @ ''/metadata/annotations/backupDate'' @ [CHR 0x5C] @ [CHR 0x22] @
     '', '' @ [CHR 0x5C] @ [CHR 0x22] @ ''value'' @ [CHR 0x5C] @ [CHR 0x22] @ '': '' @ [CHR 0x5C] @ [CHR 0x22] @ ''%s'' @
     [CHR 0x5C] @ [CHR 0x22] @ ''},{'' @ [CHR 0x5C] @ [CHR 0x22] @ ''op'' @ [CHR 0x5C] @ [CHR 0x22] @ '': '' @ [CHR 0x5C] @
     [CHR 0x22] @ ''add'' @ [CHR 0x5C] @ [CHR 0x22] @ '', '' @ [CHR 0x5C] @ [CHR 0x22] @ ''path'' @ [CHR 0x5C] @ [CHR 0x22] @
     '': '' @ [CHR 0x5C] @ [CHR 0x22] @ ''/metadata/annotations/gtid'' @ [CHR 0x5C] @ [CHR 0x22] @ '', '' @ [CHR 0x5C] @
     [CHR 0x22] @ ''value'' @ [CHR 0x5C] @ [CHR 0x22] @ '': '' @ [CHR 0x5C] @ [CHR 0x22] @
     ''$( cat /backup/%s/xtrabackup_binlog_info|awk '' @ [CHR 0x27] @ ''{print $3}'' @ [CHR 0x27] @ '')'' @ [CHR 0x5C] @
     [CHR 0x22] @ ''}, {'' @ [CHR 0x5C] @ [CHR 0x22] @ ''op'' @ [CHR 0x5C] @ [CHR 0x22] @ '': '' @ [CHR 0x5C] @ [CHR 0x22] @
     ''add'' @ [CHR 0x5C] @ [CHR 0x22] @ '', '' @ [CHR 0x5C] @ [CHR 0x22] @ ''path'' @ [CHR 0x5C] @ [CHR 0x22] @ '': '' @
     [CHR 0x5C] @ [CHR 0x22] @ ''/metadata/annotations/backupType'' @ [CHR 0x5C] @ [CHR 0x22] @ '', '' @ [CHR 0x5C] @ [CHR 0x22] @
     ''value'' @ [CHR 0x5C] @ [CHR 0x22] @ '': '' @ [CHR 0x5C] @ [CHR 0x22] @ ''NFS'' @ [CHR 0x5C] @ [CHR 0x22] @ ''}]'' @
     [CHR 0x22] @ '';''"

definition check_usage :: string where
  "check_usage =
     ''[ $(echo '' @ [CHR 0x22] @ ''$(df /backup|awk '' @ [CHR 0x27] @ ''NR>1 {print $4}'' @ [CHR 0x27] @
     '') > $(du  /backup |awk '' @ [CHR 0x27] @ ''END {if (NR > 1) {print $1 /(NR-1)} else print 0}'' @ [CHR 0x27] @ '')'' @
     [CHR 0x22] @ ''|bc) -eq '' @ [CHR 0x27] @ ''1'' @ [CHR 0x27] @ '' ] || { echo disk available may be too small; exit 1;};''"

definition nfs_script :: "string \<Rightarrow> string" where
  "nfs_script annotations =
     ''mkdir -p /backup/%s;curl --user $BACKUP_USER:$BACKUP_PASSWORD %s/download|xbstream -x -C /backup/%s; err1=${PIPESTATUS[0]};'' @
     annotations @ ''retval_final=$?; exit $err1||$retval_final''"

definition job_env :: "Backup \<Rightarrow> string \<Rightarrow> EnvVar list" where
  "job_env b jobName =
     (let cluster = bk_ClusterName (b_Spec b); sctName = cluster @ ''-secret'' in
      [val_env ''CONTAINER_TYPE'' ''backup-job'',
       val_env ''NAMESPACE'' (b_Namespace b),
       val_env ''SERVICE_NAME'' (cluster @ ''-mysql''),
       val_env ''HOST_NAME'' (bk_HostName (b_Spec b)),
       val_env ''REPLICAS'' ''1'',
       getEnvVarFromSecret sctName ''BACKUP_USER'' ''backup-user'' True,
       getEnvVarFromSecret sctName ''BACKUP_PASSWORD'' ''backup-password'' True,
       val_env ''JOB_NAME'' jobName])"

text \<open>\<open>env\<close> is the pair of environment variables read by \<open>GetImage\<close>, \<open>clock\<close> the time of the call.\<close>

definition nfs_job :: "go_time \<Rightarrow> Backup \<Rightarrow> JobContainer \<Rightarrow> JobSpec \<Rightarrow> JobSpec \<times> JobContainer" where
  "nfs_job clock b k js =
     (let cluster = bk_ClusterName (b_Spec b) in
      case ParseIPAndPath (bk_NFSServerAddress (b_Spec b)) of (ip, path) \<Rightarrow>
      case BuildBackupName cluster clock of (backupToDir, dateTime) \<Rightarrow>
      let annotations = sprintf_s annotation_script [b_Namespace b, GetNameForJob b, backupToDir, dateTime, backupToDir];
          args = check_usage @ sprintf_s (nfs_script annotations)
            [backupToDir, GetBackupURL b cluster (bk_HostName (b_Spec b)), backupToDir]
      in (js\<lparr>js_Volumes := [vol ''backup'' (NFSVol ip path)]\<rparr>,
          k\<lparr>kc_Command := [''/bin/bash'', ''-c'', ''--''], kc_Args := [args],
            kc_VolumeMounts := [\<lparr>vm_Name = ''backup'', vm_MountPath = ''/backup''\<rparr>]\<rparr>))"

definition job_ensurePodSpec :: "string \<times> string \<Rightarrow> go_time \<Rightarrow> Backup \<Rightarrow> string \<Rightarrow> JobSpec \<Rightarrow> JobSpec" where
  "job_ensurePodSpec env clock b jobName js0 =
     (let cluster = bk_ClusterName (b_Spec b);
          ks = (if length (js_Containers js0) = 0 then [empty_container] else js_Containers js0);
          js = js0\<lparr>js_RestartPolicy := ''Never'', js_ServiceAccountName := cluster\<rparr>;
          k = (hd ks)\<lparr>kc_Name := ''backup'', kc_Image := GetImage (fst env) (snd env) (bk_Image (b_Spec b))\<rparr>;
          (js, k) = (if length (bk_NFSServerAddress (b_Spec b)) \<noteq> 0 then nfs_job clock b k js
            else (js, k\<lparr>kc_Args := [''request_a_backup'', GetBackupURL b cluster (bk_HostName (b_Spec b))]\<rparr>))
      in js\<lparr>js_Containers := (k\<lparr>kc_Env := job_env b jobName\<rparr>) # tl ks\<rparr>)"

definition job_SyncFn :: "Env \<Rightarrow> string \<times> string \<Rightarrow> Job \<Rightarrow> (BkState, Job) go" where
  "job_SyncFn E env job =
     bnd (gets kb_backup) (\<lambda>b.
     if bst_Completed (b_Status b) then fail IgnoreErr
     else if job_CreationTimestamp job \<noteq> None then
       bnd (gets (\<lambda>s. Some (we_now E (w_trace s)))) (\<lambda>t.
       bnd (modify (\<lambda>s. s\<lparr>kb_backup := set_status (updateStatus t job) (kb_backup s)\<rparr>)) (\<lambda>_. ret job))
     else
       bnd (gets (\<lambda>s. ca_clock (we_ctl E (w_trace s)))) (\<lambda>clock. ret (job\<lparr>
         job_Labels := [''Host'' \<mapsto> bk_HostName (b_Spec b), ''Type'' \<mapsto> ''backup'', ''Cluster'' \<mapsto> bk_ClusterName (b_Spec b)],
         job_Spec := (job_ensurePodSpec env clock b (job_Name job) (job_Spec job))\<lparr>js_BackoffLimit := Some 3\<rparr>\<rparr>)))"

definition NewJobSyncer :: "Backup \<Rightarrow> Job" where
  "NewJobSyncer b = new_job (GetNameForJob b) (b_Namespace b)"

section \<open>The reconciler\<close>

definition updateBackup :: "Env \<Rightarrow> Backup \<Rightarrow> (BkState, unit) go" where
  "updateBackup E saved =
     bnd (gets kb_backup) (\<lambda>b.
     bnd (if b_Status saved \<noteq> b_Status b then call E (EvCtl (EvUpdateBackupStatus b)) else ret ()) (\<lambda>_.
     if saved \<noteq> b then call E (EvCtl (EvUpdateBackup b)) else ret ()))"

definition IsJobFinished :: "Job \<Rightarrow> bool" where
  "IsJobFinished job \<longleftrightarrow> list_ex (\<lambda>c. (jc_Type c = JobComplete \<or> jc_Type c = JobFailed) \<and> jc_Status c = CondTrue) (job_Conditions job)"

text \<open>
  The slice of finished jobs holds the address of the loop variable, once per finished job; after the loop
  that variable is the last job of the list. So the slice is that job, repeated, and sorting changes nothing.
\<close>

definition finishedBackups :: "Job list \<Rightarrow> Job list" where
  "finishedBackups jobs = map (\<lambda>_. last jobs) (filter IsJobFinished jobs)"

definition trim_suffix :: "string \<Rightarrow> string \<Rightarrow> string" where
  "trim_suffix s p = (if has_suffix s p then take (length s - length p) s else s)"

text \<open>The deletion loop from index \<open>i\<close>, \<open>n\<close> being the length of the slice.\<close>

fun clear_loop :: "Env \<Rightarrow> int \<Rightarrow> int \<Rightarrow> int \<Rightarrow> Job list \<Rightarrow> (BkState, unit) go" where
  "clear_loop E n limit i [] = ret ()"
| "clear_loop E n limit i (job # jobs) =
     (if i \<ge> n - limit then ret ()
      else bnd (attempt (query E (EvCtl (EvGetBackup (job_Namespace job) (trim_suffix (job_Name job) ''-bak'')))
             (\<lambda>t. ca_backup (we_ctl E t)))) (\<lambda>r. case r of
          Inl _ \<Rightarrow> ret ()
        | Inr b \<Rightarrow> bnd (if bst_Completed (b_Status b) then bnd (attempt (call E (EvCtl (EvDeleteJob (job_Name job))))) (\<lambda>_. ret ())
                       else ret ()) (\<lambda>_. clear_loop E n limit (i + 1) jobs)))"

definition list_jobs :: "Env \<Rightarrow> string \<Rightarrow> smap \<Rightarrow> ('z World_scheme, Job list) go" where
  "list_jobs E ns sel = query E (EvCtl (EvListJobs ns sel)) (\<lambda>t. ca_jobs (we_ctl E t))"

definition clearHistoryJob :: "Env \<Rightarrow> string \<Rightarrow> int \<Rightarrow> string \<Rightarrow> (BkState, unit) go" where
  "clearHistoryJob E ns historyLimit clusterName =
     bnd (list_jobs E ns [''Type'' \<mapsto> ''backup'', ''Cluster'' \<mapsto> clusterName]) (\<lambda>jobs.
     let fin = finishedBackups jobs in clear_loop E (int (length fin)) historyLimit 0 fin)"

text \<open>\<open>Reconcile\<close>; defaulting by the scheme does nothing, no default is registered for the type.\<close>

definition label_backup :: "Backup \<Rightarrow> Backup" where
  "label_backup b = (if length (lget (b_Labels b) ''cluster'') = 0
     then b\<lparr>b_Labels := [''cluster'' \<mapsto> bk_ClusterName (b_Spec b)]\<rparr> else b)"

definition backup_failed :: "time \<Rightarrow> gerr \<Rightarrow> Backup \<Rightarrow> Backup" where
  "backup_failed t e = set_status (\<lambda>st. (update_condition t BackupFailed CondTrue ''CreateFailure'' (err_text e) st)\<lparr>bst_Completed := True\<rparr>)"

definition Backup_Reconcile ::
  "Env \<Rightarrow> string \<times> string \<Rightarrow> ((Job \<Rightarrow> (BkState, Job) go) \<Rightarrow> Job \<Rightarrow> (BkState, unit) go) \<Rightarrow> string \<Rightarrow> string \<Rightarrow> (BkState, unit) go" where
  "Backup_Reconcile E env sync ns name =
     bnd (attempt (query E (EvCtl (EvGetBackup ns name)) (\<lambda>t. ca_backup (we_ctl E t)))) (\<lambda>r. case r of
       Inl e \<Rightarrow> (case e of NotFound _ \<Rightarrow> ret () | _ \<Rightarrow> fail e)
     | Inr saved \<Rightarrow>
       bnd (modify (\<lambda>s. s\<lparr>kb_backup := label_backup saved\<rparr>)) (\<lambda>_.
       bnd (attempt (sync (job_SyncFn E env) (NewJobSyncer saved))) (\<lambda>r. case r of
         Inl e \<Rightarrow>
           bnd (gets (\<lambda>s. Some (we_now E (w_trace s)))) (\<lambda>t.
           bnd (modify (\<lambda>s. s\<lparr>kb_backup := backup_failed t e (kb_backup s)\<rparr>)) (\<lambda>_. updateBackup E saved))
       | Inr _ \<Rightarrow>
           bnd (updateBackup E saved) (\<lambda>_.
           bnd (gets kb_backup) (\<lambda>b. case bk_HistoryLimit (b_Spec b) of
               None \<Rightarrow> panic ''invalid memory address or nil pointer dereference''
             | Some limit \<Rightarrow> clearHistoryJob E ns limit (bk_ClusterName (b_Spec b)))))))"

section \<open>Conditions\<close>

lemma condExists_Some: "condExists ty cs = Some i \<Longrightarrow> i < length cs \<and> bc_Type (cs ! i) = ty"
  by (induction cs arbitrary: i) (auto split: if_splits)

lemma condExists_None: "condExists ty cs = None \<longleftrightarrow> ty \<notin> bc_Type ` set cs"
  by (induction cs) auto

lemma condExists_types: "map bc_Type cs = map bc_Type ds \<Longrightarrow> condExists ty cs = condExists ty ds"
proof (induction cs arbitrary: ds)
  case (Cons c cs)
  then show ?case by (cases ds) auto
qed simp

lemma condExists_append: "condExists ty (cs @ [c]) = (case condExists ty cs of Some i \<Rightarrow> Some i
    | None \<Rightarrow> if bc_Type c = ty then Some (length cs) else None)"
  by (induction cs) (auto split: option.splits)

lemma map_type_update: "i < length cs \<Longrightarrow> bc_Type c = bc_Type (cs ! i) \<Longrightarrow> map bc_Type (cs[i := c]) = map bc_Type cs"
  by (simp add: map_update list_update_same_conv)

text \<open>The entry an update writes.\<close>

definition entry :: "time \<Rightarrow> string \<Rightarrow> ConditionStatus \<Rightarrow> string \<Rightarrow> string \<Rightarrow> BackupCondition list \<Rightarrow> BackupCondition" where
  "entry t ty status reason msg cs = \<lparr>bc_Type = ty, bc_Status = status,
     bc_LastTransitionTime = (case GetBackupCondition ty cs of
        Some c \<Rightarrow> if bc_Status c = status then bc_LastTransitionTime c else t | None \<Rightarrow> t),
     bc_Reason = reason, bc_Message = msg\<rparr>"

lemma Update_eq:
  "UpdateStatusCondition t ty status reason msg cs = (case condExists ty cs of
     Some i \<Rightarrow> cs[i := entry t ty status reason msg cs] | None \<Rightarrow> cs @ [entry t ty status reason msg cs])"
  by (cases cs) (auto simp: UpdateStatusCondition_def entry_def GetBackupCondition_def Let_def split: option.split)

lemma entry_type [simp]: "bc_Type (entry t ty status reason msg cs) = ty"
  by (simp add: entry_def)

lemma Get_Update_same:
  "GetBackupCondition ty (UpdateStatusCondition t ty status reason msg cs) = Some (entry t ty status reason msg cs)"
proof (cases "condExists ty cs")
  case None
  then show ?thesis by (simp add: Update_eq GetBackupCondition_def condExists_append)
next
  case (Some i)
  have "condExists ty (cs[i := entry t ty status reason msg cs]) = Some i"
    using Some condExists_Some [OF Some] by (simp add: condExists_types [OF map_type_update])
  with Some condExists_Some [OF Some] show ?thesis by (simp add: Update_eq GetBackupCondition_def)
qed

lemma Get_Update_other:
  assumes "ty' \<noteq> ty"
  shows "GetBackupCondition ty' (UpdateStatusCondition t ty status reason msg cs) = GetBackupCondition ty' cs"
proof (cases "condExists ty cs")
  case None
  with assms show ?thesis
    using condExists_Some by (auto simp: Update_eq GetBackupCondition_def condExists_append nth_append split: option.split)
next
  case (Some i)
  have "condExists ty' (cs[i := entry t ty status reason msg cs]) = condExists ty' cs"
    using condExists_Some [OF Some] by (simp add: condExists_types [OF map_type_update])
  moreover have "j \<noteq> i" if "condExists ty' cs = Some j" for j
    using condExists_Some [OF that] condExists_Some [OF Some] assms by auto
  ultimately show ?thesis
    using Some by (auto simp: Update_eq GetBackupCondition_def split: option.split)
qed

lemma distinct_Update:
  "distinct (map bc_Type cs) \<Longrightarrow> distinct (map bc_Type (UpdateStatusCondition t ty status reason msg cs))"
  using condExists_Some [of ty cs] condExists_None [of ty cs]
  by (auto simp: Update_eq map_type_update split: option.split)

text \<open>
  Setting a condition of a backup: the condition is then present with the new status, reason and
  message, its transition time changes only with its status, every other condition is as before, and no type
  occurs twice.
\<close>

theorem UpdateStatusCondition_spec:
  assumes "distinct (map bc_Type cs)"
  shows "let cs' = UpdateStatusCondition t ty status reason msg cs in
     distinct (map bc_Type cs') \<and>
     GetBackupCondition ty cs' = Some \<lparr>bc_Type = ty, bc_Status = status,
       bc_LastTransitionTime = (case GetBackupCondition ty cs of
          Some c \<Rightarrow> if bc_Status c = status then bc_LastTransitionTime c else t | None \<Rightarrow> t),
       bc_Reason = reason, bc_Message = msg\<rparr> \<and>
     (\<forall>ty'. ty' \<noteq> ty \<longrightarrow> GetBackupCondition ty' cs' = GetBackupCondition ty' cs)"
  using assms by (simp add: Let_def distinct_Update Get_Update_same Get_Update_other entry_def)

theorem UpdateStatusCondition_spec_witness:
  "distinct (map bc_Type (UpdateStatusCondition (Some 3) ''Failed'' CondTrue [] [] [true_condition ''Started'']))"
  using UpdateStatusCondition_spec [of "[true_condition ''Started'']" "Some 3" "''Failed''" CondTrue "[]" "[]"] by (simp add: Let_def)

section \<open>The status after a look at the job\<close>

definition holds_in :: "string \<Rightarrow> Job \<Rightarrow> bool" where
  "holds_in ty job \<longleftrightarrow> (\<exists>c. jobCondition ty job = Some c \<and> jc_Status c = CondTrue)"

lemma condition_names:
  "BackupStart \<noteq> BackupComplete" "BackupStart \<noteq> BackupFailed" "BackupComplete \<noteq> BackupFailed"
  "BackupComplete \<noteq> BackupStart" "BackupFailed \<noteq> BackupStart" "BackupFailed \<noteq> BackupComplete"
  by (simp_all add: backup_state_defs)

text \<open>The status of a condition of the backup, if it is set.\<close>

definition cond_status :: "string \<Rightarrow> BackupStatus \<Rightarrow> ConditionStatus option" where
  "cond_status ty st = map_option bc_Status (GetBackupCondition ty (bst_Conditions st))"

lemma cond_status_update [simp]:
  "cond_status ty (update_condition t ty' status reason msg st) = (if ty = ty' then Some status else cond_status ty st)"
  by (simp add: cond_status_def update_condition_def Get_Update_same Get_Update_other entry_def)

lemma cond_status_frame [simp]:
  "cond_status ty (st\<lparr>bst_Completed := b\<rparr>) = cond_status ty st"
  "cond_status ty (st\<lparr>bst_Completed := b, bst_BackupName := n, bst_BackupDate := d, bst_BackupType := y, bst_Gtid := g\<rparr>) = cond_status ty st"
  by (simp_all add: cond_status_def)

lemma update_condition_keeps [simp]:
  "bst_Completed (update_condition t ty status reason msg st) = bst_Completed st"
  by (simp add: update_condition_def)

text \<open>
  What a look at the job makes of the status: the backup is completed exactly when the job is marked
  complete or failed; it counts as started; and when the job has a failed condition the backup has it too and is not
  complete, whatever the job's complete condition says.
\<close>

theorem updateStatus_verdict:
  "bst_Completed (updateStatus t job st) = (holds_in JobComplete job \<or> holds_in JobFailed job) \<and>
   cond_status BackupStart (updateStatus t job st) = Some CondTrue \<and>
   cond_status BackupComplete (updateStatus t job st) =
     (if jobCondition JobFailed job \<noteq> None then Some CondFalse
      else case jobCondition JobComplete job of Some c \<Rightarrow> Some (jc_Status c) | None \<Rightarrow> cond_status BackupComplete st) \<and>
   cond_status BackupFailed (updateStatus t job st) =
     (case jobCondition JobFailed job of Some c \<Rightarrow> Some (jc_Status c) | None \<Rightarrow> cond_status BackupFailed st)"
  by (cases "jobCondition JobComplete job"; cases "jobCondition JobFailed job")
     (simp_all add: updateStatus_def note_complete_def note_failed_def holds_in_def Let_def condition_names)

section \<open>Clearing finished jobs\<close>

fun clear_event :: "Job \<Rightarrow> event \<Rightarrow> bool" where
  "clear_event j (EvCtl (EvGetBackup ns n)) = (ns = job_Namespace j \<and> n = trim_suffix (job_Name j) ''-bak'')"
| "clear_event j (EvCtl (EvDeleteJob n)) = (n = job_Name j)"
| "clear_event j _ = False"

lemma clear_loop_emits: "set jobs \<subseteq> {j} \<Longrightarrow> emits w_trace (clear_event j) (clear_loop E n limit i jobs)"
proof (induction jobs arbitrary: i)
  case (Cons job jobs)
  then have "job = j" by simp
  with Cons show ?case
    unfolding clear_loop.simps by (intro emits_intros) simp_all
qed (simp add: emits_intros)

text \<open>
  Clearing the history of jobs never touches any job but the last one of the list. The loop collects the
  address of its loop variable, so however many finished jobs there are and however old they are, the only job
  whose backup is looked up and that is deleted, as often as the history is too long, is the last one listed,
  finished or not.
\<close>

theorem clearHistoryJob_last_only:
  assumes "we_err E (w_trace s @ [EvCtl (EvListJobs ns [''Type'' \<mapsto> ''backup'', ''Cluster'' \<mapsto> cluster])]) = None"
    and "jobs = ca_jobs (we_ctl E (w_trace s @ [EvCtl (EvListJobs ns [''Type'' \<mapsto> ''backup'', ''Cluster'' \<mapsto> cluster])]))"
  shows "\<exists>es. w_trace (snd (clearHistoryJob E ns limit cluster s)) =
     w_trace s @ EvCtl (EvListJobs ns [''Type'' \<mapsto> ''backup'', ''Cluster'' \<mapsto> cluster]) # es \<and>
     list_all (clear_event (last jobs)) es"
proof -
  let ?e = "EvCtl (EvListJobs ns [''Type'' \<mapsto> ''backup'', ''Cluster'' \<mapsto> cluster])"
  let ?fin = "finishedBackups jobs"
  have "clearHistoryJob E ns limit cluster s = clear_loop E (int (length ?fin)) limit 0 ?fin (s\<lparr>w_trace := w_trace s @ [?e]\<rparr>)"
    using assms by (simp add: clearHistoryJob_def list_jobs_def query_def call_run bnd_def gets_def Let_def)
  moreover have "set ?fin \<subseteq> {last jobs}" by (auto simp: finishedBackups_def)
  ultimately show ?thesis
    using emitsD [OF clear_loop_emits [of ?fin "last jobs"], where s = "s\<lparr>w_trace := w_trace s @ [?e]\<rparr>"] by auto
qed

theorem clearHistoryJob_last_only_witness:
  "\<forall>E j (s :: BkState). \<exists>es. w_trace (snd (clearHistoryJob (E\<lparr>we_err := \<lambda>_. None, we_ctl := \<lambda>_. (we_ctl E [])\<lparr>ca_jobs := [j]\<rparr>\<rparr>) ''ns'' 1 ''c'' s)) =
     w_trace s @ EvCtl (EvListJobs ''ns'' [''Type'' \<mapsto> ''backup'', ''Cluster'' \<mapsto> ''c'']) # es \<and> list_all (clear_event j) es"
proof (intro allI)
  fix E j and s :: BkState
  show "\<exists>es. w_trace (snd (clearHistoryJob (E\<lparr>we_err := \<lambda>_. None, we_ctl := \<lambda>_. (we_ctl E [])\<lparr>ca_jobs := [j]\<rparr>\<rparr>) ''ns'' 1 ''c'' s)) =
     w_trace s @ EvCtl (EvListJobs ''ns'' [''Type'' \<mapsto> ''backup'', ''Cluster'' \<mapsto> ''c'']) # es \<and> list_all (clear_event j) es"
    using clearHistoryJob_last_only [of "E\<lparr>we_err := \<lambda>_. None, we_ctl := \<lambda>_. (we_ctl E [])\<lparr>ca_jobs := [j]\<rparr>\<rparr>" s "''ns''" "''c''" "[j]" 1]
    by simp
qed

section \<open>A failed sync is final\<close>

text \<open>
  Any error of the sync of the job, a conflict or a lost connection as well as a refused job, ends
  the backup: the status sent has the failed condition and is completed, the reconciler
  reports success, so the request is not tried again, and a completed backup is ignored from then on.
\<close>

theorem Backup_Reconcile_gives_up:
  assumes "we_err E (w_trace s @ [EvCtl (EvGetBackup ns name)]) = None"
    and "saved = ca_backup (we_ctl E (w_trace s @ [EvCtl (EvGetBackup ns name)]))"
    and "sync (job_SyncFn E env) (NewJobSyncer saved) (s\<lparr>w_trace := w_trace s @ [EvCtl (EvGetBackup ns name)], kb_backup := label_backup saved\<rparr>) = (Fail e, t)"
    and "\<not> bst_Completed (b_Status saved)"
  shows "\<exists>b. EvCtl (EvUpdateBackupStatus b) \<in> set (w_trace (snd (Backup_Reconcile E env sync ns name s))) \<and>
     bst_Completed (b_Status b) \<and> cond_status BackupFailed (b_Status b) = Some CondTrue \<and>
     fst (job_SyncFn E env job (t\<lparr>kb_backup := b\<rparr>)) = Fail IgnoreErr"
proof -
  let ?tm = "Some (we_now E (w_trace t))"
  let ?b = "backup_failed ?tm e (kb_backup t)"
  have b: "bst_Completed (b_Status ?b)" "cond_status BackupFailed (b_Status ?b) = Some CondTrue"
    by (simp_all add: backup_failed_def set_status_def)
  have run: "Backup_Reconcile E env sync ns name s = updateBackup E saved (t\<lparr>kb_backup := ?b\<rparr>)"
    using assms(1-3) by (simp add: Backup_Reconcile_def query_def call_run bnd_def attempt_def gets_def modify_def)
  have "b_Status saved \<noteq> b_Status ?b" using assms(4) b(1) by auto
  then have "EvCtl (EvUpdateBackupStatus ?b) \<in> set (w_trace (snd (updateBackup E saved (t\<lparr>kb_backup := ?b\<rparr>))))"
    by (auto simp: updateBackup_def call_run bnd_def gets_def ret_def split: option.split)
  with run b have "EvCtl (EvUpdateBackupStatus ?b) \<in> set (w_trace (snd (Backup_Reconcile E env sync ns name s))) \<and>
      fst (job_SyncFn E env job (t\<lparr>kb_backup := ?b\<rparr>)) = Fail IgnoreErr"
    by (simp add: job_SyncFn_def bnd_def gets_def fail_def)
  with b show ?thesis by blast
qed

definition running_backup :: Backup where
  "running_backup = \<lparr>b_Name = ''b'', b_CreationTimestamp = Some 1,
     b_Spec = \<lparr>bk_Image = ''i'', bk_HostName = [], bk_NFSServerAddress = [], bk_ClusterName = ''c'', bk_HistoryLimit = Some 3\<rparr>,
     b_Status = \<lparr>bst_Completed = False, bst_BackupName = [], bst_BackupDate = [], bst_BackupType = [], bst_Gtid = [],
       bst_Conditions = []\<rparr>, b_Namespace = ''ns'', b_Labels = Map.empty\<rparr>"

theorem Backup_Reconcile_gives_up_witness:
  "\<forall>E s. \<exists>b. EvCtl (EvUpdateBackupStatus b) \<in> set (w_trace (snd (Backup_Reconcile
     (E\<lparr>we_err := \<lambda>_. None, we_ctl := \<lambda>_. (we_ctl E [])\<lparr>ca_backup := running_backup\<rparr>\<rparr>) ([], []) (\<lambda>_ _ s. (Fail WaitTimeout, s)) ''ns'' ''b'' s))) \<and>
     bst_Completed (b_Status b)"
proof (intro allI)
  fix E s
  show "\<exists>b. EvCtl (EvUpdateBackupStatus b) \<in> set (w_trace (snd (Backup_Reconcile
     (E\<lparr>we_err := \<lambda>_. None, we_ctl := \<lambda>_. (we_ctl E [])\<lparr>ca_backup := running_backup\<rparr>\<rparr>) ([], []) (\<lambda>_ _ s. (Fail WaitTimeout, s)) ''ns'' ''b'' s))) \<and>
     bst_Completed (b_Status b)"
    using Backup_Reconcile_gives_up [where E = "E\<lparr>we_err := \<lambda>_. None, we_ctl := \<lambda>_. (we_ctl E [])\<lparr>ca_backup := running_backup\<rparr>\<rparr>"
        and s = s and ns = "''ns''" and name = "''b''" and sync = "\<lambda>_ _ s. (Fail WaitTimeout, s)" and env = "([], [])"
        and saved = running_backup, OF _ _ refl]
    by (auto simp: running_backup_def)
qed

end
