(* ===== verification/BackupBeta.thy ===== *)
theory BackupBeta
  imports BackupJobs
begin

text \<open>
  The v1beta1 backup controller (\<open>controllers/backup/backup_controller.go\<close> and \<open>utils.go\<close>): the status of a
  manual backup, the status and the cron job of a scheduled one, and the specifications of their jobs.

  \<open>be_backup\<close> is the backup in memory. \<open>apply\<close> is a forced server-side apply of the whole object,
  one call; the random suffix of a name and the clock are answers of the world.
\<close>

record BetaState = World +
  be_backup :: BetaBackup

section \<open>utils.go\<close>

definition LabelCluster :: string where "LabelCluster = ''backups.mysql.radondb.com/cluster''"
definition LableCronJob :: string where "LableCronJob = ''backups.mysql.radondb.com/cronjob''"
definition LableManualJob :: string where "LableManualJob = ''backups.mysql.radondb.com/manualjob''"

definition BackupSelector :: "string \<Rightarrow> smap" where
  "BackupSelector clusterName = [LabelCluster \<mapsto> clusterName]"

text \<open>The first condition of the type decides.\<close>

definition jobCompleted :: "Job \<Rightarrow> bool" where
  "jobCompleted job = (case jobCondition JobComplete job of Some c \<Rightarrow> jc_Status c = CondTrue | None \<Rightarrow> False)"

definition jobFailed :: "Job \<Rightarrow> bool" where
  "jobFailed job = (case jobCondition JobFailed job of Some c \<Rightarrow> jc_Status c = CondTrue | None \<Rightarrow> False)"

definition BackupJobName :: "BetaCluster \<Rightarrow> string \<Rightarrow> string" where
  "BackupJobName cluster rand = bcl_Name cluster @ ''-backup-'' @ rand"

definition ManualBackupLabels :: "string \<Rightarrow> smap" where
  "ManualBackupLabels clusterName = [LabelCluster \<mapsto> clusterName, LableManualJob \<mapsto> ''true'']"

definition CronBackupLabels :: "string \<Rightarrow> smap" where
  "CronBackupLabels clusterName = [LabelCluster \<mapsto> clusterName, LableCronJob \<mapsto> ''true'']"

text \<open>The loop of \<open>GetBackupHost\<close>: the host is assigned before the test and again inside it.\<close>

fun backup_host :: "string \<Rightarrow> NodeStatus list \<Rightarrow> string res" where
  "backup_host host [] = Ok host"
| "backup_host host (n # ns) =
     (let host = ns_Name n in
      if rf_Role (ns_RaftStatus n) = ''FOLLOWER'' then
        (case ns_Conditions n of
           [] \<Rightarrow> Panic ''index out of range''
         | c # _ \<Rightarrow> if nc_Status c = CondFalse then backup_host (ns_Name n) ns else backup_host host ns)
      else backup_host host ns)"

definition GetBackupHost :: "BetaCluster \<Rightarrow> string res" where
  "GetBackupHost cluster = backup_host [] (st_Nodes (bcl_Status cluster))"

definition GetXtrabackupURL :: "string \<Rightarrow> string" where
  "GetXtrabackupURL backupHost = backupHost @ '':'' @ nat_str XBackupPort"

definition beta_GetBackupURL :: "string \<Rightarrow> string \<Rightarrow> string \<Rightarrow> string" where
  "beta_GetBackupURL clusterName hostName ns =
     (if length hostName \<noteq> 0 then hostName @ ''.'' @ clusterName @ ''-mysql.'' @ ns @ '':'' @ nat_str XBackupPort
      else clusterName @ ''-leader.'' @ ns @ '':'' @ nat_str XBackupPort)"

section \<open>Job specifications\<close>

definition s3_job_env :: "string \<Rightarrow> EnvVar list" where
  "s3_job_env s3SecretName =
     [getEnvVarFromSecret s3SecretName ''S3_ENDPOINT'' ''s3-endpoint'' False,
      getEnvVarFromSecret s3SecretName ''S3_ACCESSKEY'' ''s3-access-key'' True,
      getEnvVarFromSecret s3SecretName ''S3_SECRETKEY'' ''s3-secret-key'' True,
      getEnvVarFromSecret s3SecretName ''S3_BUCKET'' ''s3-bucket'' True]"

definition beta_hostname :: "BetaBackup \<Rightarrow> string" where
  "beta_hostname b =
     (let host = bop_BackupHost (bbp_BackupOpts (bb_Spec b)); cluster = bbp_ClusterName (bb_Spec b) in
      if host \<noteq> [] then host @ ''.'' @ cluster @ ''-mysql.'' @ bb_Namespace b else cluster @ ''-follower'')"

text \<open>The internal root password of the cluster; an error leaves the secret empty and is not returned.\<close>

definition internal_root_pass :: "Env \<Rightarrow> BetaBackup \<Rightarrow> ('z World_scheme, string) go" where
  "internal_root_pass E b =
     bnd (attempt (get_secret E (bb_Namespace b) (bbp_ClusterName (bb_Spec b) @ ''-secret''))) (\<lambda>r.
     ret (case r of Inl _ \<Rightarrow> [] | Inr data \<Rightarrow> lget data ''internal-root-password''))"

definition mount :: "string \<Rightarrow> string \<Rightarrow> VolumeMount" where
  "mount n p = \<lparr>vm_Name = n, vm_MountPath = p\<rparr>"

definition binlog_labels :: "BetaBackup \<Rightarrow> smap" where
  "binlog_labels b = [''Host'' \<mapsto> beta_hostname b, ''Type'' \<mapsto> ''backup'', ''Cluster'' \<mapsto> bbp_ClusterName (bb_Spec b)]"

definition genBinlogJobTemplate :: "Env \<Rightarrow> string \<times> string \<Rightarrow> BetaBackup \<Rightarrow> BetaCluster \<Rightarrow> string \<Rightarrow> ('z World_scheme, JobSpec) go" where
  "genBinlogJobTemplate E env b cluster secret =
     bnd (internal_root_pass E b) (\<lambda>pass. ret (empty_job_spec\<lparr>
       js_Labels := binlog_labels b,
       js_InitContainers := [empty_container\<lparr>kc_Name := ''initial'',
         kc_Image := GetImage (fst env) (snd env) (bo_Image (bs_Backup (bcl_Spec cluster))),
         kc_ImagePullPolicy := bs_ImagePullPolicy (bcl_Spec cluster),
         kc_Command := [''bash'', ''-c'', ''cp /mnt/s3upload /opt/radondb; chown -R 1001.1001 /opt/radondb''],
         kc_VolumeMounts := [mount ''mysql-checker'' ''/opt/radondb'']\<rparr>],
       js_Containers := [empty_container\<lparr>kc_Name := ''backup'', kc_Image := ''percona:8.0'',
         kc_ImagePullPolicy := bs_ImagePullPolicy (bcl_Spec cluster),
         kc_Env := s3_job_env secret @ [val_env ''BACKUP_TYPE'' ''s3'', val_env ''CLUSTER_NAME'' (bcl_Name cluster)],
         kc_Command := [''bash'', ''-c'', ''/opt/radondb/s3upload '' @ beta_hostname b @ '' '' @ pass],
         kc_VolumeMounts := [mount ''mysql-checker'' ''/opt/radondb'']\<rparr>],
       js_RestartPolicy := ''Never'', js_ServiceAccountName := bbp_ClusterName (bb_Spec b),
       js_Volumes := [vol ''mysql-checker'' EmptyDir]\<rparr>))"

definition job_name_field :: string where
  "job_name_field = ''metadata.labels['' @ [CHR 0x27] @ ''job-name'' @ [CHR 0x27] @ '']''"

text \<open>The environment; with neither S3 nor NFS the last variable is the zero value, which has no name.\<close>

definition backup_job_env :: "BetaBackup \<Rightarrow> BetaCluster \<Rightarrow> string \<Rightarrow> EnvVar list" where
  "backup_job_env b cluster backupHost =
     (let opts = bbp_BackupOpts (bb_Spec b); sct = bcl_Name cluster @ ''-secret'' in
      [val_env ''CONTAINER_TYPE'' ''backup-job'', val_env ''NAMESPACE'' (bcl_Namespace cluster),
       val_env ''CLUSTER_NAME'' (bcl_Name cluster), val_env ''SERVICE_NAME'' (bcl_Name cluster @ ''-mysql''),
       val_env ''HOST_NAME'' backupHost, field_env ''JOB_NAME'' job_name_field,
       getEnvVarFromSecret sct ''BACKUP_USER'' ''backup-user'' True,
       getEnvVarFromSecret sct ''BACKUP_PASSWORD'' ''backup-password'' True] @
      (case bop_S3 opts of None \<Rightarrow> [] | Some secret \<Rightarrow> s3_job_env secret) @
      [if bop_NFS opts \<noteq> None then val_env ''BACKUP_TYPE'' ''nfs''
       else if bop_S3 opts \<noteq> None then val_env ''BACKUP_TYPE'' ''s3'' else val_env [] []])"

definition backup_job_spec :: "string \<times> string \<Rightarrow> BetaBackup \<Rightarrow> BetaCluster \<Rightarrow> string \<Rightarrow> smap \<Rightarrow> JobSpec" where
  "backup_job_spec env b cluster backupHost ls =
     (let opts = bbp_BackupOpts (bb_Spec b);
          url = (if length (bop_BackupHost opts) \<noteq> 0
                 then beta_GetBackupURL (bcl_Name cluster) (bop_BackupHost opts) (bcl_Namespace cluster)
                 else GetXtrabackupURL backupHost)
      in empty_job_spec\<lparr>
       js_Labels := ls,
       js_Containers := [empty_container\<lparr>kc_Name := ''backup'',
         kc_Image := GetImage (fst env) (snd env) (bo_Image (bs_Backup (bcl_Spec cluster))),
         kc_ImagePullPolicy := bs_ImagePullPolicy (bcl_Spec cluster),
         kc_Env := backup_job_env b cluster backupHost, kc_Args := [''request_a_backup'', url],
         kc_VolumeMounts := (if bop_NFS opts = None then [] else [mount ''nfs-backup'' ''/backup''])\<rparr>],
       js_RestartPolicy := ''Never'', js_ServiceAccountName := bbp_ClusterName (bb_Spec b),
       js_Volumes := (case bop_NFS opts of None \<Rightarrow> [] | Some v \<Rightarrow> [vol ''nfs-backup'' (NFSVol (nv_Server v) (nv_Path v))]),
       js_Tolerations := bs_Tolerations (bcl_Spec cluster), js_Affinity := bs_Affinity (bcl_Spec cluster),
       js_BackoffLimit := Some 1\<rparr>)"

definition generateBackupJobSpec ::
  "Env \<Rightarrow> string \<times> string \<Rightarrow> BetaBackup \<Rightarrow> BetaCluster \<Rightarrow> smap \<Rightarrow> ('z World_scheme, JobSpec) go" where
  "generateBackupJobSpec E env b cluster ls =
     bnd (lift (GetBackupHost cluster)) (\<lambda>backupHost.
     let opts = bbp_BackupOpts (bb_Spec b) in
     if bop_S3 opts \<noteq> None \<and> bop_NFS opts \<noteq> None then fail (GErr ''backup can only be configured with one of S3 or NFS'')
     else case bop_S3Binlog opts of
         Some secret \<Rightarrow> genBinlogJobTemplate E env b cluster secret
       | None \<Rightarrow> ret (backup_job_spec env b cluster backupHost ls))"

section \<open>The binlog job\<close>

definition binlog_command :: string where
  "binlog_command = ''cd /backup/%s;mysql -uroot -p%s -h%s -N -e '' @ [CHR 0x22] @ ''SHOW BINARY LOGS'' @ [CHR 0x22] @
     '' | awk '' @ [CHR 0x27] @ ''{print '' @ [CHR 0x22] @
     ''mysqlbinlog --read-from-remote-server --raw --host=%s --port=3306 --user=root --password=%s --raw'' @
     [CHR 0x22] @ '', $1}'' @ [CHR 0x27] @ ''|bash''"

definition createJobPodTemplate :: "Env \<Rightarrow> BetaBackup \<Rightarrow> NFSVolumeSource \<Rightarrow> string \<Rightarrow> ('z World_scheme, JobSpec) go" where
  "createJobPodTemplate E b nfs backupDir =
     bnd (internal_root_pass E b) (\<lambda>pass. let host = beta_hostname b in ret (empty_job_spec\<lparr>
       js_Labels := [''app'' \<mapsto> ''binlogbackup''],
       js_RestartPolicy := ''Never'',
       js_InitContainers := [empty_container\<lparr>kc_Name := ''initial'', kc_Image := ''busybox:1.32'',
         kc_Command := [''sh'', ''-c'', sprintf_s ''mkdir /backup/%s && chown 1001:1001 /backup/%s'' [backupDir, backupDir]],
         kc_VolumeMounts := [mount ''nfs-backup'' ''/backup'']\<rparr>],
       js_Containers := [empty_container\<lparr>kc_Name := ''backup'', kc_Image := ''percona:8.0'',
         kc_Command := [''/bin/bash'', ''-c'', ''--'', sprintf_s binlog_command [backupDir, pass, host, host, pass]],
         kc_VolumeMounts := [mount ''nfs-backup'' ''/backup'']\<rparr>],
       js_Volumes := [vol ''nfs-backup'' (NFSVol (nv_Server nfs) (nv_Path nfs))]\<rparr>))"

text \<open>
  The existing job is read, but compared as a pointer with a value, which are never equal; so it is
  always applied. An error of the apply is logged only.
\<close>

definition createBinlogJob :: "Env \<Rightarrow> BetaBackup \<Rightarrow> BetaCluster \<Rightarrow> ('z World_scheme, unit) go" where
  "createBinlogJob E b cluster =
     (case bop_NFS (bbp_BackupOpts (bb_Spec b)) of
        None \<Rightarrow> ret ()
      | Some nfs \<Rightarrow>
        if length (st_LastBackupGtid (bcl_Status cluster)) = 0 \<or> length (st_LastBackup (bcl_Status cluster)) = 0 then ret ()
        else
          bnd (createJobPodTemplate E b nfs (st_LastBackup (bcl_Status cluster) @ ''bin'')) (\<lambda>spec.
          let job = (new_job (bb_Name b @ ''-binlogbak'') (bb_Namespace b))\<lparr>job_Labels := binlog_labels b, job_Owners := [bb_Name b],
                job_Spec := spec\<lparr>js_Completions := Some 1, js_BackoffLimit := Some 0\<rparr>\<rparr>
          in bnd (attempt (call E (EvCtl (EvGetJob (bcl_Namespace cluster) (job_Name job))))) (\<lambda>r.
             if (case r of Inl (NotFound _) \<Rightarrow> True | Inr _ \<Rightarrow> True | _ \<Rightarrow> False)
             then bnd (attempt (call E (EvCtl (EvApplyJob job)))) (\<lambda>_. ret ())
             else fail (GErr ''failed to get Job''))))"

section \<open>Manual backups\<close>

text \<open>\<open>job.GetOwnerReferences()[0]\<close> panics on a job without an owner.\<close>

fun find_owned :: "string \<Rightarrow> Job list \<Rightarrow> Job option res" where
  "find_owned name [] = Ok None"
| "find_owned name (j # js) =
     (case job_Owners j of
        [] \<Rightarrow> Panic ''index out of range''
      | n # _ \<Rightarrow> if n = name then Ok (Some j) else find_owned name js)"

definition job_state :: "Job \<Rightarrow> string" where
  "job_state j = (if job_Succeeded j > 0 then BackupSucceeded else if job_Active j > 0 then BackupActive
     else if job_Failed j > 0 then BackupFailed else BackupStart)"

definition manual_of_job :: "Job \<Rightarrow> ManualBackupStatus \<Rightarrow> ManualBackupStatus" where
  "manual_of_job j m =
     (let a = lget (job_Annotations j);
          m1 = m\<lparr>mbs_CompletionTime := job_CompletionTime j, mbs_StartTime := job_StartTime j, mbs_Failed := job_Failed j,
            mbs_Succeeded := job_Succeeded j, mbs_Active := job_Active j\<rparr>;
          m2 = (if jobCompleted j then m1\<lparr>mbs_BackupName := a ''backupName'', mbs_BackupSize := a ''backupSize'',
            mbs_BackupType := a ''backupType'', mbs_Gtid := a ''gtid''\<rparr> else m1);
          m3 = (if jobCompleted j \<or> jobFailed j then m2\<lparr>mbs_Finished := True\<rparr> else m2)
      in m3\<lparr>mbs_State := job_state j\<rparr>)"

definition status_of_manual :: "ManualBackupStatus \<Rightarrow> BetaBackupStatus \<Rightarrow> BetaBackupStatus" where
  "status_of_manual m st = st\<lparr>bbs_ManualBackup := Some m, bbs_BackupName := mbs_BackupName m, bbs_BackupSize := mbs_BackupSize m,
     bbs_BackupType := mbs_BackupType m, bbs_Gtid := mbs_Gtid m, bbs_State := mbs_State m,
     bbs_CompletionTime := mbs_CompletionTime m, bbs_StartTime := mbs_StartTime m, bbs_Type := ''Manual''\<rparr>"

definition fresh_manual :: ManualBackupStatus where
  "fresh_manual = \<lparr>mbs_Finished = False, mbs_BackupName = [], mbs_StartTime = None, mbs_CompletionTime = None,
     mbs_Succeeded = 0, mbs_Active = 0, mbs_Failed = 0, mbs_Reason = [], mbs_BackupType = [], mbs_BackupSize = [],
     mbs_Gtid = [], mbs_State = []\<rparr>"

text \<open>The status after the job has been looked at, and the manual status in it.\<close>

definition note_manual :: "Job option \<Rightarrow> BetaBackupStatus \<Rightarrow> BetaBackupStatus \<times> ManualBackupStatus" where
  "note_manual current st =
     (case bbs_ManualBackup st of
        None \<Rightarrow> (st\<lparr>bbs_ManualBackup := Some fresh_manual\<rparr>, fresh_manual)
      | Some m \<Rightarrow> (case current of None \<Rightarrow> (st, m)
          | Some j \<Rightarrow> let m1 = manual_of_job j m in (status_of_manual m1 st, m1)))"

definition beta_label :: "BetaBackup \<Rightarrow> BetaBackup" where
  "beta_label b = b\<lparr>bb_Labels := [''cluster'' \<mapsto> bbp_ClusterName (bb_Spec b)]\<rparr>"

definition set_beta :: "(BetaBackup \<Rightarrow> BetaBackup) \<Rightarrow> (BetaState, unit) go" where
  "set_beta f = modify (\<lambda>s. s\<lparr>be_backup := f (be_backup s)\<rparr>)"

definition random_name :: "Env \<Rightarrow> ('z World_scheme, string) go" where
  "random_name E = gets (\<lambda>s. ca_random (we_ctl E (w_trace s)))"

definition apply_manual :: "Env \<Rightarrow> string \<times> string \<Rightarrow> Job option \<Rightarrow> BetaCluster \<Rightarrow> (BetaState, unit) go" where
  "apply_manual E env current cluster =
     bnd (random_name E) (\<lambda>rand.
     bnd (gets be_backup) (\<lambda>b.
     let name = (case current of None \<Rightarrow> BackupJobName cluster rand | Some j \<Rightarrow> job_Name j);
         ls = ManualBackupLabels (bcl_Name cluster)
     in bnd (generateBackupJobSpec E env b cluster ls) (\<lambda>spec.
        bnd (call E (EvCtl (EvApplyJob ((new_job name (bcl_Namespace cluster))
               \<lparr>job_Labels := ls, job_Spec := spec, job_Owners := [bb_Name b]\<rparr>)))) (\<lambda>_.
        createBinlogJob E b cluster))))"

definition ensure_cluster_label :: "Env \<Rightarrow> (BetaState, unit) go" where
  "ensure_cluster_label E =
     bnd (gets be_backup) (\<lambda>b.
     if length (lget (bb_Labels b) ''cluster'') = 0
     then bnd (set_beta beta_label) (\<lambda>_. bnd (gets be_backup) (\<lambda>b. call E (EvCtl (EvUpdateBetaBackup b)))) else ret ())"

definition reconcileManualBackup :: "Env \<Rightarrow> string \<times> string \<Rightarrow> Job list \<Rightarrow> BetaCluster \<Rightarrow> (BetaState, unit) go" where
  "reconcileManualBackup E env jobs cluster =
     bnd (ensure_cluster_label E) (\<lambda>_.
     bnd (gets be_backup) (\<lambda>b.
     if bbp_BackupSchedule (bb_Spec b) \<noteq> None then ret ()
     else
       bnd (lift (find_owned (bb_Name b) jobs)) (\<lambda>current.
       let (st, m) = note_manual current (bb_Status b) in
       bnd (set_beta (\<lambda>b. b\<lparr>bb_Status := st\<rparr>)) (\<lambda>_.
       if mbs_Finished m then ret () else apply_manual E env current cluster))))"

section \<open>Scheduled backups\<close>

definition scheduled_of_job :: "Job \<Rightarrow> ScheduledBackupStatus" where
  "scheduled_of_job j =
     (let a = lget (job_Annotations j) in
      \<lparr>sbs_CronJobName = (case job_Owners j of [] \<Rightarrow> [] | n # _ \<Rightarrow> n), sbs_BackupName = a ''backupName'',
       sbs_Finished = (jobCompleted j \<or> jobFailed j), sbs_BackupType = a ''backupType'', sbs_StartTime = job_StartTime j,
       sbs_CompletionTime = job_CompletionTime j, sbs_Succeeded = job_Succeeded j, sbs_Failed = job_Failed j,
       sbs_Reason = [], sbs_BackupSize = a ''backupSize'', sbs_Gtid = a ''gtid'', sbs_State = job_state j\<rparr>)"

definition scheduled_status :: "Job list \<Rightarrow> ScheduledBackupStatus list" where
  "scheduled_status jobs = map scheduled_of_job (filter (\<lambda>j. lget (job_Labels j) LableCronJob \<noteq> []) jobs)"

definition note_scheduled :: "Job list \<Rightarrow> BetaBackupStatus \<Rightarrow> BetaBackupStatus" where
  "note_scheduled jobs st =
     (let sched = scheduled_status jobs;
          st1 = (if length sched > 0 then
            let l = last sched in st\<lparr>bbs_StartTime := sbs_StartTime l, bbs_CompletionTime := sbs_CompletionTime l,
              bbs_BackupName := sbs_BackupName l, bbs_BackupSize := sbs_BackupSize l, bbs_Type := ''CronJob'',
              bbs_State := sbs_State l, bbs_Gtid := sbs_Gtid l, bbs_BackupType := sbs_BackupType l\<rparr> else st)
      in st1\<lparr>bbs_ScheduledBackups := sched\<rparr>)"

text \<open>The name of the cron job: that of the last one listed that is the cluster's own and not being deleted.\<close>

fun cron_job_name :: "string \<Rightarrow> string \<times> string \<Rightarrow> string \<Rightarrow> BatchCronJob list \<Rightarrow> string \<times> string" where
  "cron_job_name cluster meta ns [] = meta"
| "cron_job_name cluster meta ns (c # cs) =
     (if cj_Deleting c then cron_job_name cluster meta ns cs
      else if lget (cj_Labels c) LabelCluster = cluster \<and> lget (cj_Labels c) LableCronJob = ''true''
        then cron_job_name cluster (cj_Name c, ns) ns cs
        else cron_job_name cluster meta ns cs)"

definition reconcileCronBackup ::
  "Env \<Rightarrow> string \<times> string \<Rightarrow> BatchCronJob list \<Rightarrow> Job list \<Rightarrow> BetaCluster \<Rightarrow> (BetaState, unit) go" where
  "reconcileCronBackup E env cronjobs jobs cluster =
     bnd (gets be_backup) (\<lambda>b. case bbp_BackupSchedule (bb_Spec b) of
       None \<Rightarrow> ret ()
     | Some sched \<Rightarrow>
       bnd (set_beta (\<lambda>b. b\<lparr>bb_Status := note_scheduled jobs (bb_Status b)\<rparr>)) (\<lambda>_.
       bnd (random_name E) (\<lambda>rand.
       let ls = CronBackupLabels (bcl_Name cluster);
           (name, ns) = cron_job_name (bcl_Name cluster) (BackupJobName cluster rand, bcl_Namespace cluster) (bb_Namespace b) cronjobs
       in bnd (generateBackupJobSpec E env b cluster ls) (\<lambda>spec.
          let suspend = (st_State (bcl_Status cluster) \<noteq> ClusterReadyState \<or> bs_Standby (bcl_Spec cluster) \<noteq> None);
              cj = \<lparr>cj_Name = name, cj_Namespace = ns, cj_Labels = ls, cj_Deleting = False,
                cj_Schedule = bsc_CronExpression sched, cj_Suspend = suspend, cj_ConcurrencyPolicy = ''Forbid'',
                cj_JobSpec = spec, cj_Owner = bb_Name b\<rparr>
          in bnd (attempt (call E (EvCtl (EvApplyCronJob cj)))) (\<lambda>_. ret ())))))"

section \<open>Reconcile\<close>

definition zero_resources :: ResourceRequirements where
  "zero_resources = \<lparr>rr_mem_request = 0, rr_cpu_limit_milli = 0, rr_other = []\<rparr>"

text \<open>The cluster object before it is read: its name and namespace.\<close>

definition blank_cluster :: "string \<Rightarrow> string \<Rightarrow> BetaCluster" where
  "blank_cluster name ns = \<lparr>bcl_Name = name, bcl_Namespace = ns,
     bcl_Spec = \<lparr>bs_Replicas = 0, bs_ReadOnlys = None, bs_ReplicaLag = None, bs_User = [],
       bs_MySQLConfig = \<lparr>mcf_ConfigMapName = [], mcf_MysqlConfig = Map.empty, mcf_PluginConfig = Map.empty\<rparr>,
       bs_Resources = zero_resources, bs_CustomTLSSecret = None,
       bs_Storage = \<lparr>cs_AccessModes = [], cs_StorageClassName = None, cs_Storage = None\<rparr>, bs_MysqlVersion = [],
       bs_Xenon = \<lparr>xo_Image = [], xo_AdmitDefeatHearbeatCount = None, xo_ElectionTimeout = None, xo_EnableAutoRebuild = False,
         xo_Resources = zero_resources\<rparr>,
       bs_Backup = \<lparr>bo_Image = [], bo_Resources = zero_resources\<rparr>,
       bs_Exporter = \<lparr>ex_CustomTLSSecret = None, ex_Image = [], ex_Resources = zero_resources, ex_Enabled = False\<rparr>,
       bs_Image = [], bs_MaxLagSeconds = 0, bs_ImagePullPolicy = [], bs_Tolerations = [], bs_Affinity = None,
       bs_PriorityClassName = [], bs_MinAvailable = [],
       bs_DataSource = \<lparr>ds_SourceConfig = None, ds_RemoteCluster = None, ds_S3Name = [], ds_S3SecretName = [],
         ds_NFSBackup = None, ds_RestorePoint = []\<rparr>,
       bs_Standby = None, bs_EnableAutoRebuild = False,
       bs_Log = \<lparr>lo_BusyboxImage = [], lo_SlowLogTail = False, lo_AuditLogTail = False, lo_LogfilePVC = None,
         lo_Resources = zero_resources\<rparr>,
       bs_Service = None, bs_LeaderAsFollower = False, bs_ServerIDOffset = 0\<rparr>,
     bcl_Status = \<lparr>st_ReadyNodes = 0, st_State = [], st_LastBackup = [], st_LastBackupTime = None, st_LastBackupGtid = [],
       st_Conditions = [], st_Nodes = []\<rparr>\<rparr>"

text \<open>Errors of the two reconcile steps are logged; only reading the jobs and patching the status can fail.\<close>

definition Beta_Reconcile :: "Env \<Rightarrow> string \<times> string \<Rightarrow> string \<Rightarrow> string \<Rightarrow> (BetaState, unit) go" where
  "Beta_Reconcile E env ns name =
     bnd (attempt (query E (EvCtl (EvGetBetaBackup ns name)) (\<lambda>t. ca_beta_backup (we_ctl E t)))) (\<lambda>r. case r of
       Inl e \<Rightarrow> (case e of NotFound _ \<Rightarrow> ret () | _ \<Rightarrow> fail e)
     | Inr before \<Rightarrow>
       if bbp_ClusterName (bb_Spec before) = [] then fail (GErr ''backup.Spec.ClusterName is empty'')
       else
         let cname = bbp_ClusterName (bb_Spec before); bns = bb_Namespace before in
         bnd (set_beta (\<lambda>_. before)) (\<lambda>_.
         bnd (attempt (query E (EvCtl (EvGetBetaCluster bns cname)) (\<lambda>t. ca_beta_cluster (we_ctl E t)))) (\<lambda>r.
         let cluster = (case r of Inl _ \<Rightarrow> blank_cluster cname bns | Inr c \<Rightarrow> c) in
         bnd (query E (EvCtl (EvListJobs bns (BackupSelector cname))) (\<lambda>t. ca_jobs (we_ctl E t))) (\<lambda>jobs.
         bnd (query E (EvCtl (EvListCronJobs bns (BackupSelector cname))) (\<lambda>t. ca_cronjobs (we_ctl E t))) (\<lambda>cronjobs.
         bnd (attempt (reconcileManualBackup E env jobs cluster)) (\<lambda>_.
         bnd (attempt (reconcileCronBackup E env cronjobs jobs cluster)) (\<lambda>_.
         bnd (gets be_backup) (\<lambda>b.
         if bb_Status before \<noteq> bb_Status b then call E (EvCtl (EvPatchBetaStatus b)) else ret ()))))))))"

end
