(* ===== verification/BackupLaws.thy ===== *)
theory BackupLaws
  imports BackupBeta Monitor
begin

text \<open>
  Laws of the v1beta1 backup controller: the host a backup is taken from, the finished flag, and the job
  specifications.
\<close>

section \<open>The host of a backup\<close>

lemma backup_host_eq:
  "backup_host host ns =
     (if \<exists>n\<in>set ns. rf_Role (ns_RaftStatus n) = ''FOLLOWER'' \<and> ns_Conditions n = [] then Panic ''index out of range''
      else Ok (if ns = [] then host else ns_Name (last ns)))"
proof (induction ns arbitrary: host)
  case (Cons n ns)
  show ?case by (cases "ns_Conditions n") (auto simp: Cons Let_def)
qed simp

text \<open>
  The host of a backup without a configured host is the last node of the status, leader or not and lagging or
  not, because the loop assigns it before looking at the role; and a follower whose conditions are not yet
  filled in makes the controller panic.
\<close>

theorem GetBackupHost_last_node:
  "GetBackupHost cluster =
     (let ns = st_Nodes (bcl_Status cluster) in
      if \<exists>n\<in>set ns. rf_Role (ns_RaftStatus n) = ''FOLLOWER'' \<and> ns_Conditions n = [] then Panic ''index out of range''
      else Ok (if ns = [] then [] else ns_Name (last ns)))"
  by (simp add: GetBackupHost_def backup_host_eq Let_def)

section \<open>Finished backups\<close>

definition finished :: "BetaBackup \<Rightarrow> bool" where
  "finished b \<longleftrightarrow> (\<exists>m. bbs_ManualBackup (bb_Status b) = Some m \<and> mbs_Finished m)"

lemma manual_of_job_finished: "mbs_Finished (manual_of_job j m) = (mbs_Finished m \<or> jobCompleted j \<or> jobFailed j)"
  by (simp add: manual_of_job_def Let_def)

lemma note_manual_finished:
  assumes "bbs_ManualBackup st = Some m" "mbs_Finished m" "note_manual current st = (st', m')"
  shows "mbs_Finished m' \<and> bbs_ManualBackup st' = Some m'"
  using assms by (auto simp: note_manual_def status_of_manual_def manual_of_job_finished Let_def split: option.splits)

text \<open>The monitor that stops at an applied job.\<close>

fun no_job :: "unit \<Rightarrow> event \<Rightarrow> unit option" where
  "no_job q (EvCtl (EvApplyJob j)) = None"
| "no_job q e = Some ()"

lemma no_job_run: "run_monitor no_job q es = Some q' \<Longrightarrow> EvCtl (EvApplyJob j) \<notin> set es"
  by (induction es arbitrary: q) (auto split: option.splits)

definition done_state :: "BetaState \<Rightarrow> bool" where
  "done_state s \<longleftrightarrow> finished (be_backup s)"

lemma done_trace: "trace_free done_state"
  by (simp add: trace_free_def done_state_def)

lemma label_passes: "passes done_state no_job () (ensure_cluster_label E) (\<lambda>_ _. True)"
  unfolding ensure_cluster_label_def set_beta_def
  apply (rule passes_bnd_gets, rule passes_if)
  subgoal
    apply (rule passes_bnd, rule passes_modify)
    subgoal by (simp add: done_state_def finished_def beta_label_def)
    subgoal by (rule passes_bnd_gets, rule passes_call, rule done_trace) simp_all
    done
  subgoal by (rule passes_basic) simp
  done

lemma manual_passes: "passes done_state no_job () (reconcileManualBackup E env jobs cluster) (\<lambda>_ _. True)"
proof -
  have step: "passes done_state no_job q
      (let (st, m) = note_manual current (bb_Status b) in
       bnd (set_beta (\<lambda>b. b\<lparr>bb_Status := st\<rparr>)) (\<lambda>_. if mbs_Finished m then ret () else apply_manual E env current cluster))
      (\<lambda>_ _. True)" if "finished b" for b current q
  proof -
    obtain st m where n: "note_manual current (bb_Status b) = (st, m)" by (cases "note_manual current (bb_Status b)")
    from that obtain m0 where "bbs_ManualBackup (bb_Status b) = Some m0" "mbs_Finished m0" by (auto simp: finished_def)
    from note_manual_finished [OF this n] have m: "mbs_Finished m" "bbs_ManualBackup st = Some m" by simp_all
    show ?thesis
      unfolding n set_beta_def prod.case Let_def
      by (rule passes_bnd, rule passes_modify) (use m in \<open>simp_all add: done_state_def finished_def passes_basic(1)\<close>)
  qed
  show ?thesis
    unfolding reconcileManualBackup_def
    apply (rule passes_bnd, rule passes_weaken [OF label_passes])
    apply (rule passes_bnd_gets, rule passes_if, rule passes_basic, rule TrueI)
    apply (rule passes_bnd, rule passes_basic(4), rule step)
    apply (simp add: done_state_def)
    done
qed

text \<open>
  C12. A finished manual backup stays finished and no job is applied for it any more, whatever jobs are found
  and whatever the API server answers, even when the reconciliation fails or panics.
\<close>

theorem finished_backup_is_final:
  assumes "finished (be_backup s)" and "reconcileManualBackup E env jobs cluster s = (r, t)"
  shows "finished (be_backup t) \<and> (\<exists>es. w_trace t = w_trace s @ es \<and> EvCtl (EvApplyJob j) \<notin> set es)"
proof -
  have s: "done_state s" by (simp add: done_state_def assms(1))
  from manual_passes have "monitors done_state no_job () (reconcileManualBackup E env jobs cluster) (\<lambda>_ _. True)"
    unfolding passes_def by simp
  from monitorsD [OF this s assms(2)] obtain es q' where
    "done_state t" "w_trace t = w_trace s @ es" "run_monitor no_job () es = Some q'" .
  then show ?thesis by (auto simp: done_state_def dest: no_job_run)
qed

section \<open>Job specifications\<close>

text \<open>
  The specification of a backup job is usable only if a storage is chosen: every volume a container mounts is a
  volume of the pod, but with neither S3 nor NFS the environment ends with a variable without a name, which the API
  server refuses.
\<close>

theorem backup_job_spec_env_named:
  "list_all (\<lambda>k. list_all (\<lambda>m. vm_Name m \<in> v_Name ` set (js_Volumes (backup_job_spec env b cluster h ls))) (kc_VolumeMounts k))
      (js_Containers (backup_job_spec env b cluster h ls)) \<and>
   (list_all (\<lambda>k. list_all (\<lambda>e. en_Name e \<noteq> []) (kc_Env k)) (js_Containers (backup_job_spec env b cluster h ls)) \<longleftrightarrow>
      bop_S3 (bbp_BackupOpts (bb_Spec b)) \<noteq> None \<or> bop_NFS (bbp_BackupOpts (bb_Spec b)) \<noteq> None)"
  by (auto simp: backup_job_spec_def backup_job_env_def s3_job_env_def getEnvVarFromSecret_def val_env_def field_env_def mount_def
      vol_def Let_def split: option.split)

definition old_backup :: BetaBackup where
  "old_backup = \<lparr>bb_Name = ''b'', bb_Namespace = ''ns'', bb_Labels = Map.empty,
     bb_Spec = \<lparr>bbp_ClusterName = ''c'', bbp_BackupMethod = [], bbp_Manual = None, bbp_BackupSchedule = None,
       bbp_BackupOpts = \<lparr>bop_BackupHost = [], bop_S3 = None, bop_NFS = None, bop_S3Binlog = None\<rparr>\<rparr>,
     bb_Status = \<lparr>bbs_Type = [], bbs_BackupName = [], bbs_BackupSize = [], bbs_BackupType = [], bbs_StartTime = None,
       bbs_CompletionTime = None, bbs_State = [], bbs_Gtid = [], bbs_ManualBackup = Some (fresh_manual\<lparr>mbs_Finished := True\<rparr>),
       bbs_ScheduledBackups = []\<rparr>\<rparr>"

theorem finished_backup_is_final_witness:
  "\<forall>E s j. finished (be_backup (snd (reconcileManualBackup E ([], []) [j] (blank_cluster ''c'' ''ns'') (s\<lparr>be_backup := old_backup\<rparr>))))"
proof (intro allI)
  fix E and s :: BetaState and j
  have "finished (be_backup (s\<lparr>be_backup := old_backup\<rparr>))" by (simp add: finished_def old_backup_def)
  from finished_backup_is_final [OF this surjective_pairing]
  show "finished (be_backup (snd (reconcileManualBackup E ([], []) [j] (blank_cluster ''c'' ''ns'') (s\<lparr>be_backup := old_backup\<rparr>))))"
    by simp
qed

end
