(* ===== verification/Users.thy ===== *)
theory Users
  imports Monitor UserSql
begin

text \<open>
  MySQL users: the wrapper and its conditions (\<open>mysqluser/mysqluser.go\<close>, \<open>status.go\<close>), the hash of
  \<open>utils/unsafe.go\<close>, and the reconciler (\<open>controllers/mysqluser_controller.go\<close>).

  \<open>um_user\<close> is the user object in memory. An update stores the server's answer in it, and the server
  does not take the status from an update, so the status after an update is an answer of the world.
  \<open>gone\<close> says of an error that it is a NotFound whose details name the kind of the cluster; \<open>encode\<close> is
  \<open>rand.SafeEncodeString\<close>.
\<close>

record UState = World +
  um_user :: MysqlUser

section \<open>mysqluser.go and status.go\<close>

definition user_GetClusterKey :: "MysqlUser \<Rightarrow> string \<times> string" where
  "user_GetClusterKey u =
     (let ns = (if us_NameSpace (mu_Spec u) = [] then mu_Namespace u else us_NameSpace (mu_Spec u)) in
      (ns, us_ClusterName (mu_Spec u)))"

fun ConditionExists :: "string \<Rightarrow> MySQLUserCondition list \<Rightarrow> nat option" where
  "ConditionExists ct [] = None"
| "ConditionExists ct (c # cs) = (if uc_Type c = ct then Some 0 else map_option Suc (ConditionExists ct cs))"

definition user_UpdateStatusCondition ::
  "time \<Rightarrow> string \<Rightarrow> ConditionStatus \<Rightarrow> string \<Rightarrow> string \<Rightarrow> MySQLUserCondition list \<Rightarrow> MySQLUserCondition list" where
  "user_UpdateStatusCondition t ty status reason message cs =
     (case ConditionExists ty cs of
        None \<Rightarrow> cs @ [\<lparr>uc_Type = ty, uc_Status = status, uc_LastUpdateTime = t, uc_LastTransitionTime = t, uc_Reason = reason,
          uc_Message = message\<rparr>]
      | Some i \<Rightarrow> let c = cs ! i in
          cs[i := c\<lparr>uc_LastTransitionTime := (if status \<noteq> uc_Status c then t else uc_LastTransitionTime c),
            uc_LastUpdateTime := (if message \<noteq> uc_Message c \<or> reason \<noteq> uc_Reason c then t else uc_LastUpdateTime c),
            uc_Status := status, uc_Message := message, uc_Reason := reason\<rparr>])"

section \<open>Hash\<close>

text \<open>\<open>fnv.New32\<close>: 32-bit FNV-1, multiply then xor, in wrapping arithmetic.\<close>

definition fnv_step :: "32 word \<Rightarrow> char \<Rightarrow> 32 word" where
  "fnv_step h c = xor (h * 16777619) (of_char c)"

definition fnv32 :: "string \<Rightarrow> 32 word" where
  "fnv32 s = foldl fnv_step 2166136261 s"

definition Hash :: "(string \<Rightarrow> string) \<Rightarrow> string \<Rightarrow> string" where
  "Hash encode s = encode (nat_str (unat (fnv32 s)))"

section \<open>The reconciler\<close>

definition user_finalizer :: string where "user_finalizer = ''mysqluser-finalizer''"

definition set_user :: "(MysqlUser \<Rightarrow> MysqlUser) \<Rightarrow> (UState, unit) go" where
  "set_user f = modify (\<lambda>s. s\<lparr>um_user := f (um_user s)\<rparr>)"

definition set_ustatus :: "(UserStatus \<Rightarrow> UserStatus) \<Rightarrow> (UState, unit) go" where
  "set_ustatus f = set_user (\<lambda>u. u\<lparr>mu_Status := f (mu_Status u)\<rparr>)"

definition update_user :: "Env \<Rightarrow> (UState, unit) go" where
  "update_user E =
     bnd (gets um_user) (\<lambda>u.
     bnd (query E (EvCtl (EvUpdateUser u)) (\<lambda>t. ca_user (we_ctl E t))) (\<lambda>v. set_ustatus (\<lambda>_. mu_Status v)))"

definition connect :: "Env \<Rightarrow> MysqlUser \<Rightarrow> ('z World_scheme, string) go" where
  "connect E u =
     bnd (attempt (NewConfigFromClusterKey (get_cluster E) (get_secret E) (user_GetClusterKey u) RootUser LeaderHost)) (\<lambda>cfg.
     runner_of E cfg)"

text \<open>\<open>fmt.Sprintf("%v", args)\<close> of the argument slice.\<close>

definition show_args :: "string list \<Rightarrow> string" where
  "show_args args = ''['' @ join_with '' '' args @ '']''"

definition reconcileUserInDB :: "Env \<Rightarrow> (string \<Rightarrow> string) \<Rightarrow> (UState, unit) go" where
  "reconcileUserInDB E encode =
     bnd (gets um_user) (\<lambda>u.
     bnd (connect E u) (\<lambda>h.
     bnd (get_secret E (mu_Namespace u) (us_SecretName (mu_Spec u))) (\<lambda>data.
     let password = lget data (us_SecretKey (mu_Spec u)); db = world_sql E h; name = us_User (mu_Spec u) in
     if password = [] then fail (GErr ''the MySQL user's password must not be empty'')
     else
       bnd (handle (CheckUserExists db name) (\<lambda>e. fail (GErr (''failed to check if user exists: '' @ err_text e)))) (\<lambda>exists.
       bnd (if \<not> exists then set_ustatus (\<lambda>st. st\<lparr>ust_Revision := []\<rparr>) else ret ()) (\<lambda>_.
       bnd (each (DropUser db name) (StringDiffIn (ust_AllowedHosts (mu_Status u)) (us_Hosts (mu_Spec u)))) (\<lambda>_.
       bnd (lift (BuildUserManagementSQL (mu_Spec u) password)) (\<lambda>sql.
       let hash = Hash encode (q_sql sql @ show_args (q_args sql)) in
       bnd (gets (\<lambda>s. ust_Revision (mu_Status (um_user s)))) (\<lambda>revision.
       if hash = revision then ret ()
       else bnd (sr_exec db sql) (\<lambda>_. set_ustatus (\<lambda>st. st\<lparr>ust_Revision := hash\<rparr>))))))))))"

definition set_condition :: "Env \<Rightarrow> ConditionStatus \<Rightarrow> string \<Rightarrow> string \<Rightarrow> (UState, unit) go" where
  "set_condition E status reason message =
     bnd (gets (\<lambda>s. Some (we_now E (w_trace s)))) (\<lambda>t.
     set_ustatus (\<lambda>st. st\<lparr>ust_Conditions := user_UpdateStatusCondition t ''Ready'' status reason message (ust_Conditions st)\<rparr>))"

text \<open>The body, and the deferred \<open>setFailedStatus\<close>.\<close>

definition provision_user :: "Env \<Rightarrow> (string \<Rightarrow> string) \<Rightarrow> (UState, unit) go" where
  "provision_user E encode =
     bnd (reconcileUserInDB E encode) (\<lambda>_.
     bnd (gets um_user) (\<lambda>u.
     bnd (if user_finalizer \<notin> set (mu_Finalizers u)
          then bnd (set_user (\<lambda>u. u\<lparr>mu_Finalizers := mu_Finalizers u @ [user_finalizer]\<rparr>)) (\<lambda>_. update_user E) else ret ()) (\<lambda>_.
     bnd (set_user (\<lambda>u. u\<lparr>mu_Status := (mu_Status u)\<lparr>ust_AllowedHosts := us_Hosts (mu_Spec u)\<rparr>\<rparr>)) (\<lambda>_.
     set_condition E CondTrue ''ProvisionSucceeded'' ''The user provisioning has succeeded.''))))"

definition reconcileUserInCluster :: "Env \<Rightarrow> (string \<Rightarrow> string) \<Rightarrow> (UState, unit) go" where
  "reconcileUserInCluster E encode =
     handle (provision_user E encode) (\<lambda>e.
       bnd (set_condition E CondFalse ''ProvisionFailed'' (''The user provisioning has failed: '' @ err_text e)) (\<lambda>_. fail e))"

definition dropUserFromDB :: "Env \<Rightarrow> (gerr \<Rightarrow> bool) \<Rightarrow> (UState, unit) go" where
  "dropUserFromDB E gone =
     bnd (gets um_user) (\<lambda>u.
     bnd (attempt (connect E u)) (\<lambda>r. case r of
         Inl e \<Rightarrow> if gone e then ret () else fail e
       | Inr h \<Rightarrow> each (DropUser (world_sql E h) (us_User (mu_Spec u))) (ust_AllowedHosts (mu_Status u))))"

definition removeUser :: "Env \<Rightarrow> (gerr \<Rightarrow> bool) \<Rightarrow> (UState, unit) go" where
  "removeUser E gone =
     bnd (gets um_user) (\<lambda>u.
     if user_finalizer \<in> set (mu_Finalizers u) then
       bnd (dropUserFromDB E gone) (\<lambda>_.
       bnd (set_user (\<lambda>u. u\<lparr>mu_Finalizers := remove1 user_finalizer (mu_Finalizers u)\<rparr>)) (\<lambda>_. update_user E))
     else ret ())"

definition updateStatusAndErr :: "Env \<Rightarrow> UserStatus \<Rightarrow> gerr option \<Rightarrow> (UState, unit) go" where
  "updateStatusAndErr E old cuErr =
     bnd (gets um_user) (\<lambda>u.
     bnd (if old \<noteq> mu_Status u
          then handle (call E (EvCtl (EvUpdateUserStatus u))) (\<lambda>e. case cuErr of
              Some c \<Rightarrow> fail (GErr (''failed to update status: '' @ err_text e @ '', previous error was: '' @ err_text c))
            | None \<Rightarrow> fail e)
          else ret ()) (\<lambda>_. case cuErr of Some e \<Rightarrow> fail e | None \<Rightarrow> ret ()))"

text \<open>The result tells whether the request is queued again, after two minutes.\<close>

definition User_Reconcile :: "Env \<Rightarrow> (gerr \<Rightarrow> bool) \<Rightarrow> (string \<Rightarrow> string) \<Rightarrow> string \<Rightarrow> string \<Rightarrow> (UState, bool) go" where
  "User_Reconcile E gone encode ns name =
     bnd (attempt (query E (EvCtl (EvGetUser ns name)) (\<lambda>t. ca_user (we_ctl E t)))) (\<lambda>r. case r of
       Inl e \<Rightarrow> (case e of NotFound _ \<Rightarrow> ret False | _ \<Rightarrow> fail e)
     | Inr u \<Rightarrow>
       bnd (set_user (\<lambda>_. u)) (\<lambda>_.
       if mu_DeletionTimestamp u \<noteq> None then bnd (removeUser E gone) (\<lambda>_. ret False)
       else
         bnd (attempt (reconcileUserInCluster E encode)) (\<lambda>r.
         bnd (updateStatusAndErr E (mu_Status u) (case r of Inl e \<Rightarrow> Some e | Inr _ \<Rightarrow> None)) (\<lambda>_. ret True))))"


section \<open>Removal of a user\<close>

lemma DropUser_run:
  "DropUser (world_sql E h) user host s =
     ((case we_err E (w_trace s @ [EvSql h (DropUser_query user host)]) of
         Some er \<Rightarrow> Fail (GErr ''failed to delete user'') | None \<Rightarrow> Ok ()),
      s\<lparr>w_trace := w_trace s @ [EvSql h (DropUser_query user host)]\<rparr>)"
  by (simp add: DropUser_def world_sql_def handle_def call_run fail_def split: option.split)

definition drops :: "string \<Rightarrow> string \<Rightarrow> string list \<Rightarrow> event list" where
  "drops h user hosts = map (\<lambda>host. EvSql h (DropUser_query user host)) hosts"

lemma each_drop:
  fixes s :: "'z World_scheme"
  shows "each (DropUser (world_sql E h) user) hosts s = (r, t) \<Longrightarrow>
    (\<exists>n\<le>length hosts. t = s\<lparr>w_trace := w_trace s @ drops h user (take n hosts)\<rparr> \<and> (r = Ok () \<longrightarrow> n = length hosts)) \<and>
    \<not> is_panic r"
proof (induction hosts arbitrary: s)
  case Nil
  then show ?case by (auto simp: ret_def drops_def)
next
  case (Cons x hosts)
  define u where "u = s\<lparr>w_trace := w_trace s @ [EvSql h (DropUser_query user x)]\<rparr>"
  show ?case
  proof (cases "we_err E (w_trace s @ [EvSql h (DropUser_query user x)])")
    case None
    then have "DropUser (world_sql E h) user x s = (Ok (), u)" by (simp add: DropUser_run u_def)
    with Cons.prems have "each (DropUser (world_sql E h) user) hosts u = (r, t)" by (simp add: bnd_def)
    from Cons.IH [OF this] obtain n where
      "n \<le> length hosts" "t = u\<lparr>w_trace := w_trace u @ drops h user (take n hosts)\<rparr>" "r = Ok () \<longrightarrow> n = length hosts" "\<not> is_panic r"
      by blast
    then show ?thesis by (intro conjI exI [of _ "Suc n"]) (simp_all add: u_def drops_def)
  next
    case (Some er)
    with Cons.prems have "r = Fail (GErr ''failed to delete user'')" "t = u" by (simp_all add: bnd_def DropUser_run u_def)
    then show ?thesis by (intro conjI exI [of _ 1]) (simp_all add: u_def drops_def)
  qed
qed

lemma connect_emits: "emits w_trace ev_connect (connect E u)"
  unfolding connect_def NewConfigFromClusterKey_def Let_def get_cluster_def get_secret_def runner_of_def NewSQLRunner_def
    open_db_def ping_db_def
  by (intro emits_intros) simp_all

lemma connect_user: "keeps (\<lambda>s. um_user s = u0) (connect E u)"
  unfolding connect_def NewConfigFromClusterKey_def Let_def get_cluster_def get_secret_def runner_of_def NewSQLRunner_def
    open_db_def ping_db_def
  by (intro keeps_intros) simp_all

definition without_finalizer :: "MysqlUser \<Rightarrow> MysqlUser" where
  "without_finalizer u = u\<lparr>mu_Finalizers := remove1 user_finalizer (mu_Finalizers u)\<rparr>"

text \<open>The end of a removal: the finalizer goes away and the object is written.\<close>

definition drop_finalizer :: "Env \<Rightarrow> (UState, unit) go" where
  "drop_finalizer E = bnd (set_user (\<lambda>u. u\<lparr>mu_Finalizers := remove1 user_finalizer (mu_Finalizers u)\<rparr>)) (\<lambda>_. update_user E)"

lemma drop_finalizer_trace:
  "w_trace (snd (drop_finalizer E v)) = w_trace v @ [EvCtl (EvUpdateUser (without_finalizer (um_user v)))]"
  by (simp add: drop_finalizer_def set_user_def update_user_def set_ustatus_def query_def bnd_def modify_def gets_def call_run without_finalizer_def
      split: option.split)

lemma removeUser_run:
  assumes "user_finalizer \<in> set (mu_Finalizers (um_user s))" "connect E (um_user s) s = (q, c)"
  shows "removeUser E gone s = (case q of
      Ok h \<Rightarrow> bnd (each (DropUser (world_sql E h) (us_User (mu_Spec (um_user s)))) (ust_AllowedHosts (mu_Status (um_user s))))
        (\<lambda>_. drop_finalizer E) c
    | Fail e \<Rightarrow> if gone e then drop_finalizer E c else (Fail e, c)
    | Panic p \<Rightarrow> (Panic p, c))"
  using assms
  by (cases q) (simp_all add: removeUser_def dropUserFromDB_def drop_finalizer_def bnd_def gets_def attempt_def ret_def fail_def)

text \<open>Once connected: a prefix of the statements and no update, or all of them and then the update.\<close>

lemma drops_then_update:
  assumes "bnd (each (DropUser (world_sql E h) name) hosts) (\<lambda>_. drop_finalizer E) c = (r, t)"
  shows "(\<exists>n. w_trace t = w_trace c @ drops h name (take n hosts) \<and> um_user t = um_user c \<and> r \<noteq> Ok ()) \<or>
    w_trace t = w_trace c @ drops h name hosts @ [EvCtl (EvUpdateUser (without_finalizer (um_user c)))]"
proof -
  obtain r' d where d: "each (DropUser (world_sql E h) name) hosts c = (r', d)"
    by (cases "each (DropUser (world_sql E h) name) hosts c")
  from each_drop [OF d] obtain n where n: "d = c\<lparr>w_trace := w_trace c @ drops h name (take n hosts)\<rparr>"
    "r' = Ok () \<longrightarrow> n = length hosts" "\<not> is_panic r'" by blast
  show ?thesis
  proof (cases r')
    case (Ok x)
    then have "snd (drop_finalizer E d) = t" using assms d by (simp add: bnd_def)
    with drop_finalizer_trace [of E d] n Ok show ?thesis by simp
  next
    case (Fail e)
    then have "t = d" "r \<noteq> Ok ()" using assms d by (auto simp: bnd_def)
    with n(1) show ?thesis by auto
  qed (use n in simp)
qed


section \<open>The condition of a user\<close>

lemma ConditionExists_Some:
  "ConditionExists ct cs = Some i \<Longrightarrow> i < length cs \<and> uc_Type (cs ! i) = ct"
  by (induction cs arbitrary: i) (auto split: if_splits)

definition reports :: "ConditionStatus \<Rightarrow> string \<Rightarrow> MysqlUser \<Rightarrow> bool" where
  "reports status message u \<longleftrightarrow>
     (\<exists>c\<in>set (ust_Conditions (mu_Status u)). uc_Type c = ''Ready'' \<and> uc_Status c = status \<and> uc_Message c = message)"

lemma UpdateStatusCondition_mem:
  "\<exists>c\<in>set (user_UpdateStatusCondition t ty status reason message cs). uc_Type c = ty \<and> uc_Status c = status \<and> uc_Message c = message"
proof (cases "ConditionExists ty cs")
  case None
  then show ?thesis by (simp add: user_UpdateStatusCondition_def)
next
  case (Some i)
  from ConditionExists_Some [OF Some] have i: "i < length cs" "uc_Type (cs ! i) = ty" by simp_all
  then show ?thesis
    unfolding user_UpdateStatusCondition_def Some option.case Let_def
    by (intro bexI [OF _ set_update_memI [OF i(1)]]) simp
qed

lemma set_condition_run:
  "\<exists>v. set_condition E status reason message s = (Ok (), v) \<and> reports status message (um_user v) \<and>
     mu_Finalizers (um_user v) = mu_Finalizers (um_user s) \<and> mu_Spec (um_user v) = mu_Spec (um_user s) \<and>
     ust_AllowedHosts (mu_Status (um_user v)) = ust_AllowedHosts (mu_Status (um_user s))"
  by (simp add: set_condition_def set_ustatus_def set_user_def bnd_def gets_def modify_def reports_def UpdateStatusCondition_mem)

text \<open>
  C25. What the status says of a reconciliation: when it fails, the Ready condition is false with the error of this
  very run in its message, and the error is returned; when it succeeds, the condition is true, the
  finalizer is in place and the recorded hosts are those of the specification.
\<close>

theorem reconcileUserInCluster_status:
  assumes "reconcileUserInCluster E encode s = (r, t)"
  shows "case r of
      Fail e \<Rightarrow> reports CondFalse (''The user provisioning has failed: '' @ err_text e) (um_user t)
    | Ok x \<Rightarrow> reports CondTrue ''The user provisioning has succeeded.'' (um_user t) \<and>
        user_finalizer \<in> set (mu_Finalizers (um_user t)) \<and>
        ust_AllowedHosts (mu_Status (um_user t)) = us_Hosts (mu_Spec (um_user t))
    | Panic p \<Rightarrow> True"
proof -
  obtain q v where v: "provision_user E encode s = (q, v)" by (cases "provision_user E encode s")
  show ?thesis
  proof (cases q)
    case (Ok x)
    with v assms have rt: "r = Ok x" "t = v" by (simp_all add: reconcileUserInCluster_def handle_def)
    from v Ok obtain a b c where
      fin: "(if user_finalizer \<notin> set (mu_Finalizers (um_user a))
          then bnd (set_user (\<lambda>u. u\<lparr>mu_Finalizers := mu_Finalizers u @ [user_finalizer]\<rparr>)) (\<lambda>_. update_user E) else ret ()) a = (Ok b, c)"
      and rest: "bnd (set_user (\<lambda>u. u\<lparr>mu_Status := (mu_Status u)\<lparr>ust_AllowedHosts := us_Hosts (mu_Spec u)\<rparr>\<rparr>)) (\<lambda>_.
          set_condition E CondTrue ''ProvisionSucceeded'' ''The user provisioning has succeeded.'') c = (Ok x, v)"
      unfolding provision_user_def by (auto simp: bnd_eq_Ok [where m = "gets _"] bnd_eq_Ok [where m = "reconcileUserInDB _ _"]
          bnd_eq_Ok [where m = "if _ then _ else _"] gets_def)
    from fin have "user_finalizer \<in> set (mu_Finalizers (um_user c))"
      by (auto simp: ret_def update_user_def set_user_def set_ustatus_def bnd_def modify_def gets_def query_def call_run
          split: if_splits option.splits)
    with rest rt Ok set_condition_run [of E CondTrue "''ProvisionSucceeded''" "''The user provisioning has succeeded.''"
        "c\<lparr>um_user := (um_user c)\<lparr>mu_Status := (mu_Status (um_user c))\<lparr>ust_AllowedHosts := us_Hosts (mu_Spec (um_user c))\<rparr>\<rparr>\<rparr>"]
    show ?thesis by (auto simp: set_user_def bnd_def modify_def)
  next
    case (Fail e)
    with v assms set_condition_run [of E CondFalse "''ProvisionFailed''" "''The user provisioning has failed: '' @ err_text e" v]
    show ?thesis by (auto simp: reconcileUserInCluster_def handle_def bnd_def fail_def)
  next
    case (Panic p)
    with v assms show ?thesis by (auto simp: reconcileUserInCluster_def handle_def)
  qed
qed

section \<open>Instances\<close>

definition old_user :: MysqlUser where
  "old_user = \<lparr>mu_Name = ''u'', mu_Namespace = ''ns'', mu_DeletionTimestamp = Some 1, mu_Finalizers = [user_finalizer],
     mu_Spec = \<lparr>us_User = ''app'', us_Hosts = [CHR ''%'' # []], us_Permissions = [], us_TLSType = ''NONE'', us_WithGrantOption = False,
       us_ClusterName = ''c'', us_NameSpace = [], us_SecretName = ''s'', us_SecretKey = ''k''\<rparr>,
     mu_Status = \<lparr>ust_Conditions = [], ust_AllowedHosts = [CHR ''%'' # []], ust_Revision = []\<rparr>\<rparr>"


theorem reconcileUserInCluster_status_witness:
  "\<forall>E encode s. (case fst (reconcileUserInCluster E encode s) of
      Fail e \<Rightarrow> reports CondFalse (''The user provisioning has failed: '' @ err_text e) (um_user (snd (reconcileUserInCluster E encode s)))
    | Ok x \<Rightarrow> reports CondTrue ''The user provisioning has succeeded.'' (um_user (snd (reconcileUserInCluster E encode s)))
    | Panic p \<Rightarrow> True)"
proof (intro allI)
  fix E encode and s :: UState
  from reconcileUserInCluster_status [OF surjective_pairing, of E encode s]
  show "case fst (reconcileUserInCluster E encode s) of
      Fail e \<Rightarrow> reports CondFalse (''The user provisioning has failed: '' @ err_text e) (um_user (snd (reconcileUserInCluster E encode s)))
    | Ok x \<Rightarrow> reports CondTrue ''The user provisioning has succeeded.'' (um_user (snd (reconcileUserInCluster E encode s)))
    | Panic p \<Rightarrow> True"
    by (simp split: res.splits)
qed

end
