(* ===== verification/Objects.thy ===== *)
theory Objects
  imports StatusLaws SfsBase KubeObjects
begin

text \<open>
  The syncers of the simple objects (\<open>mysqlcluster/syncer/\<close>): services, secret, disruption budget, access
  control, and the configuration maps of xenon and of a remote cluster.

  A syncer is an object with its name and namespace, and a function that changes the object read from the
  API server (or the new one) into what it should be. The syncers themselves (\<open>syncer.NewObjectSyncer\<close> of the presslabs
  library) create or update the object with that function.
\<close>

record 's ObjSyncer =
  os_Name :: string
  os_Obj :: KObj
  os_Mutate :: "KObj \<Rightarrow> ('s, KObj) go"

section \<open>Services\<close>

definition zero_port :: ServicePort where
  "zero_port = \<lparr>spt_Name = [], spt_Port = 0, spt_TargetPort = 0, spt_NodePort = 0\<rparr>"

definition set_port :: "nat \<Rightarrow> string \<Rightarrow> nat \<Rightarrow> ServicePort list \<Rightarrow> ServicePort list" where
  "set_port i name num ports = ports[i := (ports ! i)\<lparr>spt_Name := name, spt_Port := num, spt_TargetPort := num\<rparr>]"

text \<open>The ports of MySQL and of the backup server; the other fields of two existing ports are kept.\<close>

definition two_ports :: "ServicePort list \<Rightarrow> ServicePort list" where
  "two_ports ports = set_port 1 ''xtrabackup'' XBackupPort (set_port 0 ''mysql'' MysqlPort
     (if length ports \<noteq> 2 then replicate 2 zero_port else ports))"

definition empty_service :: "string \<Rightarrow> string \<Rightarrow> smap \<Rightarrow> Service" where
  "empty_service name ns ls = \<lparr>svc_Name = name, svc_Namespace = ns, svc_Labels = ls, svc_Type = [], svc_ClusterIP = [],
     svc_Selector = Map.empty, svc_PublishNotReadyAddresses = False, svc_Ports = []\<rparr>"

definition default_type :: "string \<Rightarrow> Service \<Rightarrow> Service" where
  "default_type ty v = (if svc_Type v = [] then v\<lparr>svc_Type := ty\<rparr> else v)"

definition service_type :: string where "service_type = ''mysql.radondb.com/service-type''"

definition on_service :: "(Service \<Rightarrow> Service) \<Rightarrow> KObj \<Rightarrow> ('s, KObj) go" where
  "on_service f k = (case k of KService v \<Rightarrow> ret (KService (f v)) | _ \<Rightarrow> ret k)"

definition FollowerSVC_mutate :: "MysqlCluster \<Rightarrow> Service \<Rightarrow> Service" where
  "FollowerSVC_mutate c v0 =
     (let v = default_type ''ClusterIP'' v0;
          sel = GetSelectorLabels c;
          sel = (if \<not> sp_LeaderAsFollower (mc_Spec c) then sel(''role'' \<mapsto> Follower) else sel)
      in v\<lparr>svc_Selector := sel(''healthy'' \<mapsto> ''yes''), svc_Ports := two_ports (svc_Ports v)\<rparr>)"

definition NewFollowerSVCSyncer :: "MysqlCluster \<Rightarrow> 's ObjSyncer" where
  "NewFollowerSVCSyncer c = \<lparr>os_Name = ''FollowerSVC'',
     os_Obj = KService (empty_service (GetNameForResource c FollowerService) (mc_Namespace c)
       ((GetLabels c)(service_type \<mapsto> ''follower-service''))),
     os_Mutate = on_service (FollowerSVC_mutate c)\<rparr>"

definition LeaderSVC_mutate :: "MysqlCluster \<Rightarrow> Service \<Rightarrow> Service" where
  "LeaderSVC_mutate c v0 =
     (let v = default_type ''ClusterIP'' v0 in
      v\<lparr>svc_Selector := (GetSelectorLabels c)(''role'' \<mapsto> Leader), svc_Ports := two_ports (svc_Ports v)\<rparr>)"

definition NewLeaderSVCSyncer :: "MysqlCluster \<Rightarrow> 's ObjSyncer" where
  "NewLeaderSVCSyncer c = \<lparr>os_Name = ''LeaderSVC'',
     os_Obj = KService (empty_service (GetNameForResource c LeaderService) (mc_Namespace c)
       ((GetLabels c)(service_type \<mapsto> ''leader-service''))),
     os_Mutate = on_service (LeaderSVC_mutate c)\<rparr>"

definition HeadlessSVC_mutate :: "MysqlCluster \<Rightarrow> Service \<Rightarrow> Service" where
  "HeadlessSVC_mutate c v = v\<lparr>svc_Type := ''ClusterIP'', svc_ClusterIP := ''None'',
     svc_Selector := [''app.kubernetes.io/name'' \<mapsto> ''mysql'', ''app.kubernetes.io/managed-by'' \<mapsto> ''mysql.radondb.com'',
       ''app.kubernetes.io/instance'' \<mapsto> mc_Name c],
     svc_PublishNotReadyAddresses := True, svc_Ports := two_ports (svc_Ports v)\<rparr>"

definition NewHeadlessSVCSyncer :: "MysqlCluster \<Rightarrow> 's ObjSyncer" where
  "NewHeadlessSVCSyncer c = \<lparr>os_Name = ''HeadlessSVC'',
     os_Obj = KService (empty_service (GetNameForResource c HeadlessSVC) (mc_Namespace c)
       [''app.kubernetes.io/name'' \<mapsto> ''mysql'', ''app.kubernetes.io/managed-by'' \<mapsto> ''mysql.radondb.com'']),
     os_Mutate = on_service (HeadlessSVC_mutate c)\<rparr>"

definition MetricsSVC_mutate :: "MysqlCluster \<Rightarrow> Service \<Rightarrow> Service" where
  "MetricsSVC_mutate c v0 =
     (let v = default_type ''ClusterIP'' v0;
          ports = (if length (svc_Ports v) \<noteq> 1 then [zero_port] else svc_Ports v)
      in v\<lparr>svc_Selector := GetSelectorLabels c, svc_Ports := set_port 0 ''metrics'' MetricsPort ports\<rparr>)"

definition NewMetricsSVCSyncer :: "MysqlCluster \<Rightarrow> 's ObjSyncer" where
  "NewMetricsSVCSyncer c = \<lparr>os_Name = ''MetricsSVC'',
     os_Obj = KService (empty_service (GetNameForResource c MetricsService) (mc_Namespace c)
       ((GetLabels c)(service_type \<mapsto> ''metrics-service''))),
     os_Mutate = on_service (MetricsSVC_mutate c)\<rparr>"

definition readonly_service_labels :: "MysqlCluster \<Rightarrow> string \<Rightarrow> smap" where
  "readonly_service_labels c ty = [''app.kubernetes.io/name'' \<mapsto> ''mysql-readonly'',
     ''app.kubernetes.io/managed-by'' \<mapsto> ''mysql.radondb.com'', ''mysql.radondb.com/cluster'' \<mapsto> mc_Name c, service_type \<mapsto> ty]"

definition readonly_selector :: "MysqlCluster \<Rightarrow> smap" where
  "readonly_selector c = [''app.kubernetes.io/name'' \<mapsto> ''mysql-readonly'', ''app.kubernetes.io/managed-by'' \<mapsto> ''mysql.radondb.com'',
     ''app.kubernetes.io/instance'' \<mapsto> mc_Name c, ''readonly'' \<mapsto> ''true'']"

definition HeadlessReadOnlySVC_mutate :: "MysqlCluster \<Rightarrow> Service \<Rightarrow> Service" where
  "HeadlessReadOnlySVC_mutate c v = v\<lparr>svc_Type := ''ClusterIP'', svc_ClusterIP := ''None'', svc_Selector := readonly_selector c,
     svc_PublishNotReadyAddresses := True, svc_Ports := two_ports (svc_Ports v)\<rparr>"

definition NewHeadlessReadOnlySVCSyncer :: "MysqlCluster \<Rightarrow> 's ObjSyncer" where
  "NewHeadlessReadOnlySVCSyncer c = \<lparr>os_Name = ''HeadlessReadOnlySVC'',
     os_Obj = KService (empty_service (GetNameForResource c ReadOnlyHeadlessSVC) (mc_Namespace c)
       (readonly_service_labels c ''ROHeadless'')),
     os_Mutate = on_service (HeadlessReadOnlySVC_mutate c)\<rparr>"

definition ReadOnlySVC_mutate :: "MysqlCluster \<Rightarrow> Service \<Rightarrow> Service" where
  "ReadOnlySVC_mutate c v0 =
     (let v = default_type ''NodePort'' v0 in v\<lparr>svc_Selector := readonly_selector c, svc_Ports := two_ports (svc_Ports v)\<rparr>)"

definition NewReadOnlySVCSyncer :: "MysqlCluster \<Rightarrow> 's ObjSyncer" where
  "NewReadOnlySVCSyncer c = \<lparr>os_Name = ''ReadOnlySVC'',
     os_Obj = KService (empty_service (GetNameForResource c ReadOnlySvc) (mc_Namespace c) (readonly_service_labels c ''Ro-service'')),
     os_Mutate = on_service (ReadOnlySVC_mutate c)\<rparr>"

section \<open>Disruption budget and access control\<close>

text \<open>\<open>MinAvailable\<close> is the text it was made from; an existing budget is left alone.\<close>

definition PDB_mutate :: "MysqlCluster \<Rightarrow> PDBObj \<Rightarrow> PDBObj" where
  "PDB_mutate c p = (if pdb_MinAvailable p \<noteq> None then p
     else p\<lparr>pdb_MinAvailable := Some (sp_MinAvailable (mc_Spec c)), pdb_Selector := GetSelectorLabels c\<rparr>)"

definition NewPDBSyncer :: "MysqlCluster \<Rightarrow> 's ObjSyncer" where
  "NewPDBSyncer c = \<lparr>os_Name = ''PDB'',
     os_Obj = KPDB \<lparr>pdb_Name = GetNameForResource c PodDisruptionBudget, pdb_Namespace = mc_Namespace c, pdb_MinAvailable = None,
       pdb_Selector = Map.empty\<rparr>,
     os_Mutate = (\<lambda>k. case k of KPDB p \<Rightarrow> ret (KPDB (PDB_mutate c p)) | _ \<Rightarrow> ret k)\<rparr>"

definition rule :: "string list \<Rightarrow> string \<Rightarrow> string \<Rightarrow> PolicyRule" where
  "rule verbs grp resource = \<lparr>pr_Verbs = verbs, pr_APIGroups = [grp], pr_Resources = [resource]\<rparr>"

definition Role_rules :: "PolicyRule list" where
  "Role_rules =
     [rule [''get'', ''patch'', ''list''] [] ''pods'',
      rule [''get'', ''update'', ''patch''] ''batch'' ''jobs'',
      rule [''create''] [] ''pods/exec'',
      rule [''get''] ''mysql.radondb.com'' ''mysqlclusters'']"

definition NewRoleSyncer :: "MysqlCluster \<Rightarrow> 's ObjSyncer" where
  "NewRoleSyncer c = \<lparr>os_Name = ''Role'',
     os_Obj = KRole \<lparr>role_Name = GetNameForResource c RoleRes, role_Namespace = mc_Namespace c, role_Labels = GetLabels c, role_Rules = []\<rparr>,
     os_Mutate = (\<lambda>k. case k of KRole r \<Rightarrow> ret (KRole (r\<lparr>role_Rules := Role_rules\<rparr>)) | _ \<Rightarrow> ret k)\<rparr>"

definition RoleBinding_mutate :: "MysqlCluster \<Rightarrow> RoleBindingObj \<Rightarrow> RoleBindingObj" where
  "RoleBinding_mutate c b = b\<lparr>rb_RoleRef := (''Role'', GetNameForResource c RoleRes),
     rb_Subjects := [(''ServiceAccount'', GetNameForResource c ServiceAccountRes)]\<rparr>"

definition NewRoleBindingSyncer :: "MysqlCluster \<Rightarrow> 's ObjSyncer" where
  "NewRoleBindingSyncer c = \<lparr>os_Name = ''RoleBinding'',
     os_Obj = KRoleBinding \<lparr>rb_Name = GetNameForResource c RoleBindingRes, rb_Namespace = mc_Namespace c, rb_Labels = GetLabels c,
       rb_RoleRef = ([], []), rb_Subjects = []\<rparr>,
     os_Mutate = (\<lambda>k. case k of KRoleBinding b \<Rightarrow> ret (KRoleBinding (RoleBinding_mutate c b)) | _ \<Rightarrow> ret k)\<rparr>"

definition NewServiceAccountSyncer :: "MysqlCluster \<Rightarrow> 's ObjSyncer" where
  "NewServiceAccountSyncer c = \<lparr>os_Name = ''ServiceAccount'',
     os_Obj = KServiceAccount \<lparr>sa_Name = GetNameForResource c ServiceAccountRes, sa_Namespace = mc_Namespace c, sa_Labels = GetLabels c\<rparr>,
     os_Mutate = ret\<rparr>"

section \<open>The secret\<close>

text \<open>\<open>rand\<close> draws a random alphanumeric string for a key, or fails.\<close>

definition addRandomPassword :: "(string \<Rightarrow> string res) \<Rightarrow> smap \<Rightarrow> string \<Rightarrow> smap res" where
  "addRandomPassword rand data key =
     (if length (lget data key) = 0 then bind_res (rand key) (\<lambda>random. Ok (data(key \<mapsto> random))) else Ok data)"

definition user_password :: "(string \<Rightarrow> string res) \<Rightarrow> string \<Rightarrow> string \<Rightarrow> smap \<Rightarrow> smap res" where
  "user_password rand who user data = addRandomPassword rand (data((who @ ''-user'') \<mapsto> user)) (who @ ''-password'')"

definition data_source_entry :: "MysqlCluster \<Rightarrow> smap \<Rightarrow> smap" where
  "data_source_entry c data =
     (if me_Enabled (sp_MetricsOpts (mc_Spec c))
      then data(''data-source'' \<mapsto> MetricsUser @ '':'' @ lget data ''metrics-password'' @ ''@(localhost:3306)/'') else data)"

definition root_password :: "(string \<Rightarrow> string res) \<Rightarrow> MysqlOpts \<Rightarrow> smap \<Rightarrow> smap res" where
  "root_password rand mo data =
     (if mo_RootHost mo \<noteq> ''localhost'' \<and> mo_RootPassword mo = [] then addRandomPassword rand data ''root-password''
      else Ok (data(''root-password'' \<mapsto> mo_RootPassword mo)))"

definition Secret_mutate :: "(string \<Rightarrow> string res) \<Rightarrow> MysqlCluster \<Rightarrow> smap \<Rightarrow> smap res" where
  "Secret_mutate rand c data =
     (let mo = sp_MysqlOpts (mc_Spec c) in
      bind_res (user_password rand ''operator'' OperatorUser data) (\<lambda>data.
      bind_res (user_password rand ''donor'' ''radondb_donor'' data) (\<lambda>data.
      bind_res (user_password rand ''backup'' ''sys_backup'' data) (\<lambda>data.
      bind_res (user_password rand ''metrics'' MetricsUser data) (\<lambda>data.
      bind_res (user_password rand ''replication'' ReplicationUser (data_source_entry c data)) (\<lambda>data.
      bind_res (addRandomPassword rand data ''internal-root-password'') (\<lambda>data.
      bind_res (root_password rand mo data) (\<lambda>data.
      Ok (data(''mysql-user'' \<mapsto> mo_User mo, ''mysql-password'' \<mapsto> mo_Password mo, ''mysql-database'' \<mapsto> mo_Database mo))))))))))"

definition NewSecretSyncer :: "(string \<Rightarrow> string res) \<Rightarrow> MysqlCluster \<Rightarrow> 's ObjSyncer" where
  "NewSecretSyncer rand c = \<lparr>os_Name = ''Secret'',
     os_Obj = KSecret \<lparr>sct_Name = GetNameForResource c SecretRes, sct_Namespace = mc_Namespace c, sct_Data = Map.empty, sct_ResourceVersion = []\<rparr>,
     os_Mutate = (\<lambda>k. case k of
        KSecret x \<Rightarrow> lift (bind_res (Secret_mutate rand c (sct_Data x)) (\<lambda>data. Ok (KSecret (x\<lparr>sct_Data := data\<rparr>))))
      | _ \<Rightarrow> ret k)\<rparr>"

section \<open>Configuration maps\<close>

text \<open>\<open>encoding/json\<close> of a string: quotes, backslashes, control characters and the three HTML characters are escaped.\<close>

definition hex_digit :: "nat \<Rightarrow> char" where
  "hex_digit n = (if n < 10 then char_of (48 + n) else char_of (87 + n))"

definition json_char :: "char \<Rightarrow> string" where
  "json_char ch =
     (if ch = CHR 0x22 \<or> ch = CHR 0x5C then [CHR 0x5C, ch]
      else if ch = CHR 0x0A then [CHR 0x5C, CHR ''n''] else if ch = CHR 0x0D then [CHR 0x5C, CHR ''r'']
      else if ch = CHR 0x09 then [CHR 0x5C, CHR ''t'']
      else if (of_char ch :: nat) < 32 \<or> ch = CHR ''<'' \<or> ch = CHR ''>'' \<or> ch = CHR ''&''
      then CHR 0x5C # ''u00'' @ [hex_digit (of_char ch div 16), hex_digit (of_char ch mod 16)] else [ch])"

definition json_string :: "string \<Rightarrow> string" where
  "json_string s = [CHR 0x22] @ concat (map json_char s) @ [CHR 0x22]"

text \<open>A nil slice is \<open>null\<close>.\<close>

definition json_list :: "string list \<Rightarrow> string" where
  "json_list xs = (if xs = [] then ''null'' else ''['' @ join_with '','' (map json_string xs) @ '']'')"

definition xenon_peers :: "MysqlCluster \<Rightarrow> string list" where
  "xenon_peers c = map (\<lambda>i. GetNameForResource c StatefulSet @ ''-'' @ nat_str i @ ''.'' @ GetNameForResource c HeadlessSVC @ ''.'' @
     mc_Namespace c @ '':'' @ nat_str XenonPort) [0..<nat (sp_Replicas (mc_Spec c))]"

definition buildXenonMetaData :: "MysqlCluster \<Rightarrow> string" where
  "buildXenonMetaData c = ''{'' @ json_string ''idlepeers'' @ '':'' @ json_list [] @ '','' @ json_string ''peers'' @ '':'' @
     json_list (xenon_peers c) @ ''}''"

definition empty_cm :: "string \<Rightarrow> MysqlCluster \<Rightarrow> ConfigMapObj" where
  "empty_cm name c = \<lparr>cm_Name = name, cm_Namespace = mc_Namespace c, cm_Labels = GetLabels c, cm_Data = Map.empty, cm_ResourceVersion = [], cm_Owned = False\<rparr>"

definition XenonCM_mutate :: "MysqlCluster \<Rightarrow> ConfigMapObj \<Rightarrow> ConfigMapObj" where
  "XenonCM_mutate c m = (if sp_Replicas (mc_Spec c) = 0 then m else m\<lparr>cm_Data := [''peers.json'' \<mapsto> buildXenonMetaData c]\<rparr>)"

definition NewXenonCMSyncer :: "MysqlCluster \<Rightarrow> 's ObjSyncer" where
  "NewXenonCMSyncer c = \<lparr>os_Name = ''ConfigMap'', os_Obj = KConfigMap (empty_cm (GetNameForResource c XenonMetaData) c),
     os_Mutate = (\<lambda>k. case k of KConfigMap m \<Rightarrow> ret (KConfigMap (XenonCM_mutate c m)) | _ \<Rightarrow> ret k)\<rparr>"

text \<open>The script, with the user and password of the backup server of the remote cluster. The second option
  \<open>--defaults-file\<close> has a Greek letter in the source.\<close>

definition remote_script :: "RemoteSourceStruct \<Rightarrow> smap \<Rightarrow> string" where
  "remote_script rc data =
     ''#!/bin/bash'' @ [CHR 0x0A] @
     ''export BACKUP_USER='' @ lget data ''backup-user'' @ [CHR 0x0A] @
     ''export BACKUP_PASSWORD='' @ lget data ''backup-password'' @ [CHR 0x0A] @
     ''curl --user $BACKUP_USER:$BACKUP_PASSWORD http://'' @ rs_Name rc @ ''-leader.'' @ rs_NameSpace rc @ '':'' @ nat_str XBackupPort @
     ''/download|xbstream -x -C /var/lib/mysql'' @ [CHR 0x0A] @
     ''xtrabackup --defaults-file=/etc/mysql/my.cnf --use-memory=3072M --prepare --apply-log-only --target-dir=/var/lib/mysql'' @
     [CHR 0x0A] @ ''xtrabackup --defaults'' @ [CHR 0xCF] @ [CHR 0x80] @
     ''-file=/etc/mysql/my.cnf --use-memory=3072M --prepare --target-dir=/var/lib/mysql'' @ [CHR 0x0A] @
     ''chown -R mysql.mysql /var/lib/mysql'' @ [CHR 0x0A]"

definition buildRemoteClusterMetaData :: "Env \<Rightarrow> RemoteSourceStruct \<Rightarrow> ('z World_scheme, string) go" where
  "buildRemoteClusterMetaData E rc =
     bnd (handle (get_secret E (rs_NameSpace rc) (rs_Name rc @ ''-secret'')) (\<lambda>e. fail (GErr (''failed to get secret: '' @ err_text e))))
       (\<lambda>data. ret (remote_script rc data))"

definition RemoteClusterCM_mutate :: "Env \<Rightarrow> MysqlCluster \<Rightarrow> ConfigMapObj \<Rightarrow> ('z World_scheme, ConfigMapObj) go" where
  "RemoteClusterCM_mutate E c m =
     (if sp_Replicas (mc_Spec c) = 0 then ret m
      else case sp_RemoteCluster (mc_Spec c) of
          None \<Rightarrow> ret m
        | Some rc \<Rightarrow>
            bnd (handle (buildRemoteClusterMetaData E rc)
              (\<lambda>e. fail (GErr (''failed to build remote cluster metadata: '' @ err_text e)))) (\<lambda>text.
            ret (m\<lparr>cm_Data := [''RemoteCluster.sh'' \<mapsto> text]\<rparr>)))"

definition NewRemoteClusterCMSyncer :: "Env \<Rightarrow> MysqlCluster \<Rightarrow> 'z World_scheme ObjSyncer" where
  "NewRemoteClusterCMSyncer E c = \<lparr>os_Name = ''ConfigMap'', os_Obj = KConfigMap (empty_cm (GetNameForResource c RemoteClusterRes) c),
     os_Mutate = (\<lambda>k. case k of KConfigMap m \<Rightarrow> bnd (RemoteClusterCM_mutate E c m) (\<lambda>m. ret (KConfigMap m)) | _ \<Rightarrow> ret k)\<rparr>"

section \<open>Which pods a service reaches\<close>

text \<open>A pod is an endpoint of a service when its labels carry the selector.\<close>

definition selects :: "smap \<Rightarrow> smap \<Rightarrow> bool" where
  "selects sel ls \<longleftrightarrow> sel \<subseteq>\<^sub>m ls"

lemma selects_upd: "selects (m(k \<mapsto> v)) ls \<longleftrightarrow> selects (m(k := None)) ls \<and> ls k = Some v"
  by (auto simp: selects_def map_le_def dom_def)

lemma selects_empty: "selects Map.empty ls"
  by (simp add: selects_def)

lemma selector_absent: "(GetSelectorLabels c)(''healthy'' := None) = GetSelectorLabels c" "(GetSelectorLabels c)(''role'' := None) = GetSelectorLabels c"
  by (auto simp: GetSelectorLabels_def)

lemma lget_Some: "v \<noteq> [] \<Longrightarrow> lget m k = v \<longleftrightarrow> m k = Some v"
  by (auto simp: lget_def split: option.split)

lemma new_labels_values:
  assumes "new_labels pod node = (pod', node', upd)"
  shows "lget (pod_Labels pod') ''role'' = rf_Role (ns_RaftStatus node')"
    and "lget (pod_Labels pod') ''healthy'' = (if node_healthy node \<and> \<not> pod_gone pod \<and> \<not> mysql_unready pod then ''yes'' else ''no'')"
    and "k \<noteq> ''role'' \<Longrightarrow> k \<noteq> ''healthy'' \<Longrightarrow> pod_Labels pod' k = pod_Labels pod k"
  using assms by (auto simp: new_labels_def Let_def split: if_splits)

lemma selector_kept:
  assumes "new_labels pod node = (pod', node', upd)"
  shows "selects (GetSelectorLabels c) (pod_Labels pod') \<longleftrightarrow> selects (GetSelectorLabels c) (pod_Labels pod)"
  using new_labels_values(3) [OF assms] by (auto simp: selects_def map_le_def GetSelectorLabels_def)

text \<open>
  Where traffic goes after the status syncer has labelled a pod of the cluster: the leader service reaches it
  exactly when its node leads the raft group, healthy or not; the follower service exactly when the node follows, is
  healthy, and its pod runs with mysql ready. No pod is behind both.
\<close>

theorem service_routing:
  assumes "new_labels pod node = (pod', node', upd)" and "selects (GetSelectorLabels c) (pod_Labels pod)"
    and "\<not> sp_LeaderAsFollower (mc_Spec c)"
  shows "(selects (svc_Selector (LeaderSVC_mutate c v)) (pod_Labels pod') \<longleftrightarrow> rf_Role (ns_RaftStatus node') = Leader) \<and>
    (selects (svc_Selector (FollowerSVC_mutate c v)) (pod_Labels pod') \<longleftrightarrow>
      rf_Role (ns_RaftStatus node') = Follower \<and> node_healthy node \<and> \<not> pod_gone pod \<and> \<not> mysql_unready pod)"
proof
  have sel: "selects (GetSelectorLabels c) (pod_Labels pod')"
    using assms(2) by (simp add: selector_kept [OF assms(1)])
  have role: "pod_Labels pod' ''role'' = Some r \<longleftrightarrow> rf_Role (ns_RaftStatus node') = r" if "r \<noteq> []" for r
    using new_labels_values(1) [OF assms(1)] lget_Some [OF that, of "pod_Labels pod'" "''role''"] by simp
  have healthy: "pod_Labels pod' ''healthy'' = Some ''yes'' \<longleftrightarrow> node_healthy node \<and> \<not> pod_gone pod \<and> \<not> mysql_unready pod"
    using new_labels_values(2) [OF assms(1)] lget_Some [of "''yes''" "pod_Labels pod'" "''healthy''"] by (simp split: if_splits)
  have sels: "svc_Selector (LeaderSVC_mutate c v) = (GetSelectorLabels c)(''role'' \<mapsto> Leader)"
    "svc_Selector (FollowerSVC_mutate c v) = (GetSelectorLabels c)(''role'' \<mapsto> Follower, ''healthy'' \<mapsto> ''yes'')"
    using assms(3) by (simp_all add: LeaderSVC_mutate_def FollowerSVC_mutate_def Let_def)
  show "selects (svc_Selector (LeaderSVC_mutate c v)) (pod_Labels pod') \<longleftrightarrow> rf_Role (ns_RaftStatus node') = Leader"
    using sel role [of Leader] by (simp add: sels selects_upd selector_absent Leader_def)
  have "((GetSelectorLabels c)(''role'' \<mapsto> Follower))(''healthy'' := None) = (GetSelectorLabels c)(''role'' \<mapsto> Follower)"
    by (auto simp: GetSelectorLabels_def)
  then show "selects (svc_Selector (FollowerSVC_mutate c v)) (pod_Labels pod') \<longleftrightarrow>
      rf_Role (ns_RaftStatus node') = Follower \<and> node_healthy node \<and> \<not> pod_gone pod \<and> \<not> mysql_unready pod"
    using sel role [of Follower] healthy by (auto simp: sels selects_upd selector_absent Follower_def)
qed

text \<open>
  The headless service, which gives the pods their host names, selects by the cluster's name where the pods are
  labelled with the annotation \<open>app.kubernetes.io/instance\<close>: a cluster that carries the annotation with another value
  has no endpoints. The leader, follower and metrics services are not affected.
\<close>

theorem headless_selects_iff:
  "(selects (svc_Selector (HeadlessSVC_mutate c v)) (GetLabels c) \<longleftrightarrow>
     mc_Annotations c ''app.kubernetes.io/instance'' \<in> {None, Some (mc_Name c)}) \<and>
   selects (svc_Selector (MetricsSVC_mutate c v)) (GetLabels c)"
  by (auto simp: HeadlessSVC_mutate_def MetricsSVC_mutate_def GetLabels_def GetSelectorLabels_def selects_upd selects_empty Let_def
      split: option.split)

section \<open>The secret is settled once\<close>

definition settled :: "MysqlCluster \<Rightarrow> smap \<Rightarrow> bool" where
  "settled c d \<longleftrightarrow>
     (let mo = sp_MysqlOpts (mc_Spec c) in
      d ''operator-user'' = Some OperatorUser \<and> lget d ''operator-password'' \<noteq> [] \<and>
      d ''donor-user'' = Some ''radondb_donor'' \<and> lget d ''donor-password'' \<noteq> [] \<and>
      d ''backup-user'' = Some ''sys_backup'' \<and> lget d ''backup-password'' \<noteq> [] \<and>
      d ''metrics-user'' = Some MetricsUser \<and> lget d ''metrics-password'' \<noteq> [] \<and>
      data_source_entry c d = d \<and>
      d ''replication-user'' = Some ReplicationUser \<and> lget d ''replication-password'' \<noteq> [] \<and>
      lget d ''internal-root-password'' \<noteq> [] \<and>
      (if mo_RootHost mo \<noteq> ''localhost'' \<and> mo_RootPassword mo = [] then lget d ''root-password'' \<noteq> []
       else d ''root-password'' = Some (mo_RootPassword mo)) \<and>
      d ''mysql-user'' = Some (mo_User mo) \<and> d ''mysql-password'' = Some (mo_Password mo) \<and> d ''mysql-database'' = Some (mo_Database mo))"

lemma settled_fixed: "settled c d \<Longrightarrow> Secret_mutate rand c d = Ok d"
  by (simp add: settled_def Secret_mutate_def user_password_def addRandomPassword_def root_password_def Let_def map_upd_triv
      split: if_splits)

lemma add_step:
  assumes "addRandomPassword rand data k = Ok d" "\<And>k r. rand k = Ok r \<Longrightarrow> r \<noteq> []"
  obtains p where "p \<noteq> []" "d = data(k \<mapsto> p)" "lget data k \<noteq> [] \<Longrightarrow> p = lget data k"
proof (cases "lget data k = []")
  case True
  with assms(1) obtain r where "rand k = Ok r" "d = data(k \<mapsto> r)" by (auto simp: addRandomPassword_def bind_res_Ok)
  with True assms(2) that show ?thesis by blast
next
  case False
  with assms(1) have "d = data" by (simp add: addRandomPassword_def)
  moreover have "data = data(k \<mapsto> lget data k)" using False by (auto simp: lget_def split: option.splits)
  ultimately show ?thesis using False that by metis
qed

definition password_keys :: "string list" where
  "password_keys = [''operator-password'', ''donor-password'', ''backup-password'', ''metrics-password'', ''replication-password'',
     ''internal-root-password'']"

text \<open>A password that is drawn, or kept when there was one.\<close>

definition drawn :: "smap \<Rightarrow> string \<Rightarrow> string \<Rightarrow> bool" where
  "drawn data k p \<longleftrightarrow> p \<noteq> [] \<and> (lget data k \<noteq> [] \<longrightarrow> p = lget data k)"

lemma draw_step:
  assumes "addRandomPassword rand m k = Ok d" "\<And>k r. rand k = Ok r \<Longrightarrow> r \<noteq> []" "lget m k = lget data k"
  obtains p where "drawn data k p" "d = m(k \<mapsto> p)"
proof (rule add_step [OF assms(1,2)])
  fix p assume "p \<noteq> []" "d = m(k \<mapsto> p)" "lget m k \<noteq> [] \<Longrightarrow> p = lget m k"
  with assms(3) show ?thesis by (intro that [of p]) (simp_all add: drawn_def)
qed

lemma root_step:
  assumes "root_password rand mo m = Ok d" "\<And>k r. rand k = Ok r \<Longrightarrow> r \<noteq> []"
  obtains p where "d = m(''root-password'' \<mapsto> p)"
    "if mo_RootHost mo \<noteq> ''localhost'' \<and> mo_RootPassword mo = [] then p \<noteq> [] else p = mo_RootPassword mo"
proof (cases "mo_RootHost mo \<noteq> ''localhost'' \<and> mo_RootPassword mo = []")
  case True
  with assms(1) have "addRandomPassword rand m ''root-password'' = Ok d" by (simp add: root_password_def)
  then show ?thesis by (rule add_step [OF _ assms(2)]) (use True that in auto)
next
  case False
  then have "d = m(''root-password'' \<mapsto> mo_RootPassword mo)" using assms(1) by (auto simp: root_password_def)
  with False show ?thesis using that by metis
qed

lemma source_other: "k \<noteq> ''data-source'' \<Longrightarrow> data_source_entry c m k = m k"
  "k \<noteq> ''data-source'' \<Longrightarrow> lget (data_source_entry c m) k = lget m k"
  by (simp_all add: data_source_entry_def)

lemma Secret_draws:
  assumes "Secret_mutate rand c data = Ok d" "\<And>k r. rand k = Ok r \<Longrightarrow> r \<noteq> []"
  obtains p1 p2 p3 p4 p5 p6 p7 where
    "drawn data ''operator-password'' p1" "drawn data ''donor-password'' p2" "drawn data ''backup-password'' p3"
    "drawn data ''metrics-password'' p4" "drawn data ''replication-password'' p5" "drawn data ''internal-root-password'' p6"
    "if mo_RootHost (sp_MysqlOpts (mc_Spec c)) \<noteq> ''localhost'' \<and> mo_RootPassword (sp_MysqlOpts (mc_Spec c)) = [] then p7 \<noteq> []
     else p7 = mo_RootPassword (sp_MysqlOpts (mc_Spec c))"
    "d = (data_source_entry c (data(''operator-user'' \<mapsto> OperatorUser, ''operator-password'' \<mapsto> p1,
        ''donor-user'' \<mapsto> ''radondb_donor'', ''donor-password'' \<mapsto> p2, ''backup-user'' \<mapsto> ''sys_backup'', ''backup-password'' \<mapsto> p3,
        ''metrics-user'' \<mapsto> MetricsUser, ''metrics-password'' \<mapsto> p4)))
      (''replication-user'' \<mapsto> ReplicationUser, ''replication-password'' \<mapsto> p5, ''internal-root-password'' \<mapsto> p6, ''root-password'' \<mapsto> p7,
       ''mysql-user'' \<mapsto> mo_User (sp_MysqlOpts (mc_Spec c)), ''mysql-password'' \<mapsto> mo_Password (sp_MysqlOpts (mc_Spec c)),
       ''mysql-database'' \<mapsto> mo_Database (sp_MysqlOpts (mc_Spec c)))"
proof -
  let ?mo = "sp_MysqlOpts (mc_Spec c)"
  from assms(1) obtain d1 d2 d3 d4 d5 d6 d7 where
    u: "addRandomPassword rand (data(''operator-user'' \<mapsto> OperatorUser)) ''operator-password'' = Ok d1"
      "addRandomPassword rand (d1(''donor-user'' \<mapsto> ''radondb_donor'')) ''donor-password'' = Ok d2"
      "addRandomPassword rand (d2(''backup-user'' \<mapsto> ''sys_backup'')) ''backup-password'' = Ok d3"
      "addRandomPassword rand (d3(''metrics-user'' \<mapsto> MetricsUser)) ''metrics-password'' = Ok d4"
      "addRandomPassword rand ((data_source_entry c d4)(''replication-user'' \<mapsto> ReplicationUser)) ''replication-password'' = Ok d5"
      "addRandomPassword rand d5 ''internal-root-password'' = Ok d6"
      "root_password rand ?mo d6 = Ok d7"
    and d: "d = d7(''mysql-user'' \<mapsto> mo_User ?mo, ''mysql-password'' \<mapsto> mo_Password ?mo, ''mysql-database'' \<mapsto> mo_Database ?mo)"
    by (auto simp: Secret_mutate_def user_password_def bind_res_Ok Let_def)
  note draw = draw_step [OF _ assms(2), where data = data]
  obtain p1 where 1: "drawn data ''operator-password'' p1" "d1 = data(''operator-user'' \<mapsto> OperatorUser, ''operator-password'' \<mapsto> p1)"
    by (rule draw [OF u(1)]) auto
  obtain p2 where 2: "drawn data ''donor-password'' p2" "d2 = d1(''donor-user'' \<mapsto> ''radondb_donor'', ''donor-password'' \<mapsto> p2)"
    by (rule draw [OF u(2)]) (auto simp: 1(2))
  obtain p3 where 3: "drawn data ''backup-password'' p3" "d3 = d2(''backup-user'' \<mapsto> ''sys_backup'', ''backup-password'' \<mapsto> p3)"
    by (rule draw [OF u(3)]) (auto simp: 1(2) 2(2))
  obtain p4 where 4: "drawn data ''metrics-password'' p4" "d4 = d3(''metrics-user'' \<mapsto> MetricsUser, ''metrics-password'' \<mapsto> p4)"
    by (rule draw [OF u(4)]) (auto simp: 1(2) 2(2) 3(2))
  have look: "lget d4 ''replication-password'' = lget data ''replication-password''"
    "lget d4 ''internal-root-password'' = lget data ''internal-root-password''"
    by (simp_all add: 1(2) 2(2) 3(2) 4(2))
  obtain p5 where 5: "drawn data ''replication-password'' p5"
    "d5 = (data_source_entry c d4)(''replication-user'' \<mapsto> ReplicationUser, ''replication-password'' \<mapsto> p5)"
    by (rule draw [OF u(5)]) (simp_all add: source_other look)
  obtain p6 where 6: "drawn data ''internal-root-password'' p6" "d6 = d5(''internal-root-password'' \<mapsto> p6)"
    by (rule draw [OF u(6)]) (simp_all add: 5(2) source_other look)
  obtain p7 where 7: "d7 = d6(''root-password'' \<mapsto> p7)"
    "if mo_RootHost ?mo \<noteq> ''localhost'' \<and> mo_RootPassword ?mo = [] then p7 \<noteq> [] else p7 = mo_RootPassword ?mo"
    by (rule root_step [OF u(7) assms(2)])
  show ?thesis by (rule that [OF 1(1) 2(1) 3(1) 4(1) 5(1) 6(1) 7(2)]) (simp only: d 7(1) 6(2) 5(2) 4(2) 3(2) 2(2) 1(2))
qed

text \<open>
  C28. The passwords of a cluster are drawn once. After a successful synchronisation every account has its name
  and a non-empty password, a password that was there before is kept, and synchronising again changes nothing,
  whatever the random source would give.
\<close>

theorem Secret_settled_once:
  assumes "Secret_mutate rand c data = Ok d" and "\<And>k r. rand k = Ok r \<Longrightarrow> r \<noteq> []"
  shows "settled c d \<and> list_all (\<lambda>k. lget data k \<noteq> [] \<longrightarrow> lget d k = lget data k) password_keys \<and> Secret_mutate rand' c d = Ok d"
proof -
  let ?mo = "sp_MysqlOpts (mc_Spec c)"
  show ?thesis
  proof (rule Secret_draws [OF assms])
    fix p1 p2 p3 p4 p5 p6 p7
    assume ps: "drawn data ''operator-password'' p1" "drawn data ''donor-password'' p2" "drawn data ''backup-password'' p3"
        "drawn data ''metrics-password'' p4" "drawn data ''replication-password'' p5" "drawn data ''internal-root-password'' p6"
      and root: "if mo_RootHost ?mo \<noteq> ''localhost'' \<and> mo_RootPassword ?mo = [] then p7 \<noteq> [] else p7 = mo_RootPassword ?mo"
      and d: "d = (data_source_entry c (data(''operator-user'' \<mapsto> OperatorUser, ''operator-password'' \<mapsto> p1,
          ''donor-user'' \<mapsto> ''radondb_donor'', ''donor-password'' \<mapsto> p2, ''backup-user'' \<mapsto> ''sys_backup'', ''backup-password'' \<mapsto> p3,
          ''metrics-user'' \<mapsto> MetricsUser, ''metrics-password'' \<mapsto> p4)))
        (''replication-user'' \<mapsto> ReplicationUser, ''replication-password'' \<mapsto> p5, ''internal-root-password'' \<mapsto> p6, ''root-password'' \<mapsto> p7,
         ''mysql-user'' \<mapsto> mo_User ?mo, ''mysql-password'' \<mapsto> mo_Password ?mo, ''mysql-database'' \<mapsto> mo_Database ?mo)"
    have "data_source_entry c d = d"
    proof (cases "me_Enabled (sp_MetricsOpts (mc_Spec c))")
      case True
      then have "d ''data-source'' = Some (MetricsUser @ '':'' @ lget d ''metrics-password'' @ ''@(localhost:3306)/'')"
        by (simp add: d data_source_entry_def)
      with True show ?thesis by (simp add: data_source_entry_def map_upd_triv)
    qed (simp add: data_source_entry_def)
    moreover have "if mo_RootHost ?mo \<noteq> ''localhost'' \<and> mo_RootPassword ?mo = [] then lget d ''root-password'' \<noteq> []
        else d ''root-password'' = Some (mo_RootPassword ?mo)"
      using root by (simp add: d split: if_splits)
    ultimately have "settled c d"
      unfolding settled_def Let_def using ps by (intro conjI) (simp_all add: d source_other drawn_def)
    moreover have "list_all (\<lambda>k. lget data k \<noteq> [] \<longrightarrow> lget d k = lget data k) password_keys"
      unfolding password_keys_def using ps by (simp add: d source_other drawn_def)
    ultimately show ?thesis by (simp add: settled_fixed)
  qed
qed

section \<open>The members of the raft group\<close>

lemma xenon_peers_eq: "xenon_peers c = map (peer_addr c) [0..<nat (sp_Replicas (mc_Spec c))]"
  by (simp add: xenon_peers_def peer_addr_def GetPodHostName_def)

text \<open>
  C29. One list of members, computed in three places: the peers of xenon's initial configuration, the peer string handed
  to the pods, and the members the status syncer expects once all pods are ready are the same addresses in
  the same order.
\<close>

theorem xenon_members_agree:
  "getExpectXenonNodes c (nat (sp_Replicas (mc_Spec c))) = xenon_peers c \<and> CreatePeers c = join_with '','' (xenon_peers c)"
proof
  show "getExpectXenonNodes c (nat (sp_Replicas (mc_Spec c))) = xenon_peers c"
    by (simp add: getExpectXenonNodes_def xenon_peers_eq)
  show "CreatePeers c = join_with '','' (xenon_peers c)"
    by (cases "0 < nat (sp_Replicas (mc_Spec c))")
      (simp_all add: CreatePeers_def create_peers_loop_join xenon_peers_eq create_peers_loop.simps [of c 0 0])
qed

section \<open>Instances\<close>

theorem service_routing_witness:
  "\<exists>v pod' node' upd. new_labels (sample_pod\<lparr>pod_Labels := GetSelectorLabels sample\<rparr>) sample_node = (pod', node', upd) \<and>
     \<not> (selects (svc_Selector (LeaderSVC_mutate sample v)) (pod_Labels pod') \<and>
         selects (svc_Selector (FollowerSVC_mutate sample v)) (pod_Labels pod'))"
proof -
  fix v
  let ?pod = "sample_pod\<lparr>pod_Labels := GetSelectorLabels sample\<rparr>"
  obtain pod' node' upd where n: "new_labels ?pod sample_node = (pod', node', upd)" by (metis prod_cases3)
  have "selects (GetSelectorLabels sample) (pod_Labels ?pod)" "\<not> sp_LeaderAsFollower (mc_Spec sample)"
    by (simp_all add: selects_def sample_defs)
  from service_routing [OF n this, of v] n show ?thesis
    by (intro exI [of _ v] exI [of _ pod'] exI [of _ node'] exI [of _ upd]) (auto simp: Leader_def Follower_def)
qed

theorem Secret_settled_once_witness:
  "\<exists>d. Secret_mutate (\<lambda>k. Ok ''abc'') sample Map.empty = Ok d \<and> settled sample d \<and> Secret_mutate (\<lambda>k. Fail (GErr [])) sample d = Ok d"
proof -
  obtain d where d: "Secret_mutate (\<lambda>k. Ok ''abc'') sample Map.empty = Ok d"
    by (simp add: Secret_mutate_def user_password_def addRandomPassword_def root_password_def Let_def data_source_entry_def sample_defs)
  from Secret_settled_once [OF this, of "\<lambda>k. Fail (GErr [])"] d show ?thesis by auto
qed

end
