(* ===== verification/ObjSync.thy ===== *)
theory ObjSync
  imports SfsSync CtlTypes
begin

text \<open>
  The repository's own object syncer (\<open>mysqlcluster/syncer/objectSyncer.go\<close>): the outcome of a synchronisation, the
  syncer that mutates an object and sets its owner, creation without update, and \<open>Sync\<close>, which records an event.
  \<open>controllerutil.CreateOrUpdate\<close> is a parameter, and so is setting a controller reference. The differences
  that are only logged are left out.
\<close>

section \<open>Outcomes\<close>

text \<open>The switch at the end of every \<open>Sync\<close>: an owner being deleted and an ignored error count as success.\<close>

definition sync_outcome :: "gerr + Op \<Rightarrow> SyncOutcome" where
  "sync_outcome r = (case r of
      Inl e \<Rightarrow>
        if e = OwnerDeleted \<or> e = IgnoreErr then \<lparr>so_Operation = OpNone, so_EventType = None, so_err = None\<rparr>
        else \<lparr>so_Operation = OpNone, so_EventType = Some ''Warning'', so_err = Some e\<rparr>
    | Inr op \<Rightarrow> \<lparr>so_Operation = op, so_EventType = Some ''Normal'', so_err = None\<rparr>)"

text \<open>\<open>Sync\<close>; the owner of every syncer of the operator is there, and so is the recorder.\<close>

definition Sync :: "('z World_scheme, SyncOutcome) go \<Rightarrow> ('z World_scheme, unit) go" where
  "Sync syncer =
     bnd syncer (\<lambda>result.
     bnd (case so_EventType result of
            Some ty \<Rightarrow>
              if so_err result \<noteq> None \<or> so_Operation result \<noteq> OpNone then record_ev (EvCtl (EvEventf ty)) else ret ()
          | None \<Rightarrow> ret ()) (\<lambda>_.
     case so_err result of Some e \<Rightarrow> fail e | None \<Rightarrow> ret ()))"

section \<open>The object syncer\<close>

text \<open>\<open>oj_Created\<close>: the object has a creation timestamp, that is, it was read from the API server.\<close>

record ObjState = World +
  oj_Obj :: KObj
  oj_Created :: bool
  oj_Owned :: bool

record ObjectSyncer =
  ls_Owner :: "MysqlCluster option"
  ls_SyncFn :: "(ObjState, unit) go"
  ls_ForceSync :: bool

definition obj_namespace :: "KObj \<Rightarrow> string" where
  "obj_namespace k = (case k of KService o1 \<Rightarrow> svc_Namespace o1 | KConfigMap o2 \<Rightarrow> cm_Namespace o2 | KSecret o3 \<Rightarrow> sct_Namespace o3
     | KPDB o4 \<Rightarrow> pdb_Namespace o4 | KRole o5 \<Rightarrow> role_Namespace o5 | KRoleBinding o6 \<Rightarrow> rb_Namespace o6
     | KServiceAccount o7 \<Rightarrow> sa_Namespace o7)"

definition mutateFn :: "gerr option \<Rightarrow> ObjectSyncer \<Rightarrow> (ObjState, unit) go" where
  "mutateFn set_ref S =
     bnd (ls_SyncFn S) (\<lambda>_.
     case ls_Owner S of
       None \<Rightarrow> ret ()
     | Some c \<Rightarrow>
         if mc_DeletionTimestamp c = None then
           (case set_ref of Some e \<Rightarrow> fail e | None \<Rightarrow> modify (\<lambda>s. s\<lparr>oj_Owned := True\<rparr>))
         else bnd (gets oj_Created) (\<lambda>created. if \<not> created then fail OwnerDeleted else ret ()))"

definition CreateIfNotExist :: "Env \<Rightarrow> (ObjState, unit) go \<Rightarrow> (ObjState, Op) go" where
  "CreateIfNotExist E f =
     bnd (gets oj_Obj) (\<lambda>k.
     bnd (attempt (query E (EvCtl (EvGetObj (obj_namespace k) (obj_name k))) (\<lambda>t. ca_obj (we_ctl E t)))) (\<lambda>r. case r of
       Inl e \<Rightarrow>
         (case e of NotFound _ \<Rightarrow>
            bnd f (\<lambda>_. bnd (gets oj_Obj) (\<lambda>k.
            bnd (query E (EvCtl (EvCreateObj k)) (\<lambda>t. ca_obj (we_ctl E t))) (\<lambda>k.
            bnd (modify (\<lambda>s. s\<lparr>oj_Obj := k, oj_Created := True\<rparr>)) (\<lambda>_. ret OpCreated))))
          | _ \<Rightarrow> fail e)
     | Inr k \<Rightarrow> bnd (modify (\<lambda>s. s\<lparr>oj_Obj := k, oj_Created := True\<rparr>)) (\<lambda>_. ret OpNone)))"

definition ObjectSyncer_Sync ::
  "Env \<Rightarrow> ((ObjState, unit) go \<Rightarrow> (ObjState, Op) go) \<Rightarrow> gerr option \<Rightarrow> ObjectSyncer \<Rightarrow> (ObjState, SyncOutcome) go" where
  "ObjectSyncer_Sync E create_or_update set_ref S =
     bnd (attempt (if ls_ForceSync S then create_or_update (mutateFn set_ref S) else CreateIfNotExist E (mutateFn set_ref S)))
       (\<lambda>r. ret (sync_outcome r))"

section \<open>Properties\<close>

lemma outcome_error: "so_err (sync_outcome r) = (case r of Inl e \<Rightarrow> if e = OwnerDeleted \<or> e = IgnoreErr then None else Some e | Inr _ \<Rightarrow> None)"
  by (simp add: sync_outcome_def split: sum.split)

lemma Sync_emits: "emits w_trace A m \<Longrightarrow> (\<And>ty. A (EvCtl (EvEventf ty))) \<Longrightarrow> emits w_trace A (Sync m)"
  unfolding Sync_def by (intro emits_intros)

text \<open>Without \<open>ForceSync\<close> an object that exists is left as it is, and one that does not is created owned, or not at all.\<close>

fun creates_only :: "event \<Rightarrow> bool" where
  "creates_only (EvCtl (EvUpdateObj k)) = False"
| "creates_only _ = True"

theorem CreateIfNotExist_keeps_existing:
  assumes "emits w_trace creates_only (ls_SyncFn S)" and "\<not> ls_ForceSync S"
  shows "emits w_trace creates_only (ObjectSyncer_Sync E cou set_ref S)"
proof -
  have f: "emits w_trace creates_only (mutateFn set_ref S)"
    unfolding mutateFn_def by (intro emits_intros assms(1)) simp_all
  have "emits w_trace creates_only (case e of NotFound x \<Rightarrow> bnd (mutateFn set_ref S) (\<lambda>_. bnd (gets oj_Obj) (\<lambda>k.
            bnd (query E (EvCtl (EvCreateObj k)) (\<lambda>t. ca_obj (we_ctl E t))) (\<lambda>k.
            bnd (modify (\<lambda>s. s\<lparr>oj_Obj := k, oj_Created := True\<rparr>)) (\<lambda>_. ret OpCreated)))) | _ \<Rightarrow> fail e)" for e
    by (cases e) (simp_all, (intro emits_intros f; simp)+)
  then show ?thesis
    using assms(2) unfolding ObjectSyncer_Sync_def CreateIfNotExist_def
    by simp (intro emits_intros f; simp)
qed

text \<open>
  While the owner is being deleted an object that is gone is not created again: the synchronisation succeeds, creates
  nothing and records no event.
\<close>

theorem deleted_owner_creates_nothing:
  assumes "ls_Owner S = Some c" "mc_DeletionTimestamp c \<noteq> None" "\<not> ls_ForceSync S"
    and "ls_SyncFn S = modify (\<lambda>s. s\<lparr>oj_Obj := f (oj_Obj s)\<rparr>)"
    and "\<not> oj_Created s" "we_err E (w_trace s @ [EvCtl (EvGetObj (obj_namespace (oj_Obj s)) (obj_name (oj_Obj s)))]) = Some (NotFound x)"
  shows "Sync (ObjectSyncer_Sync E cou set_ref S) s =
    (Ok (), s\<lparr>w_trace := w_trace s @ [EvCtl (EvGetObj (obj_namespace (oj_Obj s)) (obj_name (oj_Obj s)))], oj_Obj := f (oj_Obj s)\<rparr>)"
proof -
  from assms(2) obtain y where "mc_DeletionTimestamp c = Some y" by auto
  with assms(1,3-) show ?thesis
    by (simp add: Sync_def ObjectSyncer_Sync_def CreateIfNotExist_def mutateFn_def query_def call_run bnd_def attempt_def
        sync_outcome_def go_simps)
qed

lemma deleted_owner_creates_nothing_witness:
  "\<exists>cou E (s :: ObjState). length (w_trace (snd (Sync (ObjectSyncer_Sync E cou None \<lparr>ls_Owner = Some (sample\<lparr>mc_DeletionTimestamp := Some 5\<rparr>),
      ls_SyncFn = modify (\<lambda>s. s\<lparr>oj_Obj := id (oj_Obj s)\<rparr>), ls_ForceSync = False\<rparr>) s))) = 1"
proof -
  fix cou and E :: Env and k
  let ?S = "\<lparr>ls_Owner = Some (sample\<lparr>mc_DeletionTimestamp := Some 5\<rparr>),
      ls_SyncFn = modify (\<lambda>s. s\<lparr>oj_Obj := id (oj_Obj s)\<rparr>), ls_ForceSync = False\<rparr>"
  let ?E = "E\<lparr>we_err := (\<lambda>_. Some (NotFound ''absent''))\<rparr>"
  let ?s = "\<lparr>w_trace = [], oj_Obj = k, oj_Created = False, oj_Owned = False\<rparr>"
  have "Sync (ObjectSyncer_Sync ?E cou None ?S) ?s =
      (Ok (), ?s\<lparr>w_trace := [EvCtl (EvGetObj (obj_namespace k) (obj_name k))], oj_Obj := id k\<rparr>)"
    by (rule deleted_owner_creates_nothing [where c = "sample\<lparr>mc_DeletionTimestamp := Some 5\<rparr>", THEN trans]) simp_all
  then have "length (w_trace (snd (Sync (ObjectSyncer_Sync ?E cou None ?S) ?s))) = 1" by (simp only:) simp
  then show ?thesis by (intro exI)
qed

end
