(* ===== verification/MysqlConf.thy ===== *)
theory MysqlConf
  imports ObjSync InnoDB
begin

text \<open>
  The configuration map of MySQL (\<open>mysqlcluster/syncer/mysql_cm.go\<close>, \<open>mysql_configs.go\<close>): the tables of options,
  the configuration file built from them, and the syncer of the map.

  The library for INI files is a parameter: \<open>IniLib\<close> has the operations the code uses on the section \<open>mysqld\<close> of a
  file, whose documented behaviour is \<open>ini_laws\<close>. Ranging over a Go map visits its keys in any order, so that order is a
  parameter too; so are the comparison of semantic versions and the architecture.
\<close>

section \<open>The tables\<close>

definition mysqlSysConfigs :: smap where
  "mysqlSysConfigs = map_of [
     (''default-time-zone'', ''+08:00''), (''slow_query_log_file'', ''/var/log/mysql/mysql-slow.log''),
     (''read_only'', ''ON''), (''binlog_format'', ''row''), (''log-bin'', ''/var/lib/mysql/mysql-bin''),
     (''log-timestamps'', ''SYSTEM''), (''innodb_open_files'', ''655360''), (''open_files_limit'', ''655360''),
     (''gtid-mode'', ''ON''), (''enforce-gtid-consistency'', ''ON''), (''slave_parallel_type'', ''LOGICAL_CLOCK''),
     (''relay_log'', ''/var/lib/mysql/mysql-relay-bin''), (''relay_log_index'', ''/var/lib/mysql/mysql-relay-bin.index''),
     (''slow_query_log'', ''1''), (''tmp_table_size'', ''32M''), (''tmpdir'', ''/var/lib/mysql'')]"

definition pluginConfigs :: smap where
  "pluginConfigs = map_of [
     (''plugin-load'', [CHR 0x22] @ ''semisync_master.so;semisync_slave.so;audit_log.so'' @ [CHR 0x22]),
     (''rpl_semi_sync_master_enabled'', ''OFF''), (''rpl_semi_sync_slave_enabled'', ''ON''),
     (''rpl_semi_sync_master_wait_no_slave'', ''ON''), (''rpl_semi_sync_master_timeout'', ''1000000000000000000''),
     (''audit_log_file'', ''/var/log/mysql/mysql-audit.log''),
     (''audit_log_exclude_accounts'', [CHR 0x22] @ ''root@localhost,root@127.0.0.1,'' @ ReplicationUser @ ''@%,'' @ MetricsUser @ ''@%'' @ [CHR 0x22]),
     (''audit_log_buffer_size'', ''16M''), (''audit_log_policy'', ''NONE''), (''audit_log_rotate_on_size'', ''104857600''),
     (''audit_log_rotations'', ''6''), (''audit_log_format'', ''OLD'')]"

definition mysql57Configs :: smap where
  "mysql57Configs = map_of [
     (''query-cache-type'', ''0''), (''query-cache-size'', ''0''),
     (''sql-mode'', ''STRICT_TRANS_TABLES,ERROR_FOR_DIVISION_BY_ZERO,NO_AUTO_CREATE_USER,NO_AUTO_VALUE_ON_ZERO,NO_ENGINE_SUBSTITUTION,NO_ZERO_DATE,NO_ZERO_IN_DATE,ONLY_FULL_GROUP_BY''),
     (''expire-logs-days'', ''7''), (''master_info_repository'', ''TABLE''), (''relay_log_info_repository'', ''TABLE''),
     (''slave_rows_search_algorithms'', ''INDEX_SCAN,HASH_SCAN'')]"

definition mysql80Configs :: smap where
  "mysql80Configs = map_of [
     (''sql-mode'', ''STRICT_TRANS_TABLES,ERROR_FOR_DIVISION_BY_ZERO,NO_AUTO_VALUE_ON_ZERO,NO_ENGINE_SUBSTITUTION,NO_ZERO_DATE,NO_ZERO_IN_DATE,ONLY_FULL_GROUP_BY''),
     (''binlog_expire_logs_seconds'', ''604800''), (''default-authentication-plugin'', ''mysql_native_password'')]"

definition mysqlCommonConfigs :: smap where
  "mysqlCommonConfigs = map_of [
     (''character_set_server'', ''utf8mb4''), (''interactive_timeout'', ''3600''), (''default-time-zone'', ''+08:00''),
     (''key_buffer_size'', ''33554432''), (''log_bin_trust_function_creators'', ''1''), (''long_query_time'', ''3''),
     (''binlog_cache_size'', ''32768''), (''binlog_stmt_cache_size'', ''32768''), (''max_connections'', ''1024''),
     (''max_connect_errors'', ''655360''), (''sync_master_info'', ''1000''), (''sync_relay_log'', ''1000''),
     (''sync_relay_log_info'', ''1000''), (''table_open_cache'', ''2000''), (''thread_cache_size'', ''128''),
     (''wait_timeout'', ''3600''), (''group_concat_max_len'', ''1024''), (''max_allowed_packet'', ''1073741824''),
     (''event_scheduler'', ''OFF''), (''innodb_print_all_deadlocks'', ''0''), (''autocommit'', ''1''),
     (''transaction-isolation'', ''READ-COMMITTED''), (''explicit_defaults_for_timestamp'', ''0''),
     (''innodb_adaptive_hash_index'', ''0'')]"

definition mysqlStaticConfigs :: smap where
  "mysqlStaticConfigs = map_of [
     (''default-storage-engine'', ''InnoDB''), (''back_log'', ''2048''), (''ft_min_word_len'', ''4''),
     (''lower_case_table_names'', ''1''), (''innodb_ft_max_token_size'', ''84''), (''innodb_ft_min_token_size'', ''3''),
     (''sql_mode'', ''STRICT_TRANS_TABLES,NO_ENGINE_SUBSTITUTION''), (''slave_parallel_workers'', ''0''),
     (''slave_pending_jobs_size_max'', ''1073741824''), (''innodb_log_buffer_size'', ''16777216''),
     (''innodb_log_files_in_group'', ''2''), (''innodb_flush_method'', ''O_DIRECT''),
     (''slave_preserve_commit_order'', ''ON''), (''innodb_autoinc_lock_mode'', ''2''), (''performance_schema'', ''1'')]"

definition mysqlTokudbConfigs :: smap where
  "mysqlTokudbConfigs = map_of [
     (''loose_tokudb_directio'', ''ON'')]"

definition mysqlSSLConfigs :: smap where
  "mysqlSSLConfigs = map_of [
     (''ssl_ca'', ''/etc/mysql-ssl/ca.crt''), (''ssl_cert'', ''/etc/mysql-ssl/tls.crt''),
     (''ssl_key'', ''/etc/mysql-ssl/tls.key'')]"

definition mysqlBooleanConfigs :: "string list" where
  "mysqlBooleanConfigs = [''federated'', ''skip-host-cache'', ''skip-name-resolve'', ''core-file'', ''skip-slave-start'',
     ''log-slave-updates'', ''!includedir /etc/mysql/conf.d'']"

section \<open>Option names and sections\<close>

record 'sec IniLib =
  ini_empty :: 'sec
  ini_has :: "'sec \<Rightarrow> string \<Rightarrow> bool"
  ini_set :: "'sec \<Rightarrow> string \<Rightarrow> string \<Rightarrow> 'sec"
  ini_new :: "'sec \<Rightarrow> string \<Rightarrow> string \<Rightarrow> 'sec res"
  ini_bool :: "'sec \<Rightarrow> string \<Rightarrow> 'sec res"
  ini_text :: "'sec \<Rightarrow> string res"
  ini_load :: "string \<Rightarrow> 'sec res"

record CmLib =
  cl_order :: "smap \<Rightarrow> string list"
  cl_version_ge :: "string \<Rightarrow> string \<Rightarrow> bool"
  cl_arm :: bool
  cl_quantity :: "string \<Rightarrow> int option"
  cl_set_ref :: "gerr option"

definition barskey :: "string \<Rightarrow> string" where
  "barskey k = map (\<lambda>c. if c = CHR ''_'' then CHR ''-'' else c) k"

definition underscorekey :: "string \<Rightarrow> string" where
  "underscorekey k = map (\<lambda>c. if c = CHR ''-'' then CHR ''_'' else c) k"

text \<open>The order of byte strings.\<close>

fun byte_less :: "string \<Rightarrow> string \<Rightarrow> bool" where
  "byte_less xs [] = False"
| "byte_less [] (y # ys) = True"
| "byte_less (x # xs) (y # ys) = ((of_char x :: nat) < of_char y \<or> x = y \<and> byte_less xs ys)"

fun insert_key :: "string \<Rightarrow> string list \<Rightarrow> string list" where
  "insert_key k [] = [k]"
| "insert_key k (x # xs) = (if byte_less (barskey x) (barskey k) then x # insert_key k xs else k # x # xs)"

definition sort_keys :: "string list \<Rightarrow> string list" where
  "sort_keys ks = foldr insert_key ks []"

definition add_key :: "'sec IniLib \<Rightarrow> smap \<Rightarrow> 'sec \<Rightarrow> string \<Rightarrow> 'sec" where
  "add_key L extra s k =
     (if ini_has L s (barskey k) then ini_set L s (barskey k) (lget extra k)
      else if ini_has L s (underscorekey k) then ini_set L s (underscorekey k) (lget extra k)
      else (case ini_new L s k (lget extra k) of Ok s' \<Rightarrow> s' | _ \<Rightarrow> s))"

definition add_keys :: "'sec IniLib \<Rightarrow> CmLib \<Rightarrow> 'sec \<Rightarrow> smap \<Rightarrow> 'sec" where
  "add_keys L M s extra = foldl (add_key L extra) s (sort_keys (cl_order M extra))"

definition addKVConfigsToSection :: "'sec IniLib \<Rightarrow> CmLib \<Rightarrow> 'sec \<Rightarrow> smap list \<Rightarrow> 'sec" where
  "addKVConfigsToSection L M s extras = foldl (add_keys L M) s extras"

definition replaceMapKey :: "smap \<Rightarrow> string \<Rightarrow> string \<Rightarrow> smap" where
  "replaceMapKey dict key1 key2 = (dict(key2 \<mapsto> lget dict key1))(key1 := None)"

section \<open>The configuration file\<close>

text \<open>The tables for 8.0.31 and later, whose options have new names.\<close>

definition renamed_tables :: "smap list" where
  "renamed_tables =
     [replaceMapKey mysqlSysConfigs ''slave_parallel_type'' ''replica_parallel_type'',
      replaceMapKey mysqlCommonConfigs ''sync_master_info'' ''sync_source_info'',
      (replaceMapKey (replaceMapKey (replaceMapKey mysqlStaticConfigs ''slave_pending_jobs_size_max'' ''replica_pending_jobs_size_max'')
         ''slave_preserve_commit_order'' ''replica_preserve_commit_order'') ''slave_parallel_workers'' ''replica_parallel_workers'')
        (''replica_parallel_workers'' \<mapsto> ''1'')]"

definition image_tag :: "string \<Rightarrow> string" where
  "image_tag img = last (split_on (CHR '':'') img)"

definition version_tables :: "string \<Rightarrow> smap list" where
  "version_tables img = (if str_contains img ''8.0'' then [mysql80Configs] else if str_contains img ''5.7'' then [mysql57Configs] else [])"

definition boolean_key :: "'sec IniLib \<Rightarrow> bool \<Rightarrow> 'sec \<Rightarrow> string \<Rightarrow> 'sec" where
  "boolean_key L new s key =
     (if new \<and> key = ''skip-host-cache'' then (case ini_new L s ''host_cache_size'' ''0'' of Ok s' \<Rightarrow> s' | _ \<Rightarrow> s)
      else
        let key = (if new \<and> key = ''skip-slave-start'' then ''skip_replica_start''
                   else if new \<and> key = ''log-slave-updates'' then ''log_replica_updates'' else key)
        in (case ini_bool L s key of Ok s' \<Rightarrow> s' | _ \<Rightarrow> s))"

definition conf_section :: "'sec IniLib \<Rightarrow> CmLib \<Rightarrow> MysqlCluster \<Rightarrow> 'sec" where
  "conf_section L M c =
     (let mo = sp_MysqlOpts (mc_Spec c); new = cl_version_ge M (image_tag (mo_Image mo)) ''8.0.31'';
          s = addKVConfigsToSection L M (ini_empty L) (version_tables (mo_Image mo));
          s = addKVConfigsToSection L M s (if new then renamed_tables else [mysqlSysConfigs, mysqlCommonConfigs, mysqlStaticConfigs]);
          s = (if mo_InitTokuDB mo then addKVConfigsToSection L M s [mysqlTokudbConfigs] else s);
          s = foldl (boolean_key L new) s mysqlBooleanConfigs;
          s = (if length (sp_TlsSecretName (mc_Spec c)) \<noteq> 0 then addKVConfigsToSection L M s [mysqlSSLConfigs] else s)
      in addKVConfigsToSection L M s [mo_MysqlConf mo])"

text \<open>The cluster's own options are completed first, which changes the cluster in memory.\<close>

definition buildMysqlConf :: "'sec IniLib \<Rightarrow> CmLib \<Rightarrow> MysqlCluster \<Rightarrow> (string \<times> MysqlCluster) res" where
  "buildMysqlConf L M c =
     bind_res (EnsureMysqlConf (cl_quantity M) c) (\<lambda>c.
     bind_res (ini_text L (conf_section L M c)) (\<lambda>data. Ok (data, c)))"

definition audit_keys :: "string list" where
  "audit_keys = [''audit_log_file'', ''audit_log_exclude_accounts'', ''audit_log_buffer_size'', ''audit_log_policy'',
     ''audit_log_rotate_on_size'', ''audit_log_rotations'', ''audit_log_format'']"

definition buildMysqlPluginConf :: "'sec IniLib \<Rightarrow> CmLib \<Rightarrow> MysqlCluster \<Rightarrow> string res" where
  "buildMysqlPluginConf L M c =
     (let plugins = (if cl_arm M then foldl (\<lambda>m k. m(k := None)) pluginConfigs audit_keys else pluginConfigs)
      in ini_text L (addKVConfigsToSection L M (ini_empty L) [plugins, mo_PluginConf (sp_MysqlOpts (mc_Spec c))]))"

section \<open>The syncer\<close>

record CmState = World +
  ms_cluster :: MysqlCluster
  ms_cm :: ConfigMapObj

definition NewMysqlCM :: "MysqlCluster \<Rightarrow> ConfigMapObj" where
  "NewMysqlCM c = \<lparr>cm_Name = GetNameForResource c ConfigMap, cm_Namespace = mc_Namespace c, cm_Labels = GetLabels c,
     cm_Data = Map.empty, cm_ResourceVersion = [], cm_Owned = False\<rparr>"

definition set_cm :: "(ConfigMapObj \<Rightarrow> ConfigMapObj) \<Rightarrow> (CmState, unit) go" where
  "set_cm f = modify (\<lambda>s. s\<lparr>ms_cm := f (ms_cm s)\<rparr>)"

definition generateTemplate :: "'sec IniLib \<Rightarrow> CmLib \<Rightarrow> (CmState, unit) go" where
  "generateTemplate L M =
     bnd (gets ms_cluster) (\<lambda>c.
     if mo_MysqlConfTemplate (sp_MysqlOpts (mc_Spec c)) = [] then
       bnd (handle (lift (buildMysqlConf L M c)) (\<lambda>e. fail (GErr (''failed to create mysql configs: '' @ err_text e)))) (\<lambda>(data, c).
       bnd (modify (\<lambda>s. s\<lparr>ms_cluster := c\<rparr>)) (\<lambda>_.
       bnd (handle (lift (buildMysqlPluginConf L M c)) (\<lambda>e. fail (GErr (''failed to create mysql plugin configs: '' @ err_text e)))) (\<lambda>plugin.
       set_cm (\<lambda>m. m\<lparr>cm_Data := [''my.cnf'' \<mapsto> data, ''plugin.cnf'' \<mapsto> plugin]\<rparr>))))
     else fail (GErr ''MysqlConfTemplate is empty''))"

fun put_ini_keys :: "'sec IniLib \<Rightarrow> smap \<Rightarrow> 'sec \<Rightarrow> string list \<Rightarrow> 'sec res" where
  "put_ini_keys L patch s [] = Ok s"
| "put_ini_keys L patch s (k # ks) =
     (if ini_has L s (barskey k) then put_ini_keys L patch (ini_set L s (barskey k) (lget patch k)) ks
      else if ini_has L s (underscorekey k) then put_ini_keys L patch (ini_set L s (underscorekey k) (lget patch k)) ks
      else (case ini_new L s k (lget patch k) of
          Ok s' \<Rightarrow> put_ini_keys L patch s' ks
        | Fail e \<Rightarrow> Fail (GErr (''failed to add key to config section: '' @ err_text e))
        | Panic p \<Rightarrow> Panic p))"

definition wrap_err :: "string \<Rightarrow> 'a res \<Rightarrow> 'a res" where
  "wrap_err text r = (case r of Fail e \<Rightarrow> Fail (GErr (text @ err_text e)) | _ \<Rightarrow> r)"

definition createOrReplaceIniKey :: "'sec IniLib \<Rightarrow> CmLib \<Rightarrow> string \<Rightarrow> smap \<Rightarrow> smap \<Rightarrow> smap res" where
  "createOrReplaceIniKey L M key patch data =
     (if cl_order M patch = [] then Ok data
      else case data key of
          None \<Rightarrow> Ok data
        | Some f \<Rightarrow>
            bind_res (wrap_err (''failed to load '' @ key @ '', err: '') (ini_load L f)) (\<lambda>s.
            bind_res (put_ini_keys L patch s (sort_keys (cl_order M patch))) (\<lambda>s.
            bind_res (wrap_err ''failed to write configs: '' (ini_text L s)) (\<lambda>text. Ok (data(key \<mapsto> text))))))"

text \<open>The plugins of 8.0: the quoted list without its last byte, the clone plugin and a quote.\<close>

definition plugin_load_80 :: "CmLib \<Rightarrow> string" where
  "plugin_load_80 M =
     (let str = (if cl_arm M then [CHR 0x22] @ ''semisync_master.so;semisync_slave.so'' @ [CHR 0x22] else lget pluginConfigs ''plugin-load'')
      in butlast str @ '';mysql_clone.so'' @ [CHR 0x22])"

definition with_plugin_load :: "CmLib \<Rightarrow> MysqlCluster \<Rightarrow> MysqlCluster" where
  "with_plugin_load M c =
     (if sp_MysqlVersion (mc_Spec c) = ''8.0''
      then let mo = sp_MysqlOpts (mc_Spec c) in
        c\<lparr>mc_Spec := (mc_Spec c)\<lparr>sp_MysqlOpts := mo\<lparr>mo_PluginConf := (mo_PluginConf mo)(''plugin-load'' \<mapsto> plugin_load_80 M)\<rparr>\<rparr>\<rparr>
      else c)"

definition put_ini :: "'sec IniLib \<Rightarrow> CmLib \<Rightarrow> string \<Rightarrow> smap \<Rightarrow> (CmState, unit) go" where
  "put_ini L M key patch =
     bnd (gets (\<lambda>s. cm_Data (ms_cm s))) (\<lambda>data.
     bnd (lift (createOrReplaceIniKey L M key patch data)) (\<lambda>data. set_cm (\<lambda>m. m\<lparr>cm_Data := data\<rparr>)))"

definition appendConf :: "'sec IniLib \<Rightarrow> CmLib \<Rightarrow> (CmState, unit) go" where
  "appendConf L M =
     bnd (gets ms_cluster) (\<lambda>c.
     bnd (put_ini L M ''my.cnf'' (mo_MysqlConf (sp_MysqlOpts (mc_Spec c)))) (\<lambda>_.
     bnd (modify (\<lambda>s. s\<lparr>ms_cluster := with_plugin_load M (ms_cluster s)\<rparr>)) (\<lambda>_.
     bnd (gets ms_cluster) (\<lambda>c.
     put_ini L M ''plugin.cnf'' (mo_PluginConf (sp_MysqlOpts (mc_Spec c)))))))"

text \<open>The creation time looked at is that of the cluster, not of the map.\<close>

definition setControllerReference :: "CmLib \<Rightarrow> (CmState, unit) go" where
  "setControllerReference M =
     bnd (gets ms_cluster) (\<lambda>c.
     if mc_DeletionTimestamp c = None then
       (case cl_set_ref M of Some e \<Rightarrow> fail e | None \<Rightarrow> set_cm (\<lambda>m. m\<lparr>cm_Owned := True\<rparr>))
     else if mc_CreationTimestamp c = None then fail (GErr ''owner is deleted'') else ret ())"

text \<open>Creating and updating store the server's resource version in the object.\<close>

definition put_cm :: "Env \<Rightarrow> ctl_event \<Rightarrow> (CmState, unit) go" where
  "put_cm E ev =
     bnd (query E (EvCtl ev) (\<lambda>t. ca_obj (we_ctl E t))) (\<lambda>k.
     set_cm (\<lambda>m. case k of KConfigMap g \<Rightarrow> m\<lparr>cm_ResourceVersion := cm_ResourceVersion g\<rparr> | _ \<Rightarrow> m))"

definition cm_createOrUpdate :: "Env \<Rightarrow> 'sec IniLib \<Rightarrow> CmLib \<Rightarrow> (CmState, Op) go" where
  "cm_createOrUpdate E L M =
     bnd (gets id) (\<lambda>s.
     bnd (attempt (query E (EvCtl (EvGetObj (cm_Namespace (ms_cm s)) (cm_Name (ms_cm s)))) (\<lambda>t. ca_obj (we_ctl E t)))) (\<lambda>r. case r of
       Inl e \<Rightarrow>
         (case e of NotFound _ \<Rightarrow>
            if mo_MysqlConfTemplate (sp_MysqlOpts (mc_Spec (ms_cluster s))) \<noteq> []
            then fail (GErr (''template is not exist: '' @ mo_MysqlConfTemplate (sp_MysqlOpts (mc_Spec (ms_cluster s)))))
            else
              bnd (generateTemplate L M) (\<lambda>_. bnd (gets ms_cm) (\<lambda>m.
              bnd (put_cm E (EvCreateObj (KConfigMap m))) (\<lambda>_. ret OpCreated)))
          | _ \<Rightarrow> fail e)
     | Inr k \<Rightarrow>
         bnd (set_cm (\<lambda>m. case k of KConfigMap g \<Rightarrow> g\<lparr>cm_Name := cm_Name m, cm_Namespace := cm_Namespace m\<rparr> | _ \<Rightarrow> m)) (\<lambda>_.
         bnd (appendConf L M) (\<lambda>_.
         bnd (setControllerReference M) (\<lambda>_.
         bnd (gets ms_cm) (\<lambda>m.
         bnd (put_cm E (EvUpdateObj (KConfigMap m))) (\<lambda>_. ret OpNone)))))))"

definition cm_Sync :: "Env \<Rightarrow> 'sec IniLib \<Rightarrow> CmLib \<Rightarrow> (CmState, SyncOutcome) go" where
  "cm_Sync E L M = bnd (attempt (cm_createOrUpdate E L M)) (\<lambda>r. ret (sync_outcome r))"

section \<open>The value of an option\<close>

text \<open>The documented behaviour of the library; \<open>get\<close> reads a section.\<close>

definition ini_laws :: "'sec IniLib \<Rightarrow> ('sec \<Rightarrow> string \<Rightarrow> string option) \<Rightarrow> bool" where
  "ini_laws L get \<longleftrightarrow>
     get (ini_empty L) = Map.empty \<and>
     (\<forall>s k. ini_has L s k \<longleftrightarrow> get s k \<noteq> None) \<and>
     (\<forall>s k v. ini_has L s k \<longrightarrow> get (ini_set L s k v) = (get s)(k \<mapsto> v)) \<and>
     (\<forall>s k v. k \<noteq> [] \<longrightarrow> (\<exists>s'. ini_new L s k v = Ok s' \<and> get s' = (get s)(k \<mapsto> v))) \<and>
     (\<forall>s k. k \<noteq> [] \<longrightarrow> (\<exists>s'. ini_bool L s k = Ok s' \<and> get s' = (get s)(k \<mapsto> ''true'')))"

definition order_laws :: "CmLib \<Rightarrow> bool" where
  "order_laws M \<longleftrightarrow> (\<forall>m. finite (dom m) \<longrightarrow> set (cl_order M m) = dom m)"

text \<open>An option is looked up with bars, then with underscores, then as it is written.\<close>

definition opt :: "('sec \<Rightarrow> string \<Rightarrow> string option) \<Rightarrow> 'sec \<Rightarrow> string \<Rightarrow> string option" where
  "opt get s k = (case get s (barskey k) of Some v \<Rightarrow> Some v | None \<Rightarrow>
     (case get s (underscorekey k) of Some v \<Rightarrow> Some v | None \<Rightarrow> get s k))"

lemma barskey_idem [simp]: "barskey (barskey k) = barskey k" "barskey (underscorekey k) = barskey k"
  by (auto simp: barskey_def underscorekey_def)

lemma opt_upd_other: "barskey j \<noteq> barskey k \<Longrightarrow> get s' = (get s)(k \<mapsto> v) \<Longrightarrow> opt get s' j = opt get s j"
proof -
  assume b: "barskey j \<noteq> barskey k" and g: "get s' = (get s)(k \<mapsto> v)"
  have "barskey j \<noteq> k" "underscorekey j \<noteq> k" "j \<noteq> k" using b barskey_idem by metis+
  then show ?thesis unfolding opt_def g by (simp split: option.split)
qed

lemma ini_new_get: "ini_laws L get \<Longrightarrow> k \<noteq> [] \<Longrightarrow> \<exists>s'. ini_new L s k v = Ok s' \<and> get s' = (get s)(k \<mapsto> v)"
  by (simp add: ini_laws_def)

lemma ini_bool_get: "ini_laws L get \<Longrightarrow> k \<noteq> [] \<Longrightarrow> \<exists>s'. ini_bool L s k = Ok s' \<and> get s' = (get s)(k \<mapsto> ''true'')"
  by (simp add: ini_laws_def)

lemma ini_has_get: "ini_laws L get \<Longrightarrow> ini_has L s k \<longleftrightarrow> get s k \<noteq> None"
  by (simp add: ini_laws_def)

lemma ini_set_get: "ini_laws L get \<Longrightarrow> get s k \<noteq> None \<Longrightarrow> get (ini_set L s k v) = (get s)(k \<mapsto> v)"
  by (simp add: ini_laws_def)

text \<open>What one step writes: the value, under one of the three spellings, which is then the one that is read.\<close>

lemma add_key_get:
  assumes "ini_laws L get" "k \<noteq> []"
  shows "\<exists>k'. barskey k' = barskey k \<and> get (add_key L extra s k) = (get s)(k' \<mapsto> lget extra k) \<and>
    opt get (add_key L extra s k) k = Some (lget extra k)"
proof (cases "get s (barskey k)")
  case (Some v)
  then have "get (add_key L extra s k) = (get s)(barskey k \<mapsto> lget extra k)"
    by (simp add: add_key_def ini_has_get [OF assms(1)] ini_set_get [OF assms(1)])
  then show ?thesis unfolding opt_def by (intro exI [of _ "barskey k"]) simp
next
  case None
  note bars = this
  show ?thesis
  proof (cases "get s (underscorekey k)")
    case (Some v)
    with bars have "get (add_key L extra s k) = (get s)(underscorekey k \<mapsto> lget extra k)"
      by (simp add: add_key_def ini_has_get [OF assms(1)] ini_set_get [OF assms(1)])
    with bars Some show ?thesis unfolding opt_def by (intro exI [of _ "underscorekey k"]) auto
  next
    case None
    obtain s' where "ini_new L s k (lget extra k) = Ok s'" "get s' = (get s)(k \<mapsto> lget extra k)"
      using ini_new_get [OF assms, of s "lget extra k"] by blast
    with bars None have "get (add_key L extra s k) = (get s)(k \<mapsto> lget extra k)"
      by (simp add: add_key_def ini_has_get [OF assms(1)])
    with bars None show ?thesis unfolding opt_def by (intro exI [of _ k]) auto
  qed
qed

lemma add_key_other:
  assumes "ini_laws L get" "k \<noteq> []" "barskey j \<noteq> barskey k"
  shows "opt get (add_key L extra s k) j = opt get s j"
proof -
  obtain k' where "barskey k' = barskey k" "get (add_key L extra s k) = (get s)(k' \<mapsto> lget extra k)"
    using add_key_get [OF assms(1,2)] by blast
  with assms(3) show ?thesis using opt_upd_other by metis
qed

lemma add_keys_loop_other:
  assumes "ini_laws L get" "[] \<notin> set ks" "barskey j \<notin> barskey ` set ks"
  shows "opt get (foldl (add_key L extra) s ks) j = opt get s j"
  using assms(2,3)
proof (induction ks arbitrary: s)
  case (Cons k ks)
  from Cons.prems have k: "k \<noteq> []" "barskey j \<noteq> barskey k" "[] \<notin> set ks" "barskey j \<notin> barskey ` set ks" by force+
  show ?case unfolding foldl.simps Cons.IH [OF k(3,4)] by (rule add_key_other [OF assms(1) k(1,2)])
qed simp

lemma add_keys_loop_value:
  assumes "ini_laws L get" "[] \<notin> set ks" "k \<in> set ks" "\<And>k'. k' \<in> set ks \<Longrightarrow> barskey k' = barskey k \<Longrightarrow> k' = k"
  shows "opt get (foldl (add_key L extra) s ks) k = Some (lget extra k)"
  using assms(2-4)
proof (induction ks arbitrary: s)
  case (Cons x xs)
  from Cons.prems(1) have nil: "[] \<notin> set xs" by simp
  show ?case
  proof (cases "k \<in> set xs")
    case True
    show ?thesis unfolding foldl.simps by (rule Cons.IH [OF nil True]) (simp add: Cons.prems(3))
  next
    case False
    have x: "x = k" using Cons.prems(2) False by simp
    have k: "k \<noteq> []" using Cons.prems(1,2) by metis
    have "barskey k \<notin> barskey ` set xs"
    proof
      assume "barskey k \<in> barskey ` set xs"
      then obtain y where "y \<in> set xs" "barskey y = barskey k" by (metis imageE)
      with Cons.prems(3) [of y] False show False by simp
    qed
    then show ?thesis unfolding foldl.simps x
      using add_keys_loop_other [OF assms(1) nil] add_key_get [OF assms(1) k] by metis
  qed
qed simp

lemma set_sort_keys: "set (sort_keys ks) = set ks"
proof -
  have "set (insert_key k xs) = insert k (set xs)" for k xs by (induction xs) auto
  then show ?thesis by (induction ks) (simp_all add: sort_keys_def)
qed

text \<open>A table: a finite map without the empty key.\<close>

definition table :: "smap \<Rightarrow> bool" where
  "table m \<longleftrightarrow> finite (dom m) \<and> m [] = None"

lemma table_keys:
  assumes "order_laws M" "table m"
  shows "set (sort_keys (cl_order M m)) = dom m" "[] \<notin> set (sort_keys (cl_order M m))"
  using assms by (simp_all add: set_sort_keys order_laws_def table_def domIff)

lemma add_keys_other:
  assumes "ini_laws L get" "order_laws M" "table m" "\<And>k. k \<in> dom m \<Longrightarrow> barskey k \<noteq> barskey j"
  shows "opt get (add_keys L M s m) j = opt get s j"
proof -
  have "barskey j \<notin> barskey ` set (sort_keys (cl_order M m))"
    using assms(4) unfolding table_keys(1) [OF assms(2,3)] by (metis imageE)
  then show ?thesis
    unfolding add_keys_def by (rule add_keys_loop_other [OF assms(1) table_keys(2) [OF assms(2,3)]])
qed

lemma add_keys_value:
  assumes "ini_laws L get" "order_laws M" "table m" "m k = Some v" "\<And>k'. k' \<in> dom m \<Longrightarrow> barskey k' = barskey k \<Longrightarrow> k' = k"
  shows "opt get (add_keys L M s m) k = Some v"
proof -
  have "k \<in> set (sort_keys (cl_order M m))" unfolding table_keys(1) [OF assms(2,3)] using assms(4) by (rule domI)
  moreover have "\<And>k'. k' \<in> set (sort_keys (cl_order M m)) \<Longrightarrow> barskey k' = barskey k \<Longrightarrow> k' = k"
    unfolding table_keys(1) [OF assms(2,3)] by (rule assms(5))
  ultimately have "opt get (add_keys L M s m) k = Some (lget m k)"
    unfolding add_keys_def by (rule add_keys_loop_value [OF assms(1) table_keys(2) [OF assms(2,3)]])
  with assms(4) show ?thesis by (simp add: lget_def)
qed


lemma boolean_key_other:
  assumes "ini_laws L get" "key \<in> set mysqlBooleanConfigs" "barskey j = ''sql-mode''"
  shows "opt get (boolean_key L new s key) j = opt get s j"
proof -
  define key' where "key' = (if new \<and> key = ''skip-slave-start'' then ''skip_replica_start''
      else if new \<and> key = ''log-slave-updates'' then ''log_replica_updates'' else key)"
  have k: "key' \<noteq> []" "barskey key' \<noteq> barskey j"
    using assms(2,3) by (auto simp: key'_def mysqlBooleanConfigs_def barskey_def)
  obtain s1 where s1: "ini_bool L s key' = Ok s1" "get s1 = (get s)(key' \<mapsto> ''true'')"
    using ini_bool_get [OF assms(1) k(1)] by blast
  obtain s2 where s2: "ini_new L s ''host_cache_size'' ''0'' = Ok s2" "get s2 = (get s)(''host_cache_size'' \<mapsto> ''0'')"
    using ini_new_get [OF assms(1), of "''host_cache_size''" s "''0''"] by blast
  have h: "barskey j \<noteq> barskey ''host_cache_size''" unfolding assms(3) by (simp add: barskey_def)
  have run: "boolean_key L new s key = (if new \<and> key = ''skip-host-cache'' then s2 else s1)"
    unfolding boolean_key_def Let_def key'_def [symmetric] s1(1) s2(1) by simp
  have "opt get s1 j = opt get s j" using k(2) s1(2) by (intro opt_upd_other [of j key']) auto
  moreover have "opt get s2 j = opt get s j" using h s2(2) by (intro opt_upd_other [of j "''host_cache_size''"]) auto
  ultimately show ?thesis by (simp add: run)
qed

lemma booleans_other:
  assumes "ini_laws L get" "barskey j = ''sql-mode''" "set keys \<subseteq> set mysqlBooleanConfigs"
  shows "opt get (foldl (boolean_key L new) s keys) j = opt get s j"
  using assms(3)
proof (induction keys arbitrary: s)
  case (Cons k ks)
  then show ?case using boolean_key_other [OF assms(1) _ assms(2)] by simp
qed simp

lemma table_map_of: "[] \<notin> fst ` set xs \<Longrightarrow> table (map_of xs)"
  by (simp add: table_def finite_dom_map_of map_of_eq_None_iff)

lemma small_tables:
  "table mysqlTokudbConfigs" "table mysqlSSLConfigs" "table mysqlStaticConfigs"
  unfolding mysqlTokudbConfigs_def mysqlSSLConfigs_def mysqlStaticConfigs_def by (rule table_map_of, simp)+

lemma map_of_keys: "map_of xs k = Some v \<Longrightarrow> list_all P (map fst xs) \<Longrightarrow> P k"
  by (induction xs) (auto split: if_splits)

lemma no_sql_mode:
  "mysqlTokudbConfigs k = Some v \<Longrightarrow> barskey k \<noteq> ''sql-mode''" "mysqlSSLConfigs k = Some v \<Longrightarrow> barskey k \<noteq> ''sql-mode''"
  unfolding mysqlTokudbConfigs_def mysqlSSLConfigs_def by (erule map_of_keys, simp add: barskey_def)+

lemma static_sql_mode:
  "mysqlStaticConfigs ''sql_mode'' = Some ''STRICT_TRANS_TABLES,NO_ENGINE_SUBSTITUTION''"
  "mysqlStaticConfigs k = Some v \<Longrightarrow> barskey k = ''sql-mode'' \<longrightarrow> k = ''sql_mode''"
  unfolding mysqlStaticConfigs_def by (simp, erule map_of_keys, simp add: barskey_def)

text \<open>Renaming an option keeps a table a table, and the keys that are not renamed.\<close>

lemma replaceMapKey_table: "table m \<Longrightarrow> key2 \<noteq> [] \<Longrightarrow> table (replaceMapKey m key1 key2)"
  by (simp add: table_def replaceMapKey_def)

lemma replaceMapKey_keep:
  "k \<noteq> key1 \<Longrightarrow> k \<noteq> key2 \<Longrightarrow> replaceMapKey m key1 key2 k = m k"
  by (simp add: replaceMapKey_def)

lemma replaceMapKey_dom: "k \<in> dom (replaceMapKey m key1 key2) \<Longrightarrow> k \<in> dom m \<or> k = key2"
  by (auto simp: replaceMapKey_def split: if_splits)

definition renamed_static :: smap where
  "renamed_static =
      (replaceMapKey (replaceMapKey (replaceMapKey mysqlStaticConfigs ''slave_pending_jobs_size_max'' ''replica_pending_jobs_size_max'')
         ''slave_preserve_commit_order'' ''replica_preserve_commit_order'') ''slave_parallel_workers'' ''replica_parallel_workers'')
        (''replica_parallel_workers'' \<mapsto> ''1'')"

lemma renamed_sql_mode:
  "table renamed_static" "renamed_static ''sql_mode'' = Some ''STRICT_TRANS_TABLES,NO_ENGINE_SUBSTITUTION''"
  "k \<in> dom renamed_static \<Longrightarrow> barskey k = ''sql-mode'' \<longrightarrow> k = ''sql_mode''"
proof -
  show "table renamed_static"
    unfolding renamed_static_def
    by (simp add: table_def replaceMapKey_def mysqlStaticConfigs_def finite_dom_map_of)
  show "renamed_static ''sql_mode'' = Some ''STRICT_TRANS_TABLES,NO_ENGINE_SUBSTITUTION''"
    unfolding renamed_static_def by (simp add: replaceMapKey_def static_sql_mode(1))
  assume k: "k \<in> dom renamed_static"
  then have "k \<in> dom mysqlStaticConfigs \<or> k \<in> set [''replica_pending_jobs_size_max'', ''replica_preserve_commit_order'', ''replica_parallel_workers'']"
    unfolding renamed_static_def dom_fun_upd by (simp, metis replaceMapKey_dom)
  then show "barskey k = ''sql-mode'' \<longrightarrow> k = ''sql_mode''"
  proof
    assume "k \<in> dom mysqlStaticConfigs"
    then show ?thesis using static_sql_mode(2) by blast
  next
    assume "k \<in> set [''replica_pending_jobs_size_max'', ''replica_preserve_commit_order'', ''replica_parallel_workers'']"
    then consider "k = ''replica_pending_jobs_size_max''" | "k = ''replica_preserve_commit_order''" | "k = ''replica_parallel_workers''"
      by (metis empty_iff insert_iff list.set)
    then show ?thesis by cases (simp_all add: barskey_def)
  qed
qed

text \<open>What the operator's tables give as the SQL mode, whatever the image.\<close>

lemma tables_sql_mode:
  assumes "ini_laws L get" "order_laws M"
  shows "opt get (addKVConfigsToSection L M s (if new then renamed_tables else [mysqlSysConfigs, mysqlCommonConfigs, mysqlStaticConfigs])) ''sql_mode''
    = Some ''STRICT_TRANS_TABLES,NO_ENGINE_SUBSTITUTION''"
proof -
  have b: "barskey ''sql_mode'' = ''sql-mode''" by (simp add: barskey_def)
  have "opt get (add_keys L M s' renamed_static) ''sql_mode'' = Some ''STRICT_TRANS_TABLES,NO_ENGINE_SUBSTITUTION''" for s'
  proof (rule add_keys_value [OF assms renamed_sql_mode(1,2)])
    fix k' assume "k' \<in> dom renamed_static" "barskey k' = barskey ''sql_mode''"
    then show "k' = ''sql_mode''" unfolding b using renamed_sql_mode(3) by blast
  qed
  moreover have "opt get (add_keys L M s' mysqlStaticConfigs) ''sql_mode'' = Some ''STRICT_TRANS_TABLES,NO_ENGINE_SUBSTITUTION''" for s'
  proof (rule add_keys_value [OF assms small_tables(3) static_sql_mode(1)])
    fix k' assume "k' \<in> dom mysqlStaticConfigs" "barskey k' = barskey ''sql_mode''"
    then show "k' = ''sql_mode''" unfolding b using static_sql_mode(2) by blast
  qed
  ultimately show ?thesis
    by (simp add: addKVConfigsToSection_def renamed_tables_def flip: renamed_static_def)
qed

text \<open>
  The SQL mode of the version tables is lost: whatever the image (5.7, 8.0, other), unless the specification sets the
  SQL mode itself the configuration file has the value of the static table, which is written later under the other
  spelling of the same option and replaces the stricter value of \<open>mysql57Configs\<close> or \<open>mysql80Configs\<close>.
\<close>

theorem sql_mode_static_wins:
  assumes "ini_laws L get" "order_laws M" "table (mo_MysqlConf (sp_MysqlOpts (mc_Spec c)))"
    and "\<And>k. k \<in> dom (mo_MysqlConf (sp_MysqlOpts (mc_Spec c))) \<Longrightarrow> barskey k \<noteq> ''sql-mode''"
  shows "opt get (conf_section L M c) ''sql_mode'' = Some ''STRICT_TRANS_TABLES,NO_ENGINE_SUBSTITUTION''"
proof -
  have b: "barskey ''sql_mode'' = ''sql-mode''" by (simp add: barskey_def)
  have user: "opt get (add_keys L M s (mo_MysqlConf (sp_MysqlOpts (mc_Spec c)))) ''sql_mode'' = opt get s ''sql_mode''" for s
    by (rule add_keys_other [OF assms(1-3)]) (simp add: b assms(4))
  have toku: "opt get (add_keys L M s mysqlTokudbConfigs) ''sql_mode'' = opt get s ''sql_mode''" for s
    using no_sql_mode(1) by (intro add_keys_other [OF assms(1,2) small_tables(1)]) (auto simp: b)
  have ssl: "opt get (add_keys L M s mysqlSSLConfigs) ''sql_mode'' = opt get s ''sql_mode''" for s
    using no_sql_mode(2) by (intro add_keys_other [OF assms(1,2) small_tables(2)]) (auto simp: b)
  show ?thesis
    unfolding conf_section_def Let_def addKVConfigsToSection_def [of L M _ "[mo_MysqlConf (sp_MysqlOpts (mc_Spec c))]"]
      addKVConfigsToSection_def [of L M _ "[mysqlSSLConfigs]"] addKVConfigsToSection_def [of L M _ "[mysqlTokudbConfigs]"] foldl.simps user
    by (simp only: if_distrib [of "\<lambda>s. opt get s _"] if_cancel ssl toku booleans_other [OF assms(1) b subset_refl] tables_sql_mode [OF assms(1,2)])
qed

text \<open>The loop of \<open>createOrReplaceIniKey\<close> is the loop of \<open>addKVConfigsToSection\<close>; no key is refused.\<close>

lemma put_ini_keys_add:
  assumes "ini_laws L get" "[] \<notin> set ks"
  shows "put_ini_keys L patch s ks = Ok (foldl (add_key L patch) s ks)"
  using assms(2)
proof (induction ks arbitrary: s)
  case (Cons k ks)
  from Cons.prems have k: "k \<noteq> []" by auto
  have IH: "put_ini_keys L patch s ks = Ok (foldl (add_key L patch) s ks)" for s using Cons by simp
  obtain s' where "ini_new L s k (lget patch k) = Ok s'" using ini_new_get [OF assms(1) k] by blast
  then show ?case unfolding put_ini_keys.simps foldl.simps add_key_def IH by simp
qed simp

text \<open>
  Changing the options of a running cluster and building its configuration are the same function of the options:
  \<open>createOrReplaceIniKey\<close> writes into the file of an existing map the text of the section that
  \<open>addKVConfigsToSection\<close> makes of the section it finds there, and leaves the other files of the map as they are.
\<close>

theorem append_equals_build:
  assumes "ini_laws L get" "order_laws M" "table patch" "data key = Some file" "ini_load L file = Ok s"
    and "ini_text L (addKVConfigsToSection L M s [patch]) = Ok text"
  shows "createOrReplaceIniKey L M key patch data = Ok (if patch = Map.empty then data else data(key \<mapsto> text))"
proof (cases "patch = Map.empty")
  case True
  then have "set (cl_order M patch) = {}" using assms(2,3) by (simp add: order_laws_def table_def)
  with True show ?thesis by (simp add: createOrReplaceIniKey_def)
next
  case False
  then have "set (cl_order M patch) \<noteq> {}" using assms(2,3) by (simp add: order_laws_def table_def)
  then have "cl_order M patch \<noteq> []" by auto
  then show ?thesis
    using assms(4-6) put_ini_keys_add [OF assms(1) table_keys(2) [OF assms(2,3)], of patch s] False
    by (simp add: createOrReplaceIniKey_def wrap_err_def addKVConfigsToSection_def add_keys_def)
qed

lemma template_owned: "generateTemplate L M s = (r, t) \<Longrightarrow> cm_Owned (ms_cm t) = cm_Owned (ms_cm s)"
  unfolding generateTemplate_def set_cm_def
  by (auto simp: bnd_def gets_def modify_def handle_def lift_def fail_def split: res.splits prod.splits if_splits)

lemma query_Ok: "query E e f s = (Ok x, t) \<Longrightarrow> w_trace t = w_trace s @ [e]"
  using trace_query [of E e f s] by simp

text \<open>
  A configuration map the syncer creates has no owner: the reference to the cluster is only set when an existing
  map is updated, by the next synchronisation.
\<close>

theorem cm_created_unowned:
  assumes "ms_cm s = NewMysqlCM c" and "cm_createOrUpdate E L M s = (Ok OpCreated, t)"
  shows "\<exists>m. last (w_trace t) = EvCtl (EvCreateObj (KConfigMap m)) \<and> \<not> cm_Owned m"
proof -
  have owned: "\<not> cm_Owned (ms_cm (s\<lparr>w_trace := tr\<rparr>))" for tr using assms(1) by (simp add: NewMysqlCM_def)
  have "\<exists>u tr. generateTemplate L M (s\<lparr>w_trace := tr\<rparr>) = (Ok (), u) \<and>
      last (w_trace t) = EvCtl (EvCreateObj (KConfigMap (ms_cm u)))"
    using assms(2) unfolding cm_createOrUpdate_def put_cm_def set_cm_def
    by (auto simp: bnd_def gets_def attempt_def query_def fail_def ret_def modify_def call_def record_ev_def
        split: res.splits prod.splits if_splits gerr.splits sum.splits option.splits)
  with template_owned owned show ?thesis by metis
qed

text \<open>A library of sections that satisfies the laws, with files of one line; and an order of the keys of a map.\<close>

definition plain_ini :: "smap IniLib" where
  "plain_ini = \<lparr>ini_empty = Map.empty, ini_has = (\<lambda>s k. s k \<noteq> None), ini_set = (\<lambda>s k v. s(k \<mapsto> v)),
     ini_new = (\<lambda>s k v. if k = [] then Fail (GErr ''empty key'') else Ok (s(k \<mapsto> v))),
     ini_bool = (\<lambda>s k. if k = [] then Fail (GErr ''empty key'') else Ok (s(k \<mapsto> ''true''))),
     ini_text = (\<lambda>s. Ok (''max-connections = '' @ lget s ''max-connections'')),
     ini_load = (\<lambda>f. Ok [''max-connections'' \<mapsto> drop 16 f])\<rparr>"

definition plain_lib :: CmLib where
  "plain_lib = \<lparr>cl_order = (\<lambda>m. sorted_list_of_set (dom m)), cl_version_ge = (\<lambda>a b. False), cl_arm = False,
     cl_quantity = (\<lambda>s. Some 0), cl_set_ref = None\<rparr>"

lemma plain_laws: "ini_laws plain_ini id" "order_laws plain_lib"
  by (simp_all add: ini_laws_def plain_ini_def order_laws_def plain_lib_def)


lemma sql_mode_static_wins_witness:
  "opt id (conf_section plain_ini plain_lib (Cluster.sample\<lparr>mc_Spec := (mc_Spec Cluster.sample)\<lparr>sp_MysqlOpts :=
     (sp_MysqlOpts (mc_Spec Cluster.sample))\<lparr>mo_Image := ''mysql:8.0'', mo_MysqlConf := Map.empty\<rparr>\<rparr>\<rparr>)) ''sql_mode''
   = Some ''STRICT_TRANS_TABLES,NO_ENGINE_SUBSTITUTION''"
  by (rule sql_mode_static_wins [OF plain_laws]) (simp_all add: table_def)

lemma append_equals_build_witness:
  "createOrReplaceIniKey plain_ini plain_lib ''my.cnf'' [''max_connections'' \<mapsto> ''7''] [''my.cnf'' \<mapsto> ''max-connections=1'', ''plugin.cnf'' \<mapsto> []]
   = Ok [''my.cnf'' \<mapsto> ''max-connections = 7'', ''plugin.cnf'' \<mapsto> []]"
proof -
  let ?f = "[''max-connections'' \<mapsto> ''1'']"
  have load: "ini_load plain_ini ''max-connections=1'' = Ok ?f" by (simp add: plain_ini_def)
  have "sort_keys (cl_order plain_lib [''max_connections'' \<mapsto> ''7'']) = [''max_connections'']"
    by (simp add: plain_lib_def sort_keys_def)
  then have "ini_text plain_ini (addKVConfigsToSection plain_ini plain_lib ?f [[''max_connections'' \<mapsto> ''7'']]) = Ok ''max-connections = 7''"
    by (simp add: addKVConfigsToSection_def add_keys_def add_key_def barskey_def plain_ini_def)
  from append_equals_build [OF plain_laws _ _ load this, of "[''my.cnf'' \<mapsto> ''max-connections=1'', ''plugin.cnf'' \<mapsto> []]" "''my.cnf''"]
  show ?thesis by (simp add: table_def fun_upd_twist)
qed

lemma cm_created_unowned_witness:
  "\<exists>E c s t. ms_cm s = NewMysqlCM c \<and> cm_createOrUpdate E plain_ini plain_lib s = (Ok OpCreated, t) \<and>
     \<not> (\<exists>m. last (w_trace t) = EvCtl (EvCreateObj (KConfigMap m)) \<and> cm_Owned m)"
proof -
  fix E :: Env and k
  let ?c = "sample\<lparr>mc_Spec := sample_spec\<lparr>sp_MysqlOpts := sample_opts\<lparr>mo_MysqlConf := [''innodb_log_file_size'' \<mapsto> ''1G'']\<rparr>\<rparr>\<rparr>"
  let ?s = "\<lparr>w_trace = [], ms_cluster = ?c, ms_cm = NewMysqlCM ?c\<rparr>"
  let ?E = "E\<lparr>we_err := (\<lambda>t. if length t = 1 then Some (NotFound ''absent'') else None)\<rparr>"
  obtain c' where c': "EnsureMysqlConf (\<lambda>_. Some 0) ?c = Ok c'"
    by (simp add: EnsureMysqlConf_def log_file_conf_def sample_defs Let_def)
  obtain t where "cm_createOrUpdate ?E plain_ini plain_lib ?s = (Ok OpCreated, t)"
    using c' by (simp add: cm_createOrUpdate_def generateTemplate_def buildMysqlConf_def buildMysqlPluginConf_def put_cm_def set_cm_def
        query_def call_run plain_lib_def plain_ini_def bnd_def handle_def attempt_def go_simps Let_def sample_defs)
  with cm_created_unowned [OF _ this, of ?c] show ?thesis by (intro exI [of _ ?E] exI [of _ ?c] exI [of _ ?s] exI [of _ t]) auto
qed

end
