(* ===== verification/SfsEvents.thy ===== *)
theory SfsEvents
  imports SfsSync StatusProbe
begin

text \<open>
  What a synchronisation of the stateful set may do (\<open>mysqlcluster/syncer/statefulset.go\<close>,
  \<open>readonly_statefulset.go\<close>): the events of \<open>Sfs_Sync\<close>.
\<close>

section \<open>The permitted events\<close>

definition readonly_statements :: "string list" where
  "readonly_statements = [''SET GLOBAL read_only=on'', ''SET GLOBAL super_read_only=on'',
     ''SET GLOBAL rpl_semi_sync_slave_enabled=off'', ''start slave;'']"

definition sfs_statement :: "Query \<Rightarrow> bool" where
  "sfs_statement q \<longleftrightarrow> q \<in> probe_queries \<or> q \<in> (\<lambda>t. NewQuery t []) ` set readonly_statements \<or>
     (\<exists>reset nl host pass. q = NewQuery (change_master reset nl host pass) [])"

fun sfs_ok :: "event \<Rightarrow> bool" where
  "sfs_ok (EvCtl c) = False"
| "sfs_ok (EvPatchPod p p') = False"
| "sfs_ok (EvUpdatePod p) = False"
| "sfs_ok (EvHttp r) = False"
| "sfs_ok (EvExec ns p ct cmd) = (ct = ''xenon'')"
| "sfs_ok (EvSql h q) = sfs_statement q"
| "sfs_ok _ = True"

lemma connect_sfs_ok: "ev_connect e \<Longrightarrow> sfs_ok e"
  by (cases e) auto

lemma emits_poll_acc [emits_intros]: "(\<And>x. emits w_trace A (c x)) \<Longrightarrow> emits w_trace A (poll_acc n c x)"
proof (induction n arbitrary: x)
  case (Suc n)
  have "emits w_trace A (case r of (stop, y) \<Rightarrow> if stop then ret y else poll_acc n c y)" for r
    using Suc by (cases r) (simp, intro impI conjI emits_intros)
  then show ?case using Suc by (simp add: emits_bnd)
qed (simp add: emits_intros)

lemma emits_case_list [emits_intros]:
  "emits tr A f \<Longrightarrow> (\<And>x xs. emits tr A (g x xs)) \<Longrightarrow> emits tr A (case ys of [] \<Rightarrow> f | x # xs \<Rightarrow> g x xs)"
  by (cases ys) simp_all

lemma emits_case_res [emits_intros]:
  "(\<And>x. emits tr A (f x)) \<Longrightarrow> (\<And>e. emits tr A (g e)) \<Longrightarrow> (\<And>p. emits tr A (h p)) \<Longrightarrow>
   emits tr A (case r of Ok x \<Rightarrow> f x | Fail e \<Rightarrow> g e | Panic p \<Rightarrow> h p)"
  by (cases r) simp_all

section \<open>Claims and the rolling update\<close>

lemma sfs_set_ok [emits_intros]: "emits w_trace A (set_sfs f)" "emits w_trace A (set_cluster g)"
  by (simp_all add: set_sfs_def set_cluster_def emits_modify)

lemma sfs_reads_ok [emits_intros]:
  "emits w_trace sfs_ok (get_sfs E ns name)" "emits w_trace sfs_ok (list_pvcs E ns sel)"
  "emits w_trace sfs_ok (create_sfs E)" "emits w_trace sfs_ok (update_sfs E)"
  unfolding get_sfs_def list_pvcs_def create_sfs_def update_sfs_def put_sfs_def
  by ((intro emits_intros; simp)+)

lemma mutate_ok [emits_intros]: "emits w_trace sfs_ok (mutate L)"
  unfolding mutate_def Let_def mutate_claims_def mutate_owner_def
  by (intro emits_intros) simp_all

lemma claims_ok [emits_intros]: "emits w_trace sfs_ok (clean_claims E n sel)" "emits w_trace sfs_ok (updatePVC E)"
  "emits w_trace sfs_ok (canExpandPVC E L)"
  unfolding clean_claims_def updatePVC_def canExpandPVC_def
  by ((intro emits_intros; simp)+)

lemma expand_ok [emits_intros]: "emits w_trace sfs_ok (expand_claim E L larger v)" "emits w_trace sfs_ok (doExpandPVCs E L)"
  "emits w_trace sfs_ok (expandPVCs E L)"
  unfolding expandPVCs_def doExpandPVCs_def expand_claim_def expand_step_def Let_def
  by ((intro emits_intros; simp)+)

lemma restart_ok [emits_intros]: "emits w_trace sfs_ok (restart_verdict n h p)"
  unfolding restart_verdict_def by (intro emits_intros)

lemma rolling_ok [emits_intros]:
  "emits w_trace sfs_ok (delete_step E n h p)" "emits w_trace sfs_ok (restart_step E n h p)"
  "emits w_trace sfs_ok (wait_healthy E L p)"
  unfolding delete_step_def restart_step_def wait_healthy_def health_step_def Let_def
  by ((intro emits_intros; simp)+)

lemma apply_ok [emits_intros]: "emits w_trace sfs_ok (applyNWait E L p)" "emits w_trace sfs_ok (backupIsRunning E)"
  unfolding applyNWait_def set_state_def backupIsRunning_def
  by ((intro emits_intros; simp)+)

lemma followers_ok [emits_intros]: "emits w_trace sfs_ok (update_followers E L ps l)"
proof (induction E L ps l rule: update_followers.induct)
  case (2 E L pod pods leader)
  show ?case unfolding update_followers.simps
    by (intro emits_bnd emits_if rolling_ok apply_ok) (use 2 in \<open>auto intro: emits_intros\<close>)
qed (simp add: emits_intros)

lemma updatePod_ok [emits_intros]: "emits w_trace sfs_ok (updatePod E L)" "emits w_trace sfs_ok (podsAllUpdated E L)"
  unfolding updatePod_def podsAllUpdated_def Let_def
  by ((intro emits_intros; simp)+)

section \<open>Statements\<close>

lemma statement_ok:
  "q \<in> probe_queries \<Longrightarrow> sfs_ok (EvSql h q)" "sfs_ok (EvSql h start_slave)"
  "sfs_ok (EvSql h (NewQuery (change_master r nl m p) []))" "t \<in> set readonly_statements \<Longrightarrow> sfs_ok (EvSql h (NewQuery t []))"
  by (auto simp: sfs_statement_def start_slave_def readonly_statements_def)

lemma exec_ok [emits_intros]: "sfs_ok (EvSql h q) \<Longrightarrow> emits w_trace sfs_ok (sr_exec (world_sql E h) q)"
  by (rule wsql.emits_ops)

lemma check_ok [emits_intros]:
  "emits w_trace sfs_ok (CheckReadOnly (world_sql E h))" "emits w_trace sfs_ok (CheckSuperReadOnly (world_sql E h))"
  "emits w_trace sfs_ok (CheckSemSync (world_sql E h))" "emits w_trace sfs_ok (CheckSlaveStatus (world_sql E h) lag)"
  unfolding CheckReadOnly_def CheckSuperReadOnly_def CheckSemSync_def
  by (rule wsql.flag_check_emits wsql.CheckSlaveStatus_emits; rule statement_ok(1); simp add: probe_queries_def)+

lemma follow_ok [emits_intros]: "emits w_trace sfs_ok (follow_remote (world_sql E h) lag rc pass)"
  unfolding follow_remote_def by (intro emits_intros statement_ok)

lemma make_readonly_ok [emits_intros]: "emits w_trace sfs_ok (make_readonly (world_sql E h) lag m pass)"
  unfolding make_readonly_def ensure_flag_def
  by (intro emits_intros statement_ok) (simp_all add: readonly_statements_def)

lemma conn_ok [emits_intros]: "emits w_trace sfs_ok (config_of E c user host)" "emits w_trace sfs_ok (runner_of E cfg)"
  by (rule config_emits runner_emits; erule connect_sfs_ok)+

lemma remote_ok [emits_intros]: "emits w_trace sfs_ok (checkAndUpdateRemoteStatus E rc)" "emits w_trace sfs_ok (putMySQLReadOnly E ro host)"
  unfolding checkAndUpdateRemoteStatus_def getRemoteClusterInternalRootPass_def putMySQLReadOnly_def Let_def
  by ((intro emits_intros; simp)+)

section \<open>The whole synchronisation\<close>

lemma readonly_ok [emits_intros]: "emits w_trace sfs_ok (SfsReadOnly E L)"
  unfolding SfsReadOnly_def remove_readonly_def drop_service_def put_readonly_sfs_def update_readonly_def ReadOnlyCanExtend_def
    ExtendReadOnlyPVCs_def deletePvcReadOnly_def ready_step_def put_sfs_def Let_def
  by (intro emits_intros) simp_all

lemma single_ok [emits_intros]: "emits w_trace sfs_ok (SingleLeaderAction E)"
  unfolding SingleLeaderAction_def CloseXenonSemiCheck_def SetGlobalSysVar_def Let_def
  by (intro emits_intros) simp_all

lemma createOrUpdate_ok [emits_intros]: "emits w_trace sfs_ok (createOrUpdate E L)"
  unfolding createOrUpdate_def all_updated_def by (intro emits_intros)

lemma sfs_sync_emits: "(\<And>e. sfs_ok e \<Longrightarrow> A e) \<Longrightarrow> emits w_trace A (Sfs_Sync E L)"
  by (rule emits_weaken [where A = sfs_ok]) (auto simp: Sfs_Sync_def intro!: emits_intros)


end
