(* ===== verification/Controllers.thy ===== *)
theory Controllers
  imports Objects MysqlConf StatusSync SfsEvents
begin

text \<open>
  The controllers of the cluster (\<open>controllers/mysqlcluster_controller.go\<close>, \<open>controllers/status_controller.go\<close>).

  The cluster in memory is shared by the controller and its syncers, so a syncer that changes it changes it for those
  that follow. A syncer with a state of its own is run on that state, with the trace and the cluster of the controller
  (\<open>in_cm\<close>, \<open>in_sfs\<close>, \<open>in_status\<close>). The object syncers and \<open>syncer.Sync\<close> of the presslabs library are
  parameters: \<open>kl_object\<close> synchronises the object of a syncer and returns it, \<open>kl_run\<close> runs a syncer, records its event and
  returns its error.
\<close>

record CtlState = World +
  cc_cluster :: MysqlCluster

record 'sec CtlLib =
  kl_sfs :: Lib
  kl_ini :: "'sec IniLib"
  kl_cm :: CmLib
  kl_rand :: "string \<Rightarrow> string res"
  kl_object :: "CtlState ObjSyncer \<Rightarrow> (CtlState, KObj) go"
  kl_run :: "(CtlState, SyncOutcome) go \<Rightarrow> (CtlState, unit) go"

section \<open>Syncers with a state of their own\<close>

text \<open>Go's \<open>defer\<close>: runs after the body, whatever its result; its own errors are logged.\<close>

definition deferred :: "('s, unit) go \<Rightarrow> ('s, 'a) go \<Rightarrow> ('s, 'a) go" where
  "deferred d m s = (case m s of (r, t) \<Rightarrow> (r, snd (d t)))"

definition map_res :: "('a \<Rightarrow> 'b) \<Rightarrow> 'a res \<Rightarrow> 'b res" where
  "map_res f r = (case r of Ok x \<Rightarrow> Ok (f x) | Fail e \<Rightarrow> Fail e | Panic p \<Rightarrow> Panic p)"

definition in_cm :: "ConfigMapObj \<Rightarrow> (CmState, 'a) go \<Rightarrow> (CtlState, ConfigMapObj) go" where
  "in_cm m f s = (case f \<lparr>w_trace = w_trace s, ms_cluster = cc_cluster s, ms_cm = m\<rparr> of
      (r, t) \<Rightarrow> (map_res (\<lambda>_. ms_cm t) r, s\<lparr>w_trace := w_trace t, cc_cluster := ms_cluster t\<rparr>))"

definition in_sfs :: "SfsState \<Rightarrow> (SfsState, 'a) go \<Rightarrow> (CtlState, 'a) go" where
  "in_sfs s0 f s = (case f (s0\<lparr>w_trace := w_trace s, fs_cluster := cc_cluster s\<rparr>) of
      (r, t) \<Rightarrow> (r, s\<lparr>w_trace := w_trace t, cc_cluster := fs_cluster t\<rparr>))"

definition in_status :: "(StatusState, 'a) go \<Rightarrow> (CtlState, 'a) go" where
  "in_status f s = (case f \<lparr>w_trace = w_trace s, ss_cluster = cc_cluster s, ss_items = []\<rparr> of
      (r, t) \<Rightarrow> (r, s\<lparr>w_trace := w_trace t, cc_cluster := ss_cluster t\<rparr>))"

section \<open>The cluster controller\<close>

definition cluster_finalizer :: string where "cluster_finalizer = ''mysqlcluster-finalizer''"

definition set_instance :: "(MysqlCluster \<Rightarrow> MysqlCluster) \<Rightarrow> (CtlState, unit) go" where
  "set_instance f = modify (\<lambda>s. s\<lparr>cc_cluster := f (cc_cluster s)\<rparr>)"

text \<open>\<open>Update\<close> stores what the API server answers.\<close>

definition update_cluster :: "Env \<Rightarrow> (CtlState, unit) go" where
  "update_cluster E =
     bnd (gets cc_cluster) (\<lambda>c.
     bnd (query E (EvCtl (EvUpdateCluster c)) (we_cluster E)) (\<lambda>c'. set_instance (\<lambda>_. c')))"

definition remove_finalizer :: "MysqlCluster \<Rightarrow> MysqlCluster" where
  "remove_finalizer c = c\<lparr>mc_Finalizers := remove1 cluster_finalizer (mc_Finalizers c)\<rparr>"

definition patch_status :: "Env \<Rightarrow> MysqlCluster \<Rightarrow> (CtlState, unit) go" where
  "patch_status E old =
     bnd (gets cc_cluster) (\<lambda>c.
     if mc_DeletionTimestamp c = None \<and> mc_Status old \<noteq> mc_Status c
     then call E (EvCtl (EvPatchClusterStatus c)) else ret ())"

definition delete_logged :: "Env \<Rightarrow> ctl_event \<Rightarrow> ('z World_scheme, unit) go" where
  "delete_logged E ev = bnd (attempt (call E (EvCtl ev))) (\<lambda>_. ret ())"

definition deleteAllBackup :: "Env \<Rightarrow> (CtlState, unit) go" where
  "deleteAllBackup E =
     bnd (gets cc_cluster) (\<lambda>c.
     if cluster_finalizer \<notin> set (mc_Finalizers c) then ret ()
     else
       deferred (bnd (set_instance remove_finalizer) (\<lambda>_. update_cluster E))
         (bnd (query E (EvCtl (EvListBackupsBy (mc_Namespace c) [''cluster'' \<mapsto> mc_Name c])) (\<lambda>t. ca_backups (we_ctl E t))) (\<lambda>bs.
          each (\<lambda>b. delete_logged E (EvDeleteBackup (b_Name b))) bs)))"

definition delete_services :: "Env \<Rightarrow> string \<Rightarrow> smap \<Rightarrow> ('z World_scheme, unit) go" where
  "delete_services E ns sel =
     bnd (query E (EvCtl (EvListServices ns sel)) (\<lambda>t. ca_services (we_ctl E t))) (\<lambda>svcs.
     each (\<lambda>v. delete_logged E (EvDeleteSvc (svc_Name v))) svcs)"

definition deleteFollowerService :: "Env \<Rightarrow> MysqlCluster \<Rightarrow> ('z World_scheme, unit) go" where
  "deleteFollowerService E c = delete_services E (mc_Namespace c) [service_type \<mapsto> ''follower-service'']"

definition deletLeaderService :: "Env \<Rightarrow> MysqlCluster \<Rightarrow> ('z World_scheme, unit) go" where
  "deletLeaderService E c = delete_services E (mc_Namespace c) [service_type \<mapsto> ''leader-service'']"

text \<open>The object of a syncer is made with the list of syncers, out of the cluster \<open>c0\<close> of that moment.\<close>

definition sync_object :: "'sec CtlLib \<Rightarrow> MysqlCluster \<Rightarrow> (MysqlCluster \<Rightarrow> CtlState ObjSyncer) \<Rightarrow> (CtlState, unit) go" where
  "sync_object K c0 new =
     bnd (gets cc_cluster) (\<lambda>c. bnd (kl_object K ((new c)\<lparr>os_Obj := os_Obj (new c0)\<rparr>)) (\<lambda>_. ret ()))"

definition sync_sfs :: "Env \<Rightarrow> 'sec CtlLib \<Rightarrow> MysqlCluster \<Rightarrow> string \<Rightarrow> string \<Rightarrow> (CtlState, unit) go" where
  "sync_sfs E K c0 cmRev sctRev = kl_run K (in_sfs (NewStatefulSetSyncer c0 False cmRev sctRev) (Sfs_Sync E (kl_sfs K)))"

definition maintained :: "MysqlCluster \<Rightarrow> bool" where
  "maintained c \<longleftrightarrow> lget (mc_Labels c) ''maintain'' = ''true''"

text \<open>The syncers of a cluster after its configuration map and its secret, in their order.\<close>

definition cluster_syncers :: "Env \<Rightarrow> 'sec CtlLib \<Rightarrow> MysqlCluster \<Rightarrow> string \<Rightarrow> string \<Rightarrow> (CtlState, unit) go list" where
  "cluster_syncers E K c cmRev sctRev =
     [sync_object K c NewRoleSyncer, sync_object K c NewRoleBindingSyncer, sync_object K c NewServiceAccountSyncer,
      sync_object K c NewHeadlessSVCSyncer]
     @ (if maintained c then [] else [sync_object K c NewLeaderSVCSyncer])
     @ (if sp_ReadOnlys (mc_Spec c) \<noteq> None then [sync_object K c NewHeadlessReadOnlySVCSyncer, sync_object K c NewReadOnlySVCSyncer] else [])
     @ (if sp_Replicas (mc_Spec c) = 1 then [] else [sync_object K c NewFollowerSVCSyncer])
     @ [sync_sfs E K c cmRev sctRev, sync_object K c NewPDBSyncer, sync_object K c NewXenonCMSyncer]
     @ (if sp_RemoteCluster (mc_Spec c) \<noteq> None then [sync_object K c (NewRemoteClusterCMSyncer E)] else [])
     @ (if me_Enabled (sp_MetricsOpts (mc_Spec c)) then [sync_object K c NewMetricsSVCSyncer] else [])"

definition sync_cluster :: "Env \<Rightarrow> 'sec CtlLib \<Rightarrow> (CtlState, unit) go" where
  "sync_cluster E K =
     bnd (gets cc_cluster) (\<lambda>c.
     bnd (in_cm (NewMysqlCM c) (Sync (cm_Sync E (kl_ini K) (kl_cm K)))) (\<lambda>cm.
     bnd (gets cc_cluster) (\<lambda>c.
     bnd (kl_object K (NewSecretSyncer (kl_rand K) c)) (\<lambda>k.
     bnd (gets cc_cluster) (\<lambda>c.
     bnd (if maintained c then bnd (attempt (deletLeaderService E c)) (\<lambda>_. ret ()) else ret ()) (\<lambda>_.
     bnd (if sp_Replicas (mc_Spec c) = 1 then bnd (attempt (deleteFollowerService E c)) (\<lambda>_. ret ()) else ret ()) (\<lambda>_.
     each id (cluster_syncers E K c (cm_ResourceVersion cm) (case k of KSecret x \<Rightarrow> sct_ResourceVersion x | _ \<Rightarrow> [])))))))))"

definition reconcile_valid :: "Env \<Rightarrow> 'sec CtlLib \<Rightarrow> (CtlState, unit) go" where
  "reconcile_valid E K =
     bnd (gets cc_cluster) (\<lambda>c.
     bnd (if cluster_finalizer \<notin> set (mc_Finalizers c)
          then bnd (set_instance (\<lambda>c. c\<lparr>mc_Finalizers := mc_Finalizers c @ [cluster_finalizer]\<rparr>)) (\<lambda>_. update_cluster E)
          else ret ()) (\<lambda>_.
     bnd (gets cc_cluster) (\<lambda>c.
     if mc_DeletionTimestamp c \<noteq> None then deleteAllBackup E else sync_cluster E K)))"

definition Cluster_Reconcile :: "Env \<Rightarrow> 'sec CtlLib \<Rightarrow> string \<Rightarrow> string \<Rightarrow> (CtlState, unit) go" where
  "Cluster_Reconcile E K ns name =
     bnd (attempt (get_cluster E (ns, name))) (\<lambda>r. case r of
       Inl e \<Rightarrow> (case e of NotFound _ \<Rightarrow> ret () | _ \<Rightarrow> fail e)
     | Inr c \<Rightarrow>
         bnd (set_instance (\<lambda>_. c)) (\<lambda>_.
         bnd (lift (ValidateSpec c)) (\<lambda>_. deferred (patch_status E c) (reconcile_valid E K))))"

section \<open>The status controller\<close>

definition status_changed :: "Env \<Rightarrow> MysqlCluster \<Rightarrow> (CtlState, unit) go" where
  "status_changed E old =
     bnd (gets cc_cluster) (\<lambda>c. if mc_Status old \<noteq> mc_Status c then call E (EvCtl (EvPatchClusterStatus c)) else ret ())"

definition Status_Reconcile :: "Env \<Rightarrow> 'sec CtlLib \<Rightarrow> string \<Rightarrow> string \<Rightarrow> (CtlState, unit) go" where
  "Status_Reconcile E K ns name =
     bnd (attempt (get_cluster E (ns, name))) (\<lambda>r. case r of
       Inl e \<Rightarrow> (case e of NotFound _ \<Rightarrow> ret () | _ \<Rightarrow> fail e)
     | Inr c \<Rightarrow>
         bnd (set_instance (\<lambda>_. c)) (\<lambda>_.
         deferred (status_changed E c)
           (kl_run K (in_status (bnd (attempt (Status_Sync E (mo_RootPassword (sp_MysqlOpts (mc_Spec c)))))
              (\<lambda>r. ret \<lparr>so_Operation = OpNone, so_EventType = None, so_err = (case r of Inl e \<Rightarrow> Some e | Inr _ \<Rightarrow> None)\<rparr>))))))"

section \<open>What a reconciliation may do\<close>

definition object_event :: "event \<Rightarrow> bool" where
  "object_event e = (case e of
      EvCtl ev \<Rightarrow> (case ev of EvGetObj ns n \<Rightarrow> True | EvCreateObj k \<Rightarrow> True | EvUpdateObj k \<Rightarrow> True | EvEventf ty \<Rightarrow> True | _ \<Rightarrow> False)
    | _ \<Rightarrow> False)"

text \<open>
  The library's side: synchronising an object causes requests about the object, an event, and what the mutating
  function does; running a syncer causes an event and what the syncer does.
\<close>

definition kl_laws :: "'sec CtlLib \<Rightarrow> bool" where
  "kl_laws K \<longleftrightarrow>
     (\<forall>A x. (\<forall>e. object_event e \<longrightarrow> A e) \<longrightarrow> (\<forall>k. emits w_trace A (os_Mutate x k)) \<longrightarrow> emits w_trace A (kl_object K x)) \<and>
     (\<forall>A m. (\<forall>e. object_event e \<longrightarrow> A e) \<longrightarrow> emits w_trace A m \<longrightarrow> emits w_trace A (kl_run K m))"

definition ctl_event_ok :: "ctl_event \<Rightarrow> bool" where
  "ctl_event_ok ev = (case ev of
      EvUpdateCluster c \<Rightarrow> cluster_finalizer \<in> set (mc_Finalizers c) \<or> mc_DeletionTimestamp c \<noteq> None
    | EvPatchClusterStatus c \<Rightarrow> mc_DeletionTimestamp c = None
    | EvListBackupsBy ns sel \<Rightarrow> True | EvDeleteBackup b \<Rightarrow> True
    | EvListServices ns sel \<Rightarrow> True | EvDeleteSvc v \<Rightarrow> True
    | EvGetObj ns n \<Rightarrow> True | EvCreateObj k \<Rightarrow> True | EvUpdateObj k \<Rightarrow> True | EvEventf ty \<Rightarrow> True
    | _ \<Rightarrow> False)"

definition ctl_ok :: "event \<Rightarrow> bool" where
  "ctl_ok e = (case e of EvCtl ev \<Rightarrow> ctl_event_ok ev | _ \<Rightarrow> sfs_ok e)"

lemma ctl_ok_simps [simp]:
  "ctl_ok (EvCtl ev) = ctl_event_ok ev" "sfs_ok e \<Longrightarrow> ctl_ok e" "object_event e \<Longrightarrow> ctl_ok e"
  by (auto simp: ctl_ok_def ctl_event_ok_def object_event_def split: event.splits ctl_event.splits)

lemma emits_deferred [emits_intros]: "emits w_trace A d \<Longrightarrow> emits w_trace A m \<Longrightarrow> emits w_trace A (deferred d m)"
proof (unfold emits_def, intro allI)
  fix s
  assume d: "\<forall>s. \<exists>es. w_trace (snd (d s)) = w_trace s @ es \<and> list_all A es"
    and m: "\<forall>s. \<exists>es. w_trace (snd (m s)) = w_trace s @ es \<and> list_all A es"
  obtain r t where mt: "m s = (r, t)" by (cases "m s")
  obtain es where es: "w_trace t = w_trace s @ es" "list_all A es" using spec [OF m, of s] mt by auto
  obtain fs where fs: "w_trace (snd (d t)) = w_trace t @ fs" "list_all A fs" using d by blast
  show "\<exists>es. w_trace (snd (deferred d m s)) = w_trace s @ es \<and> list_all A es"
    by (rule exI [of _ "es @ fs"]) (simp add: deferred_def mt es fs)
qed

lemma emits_in [emits_intros]:
  "emits w_trace A f \<Longrightarrow> emits w_trace A (in_cm m f)" "emits w_trace A g \<Longrightarrow> emits w_trace A (in_sfs s0 g)"
  "emits w_trace A h \<Longrightarrow> emits w_trace A (in_status h)"
proof -
  assume f: "emits w_trace A f"
  show "emits w_trace A (in_cm m f)"
  proof (unfold emits_def, intro allI)
    fix s
    show "\<exists>es. w_trace (snd (in_cm m f s)) = w_trace s @ es \<and> list_all A es"
      using emitsD [OF f, of "\<lparr>w_trace = w_trace s, ms_cluster = cc_cluster s, ms_cm = m\<rparr>"]
      by (cases "f \<lparr>w_trace = w_trace s, ms_cluster = cc_cluster s, ms_cm = m\<rparr>") (simp add: in_cm_def)
  qed
next
  assume g: "emits w_trace A g"
  show "emits w_trace A (in_sfs s0 g)"
  proof (unfold emits_def, intro allI)
    fix s
    show "\<exists>es. w_trace (snd (in_sfs s0 g s)) = w_trace s @ es \<and> list_all A es"
      using emitsD [OF g, of "s0\<lparr>w_trace := w_trace s, fs_cluster := cc_cluster s\<rparr>"]
      by (cases "g (s0\<lparr>w_trace := w_trace s, fs_cluster := cc_cluster s\<rparr>)") (simp add: in_sfs_def)
  qed
next
  assume h: "emits w_trace A h"
  show "emits w_trace A (in_status h)"
  proof (unfold emits_def, intro allI)
    fix s
    show "\<exists>es. w_trace (snd (in_status h s)) = w_trace s @ es \<and> list_all A es"
      using emitsD [OF h, of "\<lparr>w_trace = w_trace s, ss_cluster = cc_cluster s, ss_items = []\<rparr>"]
      by (cases "h \<lparr>w_trace = w_trace s, ss_cluster = cc_cluster s, ss_items = []\<rparr>") (simp add: in_status_def)
  qed
qed

section \<open>Deleting a cluster\<close>

lemma delete_logged_run: "delete_logged E ev s = (Ok (), s\<lparr>w_trace := w_trace s @ [EvCtl ev]\<rparr>)"
  by (simp add: delete_logged_def bnd_def attempt_def call_run ret_def split: option.split)

lemma delete_each_run:
  "each (\<lambda>b. delete_logged E (f b)) bs s = (Ok (), s\<lparr>w_trace := w_trace s @ map (\<lambda>b. EvCtl (f b)) bs\<rparr>)"
  by (induction bs arbitrary: s) (simp_all add: ret_def bnd_def delete_logged_run)

text \<open>The events of the clean-up: the list of backups, and one deletion for each backup of the answer.\<close>

definition backup_deletions :: "Env \<Rightarrow> MysqlCluster \<Rightarrow> event list \<Rightarrow> event list" where
  "backup_deletions E c t =
     (let t1 = t @ [EvCtl (EvListBackupsBy (mc_Namespace c) [''cluster'' \<mapsto> mc_Name c])] in
      EvCtl (EvListBackupsBy (mc_Namespace c) [''cluster'' \<mapsto> mc_Name c]) #
      (if we_err E t1 \<noteq> None then [] else map (\<lambda>b. EvCtl (EvDeleteBackup (b_Name b))) (ca_backups (we_ctl E t1))))"

lemma update_cluster_run:
  "update_cluster E s = (let t = w_trace s @ [EvCtl (EvUpdateCluster (cc_cluster s))] in case we_err E t of
      Some e \<Rightarrow> (Fail e, s\<lparr>w_trace := t\<rparr>) | None \<Rightarrow> (Ok (), s\<lparr>w_trace := t, cc_cluster := we_cluster E t\<rparr>))"
  by (simp add: update_cluster_def query_def call_run set_instance_def bnd_def gets_def modify_def Let_def split: option.split)

lemma deleteAllBackup_run:
  fixes E :: Env
  assumes "cluster_finalizer \<in> set (mc_Finalizers (cc_cluster s))"
  defines "c \<equiv> cc_cluster s"
  defines "t \<equiv> w_trace s @ backup_deletions E c (w_trace s) @ [EvCtl (EvUpdateCluster (remove_finalizer c))]"
  shows "snd (deleteAllBackup E s) = s\<lparr>w_trace := t,
    cc_cluster := (if we_err E t = None then we_cluster E t else remove_finalizer c)\<rparr>"
proof -
  let ?ev = "EvListBackupsBy (mc_Namespace c) [''cluster'' \<mapsto> mc_Name c]"
  define body :: "(CtlState, unit) go" where "body = bnd (query E (EvCtl ?ev) (\<lambda>t. ca_backups (we_ctl E t)))
      (each (\<lambda>b. delete_logged E (EvDeleteBackup (b_Name b))))"
  have body: "snd (body s) = s\<lparr>w_trace := w_trace s @ backup_deletions E c (w_trace s)\<rparr>"
    by (simp add: body_def query_def call_run bnd_def gets_def delete_each_run backup_deletions_def split: option.split)
  have run: "deleteAllBackup E s = deferred (bnd (set_instance remove_finalizer) (\<lambda>_. update_cluster E)) body s"
    using assms(1) by (simp add: deleteAllBackup_def body_def c_def bnd_def gets_def eta_contract_eq)
  obtain r u where "body s = (r, u)" by (cases "body s")
  with body show ?thesis
    by (simp add: run deferred_def bnd_def set_instance_def modify_def update_cluster_run Let_def t_def c_def split: option.split)
qed

text \<open>
  C32. Deleting a cluster runs no syncer: the controller lists the cluster's backups, deletes those the API server lists,
  and gives up its finalizer as the last thing it does, also when the list or a deletion failed, so the backups of that
  cluster can stay behind.
\<close>

theorem Cluster_Reconcile_deletion:
  assumes "we_err E (w_trace s @ [EvGetCluster ns name]) = None"
    and "c = we_cluster E (w_trace s @ [EvGetCluster ns name])"
    and "ValidateSpec c = Ok ()" "mc_DeletionTimestamp c \<noteq> None" "cluster_finalizer \<in> set (mc_Finalizers c)"
    and "\<And>t. mc_DeletionTimestamp (we_cluster E t) \<noteq> None"
  shows "w_trace (snd (Cluster_Reconcile E K ns name s)) =
    w_trace s @ [EvGetCluster ns name] @ backup_deletions E c (w_trace s @ [EvGetCluster ns name]) @
      [EvCtl (EvUpdateCluster (remove_finalizer c))]"
proof -
  let ?s = "s\<lparr>w_trace := w_trace s @ [EvGetCluster ns name], cc_cluster := c\<rparr>"
  have run: "Cluster_Reconcile E K ns name s = deferred (patch_status E c) (reconcile_valid E K) ?s"
    using assms(1-3) by (simp add: Cluster_Reconcile_def get_cluster_def query_def call_run set_instance_def bnd_def attempt_def go_simps)
  have valid: "reconcile_valid E K ?s = deleteAllBackup E ?s"
    using assms(4,5) by (simp add: reconcile_valid_def bnd_def gets_def ret_def)
  obtain r u where u: "deleteAllBackup E ?s = (r, u)" by (cases "deleteAllBackup E ?s")
  have u': "u = snd (deleteAllBackup E ?s)" by (simp add: u)
  have "w_trace u = w_trace s @ [EvGetCluster ns name] @ backup_deletions E c (w_trace s @ [EvGetCluster ns name]) @
      [EvCtl (EvUpdateCluster (remove_finalizer c))]"
    unfolding u' using assms(5) by (subst deleteAllBackup_run) simp_all
  moreover have "mc_DeletionTimestamp (cc_cluster u) \<noteq> None"
    unfolding u' using assms(4-6) by (subst deleteAllBackup_run) (simp_all add: remove_finalizer_def)
  ultimately show ?thesis
    by (auto simp: run deferred_def valid u patch_status_def bnd_def gets_def ret_def)
qed

section \<open>The footprint of a reconciliation\<close>

lemma object_sync_ok:
  assumes "kl_laws K" "\<And>k. emits w_trace ctl_ok (os_Mutate x k)"
  shows "emits w_trace ctl_ok (kl_object K x)"
  using assms by (simp add: kl_laws_def)

lemma run_ok: "kl_laws K \<Longrightarrow> emits w_trace ctl_ok m \<Longrightarrow> emits w_trace ctl_ok (kl_run K m)"
  by (simp add: kl_laws_def)

lemma emits_case_KObj [emits_intros]:
  "(\<And>x. emits tr A (f1 x)) \<Longrightarrow> (\<And>x. emits tr A (f2 x)) \<Longrightarrow> (\<And>x. emits tr A (f3 x)) \<Longrightarrow> (\<And>x. emits tr A (f4 x)) \<Longrightarrow>
   (\<And>x. emits tr A (f5 x)) \<Longrightarrow> (\<And>x. emits tr A (f6 x)) \<Longrightarrow> (\<And>x. emits tr A (f7 x)) \<Longrightarrow>
   emits tr A (case k of KService x \<Rightarrow> f1 x | KConfigMap x \<Rightarrow> f2 x | KSecret x \<Rightarrow> f3 x | KPDB x \<Rightarrow> f4 x | KRole x \<Rightarrow> f5 x
     | KRoleBinding x \<Rightarrow> f6 x | KServiceAccount x \<Rightarrow> f7 x)"
  by (cases k) simp_all

lemma emits_case_gerr [emits_intros]:
  "(\<And>x. emits tr A (f1 x)) \<Longrightarrow> (\<And>x. emits tr A (f2 x)) \<Longrightarrow> (\<And>x. emits tr A (f3 x)) \<Longrightarrow> (\<And>x. emits tr A (f4 x)) \<Longrightarrow>
   emits tr A f5 \<Longrightarrow> emits tr A f6 \<Longrightarrow> emits tr A f7 \<Longrightarrow>
   emits tr A (case e of GErr x \<Rightarrow> f1 x | NotFound x \<Rightarrow> f2 x | Invalid x \<Rightarrow> f3 x | ApiErr x \<Rightarrow> f4 x | OwnerDeleted \<Rightarrow> f5
     | IgnoreErr \<Rightarrow> f6 | WaitTimeout \<Rightarrow> f7)"
  by (cases e) simp_all

lemma syncers_ok [emits_intros]:
  "emits w_trace ctl_ok (os_Mutate (NewRoleSyncer c) k)" "emits w_trace ctl_ok (os_Mutate (NewRoleBindingSyncer c) k)"
  "emits w_trace ctl_ok (os_Mutate (NewServiceAccountSyncer c) k)" "emits w_trace ctl_ok (os_Mutate (NewHeadlessSVCSyncer c) k)"
  "emits w_trace ctl_ok (os_Mutate (NewLeaderSVCSyncer c) k)" "emits w_trace ctl_ok (os_Mutate (NewFollowerSVCSyncer c) k)"
  "emits w_trace ctl_ok (os_Mutate (NewMetricsSVCSyncer c) k)" "emits w_trace ctl_ok (os_Mutate (NewHeadlessReadOnlySVCSyncer c) k)"
  "emits w_trace ctl_ok (os_Mutate (NewReadOnlySVCSyncer c) k)" "emits w_trace ctl_ok (os_Mutate (NewPDBSyncer c) k)"
  "emits w_trace ctl_ok (os_Mutate (NewXenonCMSyncer c) k)" "emits w_trace ctl_ok (os_Mutate (NewSecretSyncer rand c) k)"
  unfolding NewRoleSyncer_def NewRoleBindingSyncer_def NewServiceAccountSyncer_def NewHeadlessSVCSyncer_def NewLeaderSVCSyncer_def
    NewFollowerSVCSyncer_def NewMetricsSVCSyncer_def NewHeadlessReadOnlySVCSyncer_def NewReadOnlySVCSyncer_def NewPDBSyncer_def
    NewXenonCMSyncer_def NewSecretSyncer_def ObjSyncer.select_convs on_service_def
  by (intro emits_intros)+

lemma remote_cm_ok [emits_intros]: "emits w_trace ctl_ok (os_Mutate (NewRemoteClusterCMSyncer E c) k)"
  unfolding NewRemoteClusterCMSyncer_def ObjSyncer.select_convs RemoteClusterCM_mutate_def buildRemoteClusterMetaData_def
  by (intro emits_intros) (simp add: ctl_ok_def)

lemma sync_object_ok:
  assumes "kl_laws K" "\<And>c k. emits w_trace ctl_ok (os_Mutate (new c) k)"
  shows "emits w_trace ctl_ok (sync_object K c0 new)"
  unfolding sync_object_def by (intro emits_intros object_sync_ok [OF assms(1)]) (simp add: assms(2))

lemma sync_sfs_ok: "kl_laws K \<Longrightarrow> emits w_trace ctl_ok (sync_sfs E K c0 cr sr)"
  unfolding sync_sfs_def by (intro run_ok emits_intros sfs_sync_emits) simp_all

lemma cluster_syncers_ok:
  assumes "kl_laws K"
  shows "list_all (emits w_trace ctl_ok) (cluster_syncers E K c cr sr)"
  unfolding cluster_syncers_def
  by (simp add: sync_sfs_ok [OF assms] sync_object_ok [OF assms] syncers_ok remote_cm_ok)

lemma services_ok [emits_intros]: "emits w_trace ctl_ok (deleteFollowerService E c)" "emits w_trace ctl_ok (deletLeaderService E c)"
  unfolding deleteFollowerService_def deletLeaderService_def delete_services_def delete_logged_def
  by ((intro emits_intros; simp add: ctl_event_ok_def)+)

lemma cm_ok [emits_intros]: "emits w_trace ctl_ok (cm_Sync E L M)"
  unfolding cm_Sync_def cm_createOrUpdate_def generateTemplate_def appendConf_def put_ini_def set_cm_def put_cm_def setControllerReference_def
  by (intro emits_intros) (simp_all add: ctl_event_ok_def)

lemma each_list_all: "list_all (emits w_trace A) ms \<Longrightarrow> emits w_trace A (each id ms)"
  by (induction ms) (auto intro: emits_intros)

lemma sync_cluster_ok: "kl_laws K \<Longrightarrow> emits w_trace ctl_ok (sync_cluster E K)"
  unfolding sync_cluster_def
  by (intro emits_intros Sync_emits object_sync_ok each_list_all cluster_syncers_ok; simp add: ctl_event_ok_def)

lemma add_finalizer_ok [emits_intros]:
  "emits w_trace ctl_ok (bnd (set_instance (\<lambda>c. c\<lparr>mc_Finalizers := mc_Finalizers c @ [cluster_finalizer]\<rparr>)) (\<lambda>_. update_cluster E))"
  by (simp add: emits_def bnd_def set_instance_def modify_def update_cluster_run Let_def ctl_event_ok_def split: option.split)

lemma deletions_ok: "list_all ctl_ok (backup_deletions E c t)"
  by (simp add: backup_deletions_def Let_def ctl_event_ok_def list_all_iff)

lemma delete_or_sync_ok:
  assumes "kl_laws K"
  shows "emits w_trace ctl_ok (bnd (gets cc_cluster) (\<lambda>c. if mc_DeletionTimestamp c \<noteq> None then deleteAllBackup E else sync_cluster E K))"
proof (unfold emits_def, intro allI)
  fix s
  let ?m = "bnd (gets cc_cluster) (\<lambda>c. if mc_DeletionTimestamp c \<noteq> None then deleteAllBackup E else sync_cluster E K)"
  show "\<exists>es. w_trace (snd (?m s)) = w_trace s @ es \<and> list_all ctl_ok es"
  proof (cases "mc_DeletionTimestamp (cc_cluster s) = None")
    case True
    then show ?thesis using emitsD [OF sync_cluster_ok [OF assms], where s = s] by (simp add: bnd_def gets_def)
  next
    case False
    then have run: "?m s = deleteAllBackup E s" by (simp add: bnd_def gets_def)
    show ?thesis
    proof (cases "cluster_finalizer \<in> set (mc_Finalizers (cc_cluster s))")
      case True
      have "ctl_ok (EvCtl (EvUpdateCluster (remove_finalizer (cc_cluster s))))"
        using False by (simp add: ctl_event_ok_def remove_finalizer_def)
      then show ?thesis unfolding run by (subst deleteAllBackup_run [OF True]) (simp add: deletions_ok)
    next
      case False
      then show ?thesis unfolding run by (simp add: deleteAllBackup_def bnd_def gets_def ret_def)
    qed
  qed
qed

lemma patch_status_ok [emits_intros]: "emits w_trace ctl_ok (patch_status E old)"
proof (unfold emits_def, intro allI)
  fix s
  show "\<exists>es. w_trace (snd (patch_status E old s)) = w_trace s @ es \<and> list_all ctl_ok es"
    by (auto simp: patch_status_def bnd_def gets_def ret_def trace_call ctl_event_ok_def)
qed


section \<open>Services of other clusters\<close>

text \<open>
  A cluster with one replica, or in maintenance, deletes the services of other clusters: the label selector it lists
  services by selects the follower (leader) service every cluster of the namespace creates, and each service of the
  answer is deleted.
\<close>

theorem service_deletion_hits_others:
  assumes "we_err E (w_trace s @ [EvCtl (EvListServices (mc_Namespace c) [service_type \<mapsto> ''follower-service''])]) = None"
  shows "w_trace (snd (deleteFollowerService E c s)) = w_trace s @
      EvCtl (EvListServices (mc_Namespace c) [service_type \<mapsto> ''follower-service'']) #
      map (\<lambda>v. EvCtl (EvDeleteSvc (svc_Name v)))
        (ca_services (we_ctl E (w_trace s @ [EvCtl (EvListServices (mc_Namespace c) [service_type \<mapsto> ''follower-service''])]))) \<and>
    (\<exists>v. os_Obj (NewFollowerSVCSyncer other :: CtlState ObjSyncer) = KService v \<and> svc_Namespace v = mc_Namespace other \<and>
       selects [service_type \<mapsto> ''follower-service''] (svc_Labels v)) \<and>
    (\<exists>v. os_Obj (NewLeaderSVCSyncer other :: CtlState ObjSyncer) = KService v \<and>
       selects [service_type \<mapsto> ''leader-service''] (svc_Labels v))"
  using assms
  by (simp add: deleteFollowerService_def delete_services_def query_def call_run bnd_def gets_def delete_each_run
      NewFollowerSVCSyncer_def NewLeaderSVCSyncer_def empty_service_def selects_def map_le_def)

section \<open>The status controller\<close>

text \<open>
  What a status synchronisation computes is sent: whether it succeeds or fails, the last request of the reconciliation
  patches the status of the cluster in memory if it differs from the one that was read, and the result is that of the
  synchronisation.
\<close>

theorem Status_Reconcile_patches:
  assumes "we_err E (w_trace s @ [EvGetCluster ns name]) = None"
    and "c = we_cluster E (w_trace s @ [EvGetCluster ns name])"
    and "kl_run K = Sync"
    and "Status_Sync E (mo_RootPassword (sp_MysqlOpts (mc_Spec c)))
       \<lparr>w_trace = w_trace s @ [EvGetCluster ns name], ss_cluster = c, ss_items = []\<rparr> = (r, t)"
  shows "fst (Status_Reconcile E K ns name s) = r \<and>
    w_trace (snd (Status_Reconcile E K ns name s)) = w_trace t @
      (if mc_Status (ss_cluster t) \<noteq> mc_Status c then [EvCtl (EvPatchClusterStatus (ss_cluster t))] else [])"
proof -
  let ?s = "s\<lparr>w_trace := w_trace s @ [EvGetCluster ns name], cc_cluster := c\<rparr>"
  let ?t = "?s\<lparr>w_trace := w_trace t, cc_cluster := ss_cluster t\<rparr>"
  define body where "body = in_status (bnd (attempt (Status_Sync E (mo_RootPassword (sp_MysqlOpts (mc_Spec c)))))
      (\<lambda>r. ret \<lparr>so_Operation = OpNone, so_EventType = None, so_err = (case r of Inl e \<Rightarrow> Some e | Inr _ \<Rightarrow> None)\<rparr>))"
  have "Status_Reconcile E K ns name s = deferred (status_changed E c) (Sync body) ?s"
    using assms(1-3)
    by (simp add: Status_Reconcile_def body_def get_cluster_def query_def call_run set_instance_def bnd_def attempt_def go_simps)
  moreover have "Sync body ?s = (r, ?t)"
    using assms(4) by (cases r) (simp_all add: Sync_def body_def in_status_def bnd_def attempt_def ret_def fail_def)
  moreover have "w_trace (snd (status_changed E c ?t)) = w_trace t @
      (if mc_Status (ss_cluster t) \<noteq> mc_Status c then [EvCtl (EvPatchClusterStatus (ss_cluster t))] else [])"
    by (auto simp: status_changed_def bnd_def gets_def ret_def trace_call)
  ultimately show ?thesis by (simp add: deferred_def)
qed

section \<open>Instances\<close>

text \<open>A library that satisfies the laws: it mutates the object and sends nothing.\<close>

definition plain_ctl :: "Lib \<Rightarrow> smap CtlLib" where
  "plain_ctl L = \<lparr>kl_sfs = L, kl_ini = plain_ini, kl_cm = plain_lib, kl_rand = Ok,
     kl_object = (\<lambda>x. os_Mutate x (os_Obj x)), kl_run = Sync\<rparr>"

lemma plain_ctl_laws: "kl_laws (plain_ctl L)"
proof -
  have "emits w_trace A (Sync m)" if "\<forall>e. object_event e \<longrightarrow> A e" "emits w_trace A m" for A and m :: "(CtlState, SyncOutcome) go"
    using that by (intro Sync_emits) (simp_all add: object_event_def)
  then show ?thesis by (simp add: kl_laws_def plain_ctl_def)
qed


lemma Cluster_Reconcile_deletion_witness:
  "\<exists>(K :: smap CtlLib) E s. w_trace (snd (Cluster_Reconcile E K ''default'' ''sample'' s)) = [EvGetCluster ''default'' ''sample'',
     EvCtl (EvListBackupsBy ''default'' [''cluster'' \<mapsto> ''sample'']), EvCtl (EvUpdateCluster (sample\<lparr>mc_DeletionTimestamp := Some 7\<rparr>))]"
proof -
  fix K :: "smap CtlLib" and E :: Env
  let ?c = "sample\<lparr>mc_DeletionTimestamp := Some 7, mc_Finalizers := [cluster_finalizer]\<rparr>"
  let ?E = "E\<lparr>we_cluster := (\<lambda>_. ?c), we_err := (\<lambda>t. if length t = 2 then Some (ApiErr ''timeout'') else None)\<rparr>"
  let ?s = "\<lparr>w_trace = [], cc_cluster = sample\<rparr>"
  have v: "ValidateSpec ?c = Ok ()" by (simp add: ValidateSpec_def StringInArray_mem Let_def ReplicationUser_def OperatorUser_def MetricsUser_def sample_defs)
  have "w_trace (snd (Cluster_Reconcile ?E K ''default'' ''sample'' ?s)) =
      [EvGetCluster ''default'' ''sample''] @ backup_deletions ?E ?c [EvGetCluster ''default'' ''sample''] @
      [EvCtl (EvUpdateCluster (remove_finalizer ?c))]"
    using Cluster_Reconcile_deletion [of ?E ?s "''default''" "''sample''" ?c K] v by simp
  moreover have "remove_finalizer ?c = sample\<lparr>mc_DeletionTimestamp := Some 7\<rparr>"
    by (simp add: remove_finalizer_def sample_defs)
  moreover have "backup_deletions ?E ?c [EvGetCluster ''default'' ''sample''] =
      [EvCtl (EvListBackupsBy ''default'' [''cluster'' \<mapsto> ''sample''])]"
    by (simp add: backup_deletions_def sample_defs)
  ultimately have "w_trace (snd (Cluster_Reconcile ?E K ''default'' ''sample'' ?s)) = [EvGetCluster ''default'' ''sample'',
     EvCtl (EvListBackupsBy ''default'' [''cluster'' \<mapsto> ''sample'']), EvCtl (EvUpdateCluster (sample\<lparr>mc_DeletionTimestamp := Some 7\<rparr>))]"
    by simp
  then show ?thesis by (intro exI)
qed

lemma service_deletion_hits_others_witness:
  "\<exists>E (s :: CtlState). w_trace (snd (deleteFollowerService E sample s)) =
     [EvCtl (EvListServices ''default'' [service_type \<mapsto> ''follower-service'']), EvCtl (EvDeleteSvc ''another-follower'')]"
proof -
  fix E :: Env and a :: CtlAnswers
  let ?E = "E\<lparr>we_err := (\<lambda>_. None), we_ctl := (\<lambda>_. a\<lparr>ca_services := [empty_service ''another-follower'' ''default'' Map.empty]\<rparr>)\<rparr>"
  let ?s = "\<lparr>w_trace = [], cc_cluster = sample\<rparr>"
  have "w_trace (snd (deleteFollowerService ?E sample ?s)) =
     [EvCtl (EvListServices ''default'' [service_type \<mapsto> ''follower-service'']), EvCtl (EvDeleteSvc ''another-follower'')]"
    using service_deletion_hits_others [of ?E ?s sample sample] by (simp add: sample_defs empty_service_def)
  then show ?thesis by (intro exI)
qed

lemma Status_Reconcile_patches_witness:
  "\<exists>E (K :: smap CtlLib) s r t. fst (Status_Reconcile E K ''default'' ''sample'' s) = r \<and>
     Status_Sync E [] \<lparr>w_trace = [EvGetCluster ''default'' ''sample''], ss_cluster = sample, ss_items = []\<rparr> = (r, t)"
proof -
  fix E :: Env and L :: Lib
  let ?E = "E\<lparr>we_err := (\<lambda>_. None), we_cluster := (\<lambda>_. sample)\<rparr>"
  let ?s = "\<lparr>w_trace = [], cc_cluster = sample\<rparr>"
  let ?u = "\<lparr>w_trace = [EvGetCluster ''default'' ''sample''], ss_cluster = sample, ss_items = []\<rparr>"
  obtain r t where rt: "Status_Sync ?E [] ?u = (r, t)" by (cases "Status_Sync ?E [] ?u")
  have "fst (Status_Reconcile ?E (plain_ctl L) ''default'' ''sample'' ?s) = r"
    using Status_Reconcile_patches [of ?E ?s "''default''" "''sample''" sample "plain_ctl L" r t] rt
    by (simp add: plain_ctl_def sample_defs)
  then show ?thesis using rt by (intro exI [of _ ?E] exI [of _ "plain_ctl L"] exI [of _ ?s] exI [of _ r] exI [of _ t] conjI)
qed

end
