(* ===== verification/SideTypes.thy ===== *)
theory SideTypes
  imports MysqlConf "HOL-Library.Signed_Division"
begin

text \<open>
  What the programs inside a pod share (the sidecar and the two checkers): the machine they run
  on, seen as a trace of system calls with an environment that answers them, the parts of Go's
  \<open>path\<close>, \<open>fmt\<close>, \<open>strconv\<close> and \<open>time\<close> they use, and the mount points of \<open>utils/constants.go\<close>.

  As for the operator, an answer is a function of the trace so far, so every call may fail and
  may answer differently each time.
\<close>

section \<open>System calls\<close>

datatype side_event =
    SvOpen string | SvClose string | SvStat string | SvReadFile string | SvReadDir string
  | SvCreate string
  | SvCopyData string string               \<comment> \<open>\<open>io.Copy\<close>: from, to\<close>
  | SvWriteFile string string
  | SvMkdir string | SvMkdirAll string
  | SvRemoveAll string
  | SvChown string int int
  | SvLookupUser string
  | SvRun "string list"                    \<comment> \<open>\<open>exec.Command(...).Run()\<close>\<close>
  | SvPipe "string list"                   \<comment> \<open>\<open>StdoutPipe\<close> or \<open>StderrPipe\<close> of a command\<close>
  | SvStart "string list" | SvWait "string list" | SvKill "string list"
  | SvSleep
  | SvClientset                            \<comment> \<open>in-cluster configuration and client set\<close>
  | SvListPods string string               \<comment> \<open>namespace, label selector\<close>
  | SvGetPod string string
  | SvPatchPod string string string        \<comment> \<open>namespace, name, patch\<close>
  | SvGetJob string string
  | SvUpdateJob string string smap         \<comment> \<open>namespace, name, annotations\<close>
  | SvHttp string string                   \<comment> \<open>method and URL of a request that is sent\<close>
  | SvReply int string                     \<comment> \<open>status and body of an answer to a client\<close>
  | SvStream "string list"                 \<comment> \<open>output of a command copied to a client, status 200\<close>
  | SvTrailer string                       \<comment> \<open>value of the trailer of the answer\<close>
  | SvRemote string string string          \<comment> \<open>container, pod, shell command\<close>
  | SvSql string
  | SvConnect string
  | SvS3New "string list" bool             \<comment> \<open>endpoint, keys and bucket; TLS\<close>
  | SvS3List string string                 \<comment> \<open>bucket, prefix\<close>
  | SvS3Get string string
  | SvS3Put string string string           \<comment> \<open>bucket, key, file\<close>
  | SvExit nat

record SideEnv =
  se_err :: "side_event list \<Rightarrow> gerr option"
  se_text :: "side_event list \<Rightarrow> string"
  se_names :: "side_event list \<Rightarrow> string list"
  se_code :: "side_event list \<Rightarrow> int"
  se_objects :: "side_event list \<Rightarrow> (gerr + string) list"
  se_map :: "side_event list \<Rightarrow> smap option"
  se_late :: "side_event list \<Rightarrow> bool"
  se_clock :: "side_event list \<Rightarrow> go_time"
  se_is_exist :: "gerr \<Rightarrow> bool"
  se_getenv :: "string \<Rightarrow> string"

text \<open>\<open>os.IsNotExist\<close>.\<close>

fun is_not_exist :: "gerr \<Rightarrow> bool" where
  "is_not_exist (NotFound _) = True"
| "is_not_exist _ = False"

record Side =
  sd_trace :: "side_event list"

definition srec :: "side_event \<Rightarrow> ('z Side_scheme, unit) go" where
  "srec e = modify (\<lambda>s. s\<lparr>sd_trace := sd_trace s @ [e]\<rparr>)"

definition scall :: "SideEnv \<Rightarrow> side_event \<Rightarrow> ('z Side_scheme, unit) go" where
  "scall E e = bnd (srec e) (\<lambda>_. bnd (gets (\<lambda>s. se_err E (sd_trace s))) (\<lambda>r. case r of
      Some er \<Rightarrow> fail er | None \<Rightarrow> ret ()))"

definition squery :: "SideEnv \<Rightarrow> side_event \<Rightarrow> (side_event list \<Rightarrow> 'a) \<Rightarrow> ('z Side_scheme, 'a) go" where
  "squery E e f = bnd (scall E e) (\<lambda>_. gets (\<lambda>s. f (sd_trace s)))"

text \<open>\<open>if err != nil { return fmt.Errorf(msg) }\<close>.\<close>

definition errorf :: "string \<Rightarrow> ('s, 'a) go \<Rightarrow> ('s, 'a) go" where
  "errorf msg m = handle m (\<lambda>e. fail (GErr (msg @ err_text e)))"

text \<open>A call whose error the code drops (or only logs).\<close>

definition ignore :: "('s, 'a) go \<Rightarrow> ('s, unit) go" where
  "ignore m = bnd (attempt m) (\<lambda>_. ret ())"

lemma emits_srec [emits_intros]: "A e \<Longrightarrow> emits sd_trace A (srec e)"
  by (simp add: emits_def srec_def modify_def)

lemma emits_scall [emits_intros]: "A e \<Longrightarrow> emits sd_trace A (scall E e)"
  unfolding scall_def by (intro emits_intros)

lemma emits_squery [emits_intros]: "A e \<Longrightarrow> emits sd_trace A (squery E e f)"
  unfolding squery_def by (intro emits_intros)

lemma emits_errorf [emits_intros]: "emits tr A m \<Longrightarrow> emits tr A (errorf msg m)"
  unfolding errorf_def by (intro emits_intros)

lemma emits_ignore [emits_intros]: "emits tr A m \<Longrightarrow> emits tr A (ignore m)"
  unfolding ignore_def by (intro emits_intros)

lemma emits_list_case [emits_intros]:
  "(xs = [] \<Longrightarrow> emits tr A m) \<Longrightarrow> (\<And>y ys. xs = y # ys \<Longrightarrow> emits tr A (f y ys)) \<Longrightarrow>
   emits tr A (case xs of [] \<Rightarrow> m | y # ys \<Rightarrow> f y ys)"
  by (cases xs) auto

text \<open>A sequence whose first part is known to deliver a value in \<open>R\<close>.\<close>

definition gives :: "('s, 'a) go \<Rightarrow> ('a \<Rightarrow> bool) \<Rightarrow> bool" where
  "gives m R \<longleftrightarrow> (\<forall>s x. fst (m s) = Ok x \<longrightarrow> R x)"

lemma emits_bnd_gives:
  assumes "emits tr A m" "gives m R" "\<And>x. R x \<Longrightarrow> emits tr A (f x)"
  shows "emits tr A (bnd m f)"
  unfolding emits_def
proof
  fix s
  obtain r t where m: "m s = (r, t)" by (cases "m s")
  from emitsD [OF assms(1), of s] m obtain es where
    es: "tr t = tr s @ es" "list_all A es" by auto
  show "\<exists>es. tr (snd (bnd m f s)) = tr s @ es \<and> list_all A es"
  proof (cases r)
    case (Ok x)
    with assms(2) m have "R x" by (metis fst_conv gives_def)
    from emitsD [OF assms(3) [OF this], of t] obtain fs where
      "tr (snd (f x t)) = tr t @ fs" "list_all A fs" by auto
    with es m Ok show ?thesis by (auto simp: bnd_def)
  qed (use es m in \<open>auto simp: bnd_def\<close>)
qed

text \<open>Running a call: the event is recorded, and the result is what the environment says.\<close>

lemma scall_run:
  "scall E e s = ((case se_err E (sd_trace s @ [e]) of Some er \<Rightarrow> Fail er | None \<Rightarrow> Ok ()), s\<lparr>sd_trace := sd_trace s @ [e]\<rparr>)"
  by (simp add: scall_def srec_def bnd_def modify_def gets_def fail_def ret_def split: option.split)

lemma squery_run:
  "squery E e f s = ((case se_err E (sd_trace s @ [e]) of Some er \<Rightarrow> Fail er | None \<Rightarrow> Ok (f (sd_trace s @ [e]))),
     s\<lparr>sd_trace := sd_trace s @ [e]\<rparr>)"
  by (simp add: squery_def bnd_def scall_run gets_def split: option.split)

lemma srec_run: "srec e s = (Ok (), s\<lparr>sd_trace := sd_trace s @ [e]\<rparr>)"
  by (simp add: srec_def modify_def)

lemma errorf_Ok: "errorf msg m s = (Ok x, t) \<longleftrightarrow> m s = (Ok x, t)"
  by (auto simp: errorf_def handle_def fail_def split: prod.splits res.splits)

lemma scall_Ok: "scall E e s = (Ok x, t) \<longleftrightarrow> se_err E (sd_trace s @ [e]) = None \<and> t = s\<lparr>sd_trace := sd_trace s @ [e]\<rparr>"
  by (auto simp: scall_run split: option.splits)

lemma squery_Ok:
  "squery E e f s = (Ok x, t) \<longleftrightarrow> se_err E (sd_trace s @ [e]) = None \<and> x = f (sd_trace s @ [e]) \<and> t = s\<lparr>sd_trace := sd_trace s @ [e]\<rparr>"
  by (auto simp: squery_run split: option.splits)

text \<open>What a call delivers, through the control structures.\<close>

lemma gives_bnd: "gives m P \<Longrightarrow> (\<And>x. P x \<Longrightarrow> gives (f x) R) \<Longrightarrow> gives (bnd m f) R"
  unfolding gives_def bnd_def by (auto split: prod.splits res.splits) (metis fst_conv)

lemma gives_any: "gives m (\<lambda>_. True)"
  by (simp add: gives_def)

lemma gives_ret: "R x \<Longrightarrow> gives (ret x) R"
  by (simp add: gives_def ret_def)

lemma gives_split:
  "(b \<Longrightarrow> gives m R) \<Longrightarrow> (\<not> b \<Longrightarrow> gives n R) \<Longrightarrow> gives (if b then m else n) R"
  "(\<And>e. gives (f e) R) \<Longrightarrow> (\<And>x. gives (g x) R) \<Longrightarrow> gives (case r of Inl e \<Rightarrow> f e | Inr x \<Rightarrow> g x) R"
  by (simp_all split: sum.split)

text \<open>A machine on which every call succeeds.\<close>

definition calm_machine :: SideEnv where
  "calm_machine = \<lparr>se_err = (\<lambda>tr. None), se_text = (\<lambda>tr. []), se_names = (\<lambda>tr. [''1001'', ''1001'']), se_code = (\<lambda>tr. 200),
     se_objects = (\<lambda>tr. []), se_map = (\<lambda>tr. None), se_late = (\<lambda>tr. False),
     se_clock = (\<lambda>tr. \<lparr>t_year = 2022, t_month = 9, t_day = 7, t_hour = 1, t_minute = 2, t_second = 3\<rparr>),
     se_is_exist = (\<lambda>e. True), se_getenv = (\<lambda>k. if k = ''MYSQL_VERSION'' then ''5.7.39'' else [])\<rparr>"

section \<open>Formatting and paths\<close>

text \<open>
  Go source text: a list of lines, in which a tilde escapes what an Isabelle string cannot hold
  (\<open>n\<close> newline, \<open>t\<close> tab, \<open>q\<close> double quote, \<open>a\<close> apostrophe, \<open>b\<close> backslash, \<open>k\<close> backtick).
\<close>

definition esc_char :: "char \<Rightarrow> char" where
  "esc_char c = (if c = CHR ''n'' then CHR 0x0A else if c = CHR ''t'' then CHR 0x09
     else if c = CHR ''q'' then CHR 0x22 else if c = CHR ''a'' then CHR 0x27
     else if c = CHR ''b'' then CHR 0x5C else if c = CHR ''k'' then CHR 0x60 else c)"

fun unesc :: "string \<Rightarrow> string" where
  "unesc [] = []"
| "unesc [c] = [c]"
| "unesc (c # d # cs) = (if c = CHR ''~'' then esc_char d # unesc cs else c # unesc (d # cs))"

definition go_lines :: "string list \<Rightarrow> string" where
  "go_lines ls = join_with [CHR 0x0A] (map unesc ls)"

text \<open>
  \<open>fmt.Sprintf\<close> with one-letter verbs: the pieces of the format between its verbs, and the
  printed arguments in their place.
\<close>

fun fmt_pieces :: "string \<Rightarrow> string list" where
  "fmt_pieces [] = [[]]"
| "fmt_pieces [c] = [[c]]"
| "fmt_pieces (c # d # cs) =
     (if c = CHR ''%'' \<and> d \<noteq> CHR ''%'' then [] # fmt_pieces cs
      else (case fmt_pieces (if c = CHR ''%'' then cs else d # cs) of [] \<Rightarrow> [] | p # ps \<Rightarrow> (c # p) # ps))"

fun weave :: "string list \<Rightarrow> string list \<Rightarrow> string" where
  "weave [] args = []"
| "weave (p # ps) [] = p @ weave ps []"
| "weave (p # ps) (x # xs) = p @ x @ weave ps xs"

definition sprintf :: "string \<Rightarrow> string list \<Rightarrow> string" where
  "sprintf fmt args = weave (fmt_pieces fmt) args"

text \<open>Text without escapes and without verbs is printed as it is.\<close>

lemma unesc_plain: "CHR ''~'' \<notin> set p \<Longrightarrow> unesc (p @ s) = p @ unesc s"
proof (induction p)
  case (Cons c p)
  then show ?case by (cases "p @ s") auto
qed simp

lemma fmt_pieces_nonempty [simp]: "fmt_pieces s \<noteq> []"
proof (induction s rule: fmt_pieces.induct)
  case (3 c d cs)
  show ?case
  proof (cases "c = CHR ''%'' \<and> d \<noteq> CHR ''%''")
    case False
    with 3 obtain p ps where "fmt_pieces (if c = CHR ''%'' then cs else d # cs) = p # ps"
      by (meson neq_Nil_conv)
    with False show ?thesis by simp
  qed simp
qed simp_all

lemma fmt_pieces_plain:
  "c \<noteq> CHR ''%'' \<Longrightarrow> fmt_pieces (c # s) = (case fmt_pieces s of [] \<Rightarrow> [] | p # ps \<Rightarrow> (c # p) # ps)"
  by (cases s) auto

lemma sprintf_plain: "CHR ''%'' \<notin> set p \<Longrightarrow> sprintf (p @ s) args = p @ sprintf s args"
proof (induction p)
  case (Cons c p)
  have "sprintf (c # t) args = c # sprintf t args" for t
    using Cons.prems by (cases args) (auto simp: sprintf_def fmt_pieces_plain split: list.split)
  with Cons show ?case by simp
qed simp

text \<open>\<open>path.Clean\<close> and \<open>path.Join\<close>.\<close>

fun clean_elems :: "bool \<Rightarrow> string list \<Rightarrow> string list \<Rightarrow> string list" where
  "clean_elems rooted out [] = rev out"
| "clean_elems rooted out (e # es) =
     (if e = [] \<or> e = ''.'' then clean_elems rooted out es
      else if e = ''..'' then (case out of
          [] \<Rightarrow> clean_elems rooted (if rooted then [] else [''..'']) es
        | t # ts \<Rightarrow> clean_elems rooted (if t = ''..'' then ''..'' # out else ts) es)
      else clean_elems rooted (e # out) es)"

definition path_clean :: "string \<Rightarrow> string" where
  "path_clean p = (case p of [] \<Rightarrow> ''.''
     | c # cs \<Rightarrow> (let rooted = (c = CHR ''/''); es = clean_elems rooted [] (split_on (CHR ''/'') p)
         in if rooted then ''/'' @ join_with ''/'' es else if es = [] then ''.'' else join_with ''/'' es))"

definition path_join :: "string list \<Rightarrow> string" where
  "path_join ps = (let es = filter (\<lambda>p. p \<noteq> []) ps in if es = [] then [] else path_clean (join_with ''/'' es))"

text \<open>\<open>strings.TrimPrefix\<close> and \<open>strings.Trim\<close> with a set of bytes.\<close>

definition trim_prefix :: "string \<Rightarrow> string \<Rightarrow> string" where
  "trim_prefix s p = (if has_prefix s p then drop (length p) s else s)"

definition trim_chars :: "string \<Rightarrow> string \<Rightarrow> string" where
  "trim_chars cset s = rev (dropWhile (\<lambda>c. c \<in> set cset) (rev (dropWhile (\<lambda>c. c \<in> set cset) s)))"

text \<open>\<open>strings.Index\<close>.\<close>

fun str_index :: "string \<Rightarrow> string \<Rightarrow> nat option" where
  "str_index [] sub = (if sub = [] then Some 0 else None)"
| "str_index (c # cs) sub = (if prefix sub (c # cs) then Some 0 else map_option Suc (str_index cs sub))"

section \<open>Numbers and times\<close>

text \<open>\<open>int32(x)\<close> of \<open>strconv.ParseInt(s, 10, 32)\<close>, and the truncating division of \<open>int32\<close>.\<close>

definition parse_int32 :: "string \<Rightarrow> 32 word res" where
  "parse_int32 s = (case atoi s of
      Ok v \<Rightarrow> if v < - (2 ^ 31) \<or> v \<ge> 2 ^ 31 then Fail (GErr ''strconv: value out of range'') else Ok (word_of_int v)
    | Fail e \<Rightarrow> Fail e | Panic p \<Rightarrow> Panic p)"

definition div32 :: "32 word \<Rightarrow> 32 word \<Rightarrow> 32 word res" where
  "div32 a b = (if b = 0 then Panic ''integer divide by zero'' else Ok (word_of_int (sint a sdiv sint b)))"

definition int32_str :: "32 word \<Rightarrow> string" where
  "int32_str w = int_str (sint w)"

text \<open>
  \<open>time.Parse("2006-01-02 15:04:05", s)\<close>: two digits for every field but the year (four) and
  the hour (one or two); a fraction after the seconds is accepted. The result is checked
  against the calendar.
\<close>

definition leap_year :: "nat \<Rightarrow> bool" where
  "leap_year y \<longleftrightarrow> 4 dvd y \<and> (\<not> 100 dvd y \<or> 400 dvd y)"

definition days_in :: "nat \<Rightarrow> nat \<Rightarrow> nat" where
  "days_in m y = (if m = 2 then (if leap_year y then 29 else 28) else if m \<in> {4, 6, 9, 11} then 30 else 31)"

definition fixed_num :: "nat \<Rightarrow> string \<Rightarrow> (nat \<times> string) option" where
  "fixed_num n s = (if length s < n \<or> \<not> list_all is_digit (take n s) then None
     else Some (digits_val (take n s), drop n s))"

definition lit_char :: "char \<Rightarrow> string \<Rightarrow> string option" where
  "lit_char c s = (case s of [] \<Rightarrow> None | d # ds \<Rightarrow> if d = c then Some ds else None)"

definition hour_num :: "string \<Rightarrow> (nat \<times> string) option" where
  "hour_num s = (case fixed_num 2 s of Some r \<Rightarrow> Some r | None \<Rightarrow> fixed_num 1 s)"

text \<open>A dot or comma and at least one digit.\<close>

definition fraction_ok :: "string \<Rightarrow> bool" where
  "fraction_ok s \<longleftrightarrow> s = [] \<or> (s ! 0 \<in> {CHR ''.'', CHR '',''} \<and> length s \<ge> 2 \<and> list_all is_digit (tl s))"

definition parse_fields :: "string \<Rightarrow> (go_time \<times> string) option" where
  "parse_fields s =
     Option.bind (fixed_num 4 s) (\<lambda>(y, s). Option.bind (lit_char (CHR ''-'') s) (\<lambda>s.
     Option.bind (fixed_num 2 s) (\<lambda>(mo, s). Option.bind (lit_char (CHR ''-'') s) (\<lambda>s.
     Option.bind (fixed_num 2 s) (\<lambda>(d, s). Option.bind (lit_char (CHR '' '') s) (\<lambda>s.
     Option.bind (hour_num s) (\<lambda>(h, s). Option.bind (lit_char (CHR '':'') s) (\<lambda>s.
     Option.bind (fixed_num 2 s) (\<lambda>(mi, s). Option.bind (lit_char (CHR '':'') s) (\<lambda>s.
     Option.bind (fixed_num 2 s) (\<lambda>(se, s).
       Some (\<lparr>t_year = y, t_month = mo, t_day = d, t_hour = h, t_minute = mi, t_second = se\<rparr>, s))))))))))))"

definition calendar_ok :: "go_time \<Rightarrow> bool" where
  "calendar_ok t \<longleftrightarrow> 1 \<le> t_month t \<and> t_month t \<le> 12 \<and> 1 \<le> t_day t \<and> t_day t \<le> days_in (t_month t) (t_year t) \<and>
     t_hour t < 24 \<and> t_minute t < 60 \<and> t_second t < 60"

definition time_parse :: "string \<Rightarrow> go_time res" where
  "time_parse s = (case parse_fields s of
      Some (t, rest) \<Rightarrow> if calendar_ok t \<and> fraction_ok rest then Ok t else Fail (GErr (''parsing time '' @ s))
    | None \<Rightarrow> Fail (GErr (''parsing time '' @ s)))"

definition pad4 :: "nat \<Rightarrow> string" where
  "pad4 n = replicate (4 - length (nat_str n)) (CHR ''0'') @ nat_str n"

definition time_format :: "go_time \<Rightarrow> string" where
  "time_format t = pad4 (t_year t) @ ''-'' @ pad2 (t_month t) @ ''-'' @ pad2 (t_day t) @ '' '' @
     pad2 (t_hour t) @ '':'' @ pad2 (t_minute t) @ '':'' @ pad2 (t_second t)"

section \<open>Constants (utils/constants.go, sidecar/util.go)\<close>

definition DataVolumeMountPath :: string where "DataVolumeMountPath = ''/var/lib/mysql''"
definition MysqlConfVolumeMountPath :: string where "MysqlConfVolumeMountPath = ''/etc/mysql''"
definition MysqlCMVolumeMountPath :: string where "MysqlCMVolumeMountPath = ''/mnt/mysql-cm''"
definition XenonMetaVolumeMountPath :: string where "XenonMetaVolumeMountPath = ''/var/lib/xenon''"
definition XenonCMVolumeMountPath :: string where "XenonCMVolumeMountPath = ''/mnt/xenon-cm''"
definition XenonConfVolumeMountPath :: string where "XenonConfVolumeMountPath = ''/etc/xenon''"
definition SysVolumeMountPath :: string where "SysVolumeMountPath = ''/host-sys''"
definition InitFileVolumeMountPath :: string where "InitFileVolumeMountPath = ''/docker-entrypoint-initdb.d''"
definition RemoteClusterCMMountPath :: string where "RemoteClusterCMMountPath = ''/mnt/remote-cluster-cm''"
definition ConfClientPath :: string where "ConfClientPath = ''/etc/mysql/client.conf''"
definition TlsMountPath :: string where "TlsMountPath = ''/etc/mysql-ssl''"
definition RadonDBBinDir :: string where "RadonDBBinDir = ''/opt/radondb''"
definition PluginConfigs_cnf :: string where "PluginConfigs_cnf = ''plugin.cnf''"
definition XBackupPort :: nat where "XBackupPort = 8082"
definition extraConfPath :: string where "extraConfPath = MysqlConfVolumeMountPath @ ''/conf.d''"
definition xtrabackupCommand :: string where "xtrabackupCommand = ''xtrabackup''"
definition xcloudCommand :: string where "xcloudCommand = ''xbcloud''"

lemmas path_defs = DataVolumeMountPath_def MysqlConfVolumeMountPath_def MysqlCMVolumeMountPath_def
  XenonMetaVolumeMountPath_def XenonCMVolumeMountPath_def XenonConfVolumeMountPath_def SysVolumeMountPath_def
  InitFileVolumeMountPath_def RemoteClusterCMMountPath_def ConfClientPath_def TlsMountPath_def RadonDBBinDir_def
  PluginConfigs_cnf_def extraConfPath_def

definition buildBinlogDir :: "string \<Rightarrow> string" where
  "buildBinlogDir p = p @ ''bin/''"

section \<open>Files (sidecar/util.go)\<close>

definition getEnvValue :: "SideEnv \<Rightarrow> string \<Rightarrow> string" where
  "getEnvValue E key = se_getenv E key"

definition copyFile :: "SideEnv \<Rightarrow> string \<Rightarrow> string \<Rightarrow> ('z Side_scheme, unit) go" where
  "copyFile E src dst = bnd (scall E (SvOpen src)) (\<lambda>_. bnd (scall E (SvCreate dst)) (\<lambda>_. scall E (SvCopyData src dst)))"

text \<open>The flag and the error, both of which the caller receives.\<close>

definition checkIfPathExists :: "SideEnv \<Rightarrow> string \<Rightarrow> ('z Side_scheme, bool \<times> gerr option) go" where
  "checkIfPathExists E p = bnd (attempt (scall E (SvOpen p))) (\<lambda>r. case r of
      Inl e \<Rightarrow> ret (False, if is_not_exist e then None else Some e)
    | Inr _ \<Rightarrow> bnd (attempt (scall E (SvClose p))) (\<lambda>c. ret (True, case c of Inl e \<Rightarrow> Some e | Inr _ \<Rightarrow> None)))"

definition path_exists :: "SideEnv \<Rightarrow> string \<Rightarrow> ('z Side_scheme, bool) go" where
  "path_exists E p = bnd (checkIfPathExists E p) (\<lambda>r. ret (fst r))"

lemma emits_path_exists [emits_intros]:
  "A (SvOpen p) \<Longrightarrow> A (SvClose p) \<Longrightarrow> emits sd_trace A (path_exists E p)"
  unfolding path_exists_def checkIfPathExists_def by (intro emits_intros)

lemma emits_copyFile [emits_intros]:
  "A (SvOpen src) \<Longrightarrow> A (SvCreate dst) \<Longrightarrow> A (SvCopyData src dst) \<Longrightarrow> emits sd_trace A (copyFile E src dst)"
  unfolding copyFile_def by (intro emits_intros)

text \<open>A path exists exactly when it can be opened, whatever closing it answers.\<close>

lemma path_exists_run:
  "fst (path_exists E p s) = Ok (se_err E (sd_trace s @ [SvOpen p]) = None)"
  by (simp add: path_exists_def checkIfPathExists_def bnd_def attempt_def scall_run ret_def
      split: option.splits sum.splits)

section \<open>Printing and reading a time\<close>

lemma digits_val_zero: "digits_val (CHR ''0'' # s) = digits_val s"
  by (simp add: digits_val_def digit_val_def)

lemma digits_val_zeros: "digits_val (replicate k (CHR ''0'') @ s) = digits_val s"
  by (induction k) (simp_all add: digits_val_zero)

lemma nat_str_length:
  "n < 10 \<Longrightarrow> length (nat_str n) = 1"
  "10 \<le> n \<Longrightarrow> length (nat_str n) = Suc (length (nat_str (n div 10)))"
  by (subst nat_str.simps, simp)+

lemma nat_str_length_le: "n < 10 ^ k \<Longrightarrow> 0 < k \<Longrightarrow> length (nat_str n) \<le> k"
proof (induction k arbitrary: n)
  case (Suc k)
  show ?case
  proof (cases "n < 10")
    case False
    with Suc.prems have "n div 10 < 10 ^ k" by (simp add: less_mult_imp_div_less)
    moreover have "0 < k" using False Suc.prems by (cases k) auto
    ultimately have "length (nat_str (n div 10)) \<le> k" by (rule Suc.IH)
    with False show ?thesis by (simp add: nat_str_length)
  qed (simp add: nat_str_length)
qed simp

lemma digit_zero: "is_digit (CHR ''0'')"
  by (simp add: is_digit_def)

lemma fixed_num_append:
  "length d = k \<Longrightarrow> list_all is_digit d \<Longrightarrow> fixed_num k (d @ s) = Some (digits_val d, s)"
  by (simp add: fixed_num_def)

lemma fixed_pad2: "n < 100 \<Longrightarrow> fixed_num 2 (pad2 n @ s) = Some (n, s)"
  using nat_str_length_le [of n 2] nat_str_length [of n] nat_str_length [of "n div 10"]
  by (subst fixed_num_append)
     (auto simp: pad2_def nat_str_length nat_str_digits digit_zero digits_val_zero)

lemma fixed_pad4: "n < 10000 \<Longrightarrow> fixed_num 4 (pad4 n @ s) = Some (n, s)"
  using nat_str_length_le [of n 4]
  by (subst fixed_num_append) (auto simp: pad4_def nat_str_digits digits_val_zeros list_all_iff digit_zero
      dest: nat_str_chars)

text \<open>A restore point is read back from its text, for every valid date of four-digit years.\<close>

lemma time_parse_format:
  assumes "calendar_ok t" "t_year t < 10000"
  shows "time_parse (time_format t) = Ok t"
proof -
  have d: "days_in m y \<le> 31" for m y by (simp add: days_in_def)
  have b: "t_month t < 100" "t_day t < 100" "t_hour t < 100" "t_minute t < 100" "t_second t < 100"
    using assms(1) d [of "t_month t" "t_year t"] by (simp_all add: calendar_ok_def)
  have "parse_fields (time_format t) = Some (t, [])"
    using assms b fixed_pad2 [of "t_second t" "[]"]
    by (simp add: parse_fields_def time_format_def fixed_pad4 fixed_pad2 lit_char_def hour_num_def)
  with assms show ?thesis by (simp add: time_parse_def fraction_ok_def)
qed

end
