(* ===== verification/InCluster.thy ===== *)
theory InCluster
  imports SideTypes XenonApi
begin

text \<open>
  \<open>utils/incluster.go\<close>: what the checkers use inside a pod (the state of raft, the server's pid,
  labels, commands in another container), and the job of the manager that keeps the
  conversion webhook in the custom resource definitions. The parser of \<open>encoding/json\<close> is a
  parameter: it gives the value a text stands for, or nothing; how a value fills a struct is
  modelled.
\<close>

section \<open>Ends of the process\<close>

text \<open>\<open>log.Fatalf\<close>: status 1, nothing runs after it.\<close>

definition fatal :: "string \<Rightarrow> ('z Side_scheme, 'a) go" where
  "fatal msg = bnd (srec (SvExit 1)) (\<lambda>_. panic msg)"

definition or_fatal :: "('z Side_scheme, 'a) go \<Rightarrow> ('z Side_scheme, 'a) go" where
  "or_fatal m = handle m (\<lambda>e. fatal (err_text e))"

lemma emits_fatal [emits_intros]: "A (SvExit 1) \<Longrightarrow> emits sd_trace A (fatal msg)"
  unfolding fatal_def by (intro emits_intros)

lemma emits_or_fatal [emits_intros]: "emits sd_trace A m \<Longrightarrow> A (SvExit 1) \<Longrightarrow> emits sd_trace A (or_fatal m)"
  unfolding or_fatal_def by (intro emits_intros)

section \<open>JSON values into structs\<close>

type_synonym json_parser = "string \<Rightarrow> json option"

text \<open>A field of type \<open>string\<close> stays empty when the key is missing or null.\<close>

definition string_field :: "(string \<rightharpoonup> json) \<Rightarrow> string \<Rightarrow> string res" where
  "string_field obj k = (case obj k of None \<Rightarrow> Ok [] | Some JNull \<Rightarrow> Ok [] | Some (JStr s) \<Rightarrow> Ok s
     | Some _ \<Rightarrow> Fail (GErr ''json: cannot unmarshal into Go struct field''))"

fun string_elems :: "json list \<Rightarrow> string list res" where
  "string_elems [] = Ok []"
| "string_elems (j # js) = bind_res (case j of JStr s \<Rightarrow> Ok s | JNull \<Rightarrow> Ok [] | _ \<Rightarrow> Fail (GErr ''json: cannot unmarshal''))
     (\<lambda>s. bind_res (string_elems js) (\<lambda>ss. Ok (s # ss)))"

definition strings_field :: "(string \<rightharpoonup> json) \<Rightarrow> string \<Rightarrow> string list res" where
  "strings_field obj k = (case obj k of None \<Rightarrow> Ok [] | Some JNull \<Rightarrow> Ok [] | Some (JArr js) \<Rightarrow> string_elems js
     | Some _ \<Rightarrow> Fail (GErr ''json: cannot unmarshal into Go struct field''))"

definition object_of :: "json option \<Rightarrow> (string \<rightharpoonup> json) res" where
  "object_of j = (case j of Some (JObj kvs) \<Rightarrow> Ok (map_of (List.rev kvs)) | Some JNull \<Rightarrow> Ok Map.empty
     | Some _ \<Rightarrow> Fail (GErr ''json: cannot unmarshal'') | None \<Rightarrow> Fail (GErr ''invalid character''))"

record raftStatus =
  rs_Leader :: string
  rs_State :: string
  rs_Nodes :: "string list"

definition unmarshal_raft :: "json option \<Rightarrow> raftStatus res" where
  "unmarshal_raft j = bind_res (object_of j) (\<lambda>obj. bind_res (string_field obj ''leader'') (\<lambda>l.
     bind_res (string_field obj ''state'') (\<lambda>st. bind_res (strings_field obj ''nodes'') (\<lambda>ns.
     Ok \<lparr>rs_Leader = l, rs_State = st, rs_Nodes = ns\<rparr>))))"

section \<open>Raft and the server\<close>

record MySQLNode =
  mn_PodName :: string
  mn_Namespace :: string
  mn_Role :: string

definition GetClientSet :: "SideEnv \<Rightarrow> ('z Side_scheme, unit) go" where
  "GetClientSet E = errorf ''failed to create in-cluster config: '' (scall E SvClientset)"

definition role_patch :: "string \<Rightarrow> string" where
  "role_patch role = sprintf (go_lines [''{~qmetadata~q:{~qlabels~q:{~qrole~q:~q%s~q}}}'']) [role]"

definition PatchRoleLabelTo :: "SideEnv \<Rightarrow> MySQLNode \<Rightarrow> ('z Side_scheme, unit) go" where
  "PatchRoleLabelTo E n =
     bnd (errorf ''failed to create clientset: '' (GetClientSet E)) (\<lambda>_.
     errorf ''failed to patch pod role label: '' (scall E (SvPatchPod (mn_Namespace n) (mn_PodName n) (role_patch (mn_Role n)))))"

definition XenonPingMyself :: "SideEnv \<Rightarrow> ('z Side_scheme, unit) go" where
  "XenonPingMyself E = errorf ''failed to exec xenoncli xenon ping: '' (scall E (SvRun [''xenoncli'', ''xenon'', ''ping'']))"

definition GetRaftStatus :: "json_parser \<Rightarrow> SideEnv \<Rightarrow> ('z Side_scheme, raftStatus) go" where
  "GetRaftStatus P E = bnd (or_fatal (squery E (SvRun [''xenoncli'', ''raft'', ''status'']) (se_text E))) (\<lambda>out.
     or_fatal (lift (unmarshal_raft (P out))))"

definition GetRole :: "json_parser \<Rightarrow> SideEnv \<Rightarrow> ('z Side_scheme, string) go" where
  "GetRole P E = bnd (GetRaftStatus P E) (\<lambda>r. ret (rs_State r))"

definition MySQLPidFile :: string where "MySQLPidFile = ''/var/run/mysqld/mysqld.pid''"
definition SleepFlagFile :: string where "SleepFlagFile = ''/var/lib/mysql/sleep-forever''"

definition SleepFlag :: "SideEnv \<Rightarrow> ('z Side_scheme, bool) go" where
  "SleepFlag E = bnd (attempt (scall E (SvStat SleepFlagFile))) (\<lambda>r. ret (case r of Inl e \<Rightarrow> \<not> is_not_exist e | Inr _ \<Rightarrow> True))"

definition GetMySQLPid :: "SideEnv \<Rightarrow> ('z Side_scheme, int) go" where
  "GetMySQLPid E = bnd (errorf ''failed to read mysql pid file: '' (squery E (SvReadFile MySQLPidFile) (se_text E))) (\<lambda>d.
     errorf (''error parsing pid from '' @ MySQLPidFile) (lift (atoi (trim_space d))))"

text \<open>\<open>os.FindProcess\<close> never fails on Unix.\<close>

definition IsMySQLRunning :: "SideEnv \<Rightarrow> ('z Side_scheme, bool) go" where
  "IsMySQLRunning E = bnd (attempt (GetMySQLPid E)) (\<lambda>r. ret (case r of Inl e \<Rightarrow> False | Inr pid \<Rightarrow> True))"

text \<open>A shell in another container reads the command from its standard input.\<close>

record RunRemoteCommandConfig =
  rr_Container :: string
  rr_Namespace :: string
  rr_PodName :: string

definition RunRemoteCommand :: "SideEnv \<Rightarrow> RunRemoteCommandConfig \<Rightarrow> string list \<Rightarrow> ('z Side_scheme, string) go" where
  "RunRemoteCommand E cfg cmd = squery E (SvRemote (rr_Container cfg) (rr_PodName cfg) (join_with '' '' cmd)) (se_text E)"

text \<open>\<open>NewConfig\<close> and \<open>NewForConfig\<close>, whose errors both callers turn into a panic.\<close>

definition kube_or_panic :: "SideEnv \<Rightarrow> ('z Side_scheme, unit) go" where
  "kube_or_panic E = handle (scall E SvClientset) (\<lambda>e. panic (err_text e))"

lemmas incluster_defs = GetClientSet_def PatchRoleLabelTo_def XenonPingMyself_def GetRaftStatus_def GetRole_def
  SleepFlag_def GetMySQLPid_def IsMySQLRunning_def RunRemoteCommand_def kube_or_panic_def

section \<open>The conversion webhook of the custom resource definitions\<close>

record CrdService =
  cs_Namespace :: string
  cs_Name :: string
  cs_Path :: "string option"
  cs_Port :: "int option"

record CrdClientConfig =
  cc_CABundle :: "string option"
  cc_Service :: "CrdService option"

text \<open>
  The part of the definition that matters: the pointers \<open>Conversion\<close>, \<open>Webhook\<close> and
  \<open>ClientConfig\<close>, and the names of the versions.
\<close>

record Crd =
  crd_Versions :: "string list"
  crd_Conversion :: "CrdClientConfig option option option"

definition client_config :: "Crd \<Rightarrow> CrdClientConfig option" where
  "client_config crd = (case crd_Conversion crd of Some (Some (Some cc)) \<Rightarrow> Some cc | _ \<Rightarrow> None)"

text \<open>Whether the definition has to be patched; a configuration without a service is a nil dereference.\<close>

definition needs_webhook :: "Crd \<Rightarrow> string option \<Rightarrow> bool res" where
  "needs_webhook crd cert = (case client_config crd of None \<Rightarrow> Ok True
     | Some cc \<Rightarrow> (case cc_CABundle cc of None \<Rightarrow> Ok True
       | Some bundle \<Rightarrow> (case cc_Service cc of None \<Rightarrow> Panic ''nil pointer dereference''
         | Some svc \<Rightarrow> Ok (cs_Path svc = None \<or> cs_Port svc = None \<or> bundle \<noteq> (case cert of None \<Rightarrow> [] | Some c \<Rightarrow> c)))))"

definition webhook_name :: "Crd \<Rightarrow> string res" where
  "webhook_name crd = (case client_config crd of None \<Rightarrow> Ok ''radondb-mysql-webhook''
     | Some cc \<Rightarrow> (case cc_Service cc of None \<Rightarrow> Panic ''nil pointer dereference'' | Some svc \<Rightarrow> Ok (cs_Name svc)))"

definition with_webhook :: "Crd \<Rightarrow> string \<Rightarrow> string option \<Rightarrow> string \<Rightarrow> Crd" where
  "with_webhook crd ns cert name = crd\<lparr>crd_Conversion := Some (Some (Some \<lparr>cc_CABundle = cert,
     cc_Service = Some \<lparr>cs_Namespace = ns, cs_Name = name, cs_Path = Some ''/convert'', cs_Port = Some 443\<rparr>\<rparr>))\<rparr>"

text \<open>The client of the manager: the secret's certificate (nil when there is none), a definition, a patch.\<close>

record 's CrdClient =
  ck_secret :: "string \<Rightarrow> string \<Rightarrow> ('s, string option) go"
  ck_crd :: "string \<Rightarrow> ('s, Crd) go"
  ck_patch :: "string \<Rightarrow> Crd \<Rightarrow> Crd \<Rightarrow> ('s, unit) go"
  ck_sleep :: "('s, unit) go"

text \<open>Only "not found" stops at the secret; after any other error the certificate is nil.\<close>

definition read_cert :: "'s CrdClient \<Rightarrow> string \<Rightarrow> string \<Rightarrow> ('s, string option) go" where
  "read_cert K ns certName = handle (ck_secret K ns certName)
     (\<lambda>e. if is_not_exist e then fail (GErr (''secret '' @ certName @ '' not found'')) else ret None)"

definition UpdateforCRD :: "'s CrdClient \<Rightarrow> (string \<Rightarrow> string) \<Rightarrow> string \<Rightarrow> ('s, unit) go" where
  "UpdateforCRD K getenv crdName =
     (let ns = (if length (getenv ''MY_NAMESPACE'') = 0 then ''extension-dmp'' else getenv ''MY_NAMESPACE'');
          certName = (if length (getenv ''CERT_NAME'') = 0 then ''radondb-mysql-webhook-certs'' else getenv ''CERT_NAME'')
      in bnd (read_cert K ns certName) (\<lambda>cert.
         bnd (ck_crd K crdName) (\<lambda>crd.
         if ''v1beta1'' \<notin> set (crd_Versions crd) then fail (GErr ''has not v1beta1 version'')
         else bnd (lift (needs_webhook crd cert)) (\<lambda>needed.
           if needed then bnd (lift (webhook_name crd)) (\<lambda>name. ck_patch K crdName crd (with_webhook crd ns cert name))
           else ret ()))))"

text \<open>The goroutine: a hundred rounds, five seconds apart, over both definitions.\<close>

definition RunUpdeteCRD :: "'s CrdClient \<Rightarrow> (string \<Rightarrow> string) \<Rightarrow> ('s, unit) go" where
  "RunUpdeteCRD K getenv = each (\<lambda>i. bnd (ck_sleep K) (\<lambda>_.
     bnd (ignore (UpdateforCRD K getenv ''mysqlclusters.mysql.radondb.com'')) (\<lambda>_.
     ignore (UpdateforCRD K getenv ''backups.mysql.radondb.com'')))) [0..<100 :: nat]"

text \<open>
  Patching a definition settles it: with the patched definition and the same certificate
  there is nothing to do. Without a certificate (its secret could not be read) the patch
  sets no bundle, and the next round patches again.
\<close>

theorem webhook_settled:
  "needs_webhook (with_webhook crd ns (Some cert) name) (Some cert) = Ok False \<and>
   needs_webhook (with_webhook crd ns None name) c = Ok True \<and>
   (crd_Versions (with_webhook crd ns c name) = crd_Versions crd)"
  by (simp add: needs_webhook_def with_webhook_def client_config_def)

text \<open>
  An error of the API server while the secret is read does not stop the update: unless the
  error is "not found", a definition in force is patched to one without a certificate
  authority, whatever it had before.
\<close>

theorem secret_error_wipes_bundle:
  assumes "ck_secret K ns certName s = (Fail e, t)" "\<not> is_not_exist e"
    and "ns = getenv ''MY_NAMESPACE''" "certName = getenv ''CERT_NAME''" "ns \<noteq> []" "certName \<noteq> []"
    and "ck_crd K crdName t = (Ok crd, u)" "''v1beta1'' \<in> set (crd_Versions crd)"
    and "client_config crd = Some cc" "cc_CABundle cc = Some bundle" "bundle \<noteq> []" "cc_Service cc = Some svc"
  shows "UpdateforCRD K getenv crdName s = ck_patch K crdName crd (with_webhook crd ns None (cs_Name svc)) u"
  using assms by (simp add: UpdateforCRD_def Let_def read_cert_def bnd_def handle_def ret_def lift_def needs_webhook_def webhook_name_def)

theorem secret_error_wipes_bundle_witness:
  "\<exists>(K :: unit CrdClient) crd. UpdateforCRD K (\<lambda>k. k) ''backups.mysql.radondb.com'' () =
     ck_patch K ''backups.mysql.radondb.com'' crd (with_webhook crd ''MY_NAMESPACE'' None ''hook'') () \<and>
     client_config crd \<noteq> None"
proof -
  define svc where "svc = \<lparr>cs_Namespace = ''ns'', cs_Name = ''hook'', cs_Path = Some ''/convert'', cs_Port = Some 443\<rparr>"
  define cc where "cc = \<lparr>cc_CABundle = Some ''cert'', cc_Service = Some svc\<rparr>"
  define crd where "crd = \<lparr>crd_Versions = [''v1beta1''], crd_Conversion = Some (Some (Some cc))\<rparr>"
  define K :: "unit CrdClient" where
    "K = \<lparr>ck_secret = (\<lambda>ns n. fail (ApiErr ''timeout'')), ck_crd = (\<lambda>n. ret crd),
     ck_patch = (\<lambda>n a b. ret ()), ck_sleep = ret ()\<rparr>"
  have "UpdateforCRD K (\<lambda>k. k) ''backups.mysql.radondb.com'' () =
      ck_patch K ''backups.mysql.radondb.com'' crd (with_webhook crd ''MY_NAMESPACE'' None (cs_Name svc)) ()"
    using secret_error_wipes_bundle [of K "''MY_NAMESPACE''" "''CERT_NAME''" "()" "ApiErr ''timeout''" "()" "\<lambda>k. k"
        "''backups.mysql.radondb.com''" crd "()" cc "''cert''" svc]
    by (simp add: K_def fail_def ret_def crd_def cc_def client_config_def)
  then show ?thesis
    by (intro exI [of _ K] exI [of _ crd]) (simp add: svc_def crd_def client_config_def)
qed

end
