(* ===== verification/XenonChecker.thy ===== *)
theory XenonChecker
  imports InCluster
begin

text \<open>
  The checker of the xenon container (\<open>cmd/xenon/main.go\<close>): hooks of raft and of the kubelet.
  \<open>leaderStop\<close> hands the server over and kills it, \<open>readiness\<close> writes the role of the node into
  the label of its pod, \<open>postStart\<close> asks for a rebuild of a node whose transactions the leader
  does not have.
\<close>

section \<open>The node\<close>

definition ns_of :: "SideEnv \<Rightarrow> string" where "ns_of E = se_getenv E ''NAMESPACE''"
definition podName_of :: "SideEnv \<Rightarrow> string" where "podName_of E = se_getenv E ''POD_NAME''"

definition enableAutoRebuild :: "SideEnv \<Rightarrow> bool" where
  "enableAutoRebuild E \<longleftrightarrow> se_getenv E ''AUTO_REBUILD'' = ''true''"

definition myself :: "SideEnv \<Rightarrow> string \<Rightarrow> MySQLNode" where
  "myself E role = \<lparr>mn_PodName = podName_of E, mn_Namespace = ns_of E, mn_Role = role\<rparr>"

text \<open>\<open>runCommandLocal\<close> of a shell command: its output, or the error.\<close>

definition runCommandLocal :: "SideEnv \<Rightarrow> string \<Rightarrow> ('z Side_scheme, string) go" where
  "runCommandLocal E c = squery E (SvRun [''bash'', ''-c'', c]) (se_text E)"

definition localDSN :: string where
  "localDSN = ''root:@tcp(127.0.0.1:'' @ nat_str MysqlPort @ '')/?timeout=5s&multiStatements=true&interpolateParams=true''"

definition getLocalMySQLConn :: "SideEnv \<Rightarrow> ('z Side_scheme, unit) go" where
  "getLocalMySQLConn E = scall E (SvConnect localDSN)"

definition enableMyRaft :: "SideEnv \<Rightarrow> ('z Side_scheme, unit) go" where
  "enableMyRaft E = errorf ''failed to enable my raft: '' (bnd (runCommandLocal E ''xenoncli raft enable'') (\<lambda>_. ret ()))"

definition disableMyRaft :: "SideEnv \<Rightarrow> ('z Side_scheme, unit) go" where
  "disableMyRaft E = bnd (runCommandLocal E ''xenoncli raft disable'') (\<lambda>_. ret ())"

section \<open>Statements\<close>

definition exec_sql :: "SideEnv \<Rightarrow> string \<Rightarrow> ('z Side_scheme, unit) go" where
  "exec_sql E q = scall E (SvSql q)"

definition SetEventScheduler :: "SideEnv \<Rightarrow> bool \<Rightarrow> ('z Side_scheme, unit) go" where
  "SetEventScheduler E state = exec_sql E (if state then ''SET GLOBAL event_scheduler=1'' else ''SET GLOBAL event_scheduler=0'')"

definition SetReadOnly :: "SideEnv \<Rightarrow> bool \<Rightarrow> ('z Side_scheme, unit) go" where
  "SetReadOnly E state = exec_sql E (if state then ''SET GLOBAL read_only=1'' else ''SET GLOBAL read_only=0'')"

definition long_writes_query :: "nat \<Rightarrow> string" where
  "long_writes_query thresh = sprintf (go_lines
     [''select SUM(ct) from ( select count(*) as ct from information_schema.processlist  where command = ~aQuery~a and time >= %d and info not like ~aselect%%~a union all select count(*) as ct  FROM  INFORMATION_SCHEMA.INNODB_TRX trx WHERE trx.trx_started < CURRENT_TIMESTAMP - INTERVAL %d SECOND) A''])
     [nat_str thresh, nat_str thresh]"

definition CheckLongRunningWrites :: "SideEnv \<Rightarrow> nat \<Rightarrow> ('z Side_scheme, int) go" where
  "CheckLongRunningWrites E thresh = squery E (SvSql (long_writes_query thresh)) (se_code E)"

text \<open>The driver interpolates the parameter, a string.\<close>

definition kill_statement :: "string \<Rightarrow> string" where
  "kill_statement i = ''KILL '' @ [CHR 0x27] @ i @ [CHR 0x27]"

definition KillThread :: "SideEnv \<Rightarrow> string \<Rightarrow> ('z Side_scheme, unit) go" where
  "KillThread E i = exec_sql E (kill_statement i)"

text \<open>The rows are the answer to the query; a row that cannot be scanned is an error.\<close>

definition kill_query :: string where
  "kill_query = go_lines [''SELECT Id FROM information_schema.PROCESSLIST WHERE Command != ~aBinlog Dump GTID~a AND User not in (~aroot~a,~aradondb_repl~a) AND Id != CONNECTION_ID()'']"

definition kill_row :: "SideEnv \<Rightarrow> gerr + string \<Rightarrow> ('z Side_scheme, unit) go" where
  "kill_row E row = (case row of Inl e \<Rightarrow> fail (GErr (''failed to scan rows: '' @ err_text e)) | Inr i \<Rightarrow> KillThread E i)"

definition KillThreads :: "SideEnv \<Rightarrow> ('z Side_scheme, unit) go" where
  "KillThreads E = bnd (squery E (SvSql kill_query) (se_objects E)) (each (kill_row E))"

definition FlushTablesWithReadLock :: "SideEnv \<Rightarrow> ('z Side_scheme, unit) go" where
  "FlushTablesWithReadLock E = exec_sql E ''FLUSH NO_WRITE_TO_BINLOG TABLES WITH READ LOCK''"

definition UnlockTables :: "SideEnv \<Rightarrow> ('z Side_scheme, unit) go" where
  "UnlockTables E = exec_sql E ''UNLOCK TABLES''"

definition FlushBinaryLogs :: "SideEnv \<Rightarrow> ('z Side_scheme, unit) go" where
  "FlushBinaryLogs E = exec_sql E ''FLUSH  BINARY LOGS''"

definition isReadonly :: "SideEnv \<Rightarrow> ('z Side_scheme, bool) go" where
  "isReadonly E = bnd (attempt (squery E (SvSql ''SELECT @@read_only'') (se_code E))) (\<lambda>r. ret (case r of
     Inl e \<Rightarrow> False | Inr v \<Rightarrow> v = 1))"

definition getPidFile :: "SideEnv \<Rightarrow> ('z Side_scheme, string) go" where
  "getPidFile E = squery E (SvSql ''SELECT @@pid_file'') (se_text E)"

definition GetGTID :: "SideEnv \<Rightarrow> ('z Side_scheme, string) go" where
  "GetGTID E = squery E (SvSql ''SELECT @@gtid_executed'') (se_text E)"

text \<open>Whether the first set is a subset of the second, by the function of the server.\<close>

definition subset_query :: "string \<Rightarrow> string \<Rightarrow> string" where
  "subset_query leaderSet mySet = ''select gtid_subset('' @ [CHR 0x27] @ mySet @ [CHR 0x27] @ '','' @ [CHR 0x27] @ leaderSet @
     [CHR 0x27] @ '') as slave_is_subset''"

definition HaveErrantTransactions :: "SideEnv \<Rightarrow> string \<Rightarrow> string \<Rightarrow> ('z Side_scheme, bool) go" where
  "HaveErrantTransactions E leaderSet mySet =
     bnd (errorf ''failed to execute: '' (squery E (SvSql (subset_query leaderSet mySet)) (se_code E))) (\<lambda>v. ret (v = 1))"

section \<open>leaderStop\<close>

definition killMysqld :: "SideEnv \<Rightarrow> string \<Rightarrow> ('z Side_scheme, unit) go" where
  "killMysqld E pidfile = bnd (kube_or_panic E) (\<lambda>_.
     bnd (or_fatal (RunRemoteCommand E \<lparr>rr_Container = ''mysql'', rr_Namespace = ns_of E, rr_PodName = podName_of E\<rparr>
       [''kill -9 $(cat '' @ pidfile @ '')''])) (\<lambda>_. ret ()))"

text \<open>The steps of the goroutine before it reads the name of the pid file.\<close>

definition leader_steps :: "SideEnv \<Rightarrow> ('z Side_scheme, unit) go list" where
  "leader_steps E = [disableMyRaft E, SetEventScheduler E False, SetReadOnly E True,
     bnd (CheckLongRunningWrites E 4) (\<lambda>_. ret ()), KillThreads E, FlushTablesWithReadLock E, FlushBinaryLogs E, UnlockTables E]"

text \<open>
  The goroutine and the \<open>select\<close>: the first error of a step is what the \<open>select\<close> receives (the
  process then ends, so no later step counts); the timer of five seconds may fire before any
  step, in which case what is left of the goroutine races with the kill and is not modelled.
  The result says whether the timer fired first.
\<close>

fun until_timer :: "SideEnv \<Rightarrow> ('z Side_scheme, unit) go list \<Rightarrow> ('z Side_scheme, bool) go" where
  "until_timer E [] = ret False"
| "until_timer E (m # ms) = bnd (gets (\<lambda>s. se_late E (sd_trace s))) (\<lambda>late.
     if late then ret True else bnd m (\<lambda>_. until_timer E ms))"

definition leaderStop :: "SideEnv \<Rightarrow> ('z Side_scheme, unit) go" where
  "leaderStop E =
     bnd (errorf ''failed to get the connection of local MySQL: '' (getLocalMySQLConn E)) (\<lambda>_.
     bnd (isReadonly E) (\<lambda>readonly.
     if readonly then srec (SvExit 0)
     else bnd (until_timer E (leader_steps E)) (\<lambda>late.
       if late then killMysqld E MySQLPidFile
       else bnd (getPidFile E) (\<lambda>pidfile. bnd (ignore (enableMyRaft E)) (\<lambda>_. killMysqld E pidfile)))))"

section \<open>Probes\<close>

definition leaderStart :: "('z Side_scheme, unit) go" where
  "leaderStart = ret ()"

definition liveness :: "SideEnv \<Rightarrow> ('z Side_scheme, unit) go" where
  "liveness E = XenonPingMyself E"

definition readiness :: "json_parser \<Rightarrow> SideEnv \<Rightarrow> ('z Side_scheme, unit) go" where
  "readiness P E = bnd (GetRole P E) (\<lambda>role. if role \<noteq> Leader then PatchRoleLabelTo E (myself E role) else ret ())"

definition preStop :: "SideEnv \<Rightarrow> ('z Side_scheme, unit) go" where
  "preStop E = leaderStop E"

section \<open>Waiting\<close>

text \<open>
  \<open>wait.PollImmediate(2 * time.Second, timeout, f)\<close>: one attempt at once and one per tick, so at
  most \<open>timeout / 2 + 1\<close> of them.
\<close>

definition attempts :: "nat \<Rightarrow> nat" where
  "attempts timeout = timeout div 2 + 1"

definition succeeds :: "('z Side_scheme, 'a) go \<Rightarrow> ('z Side_scheme, bool) go" where
  "succeeds m = bnd (attempt m) (\<lambda>r. ret (case r of Inl e \<Rightarrow> False | Inr _ \<Rightarrow> True))"

definition WaitXenonAvailable :: "SideEnv \<Rightarrow> nat \<Rightarrow> ('z Side_scheme, unit) go" where
  "WaitXenonAvailable E timeout = errorf ''failed to start xenon: '' (poll (attempts timeout) (succeeds (XenonPingMyself E)))"

definition WaitMySQLAvailable :: "SideEnv \<Rightarrow> nat \<Rightarrow> ('z Side_scheme, unit) go" where
  "WaitMySQLAvailable E timeout = poll (attempts timeout) (succeeds (getLocalMySQLConn E))"

section \<open>GTID sets\<close>

record GTID =
  gt_ID :: string
  gt_Raft :: string
  gt_Mysql :: string
  gt_Executed :: string
  gt_Retrieved :: string

definition unmarshal_gtid :: "json \<Rightarrow> GTID res" where
  "unmarshal_gtid j = bind_res (object_of (Some j)) (\<lambda>obj. bind_res (string_field obj ''id'') (\<lambda>i.
     bind_res (string_field obj ''raft'') (\<lambda>r. bind_res (string_field obj ''mysql'') (\<lambda>m.
     bind_res (string_field obj ''executed-gtid-set'') (\<lambda>ex. bind_res (string_field obj ''retrieved-gtid-set'') (\<lambda>re.
     Ok \<lparr>gt_ID = i, gt_Raft = r, gt_Mysql = m, gt_Executed = ex, gt_Retrieved = re\<rparr>))))))"

text \<open>A null element is a nil pointer.\<close>

fun gtid_elems :: "json list \<Rightarrow> GTID option list res" where
  "gtid_elems [] = Ok []"
| "gtid_elems (j # js) = bind_res (case j of JNull \<Rightarrow> Ok None | _ \<Rightarrow> bind_res (unmarshal_gtid j) (\<lambda>g. Ok (Some g)))
     (\<lambda>g. bind_res (gtid_elems js) (\<lambda>gs. Ok (g # gs)))"

definition unmarshal_gtids :: "json option \<Rightarrow> GTID option list res" where
  "unmarshal_gtids j = bind_res (object_of j) (\<lambda>obj. case obj ''gtid'' of
     None \<Rightarrow> Ok [] | Some JNull \<Rightarrow> Ok [] | Some (JArr js) \<Rightarrow> gtid_elems js | Some _ \<Rightarrow> Fail (GErr ''json: cannot unmarshal''))"

definition GetGTIDList :: "json_parser \<Rightarrow> SideEnv \<Rightarrow> ('z Side_scheme, GTID option list) go" where
  "GetGTIDList P E = bnd (or_fatal (runCommandLocal E ''xenoncli cluster gtid json'')) (\<lambda>out.
     or_fatal (lift (unmarshal_gtids (P out))))"

fun getLeader_in :: "GTID option list \<Rightarrow> string res" where
  "getLeader_in [] = Ok []"
| "getLeader_in (None # gs) = Panic ''nil pointer dereference''"
| "getLeader_in (Some g # gs) = (if gt_Raft g = Leader then Ok (gt_ID g) else getLeader_in gs)"

definition getLeader :: "json_parser \<Rightarrow> SideEnv \<Rightarrow> ('z Side_scheme, string) go" where
  "getLeader P E = bnd (GetGTIDList P E) (\<lambda>gs. lift (getLeader_in gs))"

definition WaitForNewLeader :: "json_parser \<Rightarrow> SideEnv \<Rightarrow> nat \<Rightarrow> ('z Side_scheme, unit) go" where
  "WaitForNewLeader P E timeout = errorf ''failed to wait for new leader: ''
     (poll (attempts timeout) (bnd (getLeader P E) (\<lambda>leader. ret (leader \<noteq> []))))"

definition DoFailOver :: "SideEnv \<Rightarrow> ('z Side_scheme, unit) go" where
  "DoFailOver E = bnd (attempt (disableMyRaft E)) (\<lambda>r. bnd (ignore (enableMyRaft E)) (\<lambda>_.
     case r of Inl e \<Rightarrow> fail e | Inr _ \<Rightarrow> ret ()))"

section \<open>postStart\<close>

definition patchPodLabel :: "SideEnv \<Rightarrow> MySQLNode \<Rightarrow> string \<Rightarrow> ('z Side_scheme, unit) go" where
  "patchPodLabel E n patch = bnd (errorf ''failed to create clientset: '' (GetClientSet E)) (\<lambda>_.
     scall E (SvPatchPod (mn_Namespace n) (mn_PodName n) patch))"

definition rebuild_patch :: string where
  "rebuild_patch = go_lines [''{~qmetadata~q:{~qlabels~q:{~qrebuild~q:~qtrue~q}}}'']"

definition PatchRebuildLabelTo :: "SideEnv \<Rightarrow> MySQLNode \<Rightarrow> ('z Side_scheme, unit) go" where
  "PatchRebuildLabelTo E n = errorf ''failed to patch pod rebuild label: '' (patchPodLabel E n rebuild_patch)"

text \<open>What the loop over the nodes collects.\<close>

record Survey =
  sy_mySet :: string
  sy_leaderSet :: string
  sy_alive :: nat

definition known_role :: "GTID \<Rightarrow> bool" where
  "known_role g \<longleftrightarrow> gt_Raft g \<noteq> Unknown \<and> gt_Raft g \<noteq> []"

definition is_mine :: "string \<Rightarrow> GTID \<Rightarrow> bool" where
  "is_mine pod g \<longleftrightarrow> split_on (CHR ''.'') (gt_ID g) ! 0 = pod"

text \<open>\<open>Ok None\<close>: this node is the leader, the hook returns at once.\<close>

fun survey :: "string \<Rightarrow> GTID option list \<Rightarrow> Survey \<Rightarrow> Survey option res" where
  "survey pod [] acc = Ok (Some acc)"
| "survey pod (None # gs) acc = Panic ''nil pointer dereference''"
| "survey pod (Some g # gs) acc =
     (if \<not> known_role g then survey pod gs acc
      else if is_mine pod g \<and> gt_Raft g = Leader then Ok None
      else survey pod gs (acc\<lparr>
        sy_mySet := (if is_mine pod g then gt_Executed g else sy_mySet acc),
        sy_leaderSet := (if gt_Raft g = Leader then gt_Executed g else sy_leaderSet acc),
        sy_alive := Suc (sy_alive acc)\<rparr>))"

definition postStart :: "json_parser \<Rightarrow> SideEnv \<Rightarrow> ('z Side_scheme, unit) go" where
  "postStart P E =
     (if \<not> enableAutoRebuild E then ret ()
      else bnd (errorf ''failed to wait for mysql: '' (WaitMySQLAvailable E 30)) (\<lambda>_.
       bnd (errorf ''xenon is not available: '' (WaitXenonAvailable E 60)) (\<lambda>_.
       bnd (GetGTIDList P E) (\<lambda>gtidList.
       bnd (lift (survey (podName_of E) gtidList \<lparr>sy_mySet = [], sy_leaderSet = [], sy_alive = 0\<rparr>)) (\<lambda>sv. case sv of
           None \<Rightarrow> ret ()
         | Some v \<Rightarrow> if sy_alive v < 3 \<or> sy_leaderSet v = [] then ret ()
             else bnd (errorf ''failed to get the connection of local MySQL: '' (getLocalMySQLConn E)) (\<lambda>_.
               bnd (HaveErrantTransactions E (sy_leaderSet v) (sy_mySet v)) (\<lambda>isSubset.
               if \<not> isSubset then PatchRebuildLabelTo E (myself E []) else ret ())))))))"

section \<open>main\<close>

definition usage :: string where
  "usage = ''Usage: leaderStart|leaderStop|liveness|readiness|postStart|preStop''"

text \<open>The hook named by the argument; its error is fatal.\<close>

definition xenonchecker :: "json_parser \<Rightarrow> SideEnv \<Rightarrow> string list \<Rightarrow> ('z Side_scheme, unit) go" where
  "xenonchecker P E args = (case args of
       [] \<Rightarrow> fatal usage
     | hook # _ \<Rightarrow>
         if hook = ''leaderStart'' then or_fatal leaderStart
         else if hook = ''leaderStop'' then or_fatal (leaderStop E)
         else if hook = ''liveness'' then or_fatal (liveness E)
         else if hook = ''readiness'' then or_fatal (readiness P E)
         else if hook = ''postStart'' then or_fatal (postStart P E)
         else if hook = ''preStop'' then or_fatal (preStop E)
         else fatal usage)"

section \<open>Waiting ends\<close>

lemma succeeds_run:
  "succeeds (scall E e) s = (Ok (se_err E (sd_trace s @ [e]) = None), s\<lparr>sd_trace := sd_trace s @ [e]\<rparr>)"
  by (simp add: succeeds_def bnd_def attempt_def scall_run ret_def split: option.split)

lemma poll_succeeds:
  "\<exists>k \<le> n. sd_trace (snd (poll n (succeeds (scall E e)) s)) = sd_trace s @ replicate k e \<and>
     (if fst (poll n (succeeds (scall E e)) s) = Ok () then 0 < k \<and> se_err E (sd_trace s @ replicate k e) = None
      else k = n \<and> fst (poll n (succeeds (scall E e)) s) = Fail WaitTimeout \<and>
        (\<forall>j. 0 < j \<and> j \<le> n \<longrightarrow> se_err E (sd_trace s @ replicate j e) \<noteq> None))"
proof (induction n arbitrary: s)
  case 0
  show ?case by (auto simp: fail_def)
next
  case (Suc n)
  define u where "u = s\<lparr>sd_trace := sd_trace s @ [e]\<rparr>"
  show ?case
  proof (cases "se_err E (sd_trace s @ [e])")
    case None
    then have "poll (Suc n) (succeeds (scall E e)) s = (Ok (), u)"
      by (simp add: bnd_def succeeds_run ret_def u_def)
    with None show ?thesis by (intro exI [of _ "Suc 0"]) (simp add: u_def)
  next
    case (Some er)
    then have run: "poll (Suc n) (succeeds (scall E e)) s = poll n (succeeds (scall E e)) u"
      by (simp add: bnd_def succeeds_run u_def)
    have shift: "sd_trace u @ replicate j e = sd_trace s @ replicate (Suc j) e" for j by (simp add: u_def)
    from Suc.IH [of u] obtain k where k: "k \<le> n" "sd_trace (snd (poll n (succeeds (scall E e)) u)) = sd_trace s @ replicate (Suc k) e"
      and res: "if fst (poll n (succeeds (scall E e)) u) = Ok () then 0 < k \<and> se_err E (sd_trace s @ replicate (Suc k) e) = None
        else k = n \<and> fst (poll n (succeeds (scall E e)) u) = Fail WaitTimeout \<and>
          (\<forall>j. 0 < j \<and> j \<le> n \<longrightarrow> se_err E (sd_trace s @ replicate (Suc j) e) \<noteq> None)"
      unfolding shift by blast
    have all: "\<forall>j. 0 < j \<and> j \<le> Suc n \<longrightarrow> se_err E (sd_trace s @ replicate j e) \<noteq> None"
      if "\<forall>j. 0 < j \<and> j \<le> n \<longrightarrow> se_err E (sd_trace s @ replicate (Suc j) e) \<noteq> None"
    proof (intro allI impI)
      fix j assume "0 < j \<and> j \<le> Suc n"
      with that Some show "se_err E (sd_trace s @ replicate j e) \<noteq> None" by (cases j; cases "j = 1") auto
    qed
    show ?thesis unfolding run
      by (intro exI [of _ "Suc k"]) (use k res all in \<open>auto split: if_splits\<close>)
  qed
qed



section \<open>The hand-over of a leader\<close>

text \<open>
  \<open>leaves m S\<close>: when \<open>m\<close> ends without an error, the calls it made are one of the sequences of \<open>S\<close>.
\<close>

named_theorems leaves_intros "the calls of a run without error"

definition leaves :: "('z Side_scheme, 'a) go \<Rightarrow> side_event list set \<Rightarrow> bool" where
  "leaves m S \<longleftrightarrow> (\<forall>s x t. m s = (Ok x, t) \<longrightarrow> (\<exists>es \<in> S. sd_trace t = sd_trace s @ es))"

definition then_calls :: "'e list set \<Rightarrow> 'e list set \<Rightarrow> 'e list set" where
  "then_calls S T = {a @ b | a b. a \<in> S \<and> b \<in> T}"

lemma leaves_scall [leaves_intros]: "leaves (scall E e) {[e]}"
  by (auto simp: leaves_def scall_run split: option.splits)

lemma leaves_squery [leaves_intros]: "leaves (squery E e f) {[e]}"
  by (auto simp: leaves_def squery_run split: option.splits)

lemma leaves_srec [leaves_intros]: "leaves (srec e) {[e]}"
  by (auto simp: leaves_def srec_run)

lemma leaves_ret [leaves_intros]: "leaves (ret x) {[]}"
  by (auto simp: leaves_def ret_def)

lemma leaves_bnd [leaves_intros]:
  "leaves m S \<Longrightarrow> (\<And>x. leaves (f x) T) \<Longrightarrow> leaves (bnd m f) (then_calls S T)"
  unfolding leaves_def then_calls_def by (fastforce simp: bnd_eq_Ok)

lemma leaves_if [leaves_intros]:
  "leaves m S \<Longrightarrow> leaves n T \<Longrightarrow> leaves (if b then m else n) (S \<union> T)"
  unfolding leaves_def by (cases b) (simp_all, blast+)

lemma leaves_errorf [leaves_intros]: "leaves m S \<Longrightarrow> leaves (errorf msg m) S"
  unfolding leaves_def errorf_def handle_def fail_def by (fastforce split: prod.splits res.splits)

lemma leaves_or_fatal [leaves_intros]: "leaves m S \<Longrightarrow> leaves (or_fatal m) S"
  unfolding leaves_def or_fatal_def handle_def fatal_def bnd_def srec_run panic_def
  by (fastforce split: prod.splits res.splits)

lemma leaves_attempt_one [leaves_intros]:
  "leaves (attempt (scall E e)) {[e]}" "leaves (attempt (squery E e f)) {[e]}"
  by (auto simp: leaves_def attempt_def scall_run squery_run split: option.splits)

lemma leaves_weaken: "leaves m S \<Longrightarrow> S \<subseteq> T \<Longrightarrow> leaves m T"
  by (fastforce simp: leaves_def)

lemma leaves_kills: "leaves (each (kill_row E) rows) {map (\<lambda>i. SvSql (kill_statement i)) ids | ids. True}"
proof (induction rows)
  case Nil
  have "leaves (each (kill_row E) []) {[]}" unfolding each.simps by (intro leaves_intros)
  then show ?case by (rule leaves_weaken) auto
next
  case (Cons row rows)
  have "leaves (kill_row E row) {[SvSql (kill_statement i)] | i. True}"
    by (cases row) (auto simp: kill_row_def leaves_def fail_def KillThread_def exec_sql_def scall_run split: option.splits)
  from leaves_bnd [OF this Cons.IH] show ?case
    unfolding each.simps by (rule leaves_weaken) (auto simp: then_calls_def intro: exI [of _ "_ # _"])
qed

lemma leaves_enable: "leaves (ignore (enableMyRaft E)) {[SvRun [''bash'', ''-c'', ''xenoncli raft enable'']]}"
  by (auto simp: leaves_def ignore_def enableMyRaft_def runCommandLocal_def errorf_def handle_def attempt_def bnd_def squery_run ret_def
      fail_def split: option.splits)

lemma leaves_readonly: "leaves (isReadonly E) {[SvSql ''SELECT @@read_only'']}"
  by (auto simp: leaves_def isReadonly_def attempt_def bnd_def squery_run ret_def split: option.splits)

lemma leaves_panic [leaves_intros]: "leaves (handle (scall E e) (\<lambda>er. panic (f er))) {[e]}"
  by (auto simp: leaves_def handle_def scall_run panic_def split: option.splits)

lemma leaves_until:
  assumes "\<And>tr. \<not> se_late E tr"
  shows "leaves (until_timer E []) {[]}"
    and "leaves m S \<Longrightarrow> leaves (until_timer E ms) T \<Longrightarrow> leaves (until_timer E (m # ms)) (then_calls S T)"
proof -
  show "leaves (until_timer E []) {[]}" by (simp add: leaves_ret)
  have "until_timer E (m # ms) = bnd m (\<lambda>_. until_timer E ms)"
    using assms by (intro ext) (simp add: bnd_def gets_def)
  then show "leaves m S \<Longrightarrow> leaves (until_timer E ms) T \<Longrightarrow> leaves (until_timer E (m # ms)) (then_calls S T)"
    by (simp add: leaves_bnd)
qed

lemma until_timer_late:
  "(\<And>tr. \<not> se_late E tr) \<Longrightarrow> until_timer E ms s = (Ok late, t) \<Longrightarrow> \<not> late"
proof (induction ms arbitrary: s)
  case (Cons m ms)
  then show ?case by (auto simp: bnd_eq_Ok gets_def)
qed (simp add: ret_def)

text \<open>The calls of the goroutine up to the unlock.\<close>

definition handover_calls :: "string list \<Rightarrow> side_event list" where
  "handover_calls ids = [SvRun [''bash'', ''-c'', ''xenoncli raft disable''], SvSql ''SET GLOBAL event_scheduler=0'',
     SvSql ''SET GLOBAL read_only=1'', SvSql (long_writes_query 4), SvSql kill_query] @
     map (\<lambda>i. SvSql (kill_statement i)) ids @
     [SvSql ''FLUSH NO_WRITE_TO_BINLOG TABLES WITH READ LOCK'', SvSql ''FLUSH  BINARY LOGS'', SvSql ''UNLOCK TABLES'']"

lemma leaves_steps:
  assumes "\<And>tr. \<not> se_late E tr"
  shows "leaves (until_timer E (leader_steps E)) {handover_calls ids | ids. True}"
proof -
  have d: "leaves (disableMyRaft E) (then_calls {[SvRun [''bash'', ''-c'', ''xenoncli raft disable'']]} {[]})"
    unfolding disableMyRaft_def runCommandLocal_def by (intro leaves_intros)
  have w: "leaves (bnd (CheckLongRunningWrites E 4) (\<lambda>_. ret ())) (then_calls {[SvSql (long_writes_query 4)]} {[]})"
    unfolding CheckLongRunningWrites_def by (intro leaves_intros)
  have k: "leaves (KillThreads E) (then_calls {[SvSql kill_query]} {map (\<lambda>i. SvSql (kill_statement i)) ids | ids. True})"
    unfolding KillThreads_def by (intro leaves_intros leaves_kills)
  have e: "leaves (SetEventScheduler E False) {[SvSql ''SET GLOBAL event_scheduler=0'']}"
    "leaves (SetReadOnly E True) {[SvSql ''SET GLOBAL read_only=1'']}"
    "leaves (FlushTablesWithReadLock E) {[SvSql ''FLUSH NO_WRITE_TO_BINLOG TABLES WITH READ LOCK'']}"
    "leaves (FlushBinaryLogs E) {[SvSql ''FLUSH  BINARY LOGS'']}" "leaves (UnlockTables E) {[SvSql ''UNLOCK TABLES'']}"
    unfolding SetEventScheduler_def SetReadOnly_def FlushTablesWithReadLock_def FlushBinaryLogs_def UnlockTables_def exec_sql_def
      if_True if_False by (intro leaves_intros)+
  note u = leaves_until [OF assms]
  have "leaves (until_timer E (leader_steps E))
      (then_calls (then_calls {[SvRun [''bash'', ''-c'', ''xenoncli raft disable'']]} {[]})
      (then_calls {[SvSql ''SET GLOBAL event_scheduler=0'']} (then_calls {[SvSql ''SET GLOBAL read_only=1'']}
      (then_calls (then_calls {[SvSql (long_writes_query 4)]} {[]})
      (then_calls (then_calls {[SvSql kill_query]} {map (\<lambda>i. SvSql (kill_statement i)) ids | ids. True})
      (then_calls {[SvSql ''FLUSH NO_WRITE_TO_BINLOG TABLES WITH READ LOCK'']}
      (then_calls {[SvSql ''FLUSH  BINARY LOGS'']} (then_calls {[SvSql ''UNLOCK TABLES'']} {[]}))))))))"
    unfolding leader_steps_def by (intro u d w k e)
  then show ?thesis
    by (rule leaves_weaken) (auto simp: then_calls_def handover_calls_def)
qed

lemma leaves_kill:
  "leaves (killMysqld E p) {[SvClientset, SvRemote ''mysql'' (podName_of E) (''kill -9 $(cat '' @ pid @ '')'')] | pid. True}"
proof -
  have "leaves (killMysqld E p) (then_calls {[SvClientset]} (then_calls
      {[SvRemote ''mysql'' (podName_of E) (join_with '' '' [''kill -9 $(cat '' @ p @ '')''])]} {[]}))"
    unfolding killMysqld_def kube_or_panic_def RunRemoteCommand_def
    by (intro leaves_intros; (simp; rule leaves_squery)?)
  then show ?thesis by (rule leaves_weaken) (auto simp: then_calls_def)
qed

text \<open>
  C6. What a hand-over does. When the hook ends without an error and its timer did not fire
  early, the server was read-only (then it left at once), or its calls are, in this order:
  raft off, the event scheduler off, read-only on, the count of long writes, the kill of
  every other connection, tables flushed and locked, binary logs flushed, unlock, the name
  of the pid file, raft on again, and at last the kill of the server. Nothing is killed
  before the server is read-only.
\<close>

theorem leaderStop_handover:
  assumes "leaderStop E s = (Ok (), t)" "\<And>tr. \<not> se_late E tr"
  shows "sd_trace t = sd_trace s @ [SvConnect localDSN, SvSql ''SELECT @@read_only'', SvExit 0] \<or>
    (\<exists>ids pid. sd_trace t = sd_trace s @
       [SvConnect localDSN, SvSql ''SELECT @@read_only'', SvRun [''bash'', ''-c'', ''xenoncli raft disable''],
        SvSql ''SET GLOBAL event_scheduler=0'', SvSql ''SET GLOBAL read_only=1'', SvSql (long_writes_query 4), SvSql kill_query] @
       map (\<lambda>i. SvSql (kill_statement i)) ids @
       [SvSql ''FLUSH NO_WRITE_TO_BINLOG TABLES WITH READ LOCK'', SvSql ''FLUSH  BINARY LOGS'', SvSql ''UNLOCK TABLES'',
        SvSql ''SELECT @@pid_file'', SvRun [''bash'', ''-c'', ''xenoncli raft enable''], SvClientset,
        SvRemote ''mysql'' (podName_of E) (''kill -9 $(cat '' @ pid @ '')'')])"
proof -
  from assms(1) obtain s1 b where s1: "isReadonly E (s\<lparr>sd_trace := sd_trace s @ [SvConnect localDSN]\<rparr>) = (Ok b, s1)"
    and rest: "(if b then srec (SvExit 0) else bnd (until_timer E (leader_steps E)) (\<lambda>late.
       if late then killMysqld E MySQLPidFile
       else bnd (getPidFile E) (\<lambda>pidfile. bnd (ignore (enableMyRaft E)) (\<lambda>_. killMysqld E pidfile)))) s1 = (Ok (), t)"
    unfolding leaderStop_def bnd_eq_Ok [of "errorf _ _"] errorf_Ok getLocalMySQLConn_def scall_Ok
    by (auto simp: bnd_eq_Ok [of "isReadonly E"])
  have t1: "sd_trace s1 = sd_trace s @ [SvConnect localDSN, SvSql ''SELECT @@read_only'']"
    using s1 leaves_readonly [of E] unfolding leaves_def by fastforce
  show ?thesis
  proof (cases b)
    case True
    with rest have "sd_trace t = sd_trace s1 @ [SvExit 0]" by (auto simp: srec_run)
    with t1 show ?thesis by simp
  next
    case False
    with rest obtain late u where steps: "until_timer E (leader_steps E) s1 = (Ok late, u)"
      and tail: "(if late then killMysqld E MySQLPidFile
       else bnd (getPidFile E) (\<lambda>pidfile. bnd (ignore (enableMyRaft E)) (\<lambda>_. killMysqld E pidfile))) u = (Ok (), t)"
      by (auto simp: bnd_eq_Ok [of "until_timer _ _"])
    have "\<not> late" by (rule until_timer_late [OF assms(2) steps])
    obtain ids where u: "sd_trace u = sd_trace s1 @ handover_calls ids"
      using leaves_steps [OF assms(2)] steps unfolding leaves_def by fastforce
    have "leaves (bnd (getPidFile E) (\<lambda>pidfile. bnd (ignore (enableMyRaft E)) (\<lambda>_. killMysqld E pidfile)))
        (then_calls {[SvSql ''SELECT @@pid_file'']} (then_calls {[SvRun [''bash'', ''-c'', ''xenoncli raft enable'']]}
          {[SvClientset, SvRemote ''mysql'' (podName_of E) (''kill -9 $(cat '' @ pid @ '')'')] | pid. True}))"
      unfolding getPidFile_def by (intro leaves_intros leaves_enable leaves_kill)
    with tail \<open>\<not> late\<close> obtain pid where "sd_trace t = sd_trace u @ [SvSql ''SELECT @@pid_file'',
        SvRun [''bash'', ''-c'', ''xenoncli raft enable''], SvClientset, SvRemote ''mysql'' (podName_of E) (''kill -9 $(cat '' @ pid @ '')'')]"
      unfolding leaves_def then_calls_def by fastforce
    with u t1 show ?thesis by (auto simp: handover_calls_def)
  qed
qed

theorem leaderStop_handover_witness:
  "\<exists>(t :: Side) ids pid. leaderStop calm_machine \<lparr>sd_trace = []\<rparr> = (Ok (), t) \<and>
     sd_trace t = [SvConnect localDSN, SvSql ''SELECT @@read_only''] @ handover_calls ids @
       [SvSql ''SELECT @@pid_file'', SvRun [''bash'', ''-c'', ''xenoncli raft enable''], SvClientset,
        SvRemote ''mysql'' (podName_of calm_machine) (''kill -9 $(cat '' @ pid @ '')'')]"
proof -
  have calm: "se_err calm_machine tr = None" "se_late calm_machine tr = False" "se_code calm_machine tr = 200"
    "se_objects calm_machine tr = []" for tr by (simp_all add: calm_machine_def)
  define run where "run = leaderStop calm_machine \<lparr>sd_trace = []\<rparr>"
  have ok: "fst run = Ok () \<and> 3 < length (sd_trace (snd run))"
    unfolding run_def leaderStop_def getLocalMySQLConn_def isReadonly_def leader_steps_def disableMyRaft_def runCommandLocal_def
      SetEventScheduler_def SetReadOnly_def exec_sql_def CheckLongRunningWrites_def KillThreads_def FlushTablesWithReadLock_def
      FlushBinaryLogs_def UnlockTables_def getPidFile_def enableMyRaft_def killMysqld_def kube_or_panic_def RunRemoteCommand_def
    by (simp add: bnd_def errorf_def handle_def scall_run squery_run calm attempt_def ret_def gets_def ignore_def or_fatal_def)
  have eq: "leaderStop calm_machine \<lparr>sd_trace = []\<rparr> = (Ok (), snd run)" using ok by (metis prod.collapse run_def)
  from leaderStop_handover [OF eq] calm(2) have
    "sd_trace (snd run) = [] @ [SvConnect localDSN, SvSql ''SELECT @@read_only'', SvExit 0] \<or>
     (\<exists>ids pid. sd_trace (snd run) = [] @ [SvConnect localDSN, SvSql ''SELECT @@read_only''] @ handover_calls ids @
       [SvSql ''SELECT @@pid_file'', SvRun [''bash'', ''-c'', ''xenoncli raft enable''], SvClientset,
        SvRemote ''mysql'' (podName_of calm_machine) (''kill -9 $(cat '' @ pid @ '')'')])"
    by (simp add: handover_calls_def)
  moreover have "sd_trace (snd run) \<noteq> [] @ [SvConnect localDSN, SvSql ''SELECT @@read_only'', SvExit 0]" using ok by auto
  ultimately obtain ids pid where "sd_trace (snd run) = [] @ [SvConnect localDSN, SvSql ''SELECT @@read_only''] @ handover_calls ids @
       [SvSql ''SELECT @@pid_file'', SvRun [''bash'', ''-c'', ''xenoncli raft enable''], SvClientset,
        SvRemote ''mysql'' (podName_of calm_machine) (''kill -9 $(cat '' @ pid @ '')'')]" by blast
  with eq show ?thesis
    by - (rule exI [of _ "snd run"], rule exI [of _ ids], rule exI [of _ pid], simp)
qed

section \<open>The decision to rebuild\<close>

text \<open>What the survey found: every element was a node, none of this pod's was the leader.\<close>

lemma survey_found:
  "survey pod gs acc = Ok (Some v) \<Longrightarrow> \<exists>hs. gs = map Some hs \<and>
     sy_alive v = sy_alive acc + length (filter known_role hs) \<and>
     (\<forall>g \<in> set hs. known_role g \<and> is_mine pod g \<longrightarrow> gt_Raft g \<noteq> Leader) \<and>
     (sy_leaderSet v = sy_leaderSet acc \<or> (\<exists>l \<in> set hs. gt_Raft l = Leader \<and> gt_Executed l = sy_leaderSet v))"
proof (induction pod gs acc rule: survey.induct)
  case (1 pod acc)
  then show ?case by (intro exI [of _ "[]"]) simp
next
  case (3 pod g gs acc)
  show ?case
  proof (cases "known_role g")
    case False
    with 3 obtain hs where "gs = map Some hs" "sy_alive v = sy_alive acc + length (filter known_role hs)"
      "\<forall>g \<in> set hs. known_role g \<and> is_mine pod g \<longrightarrow> gt_Raft g \<noteq> Leader"
      "sy_leaderSet v = sy_leaderSet acc \<or> (\<exists>l \<in> set hs. gt_Raft l = Leader \<and> gt_Executed l = sy_leaderSet v)" by auto
    with False show ?thesis by (intro exI [of _ "g # hs"]) auto
  next
    case True
    with 3(3) have nl: "\<not> (is_mine pod g \<and> gt_Raft g = Leader)" by auto
    with 3(2) [OF _ nl] 3(3) True obtain hs where "gs = map Some hs"
      "sy_alive v = Suc (sy_alive acc) + length (filter known_role hs)"
      "\<forall>g \<in> set hs. known_role g \<and> is_mine pod g \<longrightarrow> gt_Raft g \<noteq> Leader"
      "sy_leaderSet v = (if gt_Raft g = Leader then gt_Executed g else sy_leaderSet acc) \<or>
       (\<exists>l \<in> set hs. gt_Raft l = Leader \<and> gt_Executed l = sy_leaderSet v)" by auto
    with True nl show ?thesis by (intro exI [of _ "g # hs"]) (auto split: if_splits)
  qed
qed simp

lemma gives_lift: "gives (lift r) (\<lambda>x. r = Ok x)"
  by (simp add: gives_def lift_def)

lemma gives_gtids: "gives (GetGTIDList P E) (\<lambda>gs. \<exists>out. unmarshal_gtids (P out) = Ok gs)"
  unfolding GetGTIDList_def
  by (rule gives_bnd [OF gives_any])
     (auto simp: gives_def or_fatal_def handle_def lift_def fatal_def bnd_def srec_run panic_def split: res.splits)

lemma gives_subset:
  "gives (HaveErrantTransactions E l m) (\<lambda>b. \<exists>tr. b = (se_code E (tr @ [SvSql (subset_query l m)]) = 1))"
  by (auto simp: gives_def HaveErrantTransactions_def errorf_def handle_def bnd_def squery_run ret_def fail_def split: option.splits)

text \<open>The evidence for a rebuild, and the calls that need it.\<close>

definition diverged :: "(string \<Rightarrow> json option) \<Rightarrow> SideEnv \<Rightarrow> bool" where
  "diverged P E \<longleftrightarrow> enableAutoRebuild E \<and> (\<exists>out hs l my tr. unmarshal_gtids (P out) = Ok (map Some hs) \<and>
     3 \<le> length (filter known_role hs) \<and> (\<forall>g \<in> set hs. is_mine (podName_of E) g \<longrightarrow> gt_Raft g \<noteq> Leader) \<and>
     l \<in> set hs \<and> gt_Raft l = Leader \<and> gt_Executed l \<noteq> [] \<and> se_code E (tr @ [SvSql (subset_query (gt_Executed l) my)]) \<noteq> 1)"

definition hook_call :: "(string \<Rightarrow> json option) \<Rightarrow> SideEnv \<Rightarrow> side_event \<Rightarrow> bool" where
  "hook_call P E e \<longleftrightarrow> (e = SvPatchPod (ns_of E) (podName_of E) rebuild_patch \<longrightarrow> diverged P E)"

lemma hook_calls:
  "hook_call P E (SvConnect d)" "hook_call P E (SvRun c)" "hook_call P E (SvSql q)" "hook_call P E (SvExit n)" "hook_call P E SvClientset"
  by (simp_all add: hook_call_def)

abbreviation (input) no_survey :: Survey where
  "no_survey \<equiv> \<lparr>sy_mySet = [], sy_leaderSet = [], sy_alive = 0\<rparr>"

lemma survey_diverged:
  assumes "enableAutoRebuild E" "unmarshal_gtids (P out) = Ok gs" "survey (podName_of E) gs no_survey = Ok (Some v)"
    and "\<not> (sy_alive v < 3 \<or> sy_leaderSet v = [])" "se_code E (tr @ [SvSql (subset_query (sy_leaderSet v) (sy_mySet v))]) \<noteq> 1"
  shows "diverged P E"
proof -
  have known: "gt_Raft g = Leader \<Longrightarrow> known_role g" for g by (simp add: known_role_def role_defs)
  from survey_found [OF assms(3)] obtain hs where hs: "gs = map Some hs" "sy_alive v = length (filter known_role hs)"
    "\<forall>g \<in> set hs. known_role g \<and> is_mine (podName_of E) g \<longrightarrow> gt_Raft g \<noteq> Leader"
    "sy_leaderSet v = [] \<or> (\<exists>l \<in> set hs. gt_Raft l = Leader \<and> gt_Executed l = sy_leaderSet v)" by auto
  with assms(4) obtain l where l: "l \<in> set hs" "gt_Raft l = Leader" "gt_Executed l = sy_leaderSet v" by auto
  have "\<forall>g \<in> set hs. is_mine (podName_of E) g \<longrightarrow> gt_Raft g \<noteq> Leader" using hs(3) known by blast
  moreover have "3 \<le> length (filter known_role hs)" "gt_Executed l \<noteq> []" using assms(4) hs(2) l(3) by auto
  moreover have "se_code E (tr @ [SvSql (subset_query (gt_Executed l) (sy_mySet v))]) \<noteq> 1" using assms(5) l(3) by simp
  ultimately show ?thesis unfolding diverged_def using assms(1,2) hs(1) l(1,2) by blast
qed

lemma rebuild_calls: "diverged P E \<Longrightarrow> emits sd_trace (hook_call P E) (PatchRebuildLabelTo E (myself E []))"
  unfolding PatchRebuildLabelTo_def patchPodLabel_def GetClientSet_def by (intro emits_intros) (simp_all add: hook_call_def)

lemma decide_calls:
  assumes "enableAutoRebuild E" "\<exists>out. unmarshal_gtids (P out) = Ok gs" "survey (podName_of E) gs no_survey = Ok sv"
  shows "emits sd_trace (hook_call P E) (case sv of None \<Rightarrow> ret () | Some v \<Rightarrow> if sy_alive v < 3 \<or> sy_leaderSet v = [] then ret ()
     else bnd (errorf ''failed to get the connection of local MySQL: '' (getLocalMySQLConn E)) (\<lambda>_.
       bnd (HaveErrantTransactions E (sy_leaderSet v) (sy_mySet v)) (\<lambda>isSubset.
       if \<not> isSubset then PatchRebuildLabelTo E (myself E []) else ret ())))"
  unfolding getLocalMySQLConn_def
  by (intro emits_case_option emits_if emits_basic emits_bnd [OF emits_errorf [OF emits_scall]] hook_calls emits_bnd_gives [OF _ gives_subset])
     (use assms in \<open>auto intro!: rebuild_calls survey_diverged emits_intros hook_calls simp: HaveErrantTransactions_def\<close>)

lemma postStart_calls: "emits sd_trace (hook_call P E) (postStart P E)"
proof (cases "enableAutoRebuild E")
  case True
  have waits: "emits sd_trace (hook_call P E) (errorf m1 (WaitMySQLAvailable E 30))"
    "emits sd_trace (hook_call P E) (errorf m2 (WaitXenonAvailable E 60))" "emits sd_trace (hook_call P E) (GetGTIDList P E)" for m1 m2
    unfolding WaitMySQLAvailable_def WaitXenonAvailable_def succeeds_def getLocalMySQLConn_def XenonPingMyself_def GetGTIDList_def
      runCommandLocal_def
    by (intro emits_intros hook_calls)+
  show ?thesis
    unfolding postStart_def using True
    by (simp only: simp_thms if_False)
       (intro emits_bnd [OF waits(1)] emits_bnd [OF waits(2)] emits_bnd_gives [OF waits(3) gives_gtids]
          emits_bnd_gives [OF emits_basic(4) gives_lift] decide_calls)
qed (simp add: postStart_def emits_intros)


text \<open>A cluster of three in which this pod's set is not a subset of the leader's.\<close>

definition errant_machine :: SideEnv where
  "errant_machine = calm_machine\<lparr>se_getenv := (\<lambda>k. if k = ''AUTO_REBUILD'' then ''true'' else if k = ''POD_NAME'' then ''p-1'' else ''ns'')\<rparr>"

definition three_nodes :: json where
  "three_nodes = JObj [(''gtid'', JArr
     [JObj [(''id'', JStr ''p-0.h.ns:8801''), (''raft'', JStr ''LEADER''), (''executed-gtid-set'', JStr ''a:1-5'')],
      JObj [(''id'', JStr ''p-1.h.ns:8801''), (''raft'', JStr ''FOLLOWER''), (''executed-gtid-set'', JStr ''a:1-5,b:1'')],
      JObj [(''id'', JStr ''p-2.h.ns:8801''), (''raft'', JStr ''FOLLOWER''), (''executed-gtid-set'', JStr ''a:1-5'')]])]"

lemma poll_first: "c s = (Ok True, t) \<Longrightarrow> poll (Suc n) c s = (Ok (), t)"
  by (simp add: bnd_def ret_def)

lemma three_nodes_survey:
  "\<exists>gs v. unmarshal_gtids (Some three_nodes) = Ok gs \<and>
     survey ''p-1'' gs \<lparr>sy_mySet = [], sy_leaderSet = [], sy_alive = 0\<rparr> = Ok (Some v) \<and> sy_alive v = 3 \<and> sy_leaderSet v = ''a:1-5''"
  by (simp add: three_nodes_def unmarshal_gtids_def object_of_def unmarshal_gtid_def string_field_def known_role_def role_defs is_mine_def)


section \<open>An error of the hand-over\<close>

text \<open>The calls of a run that ends in an error satisfy \<open>A\<close>.\<close>

definition fails_with :: "(side_event \<Rightarrow> bool) \<Rightarrow> ('z Side_scheme, 'a) go \<Rightarrow> bool" where
  "fails_with A m \<longleftrightarrow> (\<forall>s e t. m s = (Fail e, t) \<longrightarrow> (\<exists>es. sd_trace t = sd_trace s @ es \<and> list_all A es))"

lemma fails_emits: "emits sd_trace A m \<Longrightarrow> fails_with A m"
  unfolding fails_with_def emits_def by (metis snd_conv)

lemma fails_never: "(\<And>s e. fst (m s) \<noteq> Fail e) \<Longrightarrow> fails_with A m"
  unfolding fails_with_def by (metis fst_conv)

lemma fails_if: "(b \<Longrightarrow> fails_with A m) \<Longrightarrow> (\<not> b \<Longrightarrow> fails_with A n) \<Longrightarrow> fails_with A (if b then m else n)"
  by simp

lemma fails_bnd:
  assumes "emits sd_trace A m" "\<And>x. fails_with A (f x)"
  shows "fails_with A (bnd m f)"
  unfolding fails_with_def
proof (intro allI impI)
  fix s e t assume run: "bnd m f s = (Fail e, t)"
  obtain r u where m: "m s = (r, u)" by (cases "m s")
  from emitsD [OF assms(1), of s] m obtain es where es: "sd_trace u = sd_trace s @ es" "list_all A es" by auto
  show "\<exists>es. sd_trace t = sd_trace s @ es \<and> list_all A es"
  proof (cases r)
    case (Ok x)
    with run m have "f x u = (Fail e, t)" by (simp add: bnd_def)
    with assms(2) obtain fs where "sd_trace t = sd_trace u @ fs" "list_all A fs" unfolding fails_with_def by blast
    with es show ?thesis by auto
  qed (use run m es in \<open>auto simp: bnd_def\<close>)
qed

lemma kill_never_fails: "fst (killMysqld E p s) \<noteq> Fail e"
  by (auto simp: killMysqld_def kube_or_panic_def RunRemoteCommand_def bnd_def handle_def scall_run squery_run panic_def or_fatal_def
      fatal_def srec_run ret_def split: option.splits)

text \<open>
  A hand-over that fails stays half done. When the hook returns an error, raft was not
  turned on again (the deferred call loses against the exit of the process) and the server
  was not killed.
\<close>

theorem failed_handover_leaves_raft_off:
  fixes s :: "'z Side_scheme"
  assumes "leaderStop E s = (Fail e, t)" "sd_trace t = sd_trace s @ es"
  shows "SvRun [''bash'', ''-c'', ''xenoncli raft enable''] \<notin> set es \<and> (\<forall>c p k. SvRemote c p k \<notin> set es)"
proof -
  define A where "A = (\<lambda>ev. ev \<noteq> SvRun [''bash'', ''-c'', ''xenoncli raft enable''] \<and> (\<forall>c p k. ev \<noteq> SvRemote c p k))"
  have A: "A (SvConnect d)" "A (SvSql q)" "A (SvExit n)" "A (SvRun [''bash'', ''-c'', ''xenoncli raft disable''])" for d q n
    by (simp_all add: A_def)
  have never: "fst (bnd (ignore (enableMyRaft E)) (\<lambda>_. killMysqld E p) u) \<noteq> Fail er" for p u er
    using kill_never_fails
    by (auto simp: bnd_def ignore_def attempt_def ret_def split: prod.splits res.splits)
  have steps: "emits sd_trace A (until_timer E ms)" if "\<And>m. m \<in> set ms \<Longrightarrow> emits sd_trace A m" for ms :: "('z Side_scheme, unit) go list"
    using that by (induction ms) (auto intro!: emits_intros)
  have kill_row: "emits sd_trace A (kill_row E row)" for row
    unfolding kill_row_def KillThread_def exec_sql_def by (intro emits_intros A)
  have leader: "emits sd_trace A m" if "m \<in> set (leader_steps E)" for m :: "('z Side_scheme, unit) go"
    using that unfolding leader_steps_def disableMyRaft_def runCommandLocal_def SetEventScheduler_def SetReadOnly_def exec_sql_def
      CheckLongRunningWrites_def KillThreads_def FlushTablesWithReadLock_def FlushBinaryLogs_def UnlockTables_def if_True if_False
    by (auto intro!: emits_intros kill_row A)
  have timer: "emits sd_trace A (until_timer E (leader_steps E) :: ('z Side_scheme, bool) go)"
    by (rule steps, rule leader)
  have "fails_with A (leaderStop E :: ('z Side_scheme, unit) go)"
    unfolding leaderStop_def getLocalMySQLConn_def isReadonly_def getPidFile_def
    by (rule fails_bnd, intro emits_intros A, rule fails_bnd, intro emits_intros A, rule fails_if, rule fails_emits,
        intro emits_intros A, rule fails_bnd, rule timer, rule fails_if, rule fails_never, rule kill_never_fails,
        rule fails_bnd, intro emits_intros A, rule fails_never, rule never)
  with assms have "list_all A es" unfolding fails_with_def by fastforce
  then show ?thesis by (auto simp: A_def list_all_iff)
qed

definition broken_server :: SideEnv where
  "broken_server = calm_machine\<lparr>se_err := (\<lambda>tr. if tr \<noteq> [] \<and> last tr = SvSql ''SET GLOBAL event_scheduler=0''
     then Some (ApiErr ''invalid connection'') else None)\<rparr>"

theorem failed_handover_leaves_raft_off_witness:
  "\<exists>e (t :: Side). leaderStop broken_server \<lparr>sd_trace = []\<rparr> = (Fail e, t) \<and>
     SvRun [''bash'', ''-c'', ''xenoncli raft disable''] \<in> set (sd_trace t) \<and>
     SvRun [''bash'', ''-c'', ''xenoncli raft enable''] \<notin> set (sd_trace t)"
proof -
  have calm: "se_late broken_server tr = False" "se_code broken_server tr = 200"
    "se_err broken_server tr = (if tr \<noteq> [] \<and> last tr = SvSql ''SET GLOBAL event_scheduler=0''
       then Some (ApiErr ''invalid connection'') else None)" for tr
    by (simp_all add: broken_server_def calm_machine_def)
  obtain e t where run: "leaderStop broken_server \<lparr>sd_trace = []\<rparr> = (Fail e, t :: Side)"
    and d: "SvRun [''bash'', ''-c'', ''xenoncli raft disable''] \<in> set (sd_trace t)"
    unfolding leaderStop_def getLocalMySQLConn_def isReadonly_def leader_steps_def disableMyRaft_def runCommandLocal_def
      SetEventScheduler_def exec_sql_def
    by (simp add: bnd_def errorf_def handle_def scall_run squery_run calm attempt_def ret_def gets_def)
  from failed_handover_leaves_raft_off [OF run] d run show ?thesis by auto
qed

end
