(* ===== verification/MysqlChecker.thy ===== *)
theory MysqlChecker
  imports InCluster
begin

text \<open>
  The checker of the mysql container (\<open>cmd/mysql/main.go\<close>): the probes of the kubelet. It reads
  \<open>client.conf\<close>, asks the server for its replication status and the API server for the role
  label of its pod, and makes a leader writable again.

  The parser of INI files is a parameter: it gives the section \<open>client\<close> of a text. So are the
  row of \<open>SHOW SLAVE STATUS\<close>, as a function of the trace, and the JSON parser of \<open>InCluster\<close>.
\<close>

section \<open>Agent\<close>

record MySQLConfig =
  my_Host :: string
  my_Port :: int
  my_User :: string
  my_Password :: string

text \<open>The columns the probe looks at; NULL seconds behind the source scan to zero.\<close>

record ReplicaStatus =
  rp_SlaveIORunning :: string
  rp_SlaveSQLRunning :: string
  rp_LastError :: string
  rp_SecondsBehindMaster :: "int option"

record Agent =
  ag_conf :: MySQLConfig
  ag_maxDelay :: int        \<comment> \<open>nanoseconds\<close>
  ag_podName :: string
  ag_nameSpace :: string

record CheckerLib =
  kl_json :: json_parser
  kl_client_section :: "string \<Rightarrow> (string \<rightharpoonup> string) res"
  kl_replica :: "side_event list \<Rightarrow> ReplicaStatus"

definition getMySQLclientConf :: "CheckerLib \<Rightarrow> SideEnv \<Rightarrow> ('z Side_scheme, MySQLConfig) go" where
  "getMySQLclientConf K E =
     bnd (or_fatal (squery E (SvReadFile ''/etc/mysql/client.conf'') (se_text E))) (\<lambda>content.
     bnd (or_fatal (lift (kl_client_section K content))) (\<lambda>sec.
     bnd (or_fatal (lift (atoi (lget sec ''port'')))) (\<lambda>port.
     ret \<lparr>my_Host = lget sec ''host'', my_Port = port, my_User = lget sec ''user'', my_Password = lget sec ''password''\<rparr>)))"

text \<open>\<open>sqlx.Open\<close>: it checks the data source name.\<close>

definition getMySQLConn :: "SideEnv \<Rightarrow> MySQLConfig \<Rightarrow> ('z Side_scheme, unit) go" where
  "getMySQLConn E conf = scall E (SvConnect (my_User conf @ '':'' @ my_Password conf @ ''@tcp('' @ my_Host conf @ '':'' @
     int_str (my_Port conf) @ '')/?interpolateParams=true&parseTime=true&readTimeout=30s&timeout=30s''))"

text \<open>A delay that is not a number is zero.\<close>

definition delay_ns :: "string \<Rightarrow> int" where
  "delay_ns s = sint (word_of_int ((case atoi s of Ok d \<Rightarrow> d | _ \<Rightarrow> 0) * 1000000000) :: 64 word)"

definition New :: "CheckerLib \<Rightarrow> SideEnv \<Rightarrow> ('z Side_scheme, Agent) go" where
  "New K E =
     bnd (getMySQLclientConf K E) (\<lambda>conf.
     bnd (or_fatal (getMySQLConn E conf)) (\<lambda>_.
     bnd (or_fatal (GetClientSet E)) (\<lambda>_.
     ret \<lparr>ag_conf = conf, ag_maxDelay = delay_ns (se_getenv E ''MAX_DELAY''),
          ag_podName = se_getenv E ''POD_NAME'', ag_nameSpace = se_getenv E ''NAMESPACE''\<rparr>)))"

section \<open>Liveness\<close>

definition agent_liveness :: "SideEnv \<Rightarrow> ('z Side_scheme, unit) go" where
  "agent_liveness E = bnd (SleepFlag E) (\<lambda>sleeping. if sleeping then ret ()
     else bnd (IsMySQLRunning E) (\<lambda>running. if running then ret () else fail (GErr ''mysql is not running'')))"

section \<open>Readiness\<close>

text \<open>\<open>strconv.ParseBool\<close>, which the driver uses to scan into a \<open>bool\<close>.\<close>

definition parse_bool :: "string \<Rightarrow> bool res" where
  "parse_bool s = (if s \<in> {''1'', ''t'', ''T'', ''TRUE'', ''true'', ''True''} then Ok True
     else if s \<in> {''0'', ''f'', ''F'', ''FALSE'', ''false'', ''False''} then Ok False
     else Fail (GErr (''strconv.ParseBool: parsing '' @ s)))"

definition read_only_flag :: "SideEnv \<Rightarrow> ('z Side_scheme, bool) go" where
  "read_only_flag E = bnd (squery E (SvSql ''select @@read_only'') (se_objects E)) (\<lambda>rows.
     each_acc (\<lambda>b row. case row of Inl e \<Rightarrow> fail e | Inr v \<Rightarrow> lift (parse_bool v)) False rows)"

definition is_ro_name :: "string \<Rightarrow> bool" where
  "is_ro_name pod \<longleftrightarrow> str_contains pod ''-ro-''"

definition getRoleBylabel :: "SideEnv \<Rightarrow> Agent \<Rightarrow> ('z Side_scheme, string) go" where
  "getRoleBylabel E c =
     (if is_ro_name (ag_podName c) then ret ''RO''
      else bnd (squery E (SvGetPod (ag_nameSpace c) (ag_podName c)) (se_map E)) (\<lambda>labels.
        case (case labels of None \<Rightarrow> None | Some m \<Rightarrow> m ''role'') of
          Some role \<Rightarrow> ret role
        | None \<Rightarrow> fail (GErr ''role label not found'')))"

definition setGlobalReadOnlyOff :: "SideEnv \<Rightarrow> ('z Side_scheme, unit) go" where
  "setGlobalReadOnlyOff E = errorf ''failed to disable super_read_only: '' (scall E (SvSql ''set global read_only=0''))"

definition getRaftStatus :: "CheckerLib \<Rightarrow> SideEnv \<Rightarrow> Agent \<Rightarrow> ('z Side_scheme, raftStatus) go" where
  "getRaftStatus K E c = bnd (kube_or_panic E) (\<lambda>_.
     bnd (or_fatal (RunRemoteCommand E \<lparr>rr_Container = ''xenon'', rr_Namespace = ag_nameSpace c, rr_PodName = ag_podName c\<rparr>
       [''xenoncli raft status''])) (\<lambda>output.
     or_fatal (lift (unmarshal_raft (kl_json K output)))))"

text \<open>\<open>utils.ExistUpdateFile\<close>.\<close>

definition ExistUpdateFile :: "SideEnv \<Rightarrow> ('z Side_scheme, bool) go" where
  "ExistUpdateFile E = bnd (attempt (scall E (SvOpen ''PreUpdating''))) (\<lambda>r. ret (case r of Inl e \<Rightarrow> \<not> is_not_exist e | Inr _ \<Rightarrow> True))"

definition delay_seconds :: "int \<Rightarrow> int" where
  "delay_seconds ns = ns sdiv 1000000000"

text \<open>The verdict on a row of the replication status.\<close>

definition replica_verdict :: "Agent \<Rightarrow> ReplicaStatus \<Rightarrow> unit res" where
  "replica_verdict c status =
     (if rp_SlaveIORunning status \<noteq> ''Yes'' \<or> rp_SlaveSQLRunning status \<noteq> ''Yes'' then Fail (GErr ''replication threads are stopped'')
      else if rp_LastError status \<noteq> [] then Fail (GErr (''slave has error: '' @ rp_LastError status))
      else if (case rp_SecondsBehindMaster status of None \<Rightarrow> 0 | Some n \<Rightarrow> n) > delay_seconds (ag_maxDelay c)
      then Fail (GErr ''slave is too far behind master'')
      else Ok ())"

text \<open>
  The check of a replica. When the status cannot be read the code returns \<open>err\<close>, which is nil
  at that point (the error is in \<open>err1\<close>): the probe succeeds.
\<close>

definition check_replica :: "CheckerLib \<Rightarrow> SideEnv \<Rightarrow> Agent \<Rightarrow> ('z Side_scheme, unit) go" where
  "check_replica K E c = bnd (attempt (squery E (SvSql ''show slave status'') (kl_replica K))) (\<lambda>r. case r of
       Inl err1 \<Rightarrow> ret ()
     | Inr status \<Rightarrow> lift (replica_verdict c status))"

definition agent_readiness :: "CheckerLib \<Rightarrow> SideEnv \<Rightarrow> Agent \<Rightarrow> ('z Side_scheme, unit) go" where
  "agent_readiness K E c =
     bnd (read_only_flag E) (\<lambda>readOnly.
     bnd (getRoleBylabel E c) (\<lambda>role.
     if role = ''FOLLOWER'' then
       bnd (getRaftStatus K E c) (\<lambda>raft. if rs_Leader raft = [] then ret () else check_replica K E c)
     else if role = ''LEADER'' then
       bnd (ExistUpdateFile E) (\<lambda>updating. if \<not> updating \<and> readOnly then setGlobalReadOnlyOff E else ret ())
     else if is_ro_name (ag_podName c) then check_replica K E c
     else ret ()))"

definition mysqlchecker :: "CheckerLib \<Rightarrow> SideEnv \<Rightarrow> string list \<Rightarrow> ('z Side_scheme, unit) go" where
  "mysqlchecker K E args = (case args of
       [] \<Rightarrow> fatal ''Usage: leaderStart|leaderStop|liveness|readiness|postStart|preStop''
     | hook # _ \<Rightarrow> bnd (New K E) (\<lambda>agent.
         if hook = ''liveness'' then or_fatal (agent_liveness E)
         else if hook = ''readiness'' then or_fatal (agent_readiness K E agent)
         else if hook = ''postStart'' \<or> hook = ''preStop'' then ret ()
         else fatal ''Usage: leaderStart|leaderStop|liveness|readiness|postStart|preStop''))"

section \<open>Properties\<close>

text \<open>
  A replica whose status cannot be read counts as ready. For a read-only pod, whatever the
  server answers otherwise, an error of SHOW SLAVE STATUS makes the probe succeed once
  \<open>read_only\<close> could be read; with a status it succeeds exactly when both threads run, there
  is no error and the delay is within bounds (an unknown delay counts as none).
\<close>

theorem readonly_pod_readiness:
  assumes "is_ro_name (ag_podName c)" "read_only_flag E s = (Ok b, t)"
  shows "fst (agent_readiness K E c s) =
     (case se_err E (sd_trace t @ [SvSql ''show slave status'']) of
        Some e \<Rightarrow> Ok ()
      | None \<Rightarrow> replica_verdict c (kl_replica K (sd_trace t @ [SvSql ''show slave status''])))"
  using assms
  by (simp add: agent_readiness_def bnd_def getRoleBylabel_def ret_def check_replica_def attempt_def squery_run lift_def
      split: option.split)

lemma replica_verdict_Ok:
  "replica_verdict c st = Ok () \<longleftrightarrow> rp_SlaveIORunning st = ''Yes'' \<and> rp_SlaveSQLRunning st = ''Yes'' \<and> rp_LastError st = [] \<and>
     (case rp_SecondsBehindMaster st of None \<Rightarrow> 0 | Some n \<Rightarrow> n) \<le> delay_seconds (ag_maxDelay c)"
  by (auto simp: replica_verdict_def)

definition lost_server :: SideEnv where
  "lost_server = calm_machine\<lparr>se_err := (\<lambda>tr. if tr \<noteq> [] \<and> last tr = SvSql ''show slave status''
     then Some (ApiErr ''driver: bad connection'') else None)\<rparr>"

definition ro_agent :: Agent where
  "ro_agent = \<lparr>ag_conf = \<lparr>my_Host = ''127.0.0.1'', my_Port = 3306, my_User = ''radondb_operator'', my_Password = []\<rparr>,
     ag_maxDelay = 30000000000, ag_podName = ''sample-mysql-ro-0'', ag_nameSpace = ''ns''\<rparr>"

theorem readonly_pod_readiness_witness:
  "\<forall>K. fst (agent_readiness K lost_server ro_agent \<lparr>sd_trace = []\<rparr>) = Ok ()"
proof
  fix K
  have err: "se_err lost_server tr = (if tr \<noteq> [] \<and> last tr = SvSql ''show slave status'' then Some (ApiErr ''driver: bad connection'') else None)"
    "se_objects lost_server tr = []" for tr by (simp_all add: lost_server_def calm_machine_def)
  have run: "read_only_flag lost_server \<lparr>sd_trace = []\<rparr> = (Ok False, \<lparr>sd_trace = [SvSql ''select @@read_only'']\<rparr>)"
    by (simp add: read_only_flag_def bnd_def squery_run err ret_def)
  have ro: "is_ro_name (ag_podName ro_agent)" by (simp add: ro_agent_def is_ro_name_def)
  show "fst (agent_readiness K lost_server ro_agent \<lparr>sd_trace = []\<rparr>) = Ok ()"
    using readonly_pod_readiness [OF ro run, of K] by (simp add: err)
qed

lemma role_given:
  "gives (getRoleBylabel E c) (\<lambda>role. is_ro_name (ag_podName c) \<and> role = ''RO'' \<or>
     \<not> is_ro_name (ag_podName c) \<and> (\<exists>tr m. se_map E (tr @ [SvGetPod (ag_nameSpace c) (ag_podName c)]) = Some m \<and> m ''role'' = Some role))"
proof (cases "is_ro_name (ag_podName c)")
  case False
  then show ?thesis
    by (auto simp: gives_def getRoleBylabel_def bnd_def squery_run ret_def fail_def split: option.splits)
qed (simp add: gives_def getRoleBylabel_def ret_def)

lemma flag_calls: "emits sd_trace (\<lambda>e. e = SvSql ''select @@read_only'') (read_only_flag E)"
  unfolding read_only_flag_def by (intro emits_intros refl)

lemma role_calls: "A (SvGetPod (ag_nameSpace c) (ag_podName c)) \<Longrightarrow> emits sd_trace A (getRoleBylabel E c)"
  unfolding getRoleBylabel_def by (intro emits_intros)

text \<open>
  The probe after its first statement, and what it may then send: the status query, and the statement
  that ends the read-only state of a server that is read-only in a pod labelled as leader.
\<close>

definition labelled :: "SideEnv \<Rightarrow> Agent \<Rightarrow> string \<Rightarrow> bool" where
  "labelled E c role \<longleftrightarrow> \<not> is_ro_name (ag_podName c) \<and>
     (\<exists>tr m. se_map E (tr @ [SvGetPod (ag_nameSpace c) (ag_podName c)]) = Some m \<and> m ''role'' = Some role)"

definition after_flag :: "CheckerLib \<Rightarrow> SideEnv \<Rightarrow> Agent \<Rightarrow> bool \<Rightarrow> ('z Side_scheme, unit) go" where
  "after_flag K E c readOnly = bnd (getRoleBylabel E c) (\<lambda>role.
     if role = ''FOLLOWER'' then
       bnd (getRaftStatus K E c) (\<lambda>raft. if rs_Leader raft = [] then ret () else check_replica K E c)
     else if role = ''LEADER'' then
       bnd (ExistUpdateFile E) (\<lambda>updating. if \<not> updating \<and> readOnly then setGlobalReadOnlyOff E else ret ())
     else if is_ro_name (ag_podName c) then check_replica K E c
     else ret ())"

definition ready_sql :: "SideEnv \<Rightarrow> Agent \<Rightarrow> bool \<Rightarrow> string \<Rightarrow> bool" where
  "ready_sql E c readOnly q \<longleftrightarrow> q = ''show slave status'' \<or> q = ''set global read_only=0'' \<and> readOnly \<and> labelled E c ''LEADER''"

definition ready_call :: "SideEnv \<Rightarrow> Agent \<Rightarrow> bool \<Rightarrow> side_event \<Rightarrow> bool" where
  "ready_call E c readOnly e = (case e of SvSql q \<Rightarrow> ready_sql E c readOnly q | _ \<Rightarrow> True)"

lemma ready_calls:
  "ready_call E c b (SvGetPod n p)" "ready_call E c b SvClientset" "ready_call E c b (SvRemote x y z)"
  "ready_call E c b (SvExit k)" "ready_call E c b (SvOpen f)" "ready_call E c b (SvSql ''show slave status'')"
  by (simp_all add: ready_call_def ready_sql_def)

lemma agent_readiness_split: "agent_readiness K E c = bnd (read_only_flag E) (after_flag K E c)"
  unfolding agent_readiness_def after_flag_def [abs_def] ..

lemma emits_writable:
  assumes "b" "labelled E c ''LEADER''"
  shows "emits sd_trace (ready_call E c b) (setGlobalReadOnlyOff E)"
  using assms unfolding setGlobalReadOnlyOff_def by (intro emits_intros) (simp add: ready_call_def ready_sql_def)

lemma after_flag_calls: "emits sd_trace (ready_call E c b) (after_flag K E c b :: ('z Side_scheme, unit) go)"
proof -
  let ?emits = "emits sd_trace (ready_call E c b)"
  have replica: "?emits (check_replica K E c :: ('z Side_scheme, unit) go)"
    unfolding check_replica_def by (intro emits_intros ready_calls)
  have raft: "?emits (getRaftStatus K E c :: ('z Side_scheme, raftStatus) go)"
    unfolding getRaftStatus_def kube_or_panic_def RunRemoteCommand_def by (intro emits_intros ready_calls)
  have updating: "?emits (ExistUpdateFile E :: ('z Side_scheme, bool) go)"
    unfolding ExistUpdateFile_def by (intro emits_intros ready_calls)
  have given: "gives (getRoleBylabel E c :: ('z Side_scheme, string) go)
      (\<lambda>role. is_ro_name (ag_podName c) \<and> role = ''RO'' \<or> labelled E c role)"
    unfolding labelled_def by (rule role_given)
  show ?thesis unfolding after_flag_def
  proof (rule emits_bnd_gives [OF role_calls given])
    show "ready_call E c b (SvGetPod (ag_nameSpace c) (ag_podName c))" by (rule ready_calls)
    fix role assume role: "is_ro_name (ag_podName c) \<and> role = ''RO'' \<or> labelled E c role"
    have leader: "labelled E c ''LEADER''" if "role = ''LEADER''"
      using role unfolding that by (elim disjE conjE) (simp, assumption)
    show "?emits (if role = ''FOLLOWER'' then
        bnd (getRaftStatus K E c) (\<lambda>raft. if rs_Leader raft = [] then ret () else check_replica K E c)
      else if role = ''LEADER'' then
        bnd (ExistUpdateFile E) (\<lambda>updating. if \<not> updating \<and> b then setGlobalReadOnlyOff E else ret ())
      else if is_ro_name (ag_podName c) then check_replica K E c
      else ret () :: ('z Side_scheme, unit) go)"
      by (intro emits_if emits_bnd emits_basic raft replica updating emits_writable leader; elim conjE; assumption)
  qed
qed

lemma readiness_calls:
  assumes "sd_trace (snd (agent_readiness K E c s)) = sd_trace s @ es" "e \<in> set es"
  shows "e = SvSql ''select @@read_only'' \<or> (\<exists>b. fst (read_only_flag E s) = Ok b \<and> ready_call E c b e)"
proof -
  obtain r t where run: "read_only_flag E s = (r, t)" by (cases "read_only_flag E s")
  from emitsD [OF flag_calls, of E s] run obtain fs
    where fs: "sd_trace t = sd_trace s @ fs" "\<forall>e \<in> set fs. e = SvSql ''select @@read_only''" by (auto simp: list_all_iff)
  show ?thesis
  proof (cases r)
    case (Ok b)
    from emitsD [OF after_flag_calls, of K E c b t] obtain gs
      where gs: "sd_trace (snd (after_flag K E c b t)) = sd_trace t @ gs" "\<forall>e \<in> set gs. ready_call E c b e"
      by (auto simp: list_all_iff)
    have "es = fs @ gs" using assms(1) run Ok fs(1) gs(1) by (simp add: agent_readiness_split bnd_def)
    with assms(2) fs(2) gs(2) run Ok show ?thesis by auto
  qed (use assms run fs in \<open>simp_all add: agent_readiness_split bnd_def\<close>)
qed

text \<open>
  C39. The probe writes to the server in one case only. Whatever is answered, the only
  statement of a readiness probe that changes anything is \<open>set global read_only=0\<close>, and it is
  sent only by a pod whose role label reads LEADER and whose server said it was read-only.
\<close>

theorem readiness_writes_leader_only:
  fixes s :: "'z Side_scheme"
  assumes "sd_trace (snd (agent_readiness K E c s)) = sd_trace s @ es" "SvSql q \<in> set es"
  shows "q = ''select @@read_only'' \<or> q = ''show slave status'' \<or>
    (q = ''set global read_only=0'' \<and> \<not> is_ro_name (ag_podName c) \<and> fst (read_only_flag E s) = Ok True \<and>
     (\<exists>tr m. se_map E (tr @ [SvGetPod (ag_nameSpace c) (ag_podName c)]) = Some m \<and> m ''role'' = Some ''LEADER''))"
  using readiness_calls [OF assms]
proof (elim disjE exE conjE)
  assume "SvSql q = SvSql ''select @@read_only''"
  then show ?thesis by (intro disjI1) (rule side_event.inject [THEN iffD1])
next
  fix b assume "fst (read_only_flag E s) = Ok b" "ready_call E c b (SvSql q)"
  then have "q = ''show slave status'' \<or> q = ''set global read_only=0'' \<and> fst (read_only_flag E s) = Ok True \<and> labelled E c ''LEADER''"
    by (cases b) (simp_all only: ready_call_def ready_sql_def side_event.case simp_thms)
  then show ?thesis unfolding labelled_def by blast
qed

text \<open>A pod labelled as leader on a machine that says it is read-only.\<close>

definition stale_leader :: SideEnv where
  "stale_leader = calm_machine\<lparr>se_objects := (\<lambda>tr. [Inr ''1'']), se_map := (\<lambda>tr. Some [''role'' \<mapsto> ''LEADER'']),
     se_err := (\<lambda>tr. if tr \<noteq> [] \<and> last tr = SvOpen ''PreUpdating'' then Some (NotFound ''PreUpdating'') else None)\<rparr>"

definition leader_agent :: Agent where
  "leader_agent = ro_agent\<lparr>ag_podName := ''sample-mysql-0''\<rparr>"

theorem readiness_writes_leader_only_witness:
  "\<forall>K. SvSql ''set global read_only=0'' \<in> set (sd_trace (snd (agent_readiness K stale_leader leader_agent \<lparr>sd_trace = []\<rparr>))) \<and>
     fst (read_only_flag stale_leader \<lparr>sd_trace = []\<rparr>) = Ok True"
proof
  fix K
  have env: "se_objects stale_leader tr = [Inr ''1'']" "se_map stale_leader tr = Some [''role'' \<mapsto> ''LEADER'']"
    "se_err stale_leader tr = (if tr \<noteq> [] \<and> last tr = SvOpen ''PreUpdating'' then Some (NotFound ''PreUpdating'') else None)" for tr
    by (simp_all add: stale_leader_def calm_machine_def)
  have ro: "\<not> is_ro_name (ag_podName leader_agent)" by (simp add: leader_agent_def ro_agent_def is_ro_name_def)
  have one: "parse_bool ''1'' = Ok True" by (simp add: parse_bool_def)
  define t1 :: Side where "t1 = \<lparr>sd_trace = [SvSql ''select @@read_only'']\<rparr>"
  define t2 where "t2 = t1\<lparr>sd_trace := sd_trace t1 @ [SvGetPod (ag_nameSpace leader_agent) (ag_podName leader_agent)]\<rparr>"
  define t3 where "t3 = t2\<lparr>sd_trace := sd_trace t2 @ [SvOpen ''PreUpdating'']\<rparr>"
  have run1: "read_only_flag stale_leader \<lparr>sd_trace = []\<rparr> = (Ok True, t1)"
    by (simp add: read_only_flag_def bnd_def squery_run env lift_def one ret_def t1_def)
  have run2: "getRoleBylabel stale_leader leader_agent t1 = (Ok ''LEADER'', t2)"
    by (simp add: getRoleBylabel_def ro bnd_def squery_run env ret_def t2_def)
  have run3: "ExistUpdateFile stale_leader t2 = (Ok False, t3)"
    by (simp add: ExistUpdateFile_def bnd_def attempt_def scall_run env ret_def t3_def)
  have run4: "sd_trace (snd (setGlobalReadOnlyOff stale_leader t3)) = sd_trace t3 @ [SvSql ''set global read_only=0'']"
    by (simp add: setGlobalReadOnlyOff_def errorf_def handle_def scall_run env)
  have "agent_readiness K stale_leader leader_agent \<lparr>sd_trace = []\<rparr> = setGlobalReadOnlyOff stale_leader t3"
    by (simp add: agent_readiness_def bnd_def run1 run2 run3)
  with run4 have w: "SvSql ''set global read_only=0'' \<in> set (sd_trace (snd (agent_readiness K stale_leader leader_agent \<lparr>sd_trace = []\<rparr>)))"
    by simp
  define tr where "tr = sd_trace (snd (agent_readiness K stale_leader leader_agent \<lparr>sd_trace = []\<rparr>))"
  have "sd_trace (snd (agent_readiness K stale_leader leader_agent \<lparr>sd_trace = []\<rparr>)) = sd_trace \<lparr>sd_trace = []\<rparr> @ tr"
    by (simp add: tr_def)
  from readiness_writes_leader_only [OF this w [folded tr_def]]
  have "fst (read_only_flag stale_leader \<lparr>sd_trace = []\<rparr>) = Ok True" by (elim disjE conjE) simp_all
  with w show "SvSql ''set global read_only=0'' \<in> set (sd_trace (snd (agent_readiness K stale_leader leader_agent \<lparr>sd_trace = []\<rparr>))) \<and>
     fst (read_only_flag stale_leader \<lparr>sd_trace = []\<rparr>) = Ok True" ..
qed

text \<open>
  The liveness probe does not look for the process. It succeeds exactly when the flag
  file of a sleeping server is there (or cannot be told missing), or the pid file can be
  read and holds a number; whether that process exists makes no difference.
\<close>

theorem liveness_is_pid_file:
  "fst (agent_liveness E s) = Ok () \<longleftrightarrow>
     (case se_err E (sd_trace s @ [SvStat SleepFlagFile]) of None \<Rightarrow> True | Some e \<Rightarrow> \<not> is_not_exist e) \<or>
     (se_err E (sd_trace s @ [SvStat SleepFlagFile, SvReadFile MySQLPidFile]) = None \<and>
      is_ok (atoi (trim_space (se_text E (sd_trace s @ [SvStat SleepFlagFile, SvReadFile MySQLPidFile])))))"
proof -
  have ok: "is_ok (atoi t) \<longleftrightarrow> (\<exists>i. atoi t = Ok i)" for t by (cases "atoi t") auto
  have np: "\<not> is_panic (atoi t)" for t by (auto simp: atoi_def Let_def split: list.split prod.split)
  define x where "x = atoi (trim_space (se_text E (sd_trace s @ [SvStat SleepFlagFile, SvReadFile MySQLPidFile])))"
  have "x \<noteq> Panic p" for p using np [of "trim_space (se_text E (sd_trace s @ [SvStat SleepFlagFile, SvReadFile MySQLPidFile]))"]
    by (auto simp: x_def)
  then show ?thesis
    unfolding ok x_def [symmetric]
    by (cases x)
       (auto simp: agent_liveness_def SleepFlag_def IsMySQLRunning_def GetMySQLPid_def bnd_def attempt_def scall_run squery_run ret_def
        fail_def errorf_def handle_def lift_def x_def [symmetric] split: option.splits)
qed

end
