(* ===== verification/SideConf.thy ===== *)
theory SideConf
  imports SideTypes
begin

text \<open>
  The configuration of the sidecar (\<open>sidecar/config.go\<close>): reading it from the environment, the
  files built from it (\<open>extra.cnf\<close>, \<open>xenon.json\<close>, \<open>init.sql\<close>, \<open>client.conf\<close>) and the arguments
  of xtrabackup and xbcloud.

  \<open>SideLib\<close> is the code outside the repository: parsing a semantic version, and a section of an
  INI file (\<open>IniLib\<close>, as for the configuration map).
\<close>

section \<open>Config\<close>

record semver =
  sv_Major :: nat
  sv_Minor :: nat
  sv_Patch :: nat

record SideConfig =
  sc_HostName :: string
  sc_NameSpace :: string
  sc_ServiceName :: string
  sc_StatefulSetName :: string
  sc_RootPassword :: string
  sc_User :: string
  sc_Password :: string
  sc_Database :: string
  sc_DonorClone :: string
  sc_DonorClonePassword :: string
  sc_ReplicationUser :: string
  sc_ReplicationPassword :: string
  sc_MetricsUser :: string
  sc_MetricsPassword :: string
  sc_OperatorUser :: string
  sc_OperatorPassword :: string
  sc_InternalRootPassword :: string
  sc_InitTokuDB :: bool
  sc_MySQLVersion :: semver
  sc_AdmitDefeatHearbeatCount :: "32 word"
  sc_ElectionTimeout :: "32 word"
  sc_existMySQLData :: bool
  sc_ClusterName :: string
  sc_JobName :: string
  sc_BackupUser :: string
  sc_BackupPassword :: string
  sc_XbstreamExtraArgs :: "string list"
  sc_XtrabackupExtraArgs :: "string list"
  sc_XtrabackupPrepareExtraArgs :: "string list"
  sc_XtrabackupTargetDir :: string
  sc_RestorePoint :: string
  sc_CloneFlag :: bool
  sc_GtidPurged :: string
  sc_InitSQL :: string
  sc_XRestoreFrom :: string
  sc_XRestoreFromNFS :: string
  sc_XCloudS3EndPoint :: string
  sc_XCloudS3AccessKey :: string
  sc_XCloudS3SecretKey :: string
  sc_XCloudS3Bucket :: string
  sc_XRemoteDateSource :: string
  sc_NeedUpgrade :: bool
  sc_RemoteClusterName :: string
  sc_RemoteClusterNamespace :: string
  sc_ServerIDStartOffset :: string

record 'sec SideLib =
  sl_semver :: "string \<Rightarrow> semver res"
  sl_mysqld :: "'sec IniLib"
  sl_client :: "'sec IniLib"

text \<open>The process: its trace and the configuration it works on.\<close>

record SideState = Side +
  sd_cfg :: SideConfig

text \<open>The zero value of the struct.\<close>

definition no_config :: SideConfig where
  "no_config = \<lparr>sc_HostName = [], sc_NameSpace = [], sc_ServiceName = [], sc_StatefulSetName = [], sc_RootPassword = [], sc_User = [],
     sc_Password = [], sc_Database = [], sc_DonorClone = [], sc_DonorClonePassword = [], sc_ReplicationUser = [], sc_ReplicationPassword = [],
     sc_MetricsUser = [], sc_MetricsPassword = [], sc_OperatorUser = [], sc_OperatorPassword = [], sc_InternalRootPassword = [], sc_InitTokuDB = False,
     sc_MySQLVersion = \<lparr>sv_Major = 0, sv_Minor = 0, sv_Patch = 0\<rparr>, sc_AdmitDefeatHearbeatCount = 0, sc_ElectionTimeout = 0, sc_existMySQLData
     = False, sc_ClusterName = [], sc_JobName = [], sc_BackupUser = [], sc_BackupPassword = [], sc_XbstreamExtraArgs = [], sc_XtrabackupExtraArgs = [],
     sc_XtrabackupPrepareExtraArgs = [], sc_XtrabackupTargetDir = [], sc_RestorePoint = [], sc_CloneFlag = False, sc_GtidPurged = [], sc_InitSQL = [],
     sc_XRestoreFrom = [], sc_XRestoreFromNFS = [], sc_XCloudS3EndPoint = [], sc_XCloudS3AccessKey = [], sc_XCloudS3SecretKey = [], sc_XCloudS3Bucket = [],
     sc_XRemoteDateSource = [], sc_NeedUpgrade = False, sc_RemoteClusterName = [], sc_RemoteClusterNamespace = [], sc_ServerIDStartOffset = []\<rparr>"

definition int32_or :: "string \<Rightarrow> 32 word \<Rightarrow> 32 word" where
  "int32_or s d = (case parse_int32 s of Ok v \<Rightarrow> v | _ \<Rightarrow> d)"

definition NewInitConfig :: "'sec SideLib \<Rightarrow> SideEnv \<Rightarrow> ('z Side_scheme, SideConfig) go" where
  "NewInitConfig L E =
     (let ver = getEnvValue E ''MYSQL_VERSION'' in
      if ver = InvalidMySQLVersion then panic ''invalid mysql version, currently we only support 5.7 or 8.0''
      else (case sl_semver L ver of
          Ok v \<Rightarrow> bnd (path_exists E (DataVolumeMountPath @ ''/mysql'')) (\<lambda>data_there. ret (no_config\<lparr>
       sc_HostName := getEnvValue E ''POD_HOSTNAME'', sc_NameSpace := getEnvValue E ''NAMESPACE'', sc_ServiceName := getEnvValue E
       ''SERVICE_NAME'', sc_StatefulSetName := getEnvValue E ''STATEFULSET_NAME'', sc_RootPassword := getEnvValue E ''MYSQL_ROOT_PASSWORD'',
       sc_InternalRootPassword := getEnvValue E ''INTERNAL_ROOT_PASSWORD'', sc_Database := getEnvValue E ''MYSQL_DATABASE'', sc_User := getEnvValue
       E ''MYSQL_USER'', sc_Password := getEnvValue E ''MYSQL_PASSWORD'', sc_ReplicationUser := getEnvValue E ''MYSQL_REPL_USER'',
       sc_ReplicationPassword := getEnvValue E ''MYSQL_REPL_PASSWORD'', sc_MetricsUser := getEnvValue E ''METRICS_USER'', sc_MetricsPassword :=
       getEnvValue E ''METRICS_PASSWORD'', sc_OperatorUser := getEnvValue E ''OPERATOR_USER'', sc_OperatorPassword := getEnvValue E
       ''OPERATOR_PASSWORD'', sc_DonorClone := getEnvValue E ''DONOR_USER'', sc_DonorClonePassword := getEnvValue E ''DONOR_PASSWORD'',
       sc_XRestoreFrom := getEnvValue E ''RESTORE_FROM'', sc_RestorePoint := getEnvValue E ''RESTORE_POINT'', sc_XRestoreFromNFS := getEnvValue E
       ''RESTORE_FROM_NFS'', sc_XCloudS3EndPoint := getEnvValue E ''S3_ENDPOINT'', sc_XCloudS3AccessKey := getEnvValue E ''S3_ACCESSKEY'',
       sc_XCloudS3SecretKey := getEnvValue E ''S3_SECRETKEY'', sc_XCloudS3Bucket := getEnvValue E ''S3_BUCKET'', sc_XRemoteDateSource :=
       getEnvValue E ''REMOTESRC'', sc_ClusterName := getEnvValue E ''CLUSTER_NAME'', sc_RemoteClusterName := getEnvValue E
       ''REMOTE_CLUSTER_NAME'', sc_RemoteClusterNamespace := getEnvValue E ''REMOTE_CLUSTER_NAMESPACE'', sc_ServerIDStartOffset := getEnvValue E
       ''SERVER_ID_OFFSET'',
       sc_InitTokuDB := (length (getEnvValue E ''INIT_TOKUDB'') > 0), sc_NeedUpgrade := (length (getEnvValue E ''NEED_UPGRADE'') > 0),
       sc_MySQLVersion := v, sc_AdmitDefeatHearbeatCount := int32_or (getEnvValue E ''ADMIT_DEFEAT_HEARBEAT_COUNT'') 5,
       sc_ElectionTimeout := int32_or (getEnvValue E ''ELECTION_TIMEOUT'') 10000, sc_existMySQLData := data_there\<rparr>))
        | Fail e \<Rightarrow> panic (err_text e)
        | Panic p \<Rightarrow> panic p))"

definition NewBackupConfig :: "SideEnv \<Rightarrow> SideConfig" where
  "NewBackupConfig E = no_config\<lparr>sc_NameSpace := getEnvValue E ''NAMESPACE'', sc_ServiceName := getEnvValue E ''SERVICE_NAME'',
     sc_ClusterName := getEnvValue E ''CLUSTER_NAME'', sc_RootPassword := getEnvValue E ''MYSQL_ROOT_PASSWORD'',
     sc_BackupUser := getEnvValue E ''BACKUP_USER'', sc_BackupPassword := getEnvValue E ''BACKUP_PASSWORD''\<rparr>"

definition GetContainerType :: "SideEnv \<Rightarrow> string" where
  "GetContainerType E = getEnvValue E ''CONTAINER_TYPE''"

section \<open>Arguments of the backup commands\<close>

text \<open>The code builds the same lists for \<open>Config\<close> and for \<open>BackupClientConfig\<close> (\<open>backup.go\<close>).\<close>

definition xtrabackup_args :: "string \<Rightarrow> string \<Rightarrow> string list \<Rightarrow> string list" where
  "xtrabackup_args targetDir rootPassword extraArgs =
     [''--backup'', ''--stream=xbstream'', ''--host=127.0.0.1'', ''--user='' @ RootUser, ''--password='' @ rootPassword,
      ''--target-dir='' @ (if length targetDir \<noteq> 0 then targetDir else ''/root/backup/'')] @ extraArgs"

definition XtrabackupArgs :: "SideConfig \<Rightarrow> string list" where
  "XtrabackupArgs cfg = xtrabackup_args (sc_XtrabackupTargetDir cfg) (sc_RootPassword cfg) (sc_XtrabackupExtraArgs cfg)"

definition xcloud_args :: "string \<Rightarrow> string \<Rightarrow> string \<Rightarrow> string \<Rightarrow> string \<Rightarrow> string list" where
  "xcloud_args endpoint access secret bucket backupName =
     [''put'', ''--storage=S3'', ''--s3-endpoint='' @ endpoint, ''--s3-access-key='' @ access,
      ''--s3-secret-key='' @ secret, ''--s3-bucket='' @ bucket, ''--parallel=10'', backupName, ''--insecure'']"

definition XCloudArgs :: "SideConfig \<Rightarrow> string \<Rightarrow> string list" where
  "XCloudArgs cfg backupName = xcloud_args (sc_XCloudS3EndPoint cfg) (sc_XCloudS3AccessKey cfg)
     (sc_XCloudS3SecretKey cfg) (sc_XCloudS3Bucket cfg) backupName"

definition XBackupName :: "SideConfig \<Rightarrow> go_time \<Rightarrow> string \<times> string" where
  "XBackupName cfg t = BuildBackupName (sc_ClusterName cfg) t"

section \<open>extra.cnf\<close>

definition mysqlServerIDOffset :: int where "mysqlServerIDOffset = 100"
definition mysqlServerIDOffsetInc :: int where "mysqlServerIDOffsetInc = 100"

text \<open>\<open>int\<close> arithmetic on 64 bits.\<close>

definition int64 :: "int \<Rightarrow> int" where
  "int64 i = sint (word_of_int i :: 64 word)"

definition is_readonly_pod :: "string \<Rightarrow> bool" where
  "is_readonly_pod host = (let arr = split_on (CHR ''-'') host in length arr \<ge> 3 \<and> arr ! (length arr - 2) = ''ro'')"

definition server_id_start :: "SideConfig \<Rightarrow> int" where
  "server_id_start cfg =
     (let offset = (case atoi (sc_ServerIDStartOffset cfg) of Ok v \<Rightarrow> v | _ \<Rightarrow> 0);
          start = (if offset \<le> 0 then mysqlServerIDOffset else offset);
          start = (if length (sc_RemoteClusterName cfg) > 0 \<and> offset \<le> 0 then start + mysqlServerIDOffsetInc else start)
      in if is_readonly_pod (sc_HostName cfg) then start + mysqlServerIDOffsetInc else start)"

definition server_id :: "SideConfig \<Rightarrow> int res" where
  "server_id cfg = bind_res (GetOrdinal (sc_HostName cfg)) (\<lambda>ordinal. Ok (int64 (server_id_start cfg + ordinal)))"

definition buildExtraConfig :: "'sec SideLib \<Rightarrow> SideConfig \<Rightarrow> string \<Rightarrow> 'sec res" where
  "buildExtraConfig L cfg filePath =
     bind_res (server_id cfg) (\<lambda>i.
     bind_res (ini_new (sl_mysqld L) (ini_empty (sl_mysqld L)) ''server-id'' (int_str i)) (\<lambda>sec.
     ini_new (sl_mysqld L) sec ''init-file'' filePath))"

section \<open>client.conf\<close>

definition buildClientConfig :: "'sec SideLib \<Rightarrow> SideConfig \<Rightarrow> 'sec res" where
  "buildClientConfig L cfg = (let new = ini_new (sl_client L) in
     bind_res (new (ini_empty (sl_client L)) ''host'' ''127.0.0.1'') (\<lambda>sec.
     bind_res (new sec ''port'' (nat_str MysqlPort)) (\<lambda>sec.
     bind_res (new sec ''user'' (sc_OperatorUser cfg)) (\<lambda>sec.
     bind_res (new sec ''password'' (sc_OperatorPassword cfg)) (\<lambda>sec.
       if sv_Major (sc_MySQLVersion cfg) = 8 then new sec ''donor'' (sc_DonorClone cfg) else Ok sec)))))"

section \<open>xenon.json\<close>

definition xenon_json_format :: string where
  "xenon_json_format = (go_lines [
     ''{'',
     ''~t~t~qlog~q: {'',
     ''~t~t~t~qlevel~q: ~qINFO~q'',
     ''~t~t},'',
     ''~t~t~qserver~q: {'',
     ''~t~t~t~qendpoint~q: ~q%s:%d~q,'',
     ''~t~t~t~qpeer-address~q: ~q%s:%d~q,'',
     ''~t~t~t~qenable-apis~q: true'',
     ''~t~t},'',
     ''~t~t~qreplication~q: {'',
     ''~t~t~t~qpasswd~q: ~q%s~q,'',
     ''~t~t~t~quser~q: ~q%s~q,'',
     ''~t~t~t~qgtid-purged~q: ~q%s~q'',
     ''~t~t},'',
     ''~t~t~qrpc~q: {'',
     ''~t~t~t~qrequest-timeout~q: %d'',
     ''~t~t},'',
     ''~t~t~qmysql~q: {'',
     ''~t~t~t~qadmit-defeat-ping-count~q: 3,'',
     ''~t~t~t~qadmin~q: ~qroot~q,'',
     ''~t~t~t~qping-timeout~q: %d,'',
     ''~t~t~t~qpasswd~q: ~q%s~q,'',
     ''~t~t~t~qhost~q: ~q127.0.0.1~q,'',
     ''~t~t~t~qversion~q: ~q%s~q,'',
     ''~t~t~t~qmaster-sysvars~q: ~q%s~q,'',
     ''~t~t~t~qslave-sysvars~q: ~q%s~q,'',
     ''~t~t~t~qport~q: 3306,'',
     ''~t~t~t~qmonitor-disabled~q: true'',
     ''~t~t},'',
     ''~t~t~qraft~q: {'',
     ''~t~t~t~qelection-timeout~q: %d,'',
     ''~t~t~t~qadmit-defeat-hearbeat-count~q: %d,'',
     ''~t~t~t~qheartbeat-timeout~q: %d,'',
     ''~t~t~t~qmeta-datadir~q: ~q%s~q,'',
     ''~t~t~t~qsemi-sync-degrade~q: true,'',
     ''~t~t~t~qpurge-binlog-disabled~q: true,'',
     ''~t~t~t~qsuper-idle~q: false,'',
     ''~t~t~t~qleader-start-command~q: ~q/xenonchecker leaderStart~q,'',
     ''~t~t~t~qleader-stop-command~q: ~q/xenonchecker leaderStop~q'',
     ''~t~t}'',
     ''~t}'',
     ''~t''])"

definition buildXenonConf :: "SideConfig \<Rightarrow> string res" where
  "buildXenonConf cfg =
     bind_res (div32 (sc_ElectionTimeout cfg) (sc_AdmitDefeatHearbeatCount cfg)) (\<lambda>pingTimeout.
     bind_res (div32 (sc_ElectionTimeout cfg) (sc_AdmitDefeatHearbeatCount cfg)) (\<lambda>heartbeatTimeout.
     bind_res (div32 (sc_ElectionTimeout cfg) (sc_AdmitDefeatHearbeatCount cfg)) (\<lambda>requestTimeout.
     let version = (if sv_Major (sc_MySQLVersion cfg) = 5 then ''mysql57'' else ''mysql80'');
         srcSysVars = (if sc_InitTokuDB cfg
           then ''tokudb_fsync_log_period=default;sync_binlog=default;innodb_flush_log_at_trx_commit=default''
           else ''sync_binlog=default;innodb_flush_log_at_trx_commit=default'');
         replicaSysVars = (if sc_InitTokuDB cfg
           then ''tokudb_fsync_log_period=1000;sync_binlog=1000;innodb_flush_log_at_trx_commit=1''
           else ''sync_binlog=1000;innodb_flush_log_at_trx_commit=1'');
         hostName = sc_HostName cfg @ ''.'' @ sc_ServiceName cfg @ ''.'' @ sc_NameSpace cfg
     in Ok (sprintf xenon_json_format [hostName, nat_str XenonPort, hostName, nat_str XenonPeerPort,
          sc_ReplicationPassword cfg, sc_ReplicationUser cfg, sc_GtidPurged cfg, int32_str requestTimeout,
          int32_str pingTimeout, sc_RootPassword cfg, version, srcSysVars, replicaSysVars,
          int32_str (sc_ElectionTimeout cfg), int32_str (sc_AdmitDefeatHearbeatCount cfg), int32_str heartbeatTimeout,
          XenonMetaVolumeMountPath]))))"

section \<open>init.sql\<close>

definition init_sql_57_format :: string where
  "init_sql_57_format = (go_lines [
     ''SET @@SESSION.SQL_LOG_BIN=0;'',
     ''CREATE DATABASE IF NOT EXISTS %s;'',
     ''DROP user IF EXISTS ~aroot~a@~a127.0.0.1~a;'',
     ''CREATE USER ~aroot~a@~a127.0.0.1~a IDENTIFIED BY ~a%s~a;'',
     ''GRANT ALL ON *.* TO ~aroot~a@~a127.0.0.1~a  with grant option;'',
     ''DROP user IF EXISTS ~aroot~a@~a%%~a;'',
     ''CREATE USER ~aroot~a@~a%%~a IDENTIFIED BY ~a%s~a;'',
     ''GRANT ALL ON *.* TO ~aroot~a@~a%%~a with grant option;'',
     ''DROP user IF EXISTS ~a%s~a@~a%%~a;'',
     ''CREATE USER ~a%s~a@~a%%~a IDENTIFIED BY ~a%s~a;'',
     ''GRANT REPLICATION SLAVE, REPLICATION CLIENT ON *.* TO ~a%s~a@~a%%~a;'',
     ''DROP user IF EXISTS ~a%s~a@~a%%~a;'',
     ''CREATE USER ~a%s~a@~a%%~a IDENTIFIED BY ~a%s~a;'',
     ''GRANT SELECT, PROCESS, REPLICATION CLIENT ON *.* TO ~a%s~a@~a%%~a;'',
     ''DROP user IF EXISTS ~a%s~a@~a%%~a;'',
     ''CREATE USER ~a%s~a@~a%%~a IDENTIFIED BY ~a%s~a;'',
     ''GRANT SUPER, PROCESS, RELOAD, CREATE, SELECT ON *.* TO ~a%s~a@~a%%~a;'',
     ''DROP user IF EXISTS ~a%s~a@~a%%~a;'',
     ''CREATE USER ~a%s~a@~a%%~a IDENTIFIED BY ~a%s~a;'',
     ''GRANT ALL ON %s.* TO ~a%s~a@~a%%~a ;'',
     ''FLUSH PRIVILEGES;'',
     '''',
     ''%s'',
     ''''])"

definition init_sql_80_format :: string where
  "init_sql_80_format = (go_lines [
     ''SET @@SESSION.SQL_LOG_BIN=0;'',
     ''~t~tCREATE DATABASE IF NOT EXISTS %s;'',
     ''~t~tDROP user IF EXISTS ~aroot~a@~a127.0.0.1~a;'',
     ''~t~tCREATE USER ~aroot~a@~a127.0.0.1~a IDENTIFIED BY ~a%s~a;'',
     ''~t~tGRANT ALL ON *.* TO ~aroot~a@~a127.0.0.1~a  with grant option;'',
     ''~t~tDROP user IF EXISTS ~aroot~a@~a%%~a;'',
     ''~t~tCREATE USER ~aroot~a@~a%%~a IDENTIFIED BY ~a%s~a;'',
     ''~t~tGRANT ALL ON *.* TO ~aroot~a@~a%%~a with grant option;'',
     ''~t~tDROP user IF EXISTS ~a%s~a@~a%%~a;'',
     ''~t~tCREATE USER ~a%s~a@~a%%~a IDENTIFIED BY ~a%s~a;'',
     ''~t~tGRANT REPLICATION SLAVE, REPLICATION CLIENT ON *.* TO ~a%s~a@~a%%~a;'',
     ''~t~tDROP user IF EXISTS ~a%s~a@~a%%~a;'',
     ''~t~tCREATE USER ~a%s~a@~a%%~a IDENTIFIED BY ~a%s~a;'',
     ''~t~tGRANT SELECT, PROCESS, REPLICATION CLIENT ON *.* TO ~a%s~a@~a%%~a;'',
     ''~t~tDROP user IF EXISTS ~a%s~a@~a%%~a;'',
     ''~t~tCREATE USER ~a%s~a@~a%%~a IDENTIFIED BY ~a%s~a;'',
     ''~t~tGRANT SUPER, PROCESS, RELOAD, CREATE, SELECT ON *.* TO ~a%s~a@~a%%~a;'',
     ''~t~tDROP user IF EXISTS ~a%s~a@~a%%~a;'',
     ''~t~tCREATE USER ~a%s~a@~a%%~a IDENTIFIED BY ~a%s~a;'',
     ''~t~tGRANT ALL ON %s.* TO ~a%s~a@~a%%~a ;'',
     ''~t~tDROP user IF EXISTS ~a%s~a@~a%%~a;'',
     ''~t~tCREATE USER ~a%s~a@~a%%~a IDENTIFIED BY ~a%s~a;'',
     ''~t~tGRANT BACKUP_ADMIN ON *.* TO ~a%s~a@~a%%~a ;'',
     ''~t~tFLUSH PRIVILEGES;'',
     ''~t~t'',
     ''~t~t%s'',
     ''~t~t''])"

text \<open>The arguments up to the grant of the user, which both versions share.\<close>

definition init_sql_args :: "SideConfig \<Rightarrow> string list" where
  "init_sql_args cfg =
     [sc_Database cfg, sc_RootPassword cfg, sc_InternalRootPassword cfg,
      sc_ReplicationUser cfg, sc_ReplicationUser cfg, sc_ReplicationPassword cfg, sc_ReplicationUser cfg,
      sc_MetricsUser cfg, sc_MetricsUser cfg, sc_MetricsPassword cfg, sc_MetricsUser cfg,
      sc_OperatorUser cfg, sc_OperatorUser cfg, sc_OperatorPassword cfg, sc_OperatorUser cfg,
      sc_User cfg, sc_User cfg, sc_Password cfg, sc_Database cfg, sc_User cfg]"

definition init_sql_text :: "SideConfig \<Rightarrow> string \<Rightarrow> bool \<Rightarrow> string" where
  "init_sql_text cfg initSQL hasInit =
     (if sv_Major (sc_MySQLVersion cfg) = 5 then sprintf init_sql_57_format (init_sql_args cfg @ [initSQL])
      else sprintf init_sql_80_format (init_sql_args cfg @
        [sc_DonorClone cfg, sc_DonorClone cfg, sc_DonorClonePassword cfg, sc_DonorClone cfg, initSQL])) @
     (if hasInit then go_lines ['''', ''RESET SLAVE ALL;'', ''''] else [])"

text \<open>A file that cannot be read counts as empty.\<close>

definition read_or_empty :: "SideEnv \<Rightarrow> string \<Rightarrow> ('z Side_scheme, string) go" where
  "read_or_empty E p = handle (squery E (SvReadFile p) (se_text E)) (\<lambda>_. ret [])"

definition buildInitSql :: "SideEnv \<Rightarrow> bool \<Rightarrow> (SideState, string) go" where
  "buildInitSql E hasInit = bnd (gets sd_cfg) (\<lambda>cfg.
     bnd (read_or_empty E (path_join [MysqlCMVolumeMountPath, ''init.sql''])) (\<lambda>initSQL.
     ret (init_sql_text cfg initSQL hasInit)))"

section \<open>The position of a backup\<close>

text \<open>\<open>xtrabackup_binlog_info\<close>: file, position and, with GTIDs on, the executed set, which may span lines.\<close>

definition gtid_of_info :: "string \<Rightarrow> string res" where
  "gtid_of_info content = (let ss = split_on (CHR 0x09) (trim_suffix content [CHR 0x0A])
     in if length ss \<noteq> 3 then Fail (GErr (''info.file.content.invalid['' @ content @ '']''))
        else Ok (remove_char (CHR 0x0A) (ss ! 2)))"

definition GetXtrabackupGTIDPurged :: "SideEnv \<Rightarrow> string \<Rightarrow> ('z Side_scheme, string) go" where
  "GetXtrabackupGTIDPurged E backuppath =
     bnd (squery E (SvReadFile (backuppath @ ''/xtrabackup_binlog_info'')) (se_text E)) (\<lambda>content. lift (gtid_of_info content))"

text \<open>\<open>gtid, _ := ...\<close>: an error leaves the empty string.\<close>

definition gtid_or_empty :: "SideEnv \<Rightarrow> string \<Rightarrow> ('z Side_scheme, string) go" where
  "gtid_or_empty E p = handle (GetXtrabackupGTIDPurged E p) (\<lambda>_. ret [])"

section \<open>Properties\<close>

lemma int64_word: "word_of_int (int64 i) = (word_of_int i :: 64 word)"
  by (simp add: int64_def)

lemma int64_small: "- (2 ^ 63) \<le> i \<Longrightarrow> i < 2 ^ 63 \<Longrightarrow> int64 i = i"
  by (simp add: int64_def signed_of_int signed_take_bit_int_eq_self)

lemma split_last_two: "CHR ''-'' \<notin> set d \<Longrightarrow>
  split_on (CHR ''-'') (base @ CHR ''-'' # d) = split_on (CHR ''-'') base @ [d]"
proof (induction base)
  case (Cons c cs)
  then show ?case by (auto split: list.split simp: append_eq_Cons_conv Cons_eq_append_conv)
qed (simp add: split_on_no_sep)

lemma is_readonly_ordinal: "is_readonly_pod (base @ CHR ''-'' # nat_str i) \<longleftrightarrow>
    (let arr = split_on (CHR ''-'') base in length arr \<ge> 2 \<and> last arr = ''ro'')"
proof -
  define xs where "xs = split_on (CHR ''-'') base"
  have ne: "xs \<noteq> []" by (simp add: xs_def)
  have "split_on (CHR ''-'') (base @ CHR ''-'' # nat_str i) = xs @ [nat_str i]"
    unfolding xs_def by (rule split_last_two) simp
  then show ?thesis
    using ne by (auto simp: is_readonly_pod_def Let_def xs_def [symmetric] nth_append last_conv_nth)
qed

lemma server_id_ordinal:
  assumes "i < 2 ^ 63"
  shows "server_id (cfg\<lparr>sc_HostName := base @ CHR ''-'' # nat_str i\<rparr>) =
    Ok (int64 (server_id_start (cfg\<lparr>sc_HostName := base @ CHR ''-'' # nat_str i\<rparr>) + int i))"
  using assms by (simp add: server_id_def GetOrdinal_nat)

lemma server_id_start_base:
  "server_id_start (cfg\<lparr>sc_HostName := base @ CHR ''-'' # nat_str i\<rparr>) =
   server_id_start (cfg\<lparr>sc_HostName := base @ CHR ''-'' # nat_str j\<rparr>)"
  by (simp add: server_id_start_def is_readonly_ordinal)

text \<open>
  C38. The pods of one stateful set never share a server id: with the same settings, two
  ordinals below 2^63 give the same id only when they are equal, whatever the offset
  configured for the cluster, an overflow of the sum included.
\<close>

theorem server_id_distinct:
  assumes "i < 2 ^ 63" "j < 2 ^ 63"
  shows "server_id (cfg\<lparr>sc_HostName := base @ CHR ''-'' # nat_str i\<rparr>) =
         server_id (cfg\<lparr>sc_HostName := base @ CHR ''-'' # nat_str j\<rparr>) \<longleftrightarrow> i = j"
proof
  define st where "st = server_id_start (cfg\<lparr>sc_HostName := base @ CHR ''-'' # nat_str i\<rparr>)"
  assume "server_id (cfg\<lparr>sc_HostName := base @ CHR ''-'' # nat_str i\<rparr>) =
         server_id (cfg\<lparr>sc_HostName := base @ CHR ''-'' # nat_str j\<rparr>)"
  then have "int64 (st + int i) = int64 (st + int j)"
    unfolding server_id_ordinal [OF assms(1)] server_id_ordinal [OF assms(2)]
      server_id_start_base [of base j cfg i] st_def by simp
  then have "(word_of_int (st + int i) :: 64 word) = word_of_int (st + int j)"
    by (metis int64_word)
  then have "(word_of_nat i :: 64 word) = word_of_nat j" by simp
  with assms show "i = j" by (simp add: word_of_nat_eq_iff take_bit_nat_eq_self)
qed simp

theorem server_id_distinct_witness:
  "server_id (no_config\<lparr>sc_HostName := ''sample-mysql'' @ CHR ''-'' # nat_str 0\<rparr>) \<noteq>
   server_id (no_config\<lparr>sc_HostName := ''sample-mysql'' @ CHR ''-'' # nat_str 2\<rparr>)"
  using server_id_distinct [of 0 2 "''sample-mysql''" no_config] by simp

text \<open>Without an offset, a pod and its ordinal give these ids.\<close>

lemma server_id_default:
  assumes "atoi (sc_ServerIDStartOffset cfg) = Fail e" "i < 2 ^ 62" "is_readonly_pod (base @ CHR ''-'' # nat_str i) = ro"
  shows "server_id (cfg\<lparr>sc_HostName := base @ CHR ''-'' # nat_str i\<rparr>) =
    Ok (100 + (if sc_RemoteClusterName cfg \<noteq> [] then 100 else 0) + (if ro then 100 else 0) + int i)"
proof -
  have st: "server_id_start (cfg\<lparr>sc_HostName := base @ CHR ''-'' # nat_str i\<rparr>) =
      100 + (if sc_RemoteClusterName cfg \<noteq> [] then 100 else 0) + (if ro then 100 else 0)"
    using assms(1,3) by (simp add: server_id_start_def mysqlServerIDOffset_def mysqlServerIDOffsetInc_def)
  have "i < 2 ^ 63" using assms(2) by simp
  moreover have "int i < 2 ^ 62" using assms(2) by (metis of_nat_less_iff of_nat_numeral of_nat_power)
  ultimately show ?thesis
    unfolding server_id_ordinal [OF \<open>i < 2 ^ 63\<close>] st by (simp add: int64_small)
qed

text \<open>
  The offsets of the three kinds of pod overlap. With no offset configured, the pod \<open>i\<close> of
  a standby cluster (one that names a remote cluster) gets the server id of the read-only
  pod \<open>i\<close> of a cluster without a remote one, its source for instance, and a read-only pod
  \<open>i\<close> gets that of the pod \<open>i + 100\<close> of its own cluster.
\<close>

theorem server_id_collisions:
  assumes "sc_ServerIDStartOffset cfg = []" "sc_RemoteClusterName cfg = []" "remote \<noteq> []" "i < 2 ^ 61"
  shows "server_id (cfg\<lparr>sc_RemoteClusterName := remote, sc_HostName := ''standby-mysql'' @ CHR ''-'' # nat_str i\<rparr>) =
         server_id (cfg\<lparr>sc_HostName := ''source-mysql-ro'' @ CHR ''-'' # nat_str i\<rparr>)"
    and "server_id (cfg\<lparr>sc_HostName := ''source-mysql-ro'' @ CHR ''-'' # nat_str i\<rparr>) =
         server_id (cfg\<lparr>sc_HostName := ''source-mysql'' @ CHR ''-'' # nat_str (i + 100)\<rparr>)"
proof -
  have e: "\<exists>e. atoi (sc_ServerIDStartOffset cfg) = Fail e" by (simp add: assms(1) atoi_def)
  then obtain e where e1: "atoi (sc_ServerIDStartOffset cfg) = Fail e" ..
  then have e2: "atoi (sc_ServerIDStartOffset (cfg\<lparr>sc_RemoteClusterName := remote\<rparr>)) = Fail e" by simp
  have b: "i < 2 ^ 62" "i + 100 < 2 ^ 62" using assms(4) by simp_all
  have ro: "is_readonly_pod (''source-mysql-ro'' @ CHR ''-'' # nat_str k)"
    "\<not> is_readonly_pod (''standby-mysql'' @ CHR ''-'' # nat_str k)"
    "\<not> is_readonly_pod (''source-mysql'' @ CHR ''-'' # nat_str k)" for k
    unfolding is_readonly_ordinal by simp_all
  have s1: "server_id (cfg\<lparr>sc_RemoteClusterName := remote, sc_HostName := ''standby-mysql'' @ CHR ''-'' # nat_str i\<rparr>) = Ok (200 + int i)"
    by (subst server_id_default [OF e2 b(1) refl]) (use ro assms(3) in simp)
  have s2: "server_id (cfg\<lparr>sc_HostName := ''source-mysql-ro'' @ CHR ''-'' # nat_str i\<rparr>) = Ok (200 + int i)"
    by (subst server_id_default [OF e1 b(1) refl]) (use ro assms(2) in simp)
  have s3: "server_id (cfg\<lparr>sc_HostName := ''source-mysql'' @ CHR ''-'' # nat_str (i + 100)\<rparr>) = Ok (200 + int i)"
    by (subst server_id_default [OF e1 b(2) refl]) (use ro assms(2) in simp)
  show "server_id (cfg\<lparr>sc_RemoteClusterName := remote, sc_HostName := ''standby-mysql'' @ CHR ''-'' # nat_str i\<rparr>) =
         server_id (cfg\<lparr>sc_HostName := ''source-mysql-ro'' @ CHR ''-'' # nat_str i\<rparr>)"
    by (simp only: s1 s2)
  show "server_id (cfg\<lparr>sc_HostName := ''source-mysql-ro'' @ CHR ''-'' # nat_str i\<rparr>) =
         server_id (cfg\<lparr>sc_HostName := ''source-mysql'' @ CHR ''-'' # nat_str (i + 100)\<rparr>)"
    by (simp only: s2 s3)
qed

text \<open>Building \<open>xenon.json\<close> panics exactly when the admitted number of lost heartbeats is zero.\<close>

lemma buildXenonConf_panics: "is_panic (buildXenonConf cfg) \<longleftrightarrow> sc_AdmitDefeatHearbeatCount cfg = 0"
  by (simp add: buildXenonConf_def div32_def Let_def)

lemma buildXenonConf_ok: "sc_AdmitDefeatHearbeatCount cfg \<noteq> 0 \<Longrightarrow> \<exists>t. buildXenonConf cfg = Ok t"
  by (simp add: buildXenonConf_def div32_def Let_def)

text \<open>
  The position file of xtrabackup is read back: a file name, a position and a GTID set
  without tabs, the set broken over lines anywhere, give the set with its line breaks
  removed; a file without a set (GTIDs off) is an error, not an empty set.
\<close>

theorem gtid_info_roundtrip:
  assumes "CHR 0x09 \<notin> set file" "CHR 0x09 \<notin> set pos" "CHR 0x09 \<notin> set (concat parts)" "parts \<noteq> []"
  shows "gtid_of_info (file @ [CHR 0x09] @ pos @ [CHR 0x09] @ join_with [CHR 0x0A] parts @ [CHR 0x0A]) =
           Ok (remove_char (CHR 0x0A) (concat parts))"
    and "\<exists>e. gtid_of_info (file @ [CHR 0x09] @ pos @ [CHR 0x0A]) = Fail e"
proof -
  have trim: "trim_suffix (s @ [c]) [c] = s" for s and c :: char
    by (simp add: trim_suffix_def has_suffix_def)
  define g where "g = join_with [CHR 0x0A] parts"
  have g: "CHR 0x09 \<notin> set g" "remove_char (CHR 0x0A) g = remove_char (CHR 0x0A) (concat parts)"
    using assms(3) unfolding g_def remove_char_def by (induction "[CHR 0x0A]" parts rule: join_with.induct) auto
  have "split_on (CHR 0x09) (file @ CHR 0x09 # pos @ CHR 0x09 # g) = [file, pos, g]"
    using assms(1,2) g(1) by (simp add: split_on_append split_on_no_sep)
  moreover have "trim_suffix (file @ [CHR 0x09] @ pos @ [CHR 0x09] @ g @ [CHR 0x0A]) [CHR 0x0A] =
      file @ CHR 0x09 # pos @ CHR 0x09 # g"
    using trim [of "file @ CHR 0x09 # pos @ CHR 0x09 # g" "CHR 0x0A"] by simp
  ultimately show "gtid_of_info (file @ [CHR 0x09] @ pos @ [CHR 0x09] @ join_with [CHR 0x0A] parts @ [CHR 0x0A]) =
           Ok (remove_char (CHR 0x0A) (concat parts))"
    using g(2) unfolding gtid_of_info_def g_def [symmetric] by simp
  have "trim_suffix (file @ [CHR 0x09] @ pos @ [CHR 0x0A]) [CHR 0x0A] = file @ CHR 0x09 # pos"
    using trim [of "file @ CHR 0x09 # pos" "CHR 0x0A"] by simp
  moreover have "split_on (CHR 0x09) (file @ CHR 0x09 # pos) = [file, pos]"
    using assms(1,2) by (simp add: split_on_append split_on_no_sep)
  ultimately show "\<exists>e. gtid_of_info (file @ [CHR 0x09] @ pos @ [CHR 0x0A]) = Fail e"
    unfolding gtid_of_info_def by simp
qed

theorem gtid_info_roundtrip_witness:
  "gtid_of_info (''mysql-bin.000002'' @ [CHR 0x09] @ ''588'' @ [CHR 0x09] @
     join_with [CHR 0x0A] [''319bd6eb:1-2,'', ''7e1ef582:1-9''] @ [CHR 0x0A]) = Ok ''319bd6eb:1-2,7e1ef582:1-9''"
  using gtid_info_roundtrip(1) [of "''mysql-bin.000002''" "''588''" "[''319bd6eb:1-2,'', ''7e1ef582:1-9'']"]
  by (simp add: remove_char_def)

section \<open>The accounts init.sql creates\<close>

definition quote :: "string \<Rightarrow> string" where
  "quote s = [CHR 0x27] @ s @ [CHR 0x27]"

text \<open>An account is dropped, created with its password and given its privileges.\<close>

definition account :: "string \<Rightarrow> string \<Rightarrow> string \<Rightarrow> string \<Rightarrow> string \<Rightarrow> string list" where
  "account user host password privileges rest =
     [''DROP user IF EXISTS '' @ quote user @ ''@'' @ quote host @ '';'',
      ''CREATE USER '' @ quote user @ ''@'' @ quote host @ '' IDENTIFIED BY '' @ quote password @ '';'',
      ''GRANT '' @ privileges @ '' TO '' @ quote user @ ''@'' @ quote host @ rest]"

definition init_statements :: "SideConfig \<Rightarrow> string list" where
  "init_statements cfg =
     [''SET @@SESSION.SQL_LOG_BIN=0;'', ''CREATE DATABASE IF NOT EXISTS '' @ sc_Database cfg @ '';''] @
     account ''root'' ''127.0.0.1'' (sc_RootPassword cfg) ''ALL ON *.*'' ''  with grant option;'' @
     account ''root'' ''%'' (sc_InternalRootPassword cfg) ''ALL ON *.*'' '' with grant option;'' @
     account (sc_ReplicationUser cfg) ''%'' (sc_ReplicationPassword cfg) ''REPLICATION SLAVE, REPLICATION CLIENT ON *.*'' '';'' @
     account (sc_MetricsUser cfg) ''%'' (sc_MetricsPassword cfg) ''SELECT, PROCESS, REPLICATION CLIENT ON *.*'' '';'' @
     account (sc_OperatorUser cfg) ''%'' (sc_OperatorPassword cfg) ''SUPER, PROCESS, RELOAD, CREATE, SELECT ON *.*'' '';'' @
     account (sc_User cfg) ''%'' (sc_Password cfg) (''ALL ON '' @ sc_Database cfg @ ''.*'') '' ;'' @
     (if sv_Major (sc_MySQLVersion cfg) = 5 then []
      else account (sc_DonorClone cfg) ''%'' (sc_DonorClonePassword cfg) ''BACKUP_ADMIN ON *.*'' '' ;'') @
     [''FLUSH PRIVILEGES;'']"

definition line_break :: "SideConfig \<Rightarrow> string" where
  "line_break cfg = (if sv_Major (sc_MySQLVersion cfg) = 5 then [CHR 0x0A] else [CHR 0x0A, CHR 0x09, CHR 0x09])"

lemma pieces_57: "fmt_pieces init_sql_57_format = [
     ''SET @@SESSION.SQL_LOG_BIN=0;'' @ [CHR 0x0A] @ ''CREATE DATABASE IF NOT EXISTS '',
     '';'' @ [CHR 0x0A] @ ''DROP user IF EXISTS '' @ [CHR 0x27] @ ''root'' @ [CHR 0x27] @ ''@'' @ [CHR 0x27] @ ''127.0.0.1'' @ [CHR 0x27] @ '';'' @ [CHR 0x0A] @
      ''CREATE USER '' @ [CHR 0x27] @ ''root'' @ [CHR 0x27] @ ''@'' @ [CHR 0x27] @ ''127.0.0.1'' @ [CHR 0x27] @ '' IDENTIFIED BY '' @ [CHR 0x27],
     [CHR 0x27] @ '';'' @ [CHR 0x0A] @ ''GRANT ALL ON *.* TO '' @ [CHR 0x27] @ ''root'' @ [CHR 0x27] @ ''@'' @ [CHR 0x27] @ ''127.0.0.1'' @ [CHR 0x27] @
      ''  with grant option;'' @ [CHR 0x0A] @ ''DROP user IF EXISTS '' @ [CHR 0x27] @ ''root'' @ [CHR 0x27] @ ''@'' @ [CHR 0x27] @ ''%'' @ [CHR 0x27] @ '';'' @
      [CHR 0x0A] @ ''CREATE USER '' @ [CHR 0x27] @ ''root'' @ [CHR 0x27] @ ''@'' @ [CHR 0x27] @ ''%'' @ [CHR 0x27] @ '' IDENTIFIED BY '' @ [CHR 0x27],
     [CHR 0x27] @ '';'' @ [CHR 0x0A] @ ''GRANT ALL ON *.* TO '' @ [CHR 0x27] @ ''root'' @ [CHR 0x27] @ ''@'' @ [CHR 0x27] @ ''%'' @ [CHR 0x27] @
      '' with grant option;'' @ [CHR 0x0A] @ ''DROP user IF EXISTS '' @ [CHR 0x27],
     [CHR 0x27] @ ''@'' @ [CHR 0x27] @ ''%'' @ [CHR 0x27] @ '';'' @ [CHR 0x0A] @ ''CREATE USER '' @ [CHR 0x27],
     [CHR 0x27] @ ''@'' @ [CHR 0x27] @ ''%'' @ [CHR 0x27] @ '' IDENTIFIED BY '' @ [CHR 0x27],
     [CHR 0x27] @ '';'' @ [CHR 0x0A] @ ''GRANT REPLICATION SLAVE, REPLICATION CLIENT ON *.* TO '' @ [CHR 0x27],
     [CHR 0x27] @ ''@'' @ [CHR 0x27] @ ''%'' @ [CHR 0x27] @ '';'' @ [CHR 0x0A] @ ''DROP user IF EXISTS '' @ [CHR 0x27],
     [CHR 0x27] @ ''@'' @ [CHR 0x27] @ ''%'' @ [CHR 0x27] @ '';'' @ [CHR 0x0A] @ ''CREATE USER '' @ [CHR 0x27],
     [CHR 0x27] @ ''@'' @ [CHR 0x27] @ ''%'' @ [CHR 0x27] @ '' IDENTIFIED BY '' @ [CHR 0x27],
     [CHR 0x27] @ '';'' @ [CHR 0x0A] @ ''GRANT SELECT, PROCESS, REPLICATION CLIENT ON *.* TO '' @ [CHR 0x27],
     [CHR 0x27] @ ''@'' @ [CHR 0x27] @ ''%'' @ [CHR 0x27] @ '';'' @ [CHR 0x0A] @ ''DROP user IF EXISTS '' @ [CHR 0x27],
     [CHR 0x27] @ ''@'' @ [CHR 0x27] @ ''%'' @ [CHR 0x27] @ '';'' @ [CHR 0x0A] @ ''CREATE USER '' @ [CHR 0x27],
     [CHR 0x27] @ ''@'' @ [CHR 0x27] @ ''%'' @ [CHR 0x27] @ '' IDENTIFIED BY '' @ [CHR 0x27],
     [CHR 0x27] @ '';'' @ [CHR 0x0A] @ ''GRANT SUPER, PROCESS, RELOAD, CREATE, SELECT ON *.* TO '' @ [CHR 0x27],
     [CHR 0x27] @ ''@'' @ [CHR 0x27] @ ''%'' @ [CHR 0x27] @ '';'' @ [CHR 0x0A] @ ''DROP user IF EXISTS '' @ [CHR 0x27],
     [CHR 0x27] @ ''@'' @ [CHR 0x27] @ ''%'' @ [CHR 0x27] @ '';'' @ [CHR 0x0A] @ ''CREATE USER '' @ [CHR 0x27],
     [CHR 0x27] @ ''@'' @ [CHR 0x27] @ ''%'' @ [CHR 0x27] @ '' IDENTIFIED BY '' @ [CHR 0x27],
     [CHR 0x27] @ '';'' @ [CHR 0x0A] @ ''GRANT ALL ON '',
     ''.* TO '' @ [CHR 0x27],
     [CHR 0x27] @ ''@'' @ [CHR 0x27] @ ''%'' @ [CHR 0x27] @ '' ;'' @ [CHR 0x0A] @ ''FLUSH PRIVILEGES;'' @ [CHR 0x0A] @ [CHR 0x0A],
     [CHR 0x0A]]"
  by code_simp

lemma pieces_80: "fmt_pieces init_sql_80_format = [
     ''SET @@SESSION.SQL_LOG_BIN=0;'' @ [CHR 0x0A] @ [CHR 0x09] @ [CHR 0x09] @ ''CREATE DATABASE IF NOT EXISTS '',
     '';'' @ [CHR 0x0A] @ [CHR 0x09] @ [CHR 0x09] @ ''DROP user IF EXISTS '' @ [CHR 0x27] @ ''root'' @ [CHR 0x27] @ ''@'' @ [CHR 0x27] @ ''127.0.0.1'' @
      [CHR 0x27] @ '';'' @ [CHR 0x0A] @ [CHR 0x09] @ [CHR 0x09] @ ''CREATE USER '' @ [CHR 0x27] @ ''root'' @ [CHR 0x27] @ ''@'' @ [CHR 0x27] @ ''127.0.0.1'' @
      [CHR 0x27] @ '' IDENTIFIED BY '' @ [CHR 0x27],
     [CHR 0x27] @ '';'' @ [CHR 0x0A] @ [CHR 0x09] @ [CHR 0x09] @ ''GRANT ALL ON *.* TO '' @ [CHR 0x27] @ ''root'' @ [CHR 0x27] @ ''@'' @ [CHR 0x27] @
      ''127.0.0.1'' @ [CHR 0x27] @ ''  with grant option;'' @ [CHR 0x0A] @ [CHR 0x09] @ [CHR 0x09] @ ''DROP user IF EXISTS '' @ [CHR 0x27] @ ''root'' @
      [CHR 0x27] @ ''@'' @ [CHR 0x27] @ ''%'' @ [CHR 0x27] @ '';'' @ [CHR 0x0A] @ [CHR 0x09] @ [CHR 0x09] @ ''CREATE USER '' @ [CHR 0x27] @ ''root'' @
      [CHR 0x27] @ ''@'' @ [CHR 0x27] @ ''%'' @ [CHR 0x27] @ '' IDENTIFIED BY '' @ [CHR 0x27],
     [CHR 0x27] @ '';'' @ [CHR 0x0A] @ [CHR 0x09] @ [CHR 0x09] @ ''GRANT ALL ON *.* TO '' @ [CHR 0x27] @ ''root'' @ [CHR 0x27] @ ''@'' @ [CHR 0x27] @ ''%'' @
      [CHR 0x27] @ '' with grant option;'' @ [CHR 0x0A] @ [CHR 0x09] @ [CHR 0x09] @ ''DROP user IF EXISTS '' @ [CHR 0x27],
     [CHR 0x27] @ ''@'' @ [CHR 0x27] @ ''%'' @ [CHR 0x27] @ '';'' @ [CHR 0x0A] @ [CHR 0x09] @ [CHR 0x09] @ ''CREATE USER '' @ [CHR 0x27],
     [CHR 0x27] @ ''@'' @ [CHR 0x27] @ ''%'' @ [CHR 0x27] @ '' IDENTIFIED BY '' @ [CHR 0x27],
     [CHR 0x27] @ '';'' @ [CHR 0x0A] @ [CHR 0x09] @ [CHR 0x09] @ ''GRANT REPLICATION SLAVE, REPLICATION CLIENT ON *.* TO '' @ [CHR 0x27],
     [CHR 0x27] @ ''@'' @ [CHR 0x27] @ ''%'' @ [CHR 0x27] @ '';'' @ [CHR 0x0A] @ [CHR 0x09] @ [CHR 0x09] @ ''DROP user IF EXISTS '' @ [CHR 0x27],
     [CHR 0x27] @ ''@'' @ [CHR 0x27] @ ''%'' @ [CHR 0x27] @ '';'' @ [CHR 0x0A] @ [CHR 0x09] @ [CHR 0x09] @ ''CREATE USER '' @ [CHR 0x27],
     [CHR 0x27] @ ''@'' @ [CHR 0x27] @ ''%'' @ [CHR 0x27] @ '' IDENTIFIED BY '' @ [CHR 0x27],
     [CHR 0x27] @ '';'' @ [CHR 0x0A] @ [CHR 0x09] @ [CHR 0x09] @ ''GRANT SELECT, PROCESS, REPLICATION CLIENT ON *.* TO '' @ [CHR 0x27],
     [CHR 0x27] @ ''@'' @ [CHR 0x27] @ ''%'' @ [CHR 0x27] @ '';'' @ [CHR 0x0A] @ [CHR 0x09] @ [CHR 0x09] @ ''DROP user IF EXISTS '' @ [CHR 0x27],
     [CHR 0x27] @ ''@'' @ [CHR 0x27] @ ''%'' @ [CHR 0x27] @ '';'' @ [CHR 0x0A] @ [CHR 0x09] @ [CHR 0x09] @ ''CREATE USER '' @ [CHR 0x27],
     [CHR 0x27] @ ''@'' @ [CHR 0x27] @ ''%'' @ [CHR 0x27] @ '' IDENTIFIED BY '' @ [CHR 0x27],
     [CHR 0x27] @ '';'' @ [CHR 0x0A] @ [CHR 0x09] @ [CHR 0x09] @ ''GRANT SUPER, PROCESS, RELOAD, CREATE, SELECT ON *.* TO '' @ [CHR 0x27],
     [CHR 0x27] @ ''@'' @ [CHR 0x27] @ ''%'' @ [CHR 0x27] @ '';'' @ [CHR 0x0A] @ [CHR 0x09] @ [CHR 0x09] @ ''DROP user IF EXISTS '' @ [CHR 0x27],
     [CHR 0x27] @ ''@'' @ [CHR 0x27] @ ''%'' @ [CHR 0x27] @ '';'' @ [CHR 0x0A] @ [CHR 0x09] @ [CHR 0x09] @ ''CREATE USER '' @ [CHR 0x27],
     [CHR 0x27] @ ''@'' @ [CHR 0x27] @ ''%'' @ [CHR 0x27] @ '' IDENTIFIED BY '' @ [CHR 0x27],
     [CHR 0x27] @ '';'' @ [CHR 0x0A] @ [CHR 0x09] @ [CHR 0x09] @ ''GRANT ALL ON '',
     ''.* TO '' @ [CHR 0x27],
     [CHR 0x27] @ ''@'' @ [CHR 0x27] @ ''%'' @ [CHR 0x27] @ '' ;'' @ [CHR 0x0A] @ [CHR 0x09] @ [CHR 0x09] @ ''DROP user IF EXISTS '' @ [CHR 0x27],
     [CHR 0x27] @ ''@'' @ [CHR 0x27] @ ''%'' @ [CHR 0x27] @ '';'' @ [CHR 0x0A] @ [CHR 0x09] @ [CHR 0x09] @ ''CREATE USER '' @ [CHR 0x27],
     [CHR 0x27] @ ''@'' @ [CHR 0x27] @ ''%'' @ [CHR 0x27] @ '' IDENTIFIED BY '' @ [CHR 0x27],
     [CHR 0x27] @ '';'' @ [CHR 0x0A] @ [CHR 0x09] @ [CHR 0x09] @ ''GRANT BACKUP_ADMIN ON *.* TO '' @ [CHR 0x27],
     [CHR 0x27] @ ''@'' @ [CHR 0x27] @ ''%'' @ [CHR 0x27] @ '' ;'' @ [CHR 0x0A] @ [CHR 0x09] @ [CHR 0x09] @ ''FLUSH PRIVILEGES;'' @ [CHR 0x0A] @ [CHR 0x09] @
      [CHR 0x09] @ [CHR 0x0A] @ [CHR 0x09] @ [CHR 0x09],
     [CHR 0x0A] @ [CHR 0x09] @ [CHR 0x09]]"
  by code_simp

text \<open>
  C13. The initial SQL is the list of statements one expects: both formats print the session
  setting, the database, and for each account its drop, its creation and its grant for the
  same name, then FLUSH PRIVILEGES and the file of the user, line by line; on a data
  directory that was there before, replication is reset at the end.
\<close>

theorem init_sql_statements:
  "init_sql_text cfg initSQL hasInit =
     join_with (line_break cfg) (init_statements cfg @ [[], initSQL, []]) @
     (if hasInit then [CHR 0x0A] @ ''RESET SLAVE ALL;'' @ [CHR 0x0A] else [])"
proof (cases "sv_Major (sc_MySQLVersion cfg) = 5")
  case True
  then show ?thesis
    by (simp add: init_sql_text_def sprintf_def pieces_57 init_sql_args_def init_statements_def account_def quote_def
        line_break_def go_lines_def)
next
  case False
  then show ?thesis
    by (simp add: init_sql_text_def sprintf_def pieces_80 init_sql_args_def init_statements_def account_def quote_def
        line_break_def go_lines_def)
qed

end
