(* ===== verification/SideRestore.thy ===== *)
theory SideRestore
  imports SideConf
begin

text \<open>
  Filling an empty data directory (\<open>sidecar/config.go\<close>, \<open>pitr.go\<close>): restore from S3, from NFS,
  from a clone that was streamed in, from a remote server, and the script that replays binary
  logs up to a point in time.
\<close>

section \<open>Steps the restores share\<close>

text \<open>\<open>exec.Command(...).Run()\<close>, its error wrapped.\<close>

definition run_cmd :: "SideEnv \<Rightarrow> string \<Rightarrow> string list \<Rightarrow> ('z Side_scheme, unit) go" where
  "run_cmd E msg args = errorf msg (scall E (SvRun args))"

text \<open>\<open>_, err := os.Stat(p); os.IsNotExist(err)\<close>.\<close>

definition path_missing :: "SideEnv \<Rightarrow> string \<Rightarrow> ('z Side_scheme, bool) go" where
  "path_missing E p = bnd (attempt (scall E (SvStat p))) (\<lambda>r. ret (case r of Inl e \<Rightarrow> is_not_exist e | Inr _ \<Rightarrow> False))"

definition my_cnf :: string where
  "my_cnf = ''--defaults-file='' @ MysqlConfVolumeMountPath @ ''/my.cnf''"

text \<open>\<open>xtrabackup --prepare\<close> on a directory, with the memory option or without.\<close>

definition prepare_args :: "bool \<Rightarrow> bool \<Rightarrow> string \<Rightarrow> string list" where
  "prepare_args memory logOnly dir = [xtrabackupCommand, my_cnf] @ (if memory then [''--use-memory=3072M''] else []) @
     [''--prepare''] @ (if logOnly then [''--apply-log-only''] else []) @ [''--target-dir='' @ dir]"

definition chown_data :: "string list" where
  "chown_data = [''chown'', ''-R'', ''mysql.mysql'', DataVolumeMountPath]"

lemma emits_run_cmd [emits_intros]: "A (SvRun args) \<Longrightarrow> emits sd_trace A (run_cmd E msg args)"
  unfolding run_cmd_def by (intro emits_intros)

lemma emits_path_missing [emits_intros]: "A (SvStat p) \<Longrightarrow> emits sd_trace A (path_missing E p)"
  unfolding path_missing_def by (intro emits_intros)

section \<open>S3 (sidecar/pitr.go)\<close>

definition NewS3 :: "SideEnv \<Rightarrow> string \<Rightarrow> string \<Rightarrow> string \<Rightarrow> string \<Rightarrow> bool \<Rightarrow> ('z Side_scheme, unit) go" where
  "NewS3 E endpoint accessKeyID secretAccessKey bucketName sec =
     errorf ''new minio client: ''
       (scall E (SvS3New [rev (dropWhile (\<lambda>c. c = CHR ''/'') (rev endpoint)), accessKeyID, secretAccessKey, bucketName] sec))"

text \<open>The client of a configuration: the scheme is cut off the end point and decides on TLS.\<close>

definition s3_of :: "SideEnv \<Rightarrow> string \<Rightarrow> string \<Rightarrow> string \<Rightarrow> string \<Rightarrow> ('z Side_scheme, unit) go" where
  "s3_of E endpoint access secret bucket = errorf ''failed to new s3 : ''
     (NewS3 E (trim_prefix (trim_prefix endpoint ''https://'') ''http://'') access secret bucket (has_prefix endpoint ''https''))"

definition S3Download :: "SideEnv \<Rightarrow> SideConfig \<Rightarrow> string \<Rightarrow> ('z Side_scheme, unit) go" where
  "S3Download E cfg dir_prefix =
     bnd (srec (SvS3List (sc_XCloudS3Bucket cfg) dir_prefix)) (\<lambda>_. bnd (gets (\<lambda>s. se_objects E (sd_trace s))) (\<lambda>objects.
     each (\<lambda>object. case object of
         Inl e \<Rightarrow> fail e
       | Inr key \<Rightarrow> bnd (errorf ''get object: '' (scall E (SvS3Get (sc_XCloudS3Bucket cfg) key))) (\<lambda>_.
           bnd (errorf ''create file: '' (scall E (SvCreate (path_join [InitFileVolumeMountPath, key])))) (\<lambda>_.
           ignore (scall E (SvCopyData key (path_join [InitFileVolumeMountPath, key])))))) objects))"

section \<open>The replay script\<close>

definition restore_script_format :: string where
  "restore_script_format = (go_lines [
     ''#!/bin/bash'',
     ''mysqld&'',
     ''pid=~q$!~q'',
     ''echo ~qnow to restore binlog~q'',
     ''mysql=( mysql -uroot )'',
     ''for i in {120..0}; do'',
     ''~t~t~tif echo ~aSELECT 1~a | ~q${mysql[@]}~q &> /dev/null; then'',
     ''~t~t~t~tbreak'',
     ''~t~t~tfi'',
     ''~t~t~techo ~aMySQL init process in progress...~a'',
     ''~t~t~tsleep 1'',
     ''done'',
     ''echo ~qnow mysqlstart!~q'',
     ''if [ ~q$i~q = 0 ]; then'',
     ''~t~t~techo >&2 ~aMySQL init process failed.~a'',
     ''~t~t~texit 1'',
     ''fi'',
     ''ls %s/mysql-bin*|awk ~a{print ~qcat   ~q$1  ~q|mysqlbinlog --exclude-gtids=~b~q%s~b~q --stop-datetime=~b~q%s~b~q -|mysql -uroot~q}~a|bash'',
     ''if ! kill -s TERM ~q$pid~q || ! wait ~q$pid~q; then'',
     ''~techo >&2 ~aMySQL init process failed.~a'',
     ''~texit 1'',
     ''fi'',
     ''''])"

definition BuildScript :: "SideEnv \<Rightarrow> SideConfig \<Rightarrow> string \<Rightarrow> go_time \<Rightarrow> ('z Side_scheme, unit) go" where
  "BuildScript E cfg skipGtid restorePoint =
     scall E (SvWriteFile (RadonDBBinDir @ ''/restore.sh'') (sprintf restore_script_format
       [path_join [InitFileVolumeMountPath, buildBinlogDir (sc_XRestoreFrom cfg)], skipGtid, time_format restorePoint]))"

section \<open>Restore from S3\<close>

text \<open>Both commands of the pipe are waited for, in the order they end; the first error returns.\<close>

definition wait_both :: "SideEnv \<Rightarrow> string list \<Rightarrow> string list \<Rightarrow> ('z Side_scheme, unit) go" where
  "wait_both E a b = bnd (gets (\<lambda>s. se_late E (sd_trace s))) (\<lambda>second_first.
     if second_first then bnd (scall E (SvWait b)) (\<lambda>_. scall E (SvWait a))
     else bnd (scall E (SvWait a)) (\<lambda>_. scall E (SvWait b)))"

definition s3_get_args :: "SideConfig \<Rightarrow> string list" where
  "s3_get_args cfg = [xcloudCommand, ''get'', ''--storage=S3'', ''--s3-endpoint='' @ sc_XCloudS3EndPoint cfg,
     ''--s3-access-key='' @ sc_XCloudS3AccessKey cfg, ''--s3-secret-key='' @ sc_XCloudS3SecretKey cfg,
     ''--s3-bucket='' @ sc_XCloudS3Bucket cfg, ''--parallel=10'', sc_XRestoreFrom cfg, ''--insecure'']"

text \<open>After the data is in place: the binary logs and the script, when a restore point is set.\<close>

definition s3_binlogs :: "SideEnv \<Rightarrow> SideConfig \<Rightarrow> string \<Rightarrow> ('z Side_scheme, unit) go" where
  "s3_binlogs E cfg gtid =
     bnd (s3_of E (sc_XCloudS3EndPoint cfg) (sc_XCloudS3AccessKey cfg) (sc_XCloudS3SecretKey cfg) (sc_XCloudS3Bucket cfg)) (\<lambda>_.
     bnd (handle (scall E (SvMkdir (path_join [InitFileVolumeMountPath, buildBinlogDir (sc_XRestoreFrom cfg)])))
       (\<lambda>e. if se_is_exist E e then ret () else fail (GErr (''error mkdir '' @ buildBinlogDir (sc_XRestoreFrom cfg) @ '': '' @ err_text e)))) (\<lambda>_.
     if length (sc_RestorePoint cfg) \<noteq> 0 then
       (case time_parse (sc_RestorePoint cfg) of
          Ok restorePoint \<Rightarrow> bnd (ignore (S3Download E cfg (buildBinlogDir (sc_XRestoreFrom cfg)))) (\<lambda>_.
            ignore (BuildScript E cfg gtid restorePoint))
        | _ \<Rightarrow> ret ())
     else ret ()))"

definition executeS3Restore :: "SideEnv \<Rightarrow> (SideState, unit) go" where
  "executeS3Restore E = bnd (gets sd_cfg) (\<lambda>cfg.
     if length (sc_XRestoreFrom cfg) = 0 then fail (GErr ''do not have restore from'')
     else if length (sc_XCloudS3EndPoint cfg) = 0 \<or> length (sc_XCloudS3AccessKey cfg) = 0 \<or>
             length (sc_XCloudS3SecretKey cfg) = 0 \<or> length (sc_XCloudS3Bucket cfg) = 0
     then fail (GErr ''do not have S3 information'')
     else bnd (path_missing E DataVolumeMountPath) (\<lambda>missing.
       bnd (if missing then errorf ''failed to create data directory : '' (scall E (SvMkdirAll DataVolumeMountPath)) else ret ()) (\<lambda>_.
       let xcloud = s3_get_args cfg; xbstream = [''xbstream'', ''-xv'', ''-C'', DataVolumeMountPath] in
       bnd (handle (scall E (SvPipe xcloud)) (\<lambda>_. fail (GErr ''failed to xbstream and xcloud piped''))) (\<lambda>_.
       bnd (errorf ''failed to xcloud start : '' (scall E (SvStart xcloud))) (\<lambda>_.
       bnd (errorf ''failed to xbstream start : '' (scall E (SvStart xbstream))) (\<lambda>_.
       bnd (wait_both E xcloud xbstream) (\<lambda>_.
       bnd (gtid_or_empty E ''/root/backup/'') (\<lambda>gtid.
       bnd (run_cmd E ''failed to xtrabackup prepare and apply-log-only : '' (prepare_args False True DataVolumeMountPath)) (\<lambda>_.
       bnd (run_cmd E ''failed to xtrabackup prepare : '' (prepare_args False False DataVolumeMountPath)) (\<lambda>_.
       bnd (run_cmd E ''failed to chown mysql.mysql '' chown_data) (\<lambda>_.
       s3_binlogs E cfg gtid)))))))))))"

section \<open>Restore of a clone\<close>

definition executeCloneRestore :: "SideEnv \<Rightarrow> (SideState, unit) go" where
  "executeCloneRestore E =
     bnd (path_missing E DataVolumeMountPath) (\<lambda>missing.
     bnd (if missing then
         bnd (ignore (scall E (SvMkdir DataVolumeMountPath))) (\<lambda>_.
         bnd (errorf ''failed to read datadir '' (squery E (SvReadDir DataVolumeMountPath) (se_names E))) (\<lambda>dir.
         each (\<lambda>d. ignore (scall E (SvRemoveAll (path_join [DataVolumeMountPath, d])))) dir))
       else ret ()) (\<lambda>_.
     bnd (run_cmd E ''failed to xtrabackup prepare apply-log-only : '' (prepare_args True True DataVolumeMountPath)) (\<lambda>_.
     bnd (run_cmd E ''failed to xtrabackup prepare : '' (prepare_args True False DataVolumeMountPath)) (\<lambda>_.
     bnd (attempt (GetXtrabackupGTIDPurged E DataVolumeMountPath)) (\<lambda>r.
     bnd (case r of Inr gtid \<Rightarrow> modify (\<lambda>s. s\<lparr>sd_cfg := (sd_cfg s)\<lparr>sc_GtidPurged := gtid\<rparr>\<rparr>) | Inl e \<Rightarrow> ret ()) (\<lambda>_.
     bnd (run_cmd E ''failed to remove relay-bin : '' [''rm'', ''-rf'', DataVolumeMountPath @ ''mysql-relay*'']) (\<lambda>_.
     run_cmd E ''failed to chown -R mysql.mysql : '' chown_data)))))))"

section \<open>Restore from NFS and from a remote server\<close>

text \<open>Both begin by making the data directory (if it is missing) and emptying it.\<close>

definition fresh_data_dir :: "SideEnv \<Rightarrow> ('z Side_scheme, unit) go" where
  "fresh_data_dir E =
     bnd (path_missing E DataVolumeMountPath) (\<lambda>missing.
     bnd (if missing then
         bnd (errorf ''create /var/lib/mysql fail : '' (scall E (SvMkdirAll DataVolumeMountPath))) (\<lambda>_.
         run_cmd E ''failed to chown -R mysql.mysql : '' [''chown'', ''mysql.mysql'', DataVolumeMountPath])
       else ret ()) (\<lambda>_.
     run_cmd E ''failed to rm -rf '' [''rm'', ''-rf'', DataVolumeMountPath @ ''/*'']))"

definition ExecuteNFSRestore :: "SideEnv \<Rightarrow> (SideState, unit) go" where
  "ExecuteNFSRestore E = bnd (gets sd_cfg) (\<lambda>cfg.
     if length (sc_XRestoreFromNFS cfg) = 0 then fail (GErr ''parameter XRestoreFromNFS empty, do next step'')
     else if length (sc_XRestoreFrom cfg) = 0 then fail (GErr ''xrestore from is empty, do next step'')
     else (let target = ''/backup/'' @ sc_XRestoreFrom cfg in
       bnd (fresh_data_dir E) (\<lambda>_.
       bnd (run_cmd E ''failed to xtrabackup prepare append-only: '' (prepare_args True True target)) (\<lambda>_.
       bnd (run_cmd E ''failed to xtrabackup prepare: '' (prepare_args True False target)) (\<lambda>_.
       bnd (run_cmd E ''failed to xtrabackup copy-back: ''
         [''xtrabackup'', my_cnf, ''--datadir='' @ DataVolumeMountPath, ''--copy-back'', ''--target-dir='' @ target]) (\<lambda>_.
       bnd (run_cmd E ''failed to chown -R mysql.mysql : '' chown_data) (\<lambda>_.
       bnd (gtid_or_empty E (path_join [''/backup/'', sc_XRestoreFrom cfg])) (\<lambda>gtid.
       bnd (run_cmd E ''failed to copy binlog to docker-entrypoint-initdb.d : ''
         [''cp'', ''-rf'', target @ ''bin'', InitFileVolumeMountPath]) (\<lambda>_.
       bnd (run_cmd E ''failed to chown -R mysql.mysql : '' [''chown'', ''-R'', ''mysql.mysql'', InitFileVolumeMountPath]) (\<lambda>_.
       (case time_parse (sc_RestorePoint cfg) of
          Ok restorePoint \<Rightarrow> ignore (BuildScript E cfg gtid restorePoint)
        | Fail e \<Rightarrow> fail (GErr (''restore point parse error : '' @ err_text e))
        | Panic p \<Rightarrow> panic p)))))))))))"

definition remote_stream :: string where
  "remote_stream = go_lines [''sshpass -p rootpass ssh  -o ~aStrictHostKeyChecking no~a root@~kcat /etc/rsrc/host~k xtrabackup --user=root --password=~kcat /etc/rsrc/passwd~k --backup --stream=xbstream --target-dir=/  > backup.xbstream 2>backup.log;''] @
     ''cd '' @ DataVolumeMountPath @ '' ; xbstream -x < /backup.xbstream''"

definition ExecuteRemoteSource :: "SideEnv \<Rightarrow> (SideState, unit) go" where
  "ExecuteRemoteSource E =
     bnd (fresh_data_dir E) (\<lambda>_.
     bnd (run_cmd E ''failed to rm -rf '' [''/bin/bash'', ''-c'', ''--'', remote_stream]) (\<lambda>_.
     bnd (run_cmd E ''failed to xtrabackup prepare append-only: '' (prepare_args True True DataVolumeMountPath)) (\<lambda>_.
     bnd (run_cmd E ''failed to xtrabackup prepare: '' (prepare_args True False DataVolumeMountPath)) (\<lambda>_.
     run_cmd E ''failed to chown -R mysql.mysql : '' chown_data))))"

end
