(* ===== verification/SideInit.thy ===== *)
theory SideInit
  imports SideRestore
begin

text \<open>
  The init container (\<open>sidecar/init.go\<close>): choosing the pod to clone from, cloning, the
  configuration files, the restore, and the initial SQL. The state carries the configuration,
  which the clone step changes.
\<close>

section \<open>Where to clone from\<close>

definition CheckServiceExist :: "SideEnv \<Rightarrow> SideConfig \<Rightarrow> string \<Rightarrow> ('z Side_scheme, bool) go" where
  "CheckServiceExist E cfg service =
     (let serviceURL = ''http://'' @ sc_ClusterName cfg @ ''-'' @ service @ '':'' @ nat_str XBackupPort @ ''/health''
      in bnd (attempt (squery E (SvHttp ''GET'' serviceURL) (se_code E))) (\<lambda>r. ret (case r of
           Inl e \<Rightarrow> False | Inr code \<Rightarrow> code = 200)))"

definition removeRebuildFrom :: "SideEnv \<Rightarrow> SideConfig \<Rightarrow> string \<Rightarrow> ('z Side_scheme, unit) go" where
  "removeRebuildFrom E cfg podName = scall E (SvPatchPod (sc_NameSpace cfg) podName
     (sprintf (go_lines [''[{~qop~q: ~qremove~q, ~qpath~q: ~q/metadata/labels/%s~q}]'']) [LabelRebuildFrom]))"

text \<open>The URL and the server of the pod labelled as the source of a rebuild, when it is the only one.\<close>

definition getPod :: "SideEnv \<Rightarrow> SideConfig \<Rightarrow> ('z Side_scheme, string \<times> string) go" where
  "getPod E cfg =
     bnd (scall E SvClientset) (\<lambda>_.
     bnd (squery E (SvListPods (sc_NameSpace cfg) (LabelRebuildFrom @ ''=true'')) (se_names E)) (\<lambda>pods. case pods of
         [pod] \<Rightarrow> bnd (ignore (removeRebuildFrom E cfg pod)) (\<lambda>_.
           let server = pod @ ''.'' @ sc_ClusterName cfg @ ''-mysql.'' @ sc_NameSpace cfg
           in ret (server @ '':'' @ nat_str XBackupPort, server))
       | _ \<Rightarrow> fail (GErr ''not correct pod choose'')))"

definition clone_sql_format :: string where
  "clone_sql_format = (go_lines [
     ''RESET SLAVE ALL;SET GLOBAL clone_valid_donor_list = ~a%s:3306~a ;'',
     ''~tCLONE INSTANCE FROM ~a%s~a@~a%s~a:3306'',
     ''~tIDENTIFIED BY ~a%s~a;'',
     ''''])"

definition clone_script_format :: string where
  "clone_script_format = (go_lines [
     ''#!/bin/bash'',
     ''echo ~anow is doing clone.~a'',
     ''while true; do'',
     ''~tif pgrep mysqld; then'',
     ''~t~techo ~awaiting mysqld exit~a'',
     ''~telse'',
     ''~t~tbreak'',
     ''~tfi~t'',
     ''~tsleep 1'',
     ''done'',
     ''mysqld &'',
     ''pid=$!'',
     ''mysql=( mysql -uroot -hlocalhost  --password=~q~q )'',
     '''',
     ''for i in {500..0}; do'',
     ''~tif echo ~aSELECT 1~a | ~q${mysql[@]}~q &> /dev/null; then'',
     ''~t~tbreak'',
     ''~tfi'',
     ''~techo ~aMySQL run process in progress...~a'',
     ''~tsleep 1'',
     ''done'',
     ''for i in {500..0}; do'',
     ''~tif echo SELECT PLUGIN_NAME, PLUGIN_STATUS FROM INFORMATION_SCHEMA.PLUGINS where PLUGIN_NAME=~q~aclone~a~q| ~q${mysql[@]}~q |grep -q ACTIVE; then'',
     ''~t~tbreak'',
     ''~tfi'',
     ''~techo ~acheck plugin whether is installed...~a'',
     ''~tsleep 1'',
     ''done'',
     ''mysql -uroot -hlocalhost  --password=~q~q -e ~q%s~q'',
     ''wait $pid'',
     ''echo ~qnow delete socks file~q'',
     ''rm -rf /var/lib/mysql/*.sock'',
     ''rm -rf /var/lib/mysql/mysql.sock.lock'',
     ''''])"

definition DoCLone :: "SideEnv \<Rightarrow> SideConfig \<Rightarrow> string \<Rightarrow> ('z Side_scheme, unit) go" where
  "DoCLone E cfg server =
     (let sql = sprintf clone_sql_format [server, sc_DonorClone cfg, server, sc_DonorClonePassword cfg]
      in errorf ''failed to write clone.sh: '' (scall E (SvWriteFile (RadonDBBinDir @ ''/clone.sh'') (sprintf clone_script_format [sql]))))"

definition upgrade_script :: string where
  "upgrade_script = (go_lines [
     ''#!/bin/bash'',
     ''~techo ~anow is doing upgrade~a'',
     ''~tmysqld --upgrade=force &'',
     ''~tmysql=( mysql -uroot -hlocalhost  --password=~q~q )'',
     ''~t'',
     ''~tfor i in {120..0}; do'',
     ''~t~tif echo ~aSELECT 1~a | ~q${mysql[@]}~q &> /dev/null; then'',
     ''~t~t~tbreak'',
     ''~t~tfi'',
     ''~t~techo ~aMySQL run process in progress...~a'',
     ''~t~tsleep 1'',
     ''~tdone'',
     ''~tmysql -uroot -hlocalhost  --password=~q~q -e ~qshutdown~q'',
     ''~t# waiting it stop'',
     ''~tfor i in {120..0}; do'',
     ''~t~tif echo ~aSELECT 1~a | ~q${mysql[@]}~q &> /dev/null; then'',
     ''~t~t~techo ~aMySQLD is shutdown...~a'',
     ''~t~t~tsleep 1'',
     ''~t~telse'',
     ''~t~t~techo ~aMySQLD is shutted.~a'',
     ''~t~t~tpkill mysql'',
     ''~t~t~trm -rf /var/lib/mysql/*.sock'',
     ''~t~t~trm -rf /var/lib/mysql/mysql.sock.lock'',
     ''~t~t~tbreak'',
     ''~t~tfi'',
     ''~tdone'',
     ''~t''])"

definition UpgradeShGen :: "SideEnv \<Rightarrow> SideConfig \<Rightarrow> ('z Side_scheme, unit) go" where
  "UpgradeShGen E cfg = (if \<not> sc_NeedUpgrade cfg then ret ()
     else errorf ''failed to write upgrade.sh: '' (scall E (SvWriteFile (RadonDBBinDir @ ''/upgrade.sh'') upgrade_script)))"

section \<open>runCloneAndInit\<close>

definition set_cfg :: "(SideConfig \<Rightarrow> SideConfig) \<Rightarrow> (SideState, unit) go" where
  "set_cfg f = modify (\<lambda>s. s\<lparr>sd_cfg := f (sd_cfg s)\<rparr>)"

definition data_dir_mysql :: string where
  "data_dir_mysql = path_join [DataVolumeMountPath, ''mysql'']"

text \<open>The pod chosen for a rebuild, else the follower service, else the leader service.\<close>

definition clone_source :: "SideEnv \<Rightarrow> (SideState, string \<times> string) go" where
  "clone_source E =
     bnd (gets sd_cfg) (\<lambda>cfg.
     bnd (attempt (getPod E cfg)) (\<lambda>r.
     bnd (case r of Inr us \<Rightarrow> bnd (set_cfg (\<lambda>c. c\<lparr>sc_XRestoreFrom := []\<rparr>)) (\<lambda>_. ret us) | Inl e \<Rightarrow> ret ([], [])) (\<lambda>us.
     let try = (\<lambda>service us. if length (fst us) = 0 then bnd (CheckServiceExist E cfg service) (\<lambda>there.
           ret (if there then (''http://'' @ sc_ClusterName cfg @ ''-'' @ service @ '':'' @ nat_str XBackupPort,
                  sc_ClusterName cfg @ ''-'' @ service) else us)) else ret us)
     in bnd (try ''follower'' us) (try ''leader''))))"

definition download_command :: "string \<Rightarrow> string" where
  "download_command serviceURL = ''curl --user $BACKUP_USER:$BACKUP_PASSWORD '' @ serviceURL @ ''/download|xbstream -x -C '' @
     DataVolumeMountPath @ ''; exit ${PIPESTATUS[0]}''"

text \<open>The clone itself, for a directory without data.\<close>

definition clone_from :: "SideEnv \<Rightarrow> string \<Rightarrow> string \<Rightarrow> (SideState, unit) go" where
  "clone_from E serviceURL server = bnd (gets sd_cfg) (\<lambda>cfg.
     if sv_Major (sc_MySQLVersion cfg) = 8 \<and> length (sc_XRestoreFrom cfg) = 0 then DoCLone E cfg server
     else bnd (run_cmd E ''failed to disable the run restore: '' [''/bin/bash'', ''-c'', ''--'', download_command serviceURL]) (\<lambda>_.
       set_cfg (\<lambda>c. c\<lparr>sc_XRestoreFrom := DataVolumeMountPath, sc_CloneFlag := True\<rparr>)))"

text \<open>Both results go back to the caller: whether there is data, and the error.\<close>

definition runCloneAndInit :: "SideEnv \<Rightarrow> (SideState, bool \<times> gerr option) go" where
  "runCloneAndInit E =
     (let pair = (\<lambda>b m. bnd (attempt m) (\<lambda>r. ret (b, case r of Inl e \<Rightarrow> Some e | Inr _ \<Rightarrow> None))) in
     bnd (clone_source E) (\<lambda>us.
     bnd (path_exists E data_dir_mysql) (\<lambda>hasInitialized.
     bnd (gets sd_cfg) (\<lambda>cfg.
     bnd (if hasInitialized then attempt (UpgradeShGen E cfg) else ret (Inr ())) (\<lambda>up. case up of
         Inl e \<Rightarrow> ret (hasInitialized, Some e)
       | Inr _ \<Rightarrow>
           if length (fst us) \<noteq> 0 then
             (if hasInitialized then ret (hasInitialized, None) else pair hasInitialized (clone_from E (fst us) (snd us)))
           else ret (hasInitialized, None))))))"

section \<open>Configuration files\<close>

definition saveCnfTo :: "'sec SideLib \<Rightarrow> SideEnv \<Rightarrow> string \<Rightarrow> 'sec \<Rightarrow> ('z Side_scheme, unit) go" where
  "saveCnfTo L E targetPath extraCnf =
     bnd (errorf ''failed to copy plugin.cnf: ''
       (copyFile E (path_join [MysqlCMVolumeMountPath, PluginConfigs_cnf]) (path_join [targetPath, PluginConfigs_cnf]))) (\<lambda>_.
     bnd (errorf ''failed to change owner of plugin.cnf: '' (scall E (SvChown (path_join [targetPath, PluginConfigs_cnf]) 1001 1001))) (\<lambda>_.
     bnd (errorf ''failed to save extra.cnf: '' (bnd (lift (ini_text (sl_mysqld L) extraCnf)) (\<lambda>t.
       scall E (SvWriteFile (path_join [targetPath, ''extra.cnf'']) t)))) (\<lambda>_.
     errorf ''failed to change owner of plugin.cnf: '' (scall E (SvChown (path_join [targetPath, ''extra.cnf'']) 1001 1001)))))"

definition plugin_script_format :: string where
  "plugin_script_format = (go_lines [
     ''#!/bin/bash'',
     ''cp %s %s'',
     ''cp %s %s'',
     ''chown -R mysql.mysql %s'',
     ''chown -R mysql.mysql %s''])"

definition PluginConfigsSh :: string where
  "PluginConfigsSh = sprintf plugin_script_format
     [path_join [InitFileVolumeMountPath, PluginConfigs_cnf], path_join [extraConfPath, PluginConfigs_cnf],
      path_join [InitFileVolumeMountPath, ''extra.cnf''], path_join [extraConfPath, ''extra.cnf''],
      path_join [extraConfPath, PluginConfigs_cnf], path_join [extraConfPath, ''extra.cnf'']]"

definition buildDefaultXenonMeta :: "SideEnv \<Rightarrow> int \<Rightarrow> int \<Rightarrow> ('z Side_scheme, unit) go" where
  "buildDefaultXenonMeta E uid gid =
     (let metaFile = XenonMetaVolumeMountPath @ ''/peers.json'' in
     bnd (errorf ''failed to mkdir '' (scall E (SvMkdirAll XenonMetaVolumeMountPath))) (\<lambda>_.
     bnd (errorf ''failed to copy peers.json: ''
       (copyFile E (path_join [XenonCMVolumeMountPath, ''peers.json'']) (path_join [XenonMetaVolumeMountPath, ''peers.json'']))) (\<lambda>_.
     errorf ''failed to chown '' (scall E (SvChown metaFile uid gid)))))"

definition shell :: "string \<Rightarrow> string list" where
  "shell c = [''sh'', ''-c'', c]"

definition buildSSLdata :: "SideEnv \<Rightarrow> ('z Side_scheme, unit) go" where
  "buildSSLdata E =
     bnd (run_cmd E ''failed to copy ssl: '' (shell (''cp  /tmp/mysql-ssl/* '' @ TlsMountPath))) (\<lambda>_.
     run_cmd E ''failed to copy ssl: '' (shell (''chown -R mysql.mysql '' @ TlsMountPath)))"

definition copyMySQLchecker :: "SideEnv \<Rightarrow> ('z Side_scheme, unit) go" where
  "copyMySQLchecker E =
     bnd (run_cmd E ''failed to copy mysqlchecker: '' (shell (''cp /mnt/mysqlchecker '' @ RadonDBBinDir))) (\<lambda>_.
     run_cmd E ''failed to chown mysqlchecker: '' (shell (''chown -R mysql.mysql '' @ RadonDBBinDir)))"

definition RunClusterScript :: "SideEnv \<Rightarrow> ('z Side_scheme, unit) go" where
  "RunClusterScript E = run_cmd E ''failed to cluster scripts: '' [''bash'', ''-c'', path_join [RemoteClusterCMMountPath, ''RemoteCluster.sh'']]"

text \<open>\<open>sed\<close> replaces an option of \<open>my.cnf\<close> by the value of an environment variable, when it is set.\<close>

definition sed_option :: "SideEnv \<Rightarrow> string \<Rightarrow> string \<Rightarrow> ('z Side_scheme, unit) go" where
  "sed_option E var setting = (let v = getEnvValue E var in
     if length v \<noteq> 0 then run_cmd E (''failed to sed '' @ setting @ '' : '')
       (shell (sprintf (go_lines [''sed -i ~as/^'' @ setting @ ''.*/'' @ setting @ ''~t=~t%s/~a '' @ path_join [MysqlConfVolumeMountPath, ''my.cnf'']]) [v]))
     else ret ())"

section \<open>runInitCommand\<close>

text \<open>The user id and the group id of the account \<open>mysql\<close>.\<close>

definition mysql_ids :: "SideEnv \<Rightarrow> ('z Side_scheme, int \<times> int) go" where
  "mysql_ids E =
     bnd (errorf ''failed to get mysql user: '' (squery E (SvLookupUser ''mysql'') (se_names E))) (\<lambda>u.
     bnd (errorf ''failed to get mysql user uid: '' (lift (atoi (u ! 0)))) (\<lambda>uid.
     bnd (errorf ''failed to get mysql user gid: '' (lift (atoi (u ! 1)))) (\<lambda>gid. ret (uid, gid))))"

definition own_data_dir :: "SideEnv \<Rightarrow> int \<Rightarrow> int \<Rightarrow> ('z Side_scheme, unit) go" where
  "own_data_dir E uid gid = bnd (path_exists E DataVolumeMountPath) (\<lambda>there.
     if there then
       bnd (errorf ''removing lost+found: '' (scall E (SvRemoveAll (DataVolumeMountPath @ ''/lost+found'')))) (\<lambda>_.
       errorf ''failed to chown '' (scall E (SvChown DataVolumeMountPath uid gid)))
     else ret ())"

text \<open>Up to \<open>reset.sql\<close>: everything that does not depend on the data being there.\<close>

definition write_configs :: "'sec SideLib \<Rightarrow> SideEnv \<Rightarrow> SideConfig \<Rightarrow> int \<Rightarrow> int \<Rightarrow> ('z Side_scheme, unit) go" where
  "write_configs L E cfg uid gid =
     bnd (errorf ''failed to copy my.cnf: ''
       (copyFile E (path_join [MysqlCMVolumeMountPath, ''my.cnf'']) (path_join [MysqlConfVolumeMountPath, ''my.cnf'']))) (\<lambda>_.
     bnd (sed_option E ''IB_POOL'' ''innodb_buffer_pool_size'') (\<lambda>_.
     bnd (sed_option E ''IB_INST'' ''innodb_buffer_pool_instances'') (\<lambda>_.
     bnd (sed_option E ''IB_LOG'' ''innodb_log_file_size'') (\<lambda>_.
     bnd (path_exists E TlsMountPath) (\<lambda>tls. bnd (if tls then ignore (buildSSLdata E) else ret ()) (\<lambda>_.
     bnd (path_exists E RadonDBBinDir) (\<lambda>bin. bnd (if bin then ignore (copyMySQLchecker E) else ret ()) (\<lambda>_.
     bnd (ignore (buildDefaultXenonMeta E uid gid)) (\<lambda>_.
     bnd (errorf ''failed to build client.conf: '' (lift (buildClientConfig L cfg))) (\<lambda>clientConfig.
     bnd (errorf ''failed to save client.conf: '' (bnd (lift (ini_text (sl_client L) clientConfig)) (\<lambda>t.
       scall E (SvWriteFile (path_join [ConfClientPath]) t)))) (\<lambda>_.
     bnd (handle (scall E (SvMkdir extraConfPath)) (\<lambda>e. if se_is_exist E e then ret ()
       else fail (GErr (''error mkdir '' @ extraConfPath @ '': '' @ err_text e)))) (\<lambda>_.
     bnd (errorf ''failed to chown '' (scall E (SvChown extraConfPath uid gid))) (\<lambda>_.
     errorf ''failed to write reset.sql: '' (scall E (SvWriteFile (InitFileVolumeMountPath @ ''/reset.sql'') ''reset master;'')))))))))))))))"

text \<open>\<open>plugin.cnf\<close> and \<open>extra.cnf\<close>: at once, or through a script the first start of the server runs.\<close>

definition place_extra :: "'sec SideLib \<Rightarrow> SideEnv \<Rightarrow> bool \<Rightarrow> 'sec \<Rightarrow> ('z Side_scheme, unit) go" where
  "place_extra L E hasInitialized extraConfig =
     (if hasInitialized \<or> has_prefix (getEnvValue E ''MYSQL_VERSION'') ''5'' then ignore (saveCnfTo L E extraConfPath extraConfig)
      else bnd (ignore (saveCnfTo L E InitFileVolumeMountPath extraConfig)) (\<lambda>_.
        errorf ''failed to write plugin.sh: '' (scall E (SvWriteFile (InitFileVolumeMountPath @ ''/plugin.sh'') PluginConfigsSh))))"

text \<open>The restore of an empty directory; the flag is whether there is data now.\<close>

definition fill_data_dir :: "SideEnv \<Rightarrow> bool \<Rightarrow> (SideState, bool) go" where
  "fill_data_dir E hasInitialized = bnd (gets sd_cfg) (\<lambda>cfg.
     if hasInitialized then ret True
     else if length (sc_RemoteClusterName cfg) \<noteq> 0 then bnd (RunClusterScript E) (\<lambda>_. ret False)
     else if length (sc_XRestoreFrom cfg) \<noteq> 0 then
       bnd (if sc_CloneFlag cfg then errorf ''failed to execute Clone Restore : '' (executeCloneRestore E)
            else handle (ExecuteNFSRestore E) (\<lambda>_.
              errorf (''failed to restore from '' @ sc_XRestoreFrom cfg @ '': '') (executeS3Restore E))) (\<lambda>_.
       path_exists E data_dir_mysql)
     else if length (sc_XRemoteDateSource cfg) \<noteq> 0 then
       bnd (errorf (''failed to remote source from '' @ sc_XRestoreFrom cfg @ '': '') (ExecuteRemoteSource E)) (\<lambda>_. ret False)
     else ret False)"

definition init_sql_path :: string where
  "init_sql_path = path_join [extraConfPath, ''init.sql'']"

definition runInitCommand :: "'sec SideLib \<Rightarrow> SideEnv \<Rightarrow> bool \<Rightarrow> (SideState, unit) go" where
  "runInitCommand L E hasInitialized =
     bnd (mysql_ids E) (\<lambda>ids.
     bnd (gets sd_cfg) (\<lambda>cfg.
     bnd (own_data_dir E (fst ids) (snd ids)) (\<lambda>_.
     bnd (write_configs L E cfg (fst ids) (snd ids)) (\<lambda>_.
     bnd (errorf ''failed to build extra.cnf: '' (lift (buildExtraConfig L cfg init_sql_path))) (\<lambda>extraConfig.
     bnd (place_extra L E hasInitialized extraConfig) (\<lambda>_.
     bnd (if sc_InitTokuDB cfg then run_cmd E ''failed to disable the transparent_hugepage: ''
         (shell (''echo never > '' @ SysVolumeMountPath @ ''/enabled'')) else ret ()) (\<lambda>_.
     bnd (fill_data_dir E hasInitialized) (\<lambda>hasInit.
     bnd (buildInitSql E hasInit) (\<lambda>sql.
     bnd (errorf ''failed to write init.sql: '' (scall E (SvWriteFile init_sql_path sql))) (\<lambda>_.
     bnd (gets sd_cfg) (\<lambda>cfg'.
     bnd (lift (buildXenonConf cfg')) (\<lambda>xenon.
     errorf ''failed to write xenon.json: '' (scall E (SvWriteFile (path_join [XenonConfVolumeMountPath, ''xenon.json'']) xenon))))))))))))))"

text \<open>
  \<open>NewInitCommand\<close>: an error of the clone is only logged; an error of the initialisation
  ends the process with status 1.
\<close>

definition NewInitCommand :: "'sec SideLib \<Rightarrow> SideEnv \<Rightarrow> (SideState, nat) go" where
  "NewInitCommand L E =
     bnd (runCloneAndInit E) (\<lambda>r.
     bnd (attempt (runInitCommand L E (fst r))) (\<lambda>q. case q of
         Inl e \<Rightarrow> bnd (srec (SvExit 1)) (\<lambda>_. ret 1)
       | Inr _ \<Rightarrow> ret 0))"

end
