(* ===== verification/SideLaws.thy ===== *)
theory SideLaws
  imports SideInit
begin

text \<open>
  What the init container guarantees: data that is there is never touched, the files it leaves
  behind, and what becomes of a clone that fails.
\<close>

section \<open>Existing data is kept\<close>

text \<open>
  The calls that cannot lose data: nothing below the data directory is removed (but
  \<open>lost+found\<close>), written or created, no backup tool runs, and the scripts that would replace
  the data at the next start of the server are not written.
\<close>

definition in_data_dir :: "string \<Rightarrow> bool" where
  "in_data_dir p = prefix DataVolumeMountPath p"

definition plain_shell :: "string \<Rightarrow> bool" where
  "plain_shell c \<longleftrightarrow> prefix ''sed -i '' c \<or> prefix ''cp '' c \<or> prefix ''chown '' c \<or> prefix ''echo never > '' c"

fun keeps_data :: "side_event \<Rightarrow> bool" where
  "keeps_data (SvRemoveAll p) = (p = DataVolumeMountPath @ ''/lost+found'')"
| "keeps_data (SvCreate p) = (\<not> in_data_dir p)"
| "keeps_data (SvCopyData a p) = (\<not> in_data_dir p)"
| "keeps_data (SvWriteFile p t) = (\<not> in_data_dir p \<and> p \<noteq> RadonDBBinDir @ ''/clone.sh'' \<and> p \<noteq> RadonDBBinDir @ ''/restore.sh'')"
| "keeps_data (SvRun args) = (length args = 3 \<and> args ! 0 = ''sh'' \<and> plain_shell (args ! 2))"
| "keeps_data (SvPipe args) = False"
| "keeps_data (SvStart args) = False"
| "keeps_data (SvWait args) = False"
| "keeps_data (SvKill args) = False"
| "keeps_data (SvRemote c p t) = False"
| "keeps_data (SvSql q) = False"
| "keeps_data _ = True"

lemma joined_paths:
  "path_join [MysqlCMVolumeMountPath, PluginConfigs_cnf] = ''/mnt/mysql-cm/plugin.cnf''"
  "path_join [extraConfPath, PluginConfigs_cnf] = ''/etc/mysql/conf.d/plugin.cnf''"
  "path_join [extraConfPath, ''extra.cnf''] = ''/etc/mysql/conf.d/extra.cnf''"
  "path_join [InitFileVolumeMountPath, PluginConfigs_cnf] = ''/docker-entrypoint-initdb.d/plugin.cnf''"
  "path_join [InitFileVolumeMountPath, ''extra.cnf''] = ''/docker-entrypoint-initdb.d/extra.cnf''"
  "path_join [XenonCMVolumeMountPath, ''peers.json''] = ''/mnt/xenon-cm/peers.json''"
  "path_join [XenonMetaVolumeMountPath, ''peers.json''] = ''/var/lib/xenon/peers.json''"
  "path_join [MysqlCMVolumeMountPath, ''my.cnf''] = ''/mnt/mysql-cm/my.cnf''"
  "path_join [MysqlConfVolumeMountPath, ''my.cnf''] = ''/etc/mysql/my.cnf''"
  "path_join [MysqlCMVolumeMountPath, ''init.sql''] = ''/mnt/mysql-cm/init.sql''"
  "path_join [ConfClientPath] = ''/etc/mysql/client.conf''"
  "path_join [XenonConfVolumeMountPath, ''xenon.json''] = ''/etc/xenon/xenon.json''"
  "init_sql_path = ''/etc/mysql/conf.d/init.sql''"
  "data_dir_mysql = ''/var/lib/mysql/mysql''"
  by code_simp+

lemma sed_prefix: "prefix ''sed -i '' (sprintf (go_lines [''sed -i ~as/^'' @ t]) args)"
proof -
  have "go_lines [''sed -i ~as/^'' @ t] = ''sed -i '' @ unesc (''~as/^'' @ t)"
    using unesc_plain [of "''sed -i ''" "''~as/^'' @ t"] by (simp add: go_lines_def)
  then show ?thesis
    using sprintf_plain [of "''sed -i ''" "unesc (''~as/^'' @ t)" args] by (simp add: prefix_def)
qed

lemma keeps_shell: "plain_shell c \<Longrightarrow> keeps_data (SvRun (shell c))"
  by (simp add: shell_def)

lemma plain_shells:
  "prefix ''sed -i '' c \<Longrightarrow> plain_shell c" "plain_shell (''cp '' @ t)" "plain_shell (''chown '' @ t)"
  "plain_shell (''echo never > '' @ t)"
  by (simp_all add: plain_shell_def)

lemma sed_option_keeps: "emits sd_trace keeps_data (sed_option E var setting)"
proof -
  have "keeps_data (SvRun (shell (sprintf (go_lines [''sed -i ~as/^'' @ t]) args)))" for t args
    by (intro keeps_shell plain_shells sed_prefix)
  then show ?thesis unfolding sed_option_def Let_def by (intro emits_intros)
qed

lemma ssl_keeps: "emits sd_trace keeps_data (buildSSLdata E)"
  using keeps_shell [OF plain_shells(2) [of "'' /tmp/mysql-ssl/* '' @ TlsMountPath"]]
    keeps_shell [OF plain_shells(3) [of "''-R mysql.mysql '' @ TlsMountPath"]]
  unfolding buildSSLdata_def by (intro emits_intros) simp_all

lemma checker_keeps: "emits sd_trace keeps_data (copyMySQLchecker E)"
  using keeps_shell [OF plain_shells(2) [of "''/mnt/mysqlchecker '' @ RadonDBBinDir"]]
    keeps_shell [OF plain_shells(3) [of "''-R mysql.mysql '' @ RadonDBBinDir"]]
  unfolding copyMySQLchecker_def by (intro emits_intros) simp_all

lemma outside_data:
  "\<not> in_data_dir ''/etc/mysql/conf.d/plugin.cnf''" "\<not> in_data_dir ''/etc/mysql/conf.d/extra.cnf''"
  "\<not> in_data_dir ''/var/lib/xenon/peers.json''" "\<not> in_data_dir ''/etc/mysql/my.cnf''"
  "\<not> in_data_dir ''/etc/mysql/client.conf''" "\<not> in_data_dir ''/etc/xenon/xenon.json''"
  "\<not> in_data_dir ''/etc/mysql/conf.d/init.sql''" "\<not> in_data_dir (InitFileVolumeMountPath @ t)"
  "\<not> in_data_dir (RadonDBBinDir @ t)"
  by (simp_all add: in_data_dir_def path_defs)

lemma other_script: "''/etc'' @ t \<noteq> RadonDBBinDir @ u" "InitFileVolumeMountPath @ t \<noteq> RadonDBBinDir @ u"
  by (simp_all add: path_defs)

lemma keeps_writes:
  "keeps_data (SvWriteFile ''/etc/mysql/conf.d/extra.cnf'' t)" "keeps_data (SvWriteFile ''/etc/mysql/conf.d/init.sql'' t)"
  "keeps_data (SvWriteFile ''/etc/xenon/xenon.json'' t)" "keeps_data (SvWriteFile ''/etc/mysql/client.conf'' t)"
  "keeps_data (SvWriteFile (InitFileVolumeMountPath @ u) t)" "keeps_data (SvWriteFile (RadonDBBinDir @ ''/upgrade.sh'') t)"
  by (simp_all add: in_data_dir_def path_defs)

lemma saveCnf_keeps: "emits sd_trace keeps_data (saveCnfTo L E extraConfPath sec)"
  unfolding saveCnfTo_def joined_paths
  by (intro emits_intros keeps_writes) (simp_all add: outside_data)

lemma peers_keeps: "emits sd_trace keeps_data (buildDefaultXenonMeta E uid gid)"
  unfolding buildDefaultXenonMeta_def Let_def joined_paths
  by (intro emits_intros) (simp_all add: outside_data)

lemma configs_keeps: "emits sd_trace keeps_data (write_configs L E cfg uid gid)"
  unfolding write_configs_def joined_paths
  by (intro emits_intros sed_option_keeps ssl_keeps checker_keeps peers_keeps keeps_writes) (simp_all add: outside_data)

lemma init_keeps: "emits sd_trace keeps_data (runInitCommand L E True)"
proof -
  have thp: "keeps_data (SvRun (shell (''echo never > '' @ t)))" for t
    by (intro keeps_shell plain_shells)
  show ?thesis
    unfolding runInitCommand_def mysql_ids_def own_data_dir_def place_extra_def fill_data_dir_def buildInitSql_def
      read_or_empty_def simp_thms if_True joined_paths
    by (intro emits_intros configs_keeps saveCnf_keeps keeps_writes thp) simp_all
qed

text \<open>Looking for a pod to clone from reads and removes a label, nothing else.\<close>

lemma source_keeps: "emits sd_trace keeps_data (clone_source E)"
  unfolding clone_source_def getPod_def removeRebuildFrom_def CheckServiceExist_def set_cfg_def Let_def
  by (intro emits_intros) simp_all

lemma upgrade_keeps: "emits sd_trace keeps_data (UpgradeShGen E cfg)"
  unfolding UpgradeShGen_def by (intro emits_intros keeps_writes)

text \<open>The directory \<open>mysql\<close> of the data directory can be opened, whenever it is tried.\<close>

definition has_data :: "SideEnv \<Rightarrow> bool" where
  "has_data E \<longleftrightarrow> (\<forall>tr. se_err E (tr @ [SvOpen data_dir_mysql]) = None)"

lemma has_data_gives: "has_data E \<Longrightarrow> gives (path_exists E data_dir_mysql) (\<lambda>b. b = True)"
  by (simp add: gives_def path_exists_run has_data_def)

lemma clone_keeps:
  assumes "has_data E"
  shows "emits sd_trace keeps_data (runCloneAndInit E)" "gives (runCloneAndInit E) (\<lambda>r. fst r = True)"
proof -
  have ex: "keeps_data (SvOpen p)" "keeps_data (SvClose p)" for p by simp_all
  show "emits sd_trace keeps_data (runCloneAndInit E)"
    unfolding runCloneAndInit_def Let_def
    by (rule emits_bnd [OF source_keeps], rule emits_bnd_gives [OF _ has_data_gives [OF assms]])
       (use ex in \<open>auto intro!: emits_intros upgrade_keeps\<close>)
  show "gives (runCloneAndInit E) (\<lambda>r. fst r = True)"
    unfolding runCloneAndInit_def Let_def
    by (rule gives_bnd [OF gives_any], rule gives_bnd [OF has_data_gives [OF assms]],
        rule gives_bnd [OF gives_any], rule gives_bnd [OF gives_any])
       (intro gives_split gives_ret gives_bnd [OF gives_any]; simp)
qed

text \<open>
  C2. The init container never touches existing data. When the server's system directory can
  be opened, the whole run (clone, configuration, restore, initial SQL), whatever every
  other call answers, only makes calls that keep the data: no backup tool, no remote script,
  no removal but that of \<open>lost+found\<close>, no write below the data directory, and neither
  \<open>clone.sh\<close> nor \<open>restore.sh\<close>.
\<close>

theorem init_keeps_existing_data:
  assumes "has_data E"
  shows "\<exists>es. sd_trace (snd (NewInitCommand L E s)) = sd_trace s @ es \<and> list_all keeps_data es"
proof -
  have "emits sd_trace keeps_data (NewInitCommand L E)"
    unfolding NewInitCommand_def
    by (rule emits_bnd_gives [OF clone_keeps [OF assms]])
       (auto intro!: emits_intros init_keeps)
  then show ?thesis by (rule emitsD)
qed

text \<open>Libraries that accept everything, and a pod.\<close>

definition pod_ini :: "(string \<times> string) list IniLib" where
  "pod_ini = \<lparr>ini_empty = [], ini_has = (\<lambda>sec k. k \<in> fst ` set sec), ini_set = (\<lambda>sec k v. sec @ [(k, v)]),
     ini_new = (\<lambda>sec k v. Ok (sec @ [(k, v)])), ini_bool = (\<lambda>sec k. Ok (sec @ [(k, [])])),
     ini_text = (\<lambda>sec. Ok (concat (map (\<lambda>kv. fst kv @ ''='' @ snd kv @ [CHR 0x0A]) sec))), ini_load = (\<lambda>t. Ok [])\<rparr>"

definition pod_lib :: "(string \<times> string) list SideLib" where
  "pod_lib = \<lparr>sl_semver = (\<lambda>v. Ok \<lparr>sv_Major = 5, sv_Minor = 7, sv_Patch = 39\<rparr>), sl_mysqld = pod_ini, sl_client = pod_ini\<rparr>"

definition first_pod :: SideState where
  "first_pod = \<lparr>sd_trace = [], sd_cfg = no_config\<lparr>sc_HostName := ''sample-mysql-0'', sc_ClusterName := ''sample'',
     sc_MySQLVersion := \<lparr>sv_Major = 5, sv_Minor = 7, sv_Patch = 39\<rparr>,
     sc_AdmitDefeatHearbeatCount := 5, sc_ElectionTimeout := 10000\<rparr>\<rparr>"

theorem init_keeps_existing_data_witness:
  "\<exists>es. sd_trace (snd (NewInitCommand pod_lib calm_machine first_pod)) = [] @ es \<and> list_all keeps_data es"
  using init_keeps_existing_data [of calm_machine pod_lib first_pod]
  by (simp add: has_data_def calm_machine_def first_pod_def)

section \<open>The files the container leaves\<close>

text \<open>
  A successful initialisation leaves the two files the pod starts from as its last two
  writes: the initial SQL, made of the user's file (whatever was read of it) and of whether
  there is data at the end, and the configuration of xenon, built from the configuration as
  the restore left it (so with the GTID set a clone brought along).
\<close>

theorem init_success_writes_files:
  assumes "runInitCommand L E has s = (Ok (), t)"
  shows "\<exists>tr initSQL hasInit xenon.
     sd_trace t = tr @ [SvWriteFile init_sql_path (init_sql_text (sd_cfg t) initSQL hasInit),
                        SvWriteFile ''/etc/xenon/xenon.json'' xenon] \<and>
     buildXenonConf (sd_cfg t) = Ok xenon \<and> (has \<longrightarrow> hasInit)"
proof -
  from assms obtain hasInit u1 u2 u3 sql xenon where fill: "fill_data_dir E has u1 = (Ok hasInit, u2)"
    and sql: "buildInitSql E hasInit u2 = (Ok sql, u3)"
    and w1: "se_err E (sd_trace u3 @ [SvWriteFile init_sql_path sql]) = None"
    and xenon: "buildXenonConf (sd_cfg u3) = Ok xenon"
    and t: "t = u3\<lparr>sd_trace := sd_trace u3 @ [SvWriteFile init_sql_path sql, SvWriteFile ''/etc/xenon/xenon.json'' xenon]\<rparr>"
    unfolding runInitCommand_def bnd_eq_Ok errorf_Ok scall_Ok joined_paths
    by (auto simp: gets_def lift_def)
  from sql obtain initSQL where "sql = init_sql_text (sd_cfg u2) initSQL hasInit" "sd_cfg u3 = sd_cfg u2"
    by (auto simp: buildInitSql_def read_or_empty_def bnd_def gets_def ret_def handle_def squery_run split: option.splits)
  moreover have "has \<Longrightarrow> hasInit"
    using fill by (auto simp: fill_data_dir_def bnd_def gets_def ret_def)
  ultimately show ?thesis using xenon t
    by (intro exI [of _ "sd_trace u3"] exI [of _ initSQL] exI [of _ hasInit] exI [of _ xenon]) simp
qed

section \<open>A clone that fails\<close>

text \<open>
  A clone that fails is not the end of the initialisation: the error is only logged. When
  the stream from the other pod breaks, the result is "no data" with the configuration as it
  was; without a backup, a remote cluster or a remote source in it, the later restore step
  then does nothing and succeeds, so the server of the joining pod starts with a new, empty
  data directory.
\<close>

theorem failed_clone_starts_empty:
  assumes "clone_from E url server s = (Fail e, t)"
    and "sc_XRestoreFrom (sd_cfg s) = []" "sc_RemoteClusterName (sd_cfg s) = []" "sc_XRemoteDateSource (sd_cfg s) = []"
  shows "sd_cfg t = sd_cfg s \<and> (\<forall>u. sd_cfg u = sd_cfg t \<longrightarrow> fill_data_dir E False u = (Ok False, u))"
proof (intro conjI allI impI)
  show cfg: "sd_cfg t = sd_cfg s"
    using assms(1) unfolding clone_from_def DoCLone_def run_cmd_def set_cfg_def Let_def
    by (auto simp: bnd_def gets_def modify_def errorf_def handle_def fail_def scall_run split: option.splits if_splits)
  show "fill_data_dir E False u = (Ok False, u)" if "sd_cfg u = sd_cfg t" for u
    using that assms cfg by (simp add: fill_data_dir_def bnd_def gets_def ret_def)
qed

theorem failed_clone_starts_empty_witness:
  "\<exists>E e t. clone_from E ''http://sample-follower:8082'' ''sample-follower'' first_pod = (Fail e, t) \<and>
     sd_cfg t = sd_cfg first_pod \<and> fill_data_dir E False t = (Ok False, t)"
proof -
  define E where "E = calm_machine\<lparr>se_err := (\<lambda>tr. Some (GErr ''exit status 7''))\<rparr>"
  obtain e t where run: "clone_from E ''http://sample-follower:8082'' ''sample-follower'' first_pod = (Fail e, t)"
    by (simp add: clone_from_def bnd_def gets_def first_pod_def run_cmd_def errorf_def handle_def fail_def scall_run E_def)
  have "sc_XRestoreFrom (sd_cfg first_pod) = []" "sc_RemoteClusterName (sd_cfg first_pod) = []"
    "sc_XRemoteDateSource (sd_cfg first_pod) = []" by (simp_all add: first_pod_def no_config_def)
  from failed_clone_starts_empty [OF run this] run show ?thesis by metis
qed

section \<open>A restart without errors\<close>

text \<open>
  \<open>ends ok I m\<close>: from a state with \<open>I\<close>, \<open>m\<close> does not panic (and, for \<open>ok\<close>, returns no error)
  and ends in a state with \<open>I\<close>.
\<close>

named_theorems ends_intros "closure of ends under the Go control structures"

definition ends :: "bool \<Rightarrow> ('s \<Rightarrow> bool) \<Rightarrow> ('s, 'a) go \<Rightarrow> bool" where
  "ends ok I m \<longleftrightarrow> (\<forall>s. I s \<longrightarrow> (if ok then is_ok (fst (m s)) else \<not> is_panic (fst (m s))) \<and> I (snd (m s)))"

lemma ends_basic [ends_intros]: "ends ok I (ret x)" "ends ok I (gets f)" "ends False I (fail e)"
  by (simp_all add: ends_def ret_def gets_def fail_def)

lemma ends_lift [ends_intros]: "ends ok I (lift (Ok x))"
  by (simp add: ends_def lift_def)

lemma ends_modify [ends_intros]: "(\<And>s. I s \<Longrightarrow> I (f s)) \<Longrightarrow> ends ok I (modify f)"
  by (simp add: ends_def modify_def)

lemma ends_bnd_gives:
  assumes "ends ok I m" "gives m R" "\<And>x. R x \<Longrightarrow> ends ok I (f x)"
  shows "ends ok I (bnd m f)"
  unfolding ends_def
proof (intro allI impI)
  fix s assume "I s"
  obtain r t where m: "m s = (r, t)" by (cases "m s")
  from assms(1) \<open>I s\<close> m have r: "if ok then is_ok r else \<not> is_panic r" and t: "I t"
    by (metis ends_def fst_conv snd_conv)+
  show "(if ok then is_ok (fst (bnd m f s)) else \<not> is_panic (fst (bnd m f s))) \<and> I (snd (bnd m f s))"
  proof (cases r)
    case (Ok x)
    with assms(2) m have "R x" by (metis fst_conv gives_def)
    from assms(3) [OF this] t have "(if ok then is_ok (fst (f x t)) else \<not> is_panic (fst (f x t))) \<and> I (snd (f x t))"
      by (simp add: ends_def)
    with m Ok show ?thesis by (simp add: bnd_def)
  qed (use r t m in \<open>auto simp: bnd_def split: if_splits\<close>)
qed

lemma ends_bnd [ends_intros]: "ends ok I m \<Longrightarrow> (\<And>x. ends ok I (f x)) \<Longrightarrow> ends ok I (bnd m f)"
  by (rule ends_bnd_gives [OF _ gives_any])

lemma ends_attempt [ends_intros]: "ends False I m \<Longrightarrow> ends ok I (attempt m)"
  unfolding ends_def attempt_def by (auto split: prod.splits res.splits)

lemma ends_ignore [ends_intros]: "ends False I m \<Longrightarrow> ends ok I (ignore m)"
  unfolding ignore_def by (intro ends_intros)

lemma ends_handle [ends_intros]: "ends True I m \<Longrightarrow> ends ok I (handle m h)"
  unfolding ends_def handle_def by (fastforce split: prod.splits res.splits if_splits)

lemma ends_errorf [ends_intros]: "ends ok I m \<Longrightarrow> ends ok I (errorf msg m)"
  unfolding ends_def errorf_def handle_def fail_def by (fastforce split: prod.splits res.splits if_splits)

lemma ends_split [ends_intros]:
  "(b \<Longrightarrow> ends ok I m) \<Longrightarrow> (\<not> b \<Longrightarrow> ends ok I n) \<Longrightarrow> ends ok I (if b then m else n)"
  "(\<And>e. ends ok I (g e)) \<Longrightarrow> (\<And>x. ends ok I (h x)) \<Longrightarrow> ends ok I (case q of Inl e \<Rightarrow> g e | Inr x \<Rightarrow> h x)"
  "ends ok I m' \<Longrightarrow> (\<And>y ys. ends ok I (k y ys)) \<Longrightarrow> ends ok I (case xs of [] \<Rightarrow> m' | y # ys \<Rightarrow> k y ys)"
  by (simp_all split: sum.split list.split)

text \<open>The configuration a pod of the operator has: an ordinal in its name, a heartbeat count.\<close>

definition ready :: "SideState \<Rightarrow> bool" where
  "ready s \<longleftrightarrow> sc_AdmitDefeatHearbeatCount (sd_cfg s) \<noteq> 0 \<and> is_ok (GetOrdinal (sc_HostName (sd_cfg s)))"

definition no_error :: "SideEnv \<Rightarrow> bool" where
  "no_error E \<longleftrightarrow> (\<forall>tr. se_err E tr = None)"

lemma ends_scall [ends_intros]: "no_error E \<Longrightarrow> ends ok ready (scall E e)"
  by (simp add: ends_def scall_run no_error_def ready_def)

lemma ends_squery [ends_intros]: "no_error E \<Longrightarrow> ends ok ready (squery E e f)"
  by (simp add: ends_def squery_run no_error_def ready_def)

lemma ends_srec [ends_intros]: "ends ok ready (srec e)"
  by (simp add: ends_def srec_run ready_def)

lemma ends_files [ends_intros]:
  "no_error E \<Longrightarrow> ends ok ready (copyFile E a b)" "no_error E \<Longrightarrow> ends ok ready (path_exists E p)"
  "no_error E \<Longrightarrow> ends ok ready (run_cmd E msg args)"
  unfolding copyFile_def path_exists_def checkIfPathExists_def run_cmd_def by (intro ends_intros; assumption)+

text \<open>The libraries accept the keys and the values, and print a section.\<close>

definition lib_accepts :: "'sec SideLib \<Rightarrow> bool" where
  "lib_accepts L \<longleftrightarrow> (\<forall>sec k v. \<exists>sec'. ini_new (sl_mysqld L) sec k v = Ok sec') \<and>
     (\<forall>sec k v. \<exists>sec'. ini_new (sl_client L) sec k v = Ok sec') \<and>
     (\<forall>sec. \<exists>t. ini_text (sl_mysqld L) sec = Ok t) \<and> (\<forall>sec. \<exists>t. ini_text (sl_client L) sec = Ok t)"

lemma bind_res_ok: "\<exists>x. r = Ok x \<Longrightarrow> (\<And>x. \<exists>y. f x = Ok y) \<Longrightarrow> \<exists>y. bind_res r f = Ok y"
  by auto

lemma client_conf_ok:
  assumes "lib_accepts L"
  shows "\<exists>sec. buildClientConfig L cfg = Ok sec"
proof -
  have new: "\<exists>sec'. ini_new (sl_client L) sec k v = Ok sec'" for sec k v using assms by (simp add: lib_accepts_def)
  show ?thesis unfolding buildClientConfig_def Let_def
    by (intro bind_res_ok new) (simp add: new)
qed

lemma extra_conf_ok:
  assumes "lib_accepts L" "is_ok (GetOrdinal (sc_HostName cfg))"
  shows "\<exists>sec. buildExtraConfig L cfg p = Ok sec"
proof -
  have new: "\<exists>sec'. ini_new (sl_mysqld L) sec k v = Ok sec'" for sec k v using assms(1) by (simp add: lib_accepts_def)
  have "\<exists>i. GetOrdinal (sc_HostName cfg) = Ok i" using assms(2) by (cases "GetOrdinal (sc_HostName cfg)") auto
  then show ?thesis unfolding buildExtraConfig_def server_id_def
    by (intro bind_res_ok new) auto
qed

lemma ends_lift_ok: "\<exists>x. r = Ok x \<Longrightarrow> ends ok I (lift r)"
  by (auto intro: ends_intros)

lemma text_ok: "lib_accepts L \<Longrightarrow> \<exists>t. ini_text (sl_mysqld L) sec = Ok t" "lib_accepts L \<Longrightarrow> \<exists>t. ini_text (sl_client L) sec = Ok t"
  by (simp_all add: lib_accepts_def)

lemma configs_end:
  assumes "no_error E" "lib_accepts L"
  shows "ends True ready (write_configs L E cfg uid gid)"
  unfolding write_configs_def sed_option_def Let_def buildSSLdata_def copyMySQLchecker_def buildDefaultXenonMeta_def
  by (intro ends_intros ends_lift_ok client_conf_ok text_ok assms)

lemma ids_end:
  assumes "no_error E" "\<forall>tr. se_names E (tr @ [SvLookupUser ''mysql'']) = [uid, gid]" "is_ok (atoi uid)" "is_ok (atoi gid)"
  shows "ends True ready (mysql_ids E)"
proof -
  have "\<exists>i. atoi uid = Ok i" "\<exists>i. atoi gid = Ok i" using assms(3,4) by (metis is_ok.elims(2))+
  then obtain i j where ij: "atoi uid = Ok i" "atoi gid = Ok j" by blast
  have q: "gives (errorf msg (squery E (SvLookupUser ''mysql'') (se_names E))) (\<lambda>u. u = [uid, gid])" for msg
    using assms(1,2) by (auto simp: gives_def errorf_def handle_def squery_run no_error_def)
  show ?thesis
    unfolding mysql_ids_def
    by (rule ends_bnd_gives [OF _ q]) (use assms(1) ij in \<open>auto intro!: ends_intros\<close>)
qed

text \<open>Reading the configuration of a ready state gives a configuration that is ready.\<close>

lemma ends_cfg:
  assumes "\<And>c. sc_AdmitDefeatHearbeatCount c \<noteq> 0 \<Longrightarrow> is_ok (GetOrdinal (sc_HostName c)) \<Longrightarrow> ends ok ready (f c)"
  shows "ends ok ready (bnd (gets sd_cfg) f)"
  using assms by (simp add: ends_def bnd_def gets_def ready_def)

lemma init_ends:
  assumes "no_error E" "lib_accepts L"
    and "\<forall>tr. se_names E (tr @ [SvLookupUser ''mysql'']) = [uid, gid]" "is_ok (atoi uid)" "is_ok (atoi gid)"
  shows "ends True ready (runInitCommand L E True)"
  unfolding runInitCommand_def own_data_dir_def place_extra_def fill_data_dir_def saveCnfTo_def buildInitSql_def read_or_empty_def
    simp_thms if_True
  by (intro ends_cfg ends_intros ids_end [OF assms(1) assms(3-5)] configs_end ends_lift_ok extra_conf_ok text_ok
      buildXenonConf_ok assms(1,2))

lemma ends_set_cfg [ends_intros]:
  "(\<And>c. sc_AdmitDefeatHearbeatCount (f c) = sc_AdmitDefeatHearbeatCount c) \<Longrightarrow> (\<And>c. sc_HostName (f c) = sc_HostName c) \<Longrightarrow>
   ends ok ready (set_cfg f)"
  by (simp add: set_cfg_def ends_def modify_def ready_def)

lemma clone_ends:
  assumes "no_error E"
  shows "ends True ready (runCloneAndInit E)"
  unfolding runCloneAndInit_def clone_source_def getPod_def removeRebuildFrom_def CheckServiceExist_def clone_from_def
    DoCLone_def UpgradeShGen_def Let_def
  by (intro ends_intros assms) simp_all

text \<open>
  C37. A pod that restarts with its data comes up: on a machine where no call fails, with the
  account \<open>mysql\<close>, libraries that accept the keys, a pod name that ends in an ordinal and a
  heartbeat count that is not zero, the init container ends with status 0, whatever the
  other settings are and whatever the services answer.
\<close>

theorem init_restart_succeeds:
  assumes "\<forall>tr. se_err E tr = None" "lib_accepts L"
    and "\<forall>tr. se_names E (tr @ [SvLookupUser ''mysql'']) = [uid, gid]" "is_ok (atoi uid)" "is_ok (atoi gid)"
    and "is_ok (GetOrdinal (sc_HostName (sd_cfg s)))" "sc_AdmitDefeatHearbeatCount (sd_cfg s) \<noteq> 0"
  shows "fst (NewInitCommand L E s) = Ok 0"
proof -
  have E: "no_error E" "has_data E" using assms(1) by (simp_all add: no_error_def has_data_def)
  obtain r t where clone: "runCloneAndInit E s = (Ok (True, r), t)" and t: "ready t"
  proof -
    obtain q t where run: "runCloneAndInit E s = (q, t)" by (cases "runCloneAndInit E s")
    have "ready s" using assms(6,7) by (simp add: ready_def)
    with clone_ends [OF E(1)] run have q: "is_ok q" "ready t" by (metis (full_types) ends_def fst_conv snd_conv)+
    then obtain x where x: "q = Ok x" by (cases q) auto
    then have "fst x = True" using clone_keeps(2) [OF E(2)] run by (metis fst_conv gives_def)
    then have "runCloneAndInit E s = (Ok (True, snd x), t)" using run x by (metis prod.collapse)
    with q that show thesis by blast
  qed
  obtain q u where init: "runInitCommand L E True t = (q, u)" by (cases "runInitCommand L E True t")
  with init_ends [OF E(1) assms(2-5)] t have "is_ok q" by (metis (full_types) ends_def fst_conv)
  then obtain x where "q = Ok x" by (cases q) auto
  with clone init show ?thesis
    by (simp add: NewInitCommand_def bnd_def attempt_def ret_def)
qed

lemma pod_lib_accepts: "lib_accepts pod_lib"
  by (simp add: lib_accepts_def pod_lib_def pod_ini_def)

theorem init_restart_succeeds_witness: "fst (NewInitCommand pod_lib calm_machine first_pod) = Ok 0"
proof -
  have "is_ok (atoi ''1001'')" "is_ok (GetOrdinal ''sample-mysql-0'')" by code_simp+
  then show ?thesis
    using init_restart_succeeds [of calm_machine pod_lib "''1001''" "''1001''" first_pod] pod_lib_accepts
    by (simp add: calm_machine_def first_pod_def)
qed

theorem init_success_writes_files_witness:
  "\<exists>(t :: SideState) tr initSQL xenon.
     sd_trace t = tr @ [SvWriteFile init_sql_path (init_sql_text (sd_cfg t) initSQL True),
                        SvWriteFile ''/etc/xenon/xenon.json'' xenon] \<and>
     buildXenonConf (sd_cfg t) = Ok xenon"
proof -
  have E: "no_error calm_machine" by (simp add: no_error_def calm_machine_def)
  have n: "\<forall>tr. se_names calm_machine (tr @ [SvLookupUser ''mysql'']) = [''1001'', ''1001'']" by (simp add: calm_machine_def)
  have a: "is_ok (atoi ''1001'')" "is_ok (GetOrdinal ''sample-mysql-0'')" by code_simp+
  obtain q t where run: "runInitCommand pod_lib calm_machine True first_pod = (q, t)"
    by (cases "runInitCommand pod_lib calm_machine True first_pod")
  have "ready first_pod" using a by (simp add: ready_def first_pod_def)
  with init_ends [OF E pod_lib_accepts n a(1) a(1)] run have "is_ok q" by (metis (full_types) ends_def fst_conv)
  then have "q = Ok ()" by (cases q) auto
  with run have "runInitCommand pod_lib calm_machine True first_pod = (Ok (), t)" by simp
  from init_success_writes_files [OF this] obtain tr initSQL hasInit xenon where
    "sd_trace t = tr @ [SvWriteFile init_sql_path (init_sql_text (sd_cfg t) initSQL hasInit),
       SvWriteFile ''/etc/xenon/xenon.json'' xenon]" "buildXenonConf (sd_cfg t) = Ok xenon" hasInit by auto
  then show ?thesis by auto
qed

end
