(* ===== verification/SideBackup.thy ===== *)
theory SideBackup
  imports SideLaws Objects InCluster
begin

text \<open>
  Backups (\<open>sidecar/backup.go\<close>, \<open>client_backup.go\<close>, \<open>server.go\<close>, parts of \<open>init.go\<close> and
  \<open>cmd/s3cmd\<close>): the HTTP server of the backup container, which streams xtrabackup to S3 or to the
  client, the job that asks it for a backup and annotates itself with the result, and the
  upload of the binary logs.

  The request is the decoded one: its credentials and its body. What the client decodes from
  the answer is a parameter, since it ignores the error of the decoder.
\<close>

section \<open>Configuration of a backup\<close>

datatype BkType = S3 | NFS | OtherBk string

text \<open>\<open>BkType(s)\<close>.\<close>

definition bk_type :: "string \<Rightarrow> BkType" where
  "bk_type s = (if s = ''s3'' then S3 else if s = ''nfs'' then NFS else OtherBk s)"

record BackupClientConfig =
  bc_NameSpace :: string
  bc_ServiceName :: string
  bc_BackupUser :: string
  bc_BackupPassword :: string
  bc_JobName :: string
  bc_ClusterName :: string
  bc_RootPassword :: string
  bc_XCloudS3EndPoint :: string
  bc_XCloudS3AccessKey :: string
  bc_XCloudS3SecretKey :: string
  bc_XCloudS3Bucket :: string
  bc_XRestoreFromNFS :: string
  bc_XtrabackupExtraArgs :: "string list"
  bc_XtrabackupTargetDir :: string
  bc_BackupType :: BkType

definition NewReqBackupConfig :: "SideEnv \<Rightarrow> BackupClientConfig" where
  "NewReqBackupConfig E = \<lparr>bc_NameSpace = getEnvValue E ''NAMESPACE'', bc_ServiceName = getEnvValue E ''SERVICE_NAME'',
     bc_BackupUser = getEnvValue E ''BACKUP_USER'', bc_BackupPassword = getEnvValue E ''BACKUP_PASSWORD'',
     bc_JobName = getEnvValue E ''JOB_NAME'', bc_ClusterName = getEnvValue E ''CLUSTER_NAME'',
     bc_RootPassword = getEnvValue E ''MYSQL_ROOT_PASSWORD'', bc_XCloudS3EndPoint = getEnvValue E ''S3_ENDPOINT'',
     bc_XCloudS3AccessKey = getEnvValue E ''S3_ACCESSKEY'', bc_XCloudS3SecretKey = getEnvValue E ''S3_SECRETKEY'',
     bc_XCloudS3Bucket = getEnvValue E ''S3_BUCKET'', bc_XRestoreFromNFS = [], bc_XtrabackupExtraArgs = [],
     bc_XtrabackupTargetDir = [], bc_BackupType = bk_type (getEnvValue E ''BACKUP_TYPE'')\<rparr>"

definition client_XtrabackupArgs :: "BackupClientConfig \<Rightarrow> string list" where
  "client_XtrabackupArgs cfg = xtrabackup_args (bc_XtrabackupTargetDir cfg) (bc_RootPassword cfg) (bc_XtrabackupExtraArgs cfg)"

definition client_XCloudArgs :: "BackupClientConfig \<Rightarrow> string \<Rightarrow> string list" where
  "client_XCloudArgs cfg backupName = xcloud_args (bc_XCloudS3EndPoint cfg) (bc_XCloudS3AccessKey cfg)
     (bc_XCloudS3SecretKey cfg) (bc_XCloudS3Bucket cfg) backupName"

definition client_XBackupName :: "SideEnv \<Rightarrow> BackupClientConfig \<Rightarrow> ('z Side_scheme, string \<times> string) go" where
  "client_XBackupName E cfg = gets (\<lambda>s. BuildBackupName (bc_ClusterName cfg) (se_clock E (sd_trace s)))"

section \<open>Annotating the job\<close>

definition setAnnonations ::
  "SideEnv \<Rightarrow> BackupClientConfig \<Rightarrow> string \<Rightarrow> string \<Rightarrow> string \<Rightarrow> int \<Rightarrow> string \<Rightarrow> ('z Side_scheme, unit) go" where
  "setAnnonations E cfg backname dateTime backupType backupSize gtid =
     bnd (scall E SvClientset) (\<lambda>_.
     bnd (squery E (SvGetJob (bc_NameSpace cfg) (bc_JobName cfg)) (se_map E)) (\<lambda>annotations.
     let ann = (case annotations of None \<Rightarrow> Map.empty | Some m \<Rightarrow> m) in
     scall E (SvUpdateJob (bc_NameSpace cfg) (bc_JobName cfg)
       (ann(''backupName'' \<mapsto> backname, ''backupDate'' \<mapsto> dateTime, ''backupType'' \<mapsto> backupType,
            ''backupSize'' \<mapsto> int_str backupSize, ''gtid'' \<mapsto> gtid)))))"

section \<open>RunTakeS3BackupCommand\<close>

text \<open>
  The lines xtrabackup prints: what follows \<open>GTID of the last change\<close>, without quotes and
  spaces, is the GTID; the text is cut at a fixed distance from any occurrence of \<open>GTID\<close>.
\<close>

definition gtid_label :: string where
  "gtid_label = ''GTID of the last change''"

fun scan_gtid :: "string \<Rightarrow> string list \<Rightarrow> string res" where
  "scan_gtid g [] = Ok g"
| "scan_gtid g (t # ts) = (case str_index t ''GTID'' of
       None \<Rightarrow> scan_gtid g ts
     | Some i \<Rightarrow> if i + length gtid_label > length t then Panic ''slice bounds out of range''
         else scan_gtid (trim_chars [CHR '' '', CHR 0x27] (drop (i + length gtid_label) t)) ts)"

record BackupResult =
  br_Name :: string
  br_Date :: string
  br_Size :: int
  br_Gtid :: string

definition RunTakeS3BackupCommand :: "SideEnv \<Rightarrow> BackupClientConfig \<Rightarrow> ('z Side_scheme, BackupResult) go" where
  "RunTakeS3BackupCommand E cfg =
     bnd (client_XBackupName E cfg) (\<lambda>names.
     let xtrabackup = xtrabackupCommand # client_XtrabackupArgs cfg;
         xcloud = xcloudCommand # client_XCloudArgs cfg (fst names)
     in bnd (scall E (SvPipe xtrabackup)) (\<lambda>_.
        bnd (scall E (SvPipe xtrabackup)) (\<lambda>_.
        bnd (scall E (SvStart xtrabackup)) (\<lambda>_.
        bnd (scall E (SvStart xcloud)) (\<lambda>_.
        bnd (gets (\<lambda>s. se_names E (sd_trace s))) (\<lambda>log_lines.
        bnd (lift (scan_gtid [] log_lines)) (\<lambda>gtid.
        bnd (attempt (wait_both E xcloud xtrabackup)) (\<lambda>r. case r of
            Inl e \<Rightarrow> bnd (srec (SvKill xtrabackup)) (\<lambda>_. bnd (srec (SvKill xcloud)) (\<lambda>_. fail e))
          | Inr _ \<Rightarrow> bnd (gets (\<lambda>s. se_code E (sd_trace s))) (\<lambda>n.
              ret \<lparr>br_Name = fst names, br_Date = snd names, br_Size = n, br_Gtid = gtid\<rparr>)))))))))"

section \<open>The binary logs of the last backup\<close>

text \<open>The shell command that asks the API server for a field of the cluster's status.\<close>

definition status_query :: "SideConfig \<Rightarrow> string \<Rightarrow> string list" where
  "status_query cfg field = [''sh'', ''-c'', sprintf (go_lines [''curl -sX GET -H ~qAuthorization: Bearer $(cat /var/run/secrets/kubernetes.io/serviceaccount/token)~q -H ~qContent-Type: application/json~q  --cacert /var/run/secrets/kubernetes.io/serviceaccount/ca.crt https://$KUBERNETES_SERVICE_HOST:$KUBERNETES_PORT_443_TCP_PORT/apis/mysql.radondb.com/v1alpha1/namespaces/%s/mysqlclusters/%s |jq ~a.status.%s~a''])
     [sc_NameSpace cfg, sc_ClusterName cfg, field]]"

definition run_output :: "SideEnv \<Rightarrow> string list \<Rightarrow> ('z Side_scheme, string) go" where
  "run_output E args = bnd (scall E (SvPipe args)) (\<lambda>_. bnd (scall E (SvStart args)) (\<lambda>_.
     gets (\<lambda>s. trim_chars [CHR 0x22, CHR 0x0A] (se_text E (sd_trace s)))))"

definition getLastBackupInfo :: "SideEnv \<Rightarrow> SideConfig \<Rightarrow> ('z Side_scheme, string \<times> string) go" where
  "getLastBackupInfo E cfg =
     bnd (attempt (run_output E (status_query cfg ''lastbackup''))) (\<lambda>r. case r of
         Inl e \<Rightarrow> ret ([], [])
       | Inr lastbackup \<Rightarrow> bnd (attempt (run_output E (status_query cfg ''lastbackupGtid''))) (\<lambda>q. ret (case q of
           Inl e \<Rightarrow> (lastbackup, []) | Inr g \<Rightarrow> (lastbackup, g))))"

text \<open>\<open>filepath.Base\<close> of a path without trailing slashes.\<close>

definition base_name :: "string \<Rightarrow> string" where
  "base_name p = (case after_last (CHR ''/'') p of None \<Rightarrow> p | Some f \<Rightarrow> f)"

definition S3Upload :: "SideEnv \<Rightarrow> BackupClientConfig \<Rightarrow> string \<Rightarrow> string \<Rightarrow> ('z Side_scheme, unit) go" where
  "S3Upload E cfg dir file = bnd (scall E (SvOpen file)) (\<lambda>_.
     scall E (SvS3Put (bc_XCloudS3Bucket cfg) (dir @ base_name file) file))"

definition is_binlog :: "string \<Rightarrow> bool" where
  "is_binlog file \<longleftrightarrow> has_prefix (base_name file) ''mysql-bin.'' \<and> base_name file \<noteq> ''mysql-bin.index''"

text \<open>The walk over the data directory: its files, or the error met on the way.\<close>

definition backupBinLogs :: "SideEnv \<Rightarrow> BackupClientConfig \<Rightarrow> string \<Rightarrow> ('z Side_scheme, unit) go" where
  "backupBinLogs E cfg lastBackup =
     bnd (run_cmd E ''failed to flush logs: '' [''sh'', ''-c'', go_lines [''mysql -uroot -h127.0.0.1 -e ~aflush logs~a'']]) (\<lambda>_.
     bnd (srec (SvReadDir DataVolumeMountPath)) (\<lambda>_.
     bnd (gets (\<lambda>s. se_objects E (sd_trace s))) (\<lambda>files.
     ignore (each (\<lambda>f. case f of
         Inl e \<Rightarrow> fail (GErr (''failed to walk dir: '' @ err_text e))
       | Inr file \<Rightarrow> if is_binlog file then
           bnd (s3_of E (bc_XCloudS3EndPoint cfg) (bc_XCloudS3AccessKey cfg) (bc_XCloudS3SecretKey cfg) (bc_XCloudS3Bucket cfg)) (\<lambda>_.
           ignore (S3Upload E cfg (buildBinlogDir lastBackup) file))
         else ret ()) files))))"

definition RunPitrBackupS3 :: "SideEnv \<Rightarrow> SideConfig \<Rightarrow> BackupClientConfig \<Rightarrow> ('z Side_scheme, unit) go" where
  "RunPitrBackupS3 E myConf cfg =
     (if length (bc_XCloudS3AccessKey cfg) = 0 \<or> length (bc_XCloudS3SecretKey cfg) = 0 \<or>
         length (bc_XCloudS3Bucket cfg) = 0 \<or> length (bc_XCloudS3EndPoint cfg) = 0 then ret ()
      else bnd (getLastBackupInfo E myConf) (\<lambda>last.
        if length (fst last) \<noteq> 0 \<and> fst last \<noteq> ''null'' then ignore (backupBinLogs E cfg (fst last)) else ret ()))"

section \<open>The HTTP server\<close>

record BackupRequest =
  rq_auth :: "(string \<times> string) option"      \<comment> \<open>\<open>r.BasicAuth()\<close>\<close>
  rq_body :: "gerr + BackupClientConfig"      \<comment> \<open>the decoded body\<close>
  rq_flush :: bool                            \<comment> \<open>the connection can be flushed\<close>

definition isAuthenticated :: "SideConfig \<Rightarrow> BackupRequest \<Rightarrow> bool" where
  "isAuthenticated cfg r = (case rq_auth r of None \<Rightarrow> False
     | Some (user, pass) \<Rightarrow> user = sc_BackupUser cfg \<and> pass = sc_BackupPassword cfg)"

definition http_error :: "string \<Rightarrow> int \<Rightarrow> ('z Side_scheme, unit) go" where
  "http_error msg code = srec (SvReply code (msg @ [CHR 0x0A]))"

definition healthHandler :: "('z Side_scheme, unit) go" where
  "healthHandler = srec (SvReply 200 ''OK'')"

definition result_json :: "BackupResult \<Rightarrow> string" where
  "result_json r = ''{'' @ json_string ''status'' @ '':'' @ json_string ''Success'' @ '','' @
     json_string ''backupName'' @ '':'' @ json_string (br_Name r) @ '','' @ json_string ''gtid'' @ '':'' @ json_string (br_Gtid r) @ '','' @
     json_string ''date'' @ '':'' @ json_string (br_Date r) @ '','' @ json_string ''backupSize'' @ '':'' @ int_str (br_Size r) @ ''}''"

text \<open>A handler that writes nothing answers 200 with an empty body.\<close>

definition backupHandler :: "SideEnv \<Rightarrow> SideConfig \<Rightarrow> BackupRequest \<Rightarrow> ('z Side_scheme, unit) go" where
  "backupHandler E cfg r = (case rq_body r of
       Inl e \<Rightarrow> http_error (err_text e) 400
     | Inr requestBody \<Rightarrow>
         if \<not> isAuthenticated cfg r then http_error ''Not authenticated!'' 403
         else if bc_BackupType requestBody = S3 then
           bnd (RunPitrBackupS3 E cfg requestBody) (\<lambda>_.
           bnd (attempt (RunTakeS3BackupCommand E requestBody)) (\<lambda>q. case q of
               Inl e \<Rightarrow> http_error (err_text e) 500
             | Inr res \<Rightarrow> srec (SvReply 200 (result_json res))))
         else srec (SvReply 200 []))"

text \<open>
  The stream: once the first bytes are sent the status is 200, so a failure of xtrabackup
  after the copy only shows in the trailer (and in the text appended to the stream).
\<close>

definition backupDownloadHandler :: "SideEnv \<Rightarrow> SideConfig \<Rightarrow> BackupRequest \<Rightarrow> ('z Side_scheme, unit) go" where
  "backupDownloadHandler E cfg r =
     (let xtrabackup = xtrabackupCommand # XtrabackupArgs cfg; failed = http_error ''xtrabackup failed'' 500 in
      if \<not> isAuthenticated cfg r then http_error ''Not authenticated!'' 403
      else if \<not> rq_flush r then http_error ''HTTP server does not support streaming!'' 500
      else bnd (attempt (scall E (SvPipe xtrabackup))) (\<lambda>a. case a of Inl e \<Rightarrow> failed | Inr _ \<Rightarrow>
           bnd (attempt (scall E (SvStart xtrabackup))) (\<lambda>b. case b of Inl e \<Rightarrow> failed | Inr _ \<Rightarrow>
           bnd (attempt (scall E (SvStream xtrabackup))) (\<lambda>c. case c of Inl e \<Rightarrow> http_error ''buffer copy failed'' 500 | Inr _ \<Rightarrow>
           bnd (attempt (scall E (SvWait xtrabackup))) (\<lambda>d. case d of
               Inl e \<Rightarrow> bnd (srec (SvTrailer ''Failed'')) (\<lambda>_. failed)
             | Inr _ \<Rightarrow> srec (SvTrailer ''Success''))))))"

section \<open>The client\<close>

definition prepareURL :: "string \<Rightarrow> string \<Rightarrow> string" where
  "prepareURL svc endpoint =
     ''http://'' @ (if \<not> str_contains svc '':'' then svc @ '':'' @ nat_str XBackupPort else svc) @ endpoint"

definition requestS3Backup ::
  "(string \<Rightarrow> BackupResult) \<Rightarrow> SideEnv \<Rightarrow> BackupClientConfig \<Rightarrow> string \<Rightarrow> string \<Rightarrow> ('z Side_scheme, unit) go" where
  "requestS3Backup decode E cfg host endpoint =
     bnd (attempt (squery E (SvHttp ''POST'' (prepareURL host endpoint)) (\<lambda>tr. (se_code E tr, se_text E tr)))) (\<lambda>r. case r of
         Inl e \<Rightarrow> fail (GErr (''fail to get backup: '' @ err_text e @ '', code: unknown''))
       | Inr resp \<Rightarrow> if fst resp \<noteq> 200 then fail (GErr (''fail to get backup: %!s(<nil>), code: '' @ int_str (fst resp)))
           else (let result = decode (snd resp) in
             errorf ''fail to set annotation: '' (setAnnonations E cfg (br_Name result) (br_Date result) ''S3'' (br_Size result) (br_Gtid result))))"

definition requestNFSBackup :: "SideEnv \<Rightarrow> BackupClientConfig \<Rightarrow> string \<Rightarrow> string \<Rightarrow> ('z Side_scheme, unit) go" where
  "requestNFSBackup E cfg host endpoint =
     bnd (client_XBackupName E cfg) (\<lambda>names.
     bnd (errorf ''failed to get backup: '' (squery E (SvHttp ''GET'' (prepareURL host endpoint)) (se_code E))) (\<lambda>code.
     if code \<noteq> 200 then fail (GErr (''failed to get backup: HTTP status '' @ int_str code))
     else (let backupPath = ''/backup/'' @ fst names; cmd = [''xbstream'', ''-x'', ''-C'', backupPath] in
       bnd (errorf ''failed to create backup dir: '' (scall E (SvMkdirAll backupPath))) (\<lambda>_.
       bnd (errorf ''failed to start xbstream cmd: '' (scall E (SvStart cmd))) (\<lambda>_.
       bnd (errorf ''failed to write to pipe: '' (squery E (SvCopyData ''response'' ''xbstream'') (se_code E))) (\<lambda>n.
       bnd (errorf ''xbstream command failed: '' (scall E (SvWait cmd))) (\<lambda>_.
       bnd (gtid_or_empty E backupPath) (\<lambda>gtid.
       errorf ''failed to set annotation: '' (setAnnonations E cfg (fst names) (snd names) ''nfs'' n gtid)))))))))"

definition RunRequestBackup ::
  "(string \<Rightarrow> BackupResult) \<Rightarrow> SideEnv \<Rightarrow> BackupClientConfig \<Rightarrow> string \<Rightarrow> ('z Side_scheme, unit) go" where
  "RunRequestBackup decode E cfg host = (case bc_BackupType cfg of
       S3 \<Rightarrow> requestS3Backup decode E cfg host ''/xbackup''
     | NFS \<Rightarrow> requestNFSBackup E cfg host ''/download''
     | OtherBk t \<Rightarrow> fail (GErr (''unknown backup type: '' @ t)))"

section \<open>One backup at a time\<close>

text \<open>
  \<open>maxClients\<close>: the semaphore around a handler. Requests wait at the channel, at most \<open>n\<close> are
  in the handler; a handler that returns (or panics: the release is deferred) lets one go.
\<close>

record Clients =
  cl_waiting :: nat
  cl_running :: nat
  cl_served :: nat

inductive maxClients_step :: "nat \<Rightarrow> Clients \<Rightarrow> Clients \<Rightarrow> bool" for n where
  arrive: "maxClients_step n c (c\<lparr>cl_waiting := Suc (cl_waiting c)\<rparr>)"
| acquire: "cl_waiting c = Suc w \<Longrightarrow> cl_running c < n \<Longrightarrow>
    maxClients_step n c (c\<lparr>cl_waiting := w, cl_running := Suc (cl_running c)\<rparr>)"
| release: "cl_running c = Suc r \<Longrightarrow> maxClients_step n c (c\<lparr>cl_running := r, cl_served := Suc (cl_served c)\<rparr>)"

definition idle_clients :: Clients where
  "idle_clients = \<lparr>cl_waiting = 0, cl_running = 0, cl_served = 0\<rparr>"

section \<open>Uploading binary logs (cmd/s3cmd)\<close>

definition runBinlogDump :: "SideEnv \<Rightarrow> string \<Rightarrow> string \<Rightarrow> ('z Side_scheme, unit) go" where
  "runBinlogDump E host pass = ignore (scall E (SvRun [''bash'', ''-c'', sprintf (go_lines [''cd /tmp/;mysql -uroot -p%s -h%s -N -e ~qSHOW BINARY LOGS~q | awk ~a{print ~qmysqlbinlog --read-from-remote-server --raw --host=%s --port=3306 --user=root --password=%s --raw~q, $1}~a|bash''])
     [pass, host, host, pass]]))"

definition UploadBinLog :: "SideEnv \<Rightarrow> string \<Rightarrow> string \<Rightarrow> ('z Side_scheme, unit) go" where
  "UploadBinLog E host interP =
     (let bucket = se_getenv E ''S3_BUCKET''; cluster = se_getenv E ''CLUSTER_NAME'' in
     bnd (or_fatal (scall E (SvS3New [trim_prefix (trim_prefix (se_getenv E ''S3_ENDPOINT'') ''https://'') ''http://'',
       se_getenv E ''S3_ACCESSKEY'', se_getenv E ''S3_SECRETKEY'', bucket] (has_prefix bucket ''https'')))) (\<lambda>_.
     bnd (runBinlogDump E host interP) (\<lambda>_.
     bnd (handle (squery E (SvReadDir ''/tmp/'') (se_names E)) (\<lambda>_. ret [])) (\<lambda>files.
     each (\<lambda>file. if has_prefix file ''mysql-bin'' then
         bnd (or_fatal (scall E (SvOpen (''/tmp/'' @ file)))) (\<lambda>_.
         or_fatal (scall E (SvS3Put bucket (cluster @ ''-binlog/'' @ base_name file) (''/tmp/'' @ file))))
       else ret ()) files))))"

section \<open>Properties\<close>

text \<open>
  C10. No backup without credentials. A request that does not carry the user and the password
  of the server is answered with one error, and that answer is all that happens: no command
  is run, no binary log is uploaded, nothing is read from the server. (The body is decoded
  first, so a body that is not JSON is answered 400 even then.)
\<close>

theorem unauthenticated_does_nothing:
  assumes "\<not> isAuthenticated cfg r"
  shows "(\<exists>code msg. sd_trace (snd (backupHandler E cfg r s)) = sd_trace s @ [SvReply code msg] \<and>
       (code = 403 \<or> code = 400 \<and> (\<exists>e. rq_body r = Inl e))) \<and>
     (\<exists>msg. sd_trace (snd (backupDownloadHandler E cfg r s)) = sd_trace s @ [SvReply 403 msg])"
  using assms
  by (auto simp: backupHandler_def backupDownloadHandler_def http_error_def srec_run Let_def split: sum.split)

theorem unauthenticated_does_nothing_witness:
  "\<exists>msg. sd_trace (snd (backupDownloadHandler calm_machine no_config
     \<lparr>rq_auth = Some (''root'', ''guess''), rq_body = Inl (GErr ''EOF''), rq_flush = True\<rparr> \<lparr>sd_trace = []\<rparr>)) = [SvReply 403 msg]"
  using unauthenticated_does_nothing [of no_config "\<lparr>rq_auth = Some (''root'', ''guess''), rq_body = Inl (GErr ''EOF''), rq_flush = True\<rparr>"
      calm_machine "\<lparr>sd_trace = []\<rparr>"]
  by (simp add: isAuthenticated_def no_config_def)

text \<open>
  C35. A backup to S3 is reported as taken only when both ends of the pipe, xtrabackup and
  xbcloud, were waited for and ended without an error; the name and the date reported are
  those of one instant, the one the upload was started with.
\<close>

theorem s3_backup_success:
  fixes s :: "'z Side_scheme"
  assumes "RunTakeS3BackupCommand E cfg s = (Ok res, t)"
  shows "\<exists>tr a b. sd_trace t = tr @ [SvWait a, SvWait b] \<and>
     {a, b} = {xtrabackupCommand # client_XtrabackupArgs cfg, xcloudCommand # client_XCloudArgs cfg (br_Name res)} \<and>
     se_err E (tr @ [SvWait a]) = None \<and> se_err E (tr @ [SvWait a, SvWait b]) = None \<and>
     (br_Name res, br_Date res) = BuildBackupName (bc_ClusterName cfg) (se_clock E (sd_trace s))"
proof -
  define names where "names = BuildBackupName (bc_ClusterName cfg) (se_clock E (sd_trace s))"
  have name: "client_XBackupName E cfg s = (Ok names, s)"
    by (simp add: client_XBackupName_def gets_def names_def)
  from assms obtain u v n g where
      w: "wait_both E (xcloudCommand # client_XCloudArgs cfg (fst names)) (xtrabackupCommand # client_XtrabackupArgs cfg) u = (Ok (), v)"
    and res: "res = \<lparr>br_Name = fst names, br_Date = snd names, br_Size = n, br_Gtid = g\<rparr>" and t: "t = v"
    unfolding RunTakeS3BackupCommand_def Let_def bnd_eq_Ok scall_Ok name
    by (auto simp: attempt_def gets_def lift_def ret_def srec_def modify_def bnd_def fail_def split: prod.splits res.splits sum.splits)
  from w show ?thesis unfolding res t names_def [symmetric]
    by (auto simp: wait_both_def bnd_eq_Ok scall_Ok gets_def split: if_splits)
qed

definition s3_job :: BackupClientConfig where
  "s3_job = (NewReqBackupConfig calm_machine)\<lparr>bc_ClusterName := ''sample'', bc_BackupType := S3\<rparr>"

theorem s3_backup_success_witness:
  "\<exists>res t tr a b. RunTakeS3BackupCommand calm_machine s3_job \<lparr>sd_trace = []\<rparr> = (Ok res, t) \<and>
     sd_trace t = tr @ [SvWait a, SvWait b] \<and>
     {a, b} = {xtrabackupCommand # client_XtrabackupArgs s3_job, xcloudCommand # client_XCloudArgs s3_job (br_Name res)}"
proof -
  have none: "se_err calm_machine tr = None" "se_names calm_machine tr = [''1001'', ''1001'']" "se_late calm_machine tr = False" for tr
    by (simp_all add: calm_machine_def)
  have "scan_gtid [] [''1001'', ''1001''] = Ok []" by code_simp
  then obtain res t where run: "RunTakeS3BackupCommand calm_machine s3_job \<lparr>sd_trace = []\<rparr> = (Ok res, t)"
    unfolding RunTakeS3BackupCommand_def Let_def client_XBackupName_def wait_both_def
    by (simp add: bnd_def gets_def scall_run none attempt_def lift_def ret_def)
  from s3_backup_success [OF this] run show ?thesis by (elim exE conjE) blast
qed

lemma gtid_label_length: "length gtid_label = 23"
  by (simp add: gtid_label_def)

text \<open>
  The scan of xtrabackup's log brings the whole server down exactly when some line has the
  word GTID with less than the label's 23 bytes left from there to its end.
\<close>

theorem scan_gtid_panics_iff:
  "is_panic (scan_gtid g ls) \<longleftrightarrow> (\<exists>t \<in> set ls. \<exists>i. str_index t ''GTID'' = Some i \<and> length t < i + 23)"
proof (induction g ls rule: scan_gtid.induct)
  case (2 g t ts)
  note len = gtid_label_length
  show ?case
  proof (cases "str_index t ''GTID''")
    case None
    with 2 show ?thesis by simp
  next
    case (Some i)
    show ?thesis
    proof (cases "i + 23 > length t")
      case True
      with Some show ?thesis by (auto simp: len)
    next
      case False
      with Some 2(2) [OF Some] show ?thesis by (simp add: len)
    qed
  qed
qed simp

text \<open>The last line with a GTID decides.\<close>

lemma scan_gtid_result:
  "\<forall>t \<in> set ls. str_index t ''GTID'' = None \<Longrightarrow> str_index t ''GTID'' = Some i \<Longrightarrow> i + 23 \<le> length t \<Longrightarrow>
   scan_gtid g (t # ls) = Ok (trim_chars [CHR '' '', CHR 0x27] (drop (i + 23) t))"
proof -
  assume "\<forall>t \<in> set ls. str_index t ''GTID'' = None"
  then have "scan_gtid h ls = Ok h" for h by (induction ls) auto
  then show "str_index t ''GTID'' = Some i \<Longrightarrow> i + 23 \<le> length t \<Longrightarrow> ?thesis" by (simp add: gtid_label_length)
qed



text \<open>
  A download whose xtrabackup fails after the stream began has already been answered 200: the
  failure is only in the trailer, and nothing of the client reads it.
\<close>

lemma download_failure_after_200:
  assumes "isAuthenticated cfg r" "rq_flush r"
    and "\<And>tr. se_err E (tr @ [SvWait (xtrabackupCommand # XtrabackupArgs cfg)]) = Some e"
    and "\<And>tr ev. ev \<noteq> SvWait (xtrabackupCommand # XtrabackupArgs cfg) \<Longrightarrow> se_err E (tr @ [ev]) = None"
  shows "\<exists>msg. sd_trace (snd (backupDownloadHandler E cfg r s)) = sd_trace s @
     [SvPipe (xtrabackupCommand # XtrabackupArgs cfg), SvStart (xtrabackupCommand # XtrabackupArgs cfg),
      SvStream (xtrabackupCommand # XtrabackupArgs cfg), SvWait (xtrabackupCommand # XtrabackupArgs cfg),
      SvTrailer ''Failed'', SvReply 500 msg]"
proof -
  define x where "x = xtrabackupCommand # XtrabackupArgs cfg"
  have ok: "se_err E (tr @ [SvPipe x]) = None" "se_err E (tr @ [SvStart x]) = None" "se_err E (tr @ [SvStream x]) = None"
    "se_err E (tr @ [SvWait x]) = Some e" for tr
    using assms(3,4) unfolding x_def [symmetric] by simp_all
  have ok3: "se_err E (tr @ [SvPipe x, SvStart x]) = None" "se_err E (tr @ [SvPipe x, SvStart x, SvStream x]) = None"
    "se_err E (tr @ [SvPipe x, SvStart x, SvStream x, SvWait x]) = Some e" for tr
    using ok(2) [of "tr @ [SvPipe x]"] ok(3) [of "tr @ [SvPipe x, SvStart x]"] ok(4) [of "tr @ [SvPipe x, SvStart x, SvStream x]"]
    by simp_all
  show ?thesis
    using assms(1,2) unfolding backupDownloadHandler_def Let_def x_def [symmetric]
    by (simp add: bnd_def attempt_def scall_run ok ok3 srec_run http_error_def)
qed

end
