(* ===== verification/SideMain.thy ===== *)
theory SideMain
  imports SideBackup BackupLaws
begin

text \<open>
  The command \<open>sidecar\<close> (\<open>cmd/sidecar/main.go\<close>) and what it does in the containers the operator
  creates: the environment a container is given (\<open>mysqlcluster/container/\<close>, \<open>controllers/backup/\<close>)
  is the configuration the sidecar reads.

  Cobra is modelled as far as the command uses it: the first argument names the subcommand, the
  rest are its arguments; flags and the generated \<open>help\<close> and \<open>completion\<close> commands are left out.
  \<open>serve\<close> stands for \<open>ListenAndServe\<close> with the handlers of \<open>SideBackup\<close>.
\<close>

section \<open>main\<close>

text \<open>The result is the exit status. An error of cobra itself (no such subcommand, wrong number of
  arguments) is logged only.\<close>

definition with_cfg :: "SideConfig \<Rightarrow> (SideState, 'a) go \<Rightarrow> (SideState, 'a) go" where
  "with_cfg cfg m = bnd (modify (\<lambda>s. s\<lparr>sd_cfg := cfg\<rparr>)) (\<lambda>_. m)"

definition subcommand :: "string \<Rightarrow> (string list \<Rightarrow> (SideState, nat) go) \<Rightarrow> string list \<Rightarrow> (SideState, nat) go" where
  "subcommand name run args = (case args of
       [] \<Rightarrow> ret 0
     | c # rest \<Rightarrow> if c = name then run rest else ret 0)"

definition request_command ::
  "(string \<Rightarrow> BackupResult) \<Rightarrow> SideEnv \<Rightarrow> BackupClientConfig \<Rightarrow> string list \<Rightarrow> (SideState, nat) go" where
  "request_command decode E cfg args =
     (if length args \<noteq> 1 then ret 0
      else bnd (attempt (RunRequestBackup decode E cfg (args ! 0))) (\<lambda>r. case r of
          Inl e \<Rightarrow> bnd (srec (SvExit 1)) (\<lambda>_. ret 1)
        | Inr _ \<Rightarrow> ret 0))"

definition sidecar ::
  "(SideConfig \<Rightarrow> (SideState, unit) go) \<Rightarrow> 'sec SideLib \<Rightarrow> (string \<Rightarrow> BackupResult) \<Rightarrow> SideEnv \<Rightarrow> string list \<Rightarrow>
   (SideState, nat) go" where
  "sidecar serve L decode E args =
     (let containerName = GetContainerType E in
      if containerName = ''backup'' then
        subcommand ''http'' (\<lambda>_. bnd (ignore (serve (NewBackupConfig E))) (\<lambda>_. ret 0)) args
      else if containerName = ''backup-job'' then
        subcommand ''request_a_backup'' (request_command decode E (NewReqBackupConfig E)) args
      else bnd (NewInitConfig L E) (\<lambda>cfg.
        subcommand ''init'' (\<lambda>_. with_cfg cfg (NewInitCommand L E)) args))"

section \<open>The environment of a container\<close>

text \<open>
  What the kubelet promises: a variable listed once with a plain value (without references) is
  set to it, and one listed once with a reference to the name of the pod is set to that name.
\<close>

definition kubelet_env :: "string \<Rightarrow> EnvVar list \<Rightarrow> (string \<Rightarrow> string) \<Rightarrow> bool" where
  "kubelet_env pod es getenv \<longleftrightarrow>
     (\<forall>n v. filter (\<lambda>e. en_Name e = n) es = [val_env n v] \<and> CHR ''$'' \<notin> set v \<longrightarrow> getenv n = v) \<and>
     (\<forall>n. filter (\<lambda>e. en_Name e = n) es = [field_env n ''metadata.name''] \<longrightarrow> getenv n = pod)"

lemma kubelet_value:
  "kubelet_env pod es getenv \<Longrightarrow> filter (\<lambda>e. en_Name e = n) es = [val_env n v] \<Longrightarrow> CHR ''$'' \<notin> set v \<Longrightarrow> getenv n = v"
  by (simp add: kubelet_env_def)

lemma kubelet_pod:
  "kubelet_env pod es getenv \<Longrightarrow> filter (\<lambda>e. en_Name e = n) es = [field_env n ''metadata.name''] \<Longrightarrow> getenv n = pod"
  by (simp add: kubelet_env_def)

lemma filter_env_names:
  "en_Name (val_env n v) = n" "en_Name (field_env n p) = n" "en_Name (getEnvVarFromSecret s n k b) = n"
  by (simp_all add: val_env_def field_env_def getEnvVarFromSecret_def)

lemma filter_if: "filter P (if b then xs else ys) = (if b then filter P xs else filter P ys)"
  by simp

lemmas env_filter = filter_env_names filter_if s3_env_def s3_job_env_def Let_def

section \<open>The init container of a cluster's pod\<close>

lemma kubelet_init_env:
  assumes "initSidecar_env up c = Ok es" "kubelet_env pod es getenv"
    and "CHR ''$'' \<notin> set (mc_Name c)" "CHR ''$'' \<notin> set (mc_Namespace c)"
  shows "getenv ''POD_HOSTNAME'' = pod" "getenv ''NAMESPACE'' = mc_Namespace c" "getenv ''SERVICE_NAME'' = mc_Name c @ ''-mysql''"
    "getenv ''CONTAINER_TYPE'' = ''init-sidecar''"
proof -
  have es: "filter (\<lambda>e. en_Name e = ''POD_HOSTNAME'') es = [field_env ''POD_HOSTNAME'' ''metadata.name'']"
    "filter (\<lambda>e. en_Name e = ''NAMESPACE'') es = [val_env ''NAMESPACE'' (mc_Namespace c)]"
    "filter (\<lambda>e. en_Name e = ''SERVICE_NAME'') es = [val_env ''SERVICE_NAME'' (mc_Name c @ ''-mysql'')]"
    "filter (\<lambda>e. en_Name e = ''CONTAINER_TYPE'') es = [val_env ''CONTAINER_TYPE'' ''init-sidecar'']"
    using assms(1) by (auto simp: initSidecar_env_def env_filter split: option.splits)
  show "getenv ''POD_HOSTNAME'' = pod" by (rule kubelet_pod [OF assms(2) es(1)])
  show "getenv ''NAMESPACE'' = mc_Namespace c" by (rule kubelet_value [OF assms(2) es(2) assms(4)])
  show "getenv ''SERVICE_NAME'' = mc_Name c @ ''-mysql''"
    by (rule kubelet_value [OF assms(2) es(3)]) (simp add: assms(3))
  show "getenv ''CONTAINER_TYPE'' = ''init-sidecar''" by (rule kubelet_value [OF assms(2) es(4)]) simp
qed

lemma NewInitConfig_names:
  assumes "NewInitConfig L E s = (Ok cfg, t)"
  shows "sc_HostName cfg = se_getenv E ''POD_HOSTNAME''" "sc_NameSpace cfg = se_getenv E ''NAMESPACE''"
    "sc_ServiceName cfg = se_getenv E ''SERVICE_NAME''"
  using assms unfolding NewInitConfig_def Let_def
  by (auto simp: bnd_eq_Ok getEnvValue_def ret_def panic_def split: if_splits res.splits)

lemma sprintf_arg: "d \<noteq> CHR ''%'' \<Longrightarrow> sprintf (CHR ''%'' # d # f) (x # xs) = x @ sprintf f xs"
  by (simp add: sprintf_def)

definition endpoint_lead :: string where
  "endpoint_lead = go_lines [''{'', ''~t~t~qlog~q: {'', ''~t~t~t~qlevel~q: ~qINFO~q'', ''~t~t},'', ''~t~t~qserver~q: {'', ''~t~t~t~qendpoint~q: ~q'']"

lemma xenon_json_endpoint:
  "\<exists>rest. xenon_json_format = endpoint_lead @ CHR ''%'' # CHR ''s'' # CHR '':'' # CHR ''%'' # CHR ''d'' # rest"
proof -
  have "take (length endpoint_lead + 5) xenon_json_format = endpoint_lead @ ''%s:%d''" by code_simp
  then have "xenon_json_format = (endpoint_lead @ ''%s:%d'') @ drop (length endpoint_lead + 5) xenon_json_format"
    by (metis append_take_drop_id)
  then show ?thesis by (intro exI) simp
qed

lemma endpoint_lead_plain: "CHR ''%'' \<notin> set endpoint_lead"
  by code_simp

lemma buildXenonConf_endpoint:
  assumes "buildXenonConf cfg = Ok text"
  shows "\<exists>rest. text = endpoint_lead @ sc_HostName cfg @ ''.'' @ sc_ServiceName cfg @ ''.'' @ sc_NameSpace cfg @ '':'' @ nat_str XenonPort @ rest"
proof -
  obtain args where args: "text = sprintf xenon_json_format
      ((sc_HostName cfg @ ''.'' @ sc_ServiceName cfg @ ''.'' @ sc_NameSpace cfg) # nat_str XenonPort # args)"
    using assms by (auto simp: buildXenonConf_def Let_def bind_res_Ok)
  obtain f where f: "xenon_json_format = endpoint_lead @ CHR ''%'' # CHR ''s'' # CHR '':'' # CHR ''%'' # CHR ''d'' # f"
    using xenon_json_endpoint by blast
  have colon: "sprintf (CHR '':'' # CHR ''%'' # CHR ''d'' # f) (x # xs) = CHR '':'' # x @ sprintf f xs" for x xs
    using sprintf_plain [of "'':''" "CHR ''%'' # CHR ''d'' # f" "x # xs"] by (simp add: sprintf_arg)
  show ?thesis unfolding args f
    by (simp add: sprintf_plain [OF endpoint_lead_plain] sprintf_arg colon)
qed

text \<open>
  C14. Every pod of a cluster configures xenon with the address by which the operator knows it.
  In the init container of pod \<open>i\<close>, whatever else is in its environment, the configuration
  written for xenon has as its endpoint the peer address \<open>peer_addr c i\<close> that the operator
  puts into the member list and compares the raft status with.
\<close>
theorem endpoint_is_peer_address:
  assumes "initSidecar_env up c = Ok es" "kubelet_env (mc_Name c @ ''-mysql-'' @ nat_str i) es (se_getenv E)"
    and "CHR ''$'' \<notin> set (mc_Name c)" "CHR ''$'' \<notin> set (mc_Namespace c)"
    and "NewInitConfig L E s = (Ok cfg, t)" "buildXenonConf cfg = Ok text"
  shows "\<exists>rest. text = endpoint_lead @ peer_addr c i @ rest"
  using buildXenonConf_endpoint [OF assms(6)] NewInitConfig_names [OF assms(5)] kubelet_init_env [OF assms(1-4)]
  by (auto simp: peer_addr_def GetPodHostName_def)

text \<open>An environment as the kubelet makes it, without secrets.\<close>

definition plain_env :: "string \<Rightarrow> EnvVar list \<Rightarrow> string \<Rightarrow> string" where
  "plain_env pod es n = (case filter (\<lambda>e. en_Name e = n) es of
       [e] \<Rightarrow> (case en_Source e of EnvValue v \<Rightarrow> v | EnvField p \<Rightarrow> pod | EnvSecret s k b \<Rightarrow> [])
     | _ \<Rightarrow> [])"

lemma kubelet_plain: "kubelet_env pod es (plain_env pod es)"
  by (simp add: kubelet_env_def plain_env_def val_env_def field_env_def)

definition sample_env :: "EnvVar list" where
  "sample_env = (case initSidecar_env False sample of Ok es \<Rightarrow> es | _ \<Rightarrow> [])"

definition sample_machine :: SideEnv where
  "sample_machine = calm_machine\<lparr>se_getenv := plain_env ''sample-mysql-2'' sample_env\<rparr>"

theorem endpoint_is_peer_address_witness:
  "\<exists>cfg text rest. fst (NewInitConfig pod_lib sample_machine \<lparr>sd_trace = []\<rparr>) = Ok cfg \<and> buildXenonConf cfg = Ok text \<and>
     text = endpoint_lead @ ''sample-mysql-2.sample-mysql.default:8801'' @ rest"
proof -
  have env: "initSidecar_env False sample = Ok sample_env"
    by (simp add: sample_env_def initSidecar_env_def sample_defs Let_def)
  have vars: "se_getenv sample_machine ''MYSQL_VERSION'' = GetMySQLVersion sample"
    "se_getenv sample_machine ''ADMIT_DEFEAT_HEARBEAT_COUNT'' = int_str 5"
    by (simp_all add: sample_machine_def plain_env_def sample_env_def initSidecar_env_def sample_defs env_filter)
       (simp_all add: val_env_def)
  have "GetMySQLVersion sample \<noteq> InvalidMySQLVersion" "int32_or (int_str 5) 5 \<noteq> 0" by code_simp+
  then have "\<exists>cfg. fst (NewInitConfig pod_lib sample_machine \<lparr>sd_trace = []\<rparr>) = Ok cfg \<and> sc_AdmitDefeatHearbeatCount cfg \<noteq> 0"
  proof -
    obtain b t where "path_exists sample_machine (DataVolumeMountPath @ ''/mysql'') \<lparr>sd_trace = []\<rparr> = (Ok b, t)"
      using path_exists_run [of sample_machine "DataVolumeMountPath @ ''/mysql''" "\<lparr>sd_trace = []\<rparr>"] by (metis prod.collapse)
    then show ?thesis using \<open>GetMySQLVersion sample \<noteq> InvalidMySQLVersion\<close> \<open>int32_or (int_str 5) 5 \<noteq> 0\<close>
      by (simp add: NewInitConfig_def getEnvValue_def vars pod_lib_def bnd_def ret_def)
  qed
  then obtain cfg out where run: "fst (NewInitConfig pod_lib sample_machine \<lparr>sd_trace = []\<rparr>) = Ok cfg" "buildXenonConf cfg = Ok out"
    using buildXenonConf_ok by (meson is_ok.elims(2))
  have peer: "peer_addr sample 2 = ''sample-mysql-2.sample-mysql.default:8801''" "''sample-mysql-2'' = mc_Name sample @ ''-mysql-'' @ nat_str 2"
    by (simp_all add: peer_addr_def GetPodHostName_def sample_def XenonPort_def nat_str.simps digit_char_eval)
  have "\<exists>rest. out = endpoint_lead @ peer_addr sample 2 @ rest"
  proof (rule endpoint_is_peer_address [OF env])
    show "kubelet_env (mc_Name sample @ ''-mysql-'' @ nat_str 2) sample_env (se_getenv sample_machine)"
      unfolding peer(2) [symmetric] by (simp add: sample_machine_def kubelet_plain)
    show "CHR ''$'' \<notin> set (mc_Name sample)" "CHR ''$'' \<notin> set (mc_Namespace sample)" by (simp_all add: sample_defs)
    show "NewInitConfig pod_lib sample_machine \<lparr>sd_trace = []\<rparr> = (Ok cfg, snd (NewInitConfig pod_lib sample_machine \<lparr>sd_trace = []\<rparr>))"
      using run(1) by (metis prod.collapse)
  qed (rule run(2))
  with run peer(1) show ?thesis by auto
qed

section \<open>The job of a v1beta1 backup\<close>

lemma job_container:
  "js_Containers (backup_job_spec env b cluster host ls) = [k] \<Longrightarrow>
     kc_Env k = backup_job_env b cluster host \<and>
     kc_Args k = [''request_a_backup'', if bop_BackupHost (bbp_BackupOpts (bb_Spec b)) \<noteq> []
       then beta_GetBackupURL (bcl_Name cluster) (bop_BackupHost (bbp_BackupOpts (bb_Spec b))) (bcl_Namespace cluster)
       else GetXtrabackupURL host]"
  by (auto simp: backup_job_spec_def Let_def)

lemma kubelet_job_env:
  assumes "kubelet_env pod (backup_job_env b cluster host) getenv"
    and "(bop_S3 (bbp_BackupOpts (bb_Spec b)) = None) \<noteq> (bop_NFS (bbp_BackupOpts (bb_Spec b)) = None)"
    and "CHR ''$'' \<notin> set (bcl_Namespace cluster)"
  shows "getenv ''CONTAINER_TYPE'' = ''backup-job''" "getenv ''NAMESPACE'' = bcl_Namespace cluster"
    "getenv ''BACKUP_TYPE'' = (if bop_NFS (bbp_BackupOpts (bb_Spec b)) = None then ''s3'' else ''nfs'')"
proof -
  let ?es = "backup_job_env b cluster host"
  have es: "filter (\<lambda>e. en_Name e = ''CONTAINER_TYPE'') ?es = [val_env ''CONTAINER_TYPE'' ''backup-job'']"
    "filter (\<lambda>e. en_Name e = ''NAMESPACE'') ?es = [val_env ''NAMESPACE'' (bcl_Namespace cluster)]"
    "filter (\<lambda>e. en_Name e = ''BACKUP_TYPE'') ?es =
       [val_env ''BACKUP_TYPE'' (if bop_NFS (bbp_BackupOpts (bb_Spec b)) = None then ''s3'' else ''nfs'')]"
    using assms(2) by (auto simp: backup_job_env_def env_filter split: option.splits)
  show "getenv ''CONTAINER_TYPE'' = ''backup-job''" by (rule kubelet_value [OF assms(1) es(1)]) simp
  show "getenv ''NAMESPACE'' = bcl_Namespace cluster" by (rule kubelet_value [OF assms(1) es(2) assms(3)])
  show "getenv ''BACKUP_TYPE'' = (if bop_NFS (bbp_BackupOpts (bb_Spec b)) = None then ''s3'' else ''nfs'')"
    by (rule kubelet_value [OF assms(1) es(3)]) simp
qed

lemma url_has_port: "str_contains (u @ '':'' @ p) '':''"
  by (simp add: str_contains_iff) (metis append_Cons append_Nil sublist_appendI)

lemma job_url_port: "str_contains (GetXtrabackupURL h) '':''" "str_contains (beta_GetBackupURL c h ns) '':''"
proof -
  show "str_contains (GetXtrabackupURL h) '':''" unfolding GetXtrabackupURL_def by (rule url_has_port)
  have "beta_GetBackupURL c h ns = (if length h \<noteq> 0 then h @ ''.'' @ c @ ''-mysql.'' @ ns else c @ ''-leader.'' @ ns) @ '':'' @
      nat_str Containers.XBackupPort"
    by (simp add: beta_GetBackupURL_def)
  then show "str_contains (beta_GetBackupURL c h ns) '':''" by (simp only: url_has_port)
qed

text \<open>Calls of a client after its request: they concern its own job only.\<close>

definition own_job :: "BackupClientConfig \<Rightarrow> side_event \<Rightarrow> bool" where
  "own_job cfg e = (case e of SvHttp m u \<Rightarrow> False
     | SvGetJob ns j \<Rightarrow> ns = bc_NameSpace cfg \<and> j = bc_JobName cfg
     | SvUpdateJob ns j a \<Rightarrow> ns = bc_NameSpace cfg \<and> j = bc_JobName cfg
     | _ \<Rightarrow> True)"

lemma emits_setAnnonations [emits_intros]: "emits sd_trace (own_job cfg) (setAnnonations E cfg n d ty k g)"
  unfolding setAnnonations_def Let_def by (intro emits_intros) (simp_all add: own_job_def)

text \<open>\<open>begins e A m\<close>: the first call of \<open>m\<close> is \<open>e\<close>, and the later ones satisfy \<open>A\<close>.\<close>

named_theorems begins_intros "the first call of a program"

definition begins :: "side_event \<Rightarrow> (side_event \<Rightarrow> bool) \<Rightarrow> ('z Side_scheme, 'a) go \<Rightarrow> bool" where
  "begins e A m \<longleftrightarrow> (\<forall>s. \<exists>es. sd_trace (snd (m s)) = sd_trace s @ e # es \<and> list_all A es)"

lemma begins_squery [begins_intros]: "begins e A (squery E e f)"
  by (simp add: begins_def squery_run)

lemma begins_bnd [begins_intros]:
  assumes "begins e A m" "\<And>x. emits sd_trace A (f x)"
  shows "begins e A (bnd m f)"
  unfolding begins_def
proof
  fix s
  obtain r t where m: "m s = (r, t)" by fastforce
  obtain es where es: "sd_trace t = sd_trace s @ e # es" "list_all A es"
    using assms(1) m unfolding begins_def by (metis snd_conv)
  show "\<exists>es. sd_trace (snd (bnd m f s)) = sd_trace s @ e # es \<and> list_all A es"
  proof (cases r)
    case (Ok x)
    obtain es' where "sd_trace (snd (f x t)) = sd_trace t @ es'" "list_all A es'"
      using assms(2) [of x] unfolding emits_def by blast
    with es show ?thesis by (intro exI [of _ "es @ es'"]) (simp add: bnd_def m Ok)
  qed (use es in \<open>auto simp: bnd_def m\<close>)
qed

lemma begins_attempt [begins_intros]: "begins e A m \<Longrightarrow> begins e A (attempt m)"
  by (simp add: begins_def snd_attempt)

lemma begins_errorf [begins_intros]: "begins e A m \<Longrightarrow> begins e A (errorf msg m)"
  unfolding begins_def errorf_def handle_def fail_def by (simp split: prod.split res.split) (metis snd_conv)

lemma begins_gets [begins_intros]: "(\<And>x. begins e A (f x)) \<Longrightarrow> begins e A (bnd (gets h) f)"
  by (simp add: begins_def bnd_def gets_def)

lemma s3_request_begins:
  "begins (SvHttp ''POST'' (prepareURL u ''/xbackup'')) (own_job cfg) (requestS3Backup decode E cfg u ''/xbackup'')"
  unfolding requestS3Backup_def Let_def
  by (intro begins_intros emits_intros)

lemma nfs_request_begins:
  "begins (SvHttp ''GET'' (prepareURL u ''/download'')) (own_job cfg) (requestNFSBackup E cfg u ''/download'')"
  unfolding requestNFSBackup_def client_XBackupName_def Let_def gtid_or_empty_def GetXtrabackupGTIDPurged_def
  by (intro begins_intros emits_intros) (simp_all add: own_job_def)

lemma request_begins:
  assumes "bc_BackupType cfg = (if nfs then NFS else S3)"
  shows "begins (SvHttp (if nfs then ''GET'' else ''POST'') (prepareURL u (if nfs then ''/download'' else ''/xbackup'')))
     (own_job cfg) (RunRequestBackup decode E cfg u)"
  using assms by (simp add: RunRequestBackup_def s3_request_begins nfs_request_begins)

lemma command_begins:
  assumes "begins e (own_job cfg) (RunRequestBackup decode E cfg u :: (SideState, unit) go)"
  shows "begins e (own_job cfg) (request_command decode E cfg [u])"
proof -
  have run: "request_command decode E cfg [u] = bnd (attempt (RunRequestBackup decode E cfg u)) (\<lambda>r. case r of
      Inl e \<Rightarrow> bnd (srec (SvExit 1)) (\<lambda>_. ret 1) | Inr _ \<Rightarrow> ret 0)"
    by (simp add: request_command_def del: One_nat_def)
  show ?thesis unfolding run
    by (intro begins_bnd begins_attempt assms emits_intros) (simp add: own_job_def)
qed

text \<open>
  C15. A backup job does what it was created for. In the container of a job the operator creates
  for a v1beta1 backup with exactly one of S3 and NFS, given the arguments and the environment
  of its specification, the first thing the sidecar does is to ask the backup server named by
  the specification, for an upload or for the data; it makes no other request, and the only job
  it reads and writes is the one named by \<open>JOB_NAME\<close> in the cluster's namespace.
\<close>
theorem job_requests_its_backup:
  assumes "js_Containers (backup_job_spec env b cluster host ls) = [k]" "kubelet_env pod (kc_Env k) (se_getenv E)"
    and "(bop_S3 (bbp_BackupOpts (bb_Spec b)) = None) \<noteq> (bop_NFS (bbp_BackupOpts (bb_Spec b)) = None)"
    and "CHR ''$'' \<notin> set (bcl_Namespace cluster)"
  shows "\<exists>es. sd_trace (snd (sidecar serve L decode E (kc_Args k) s)) = sd_trace s @
       (if bop_NFS (bbp_BackupOpts (bb_Spec b)) = None then SvHttp ''POST'' (''http://'' @ kc_Args k ! 1 @ ''/xbackup'')
        else SvHttp ''GET'' (''http://'' @ kc_Args k ! 1 @ ''/download'')) # es \<and>
     (\<forall>m u. SvHttp m u \<notin> set es) \<and>
     (\<forall>ns j a. SvUpdateJob ns j a \<in> set es \<longrightarrow> ns = bcl_Namespace cluster \<and> j = se_getenv E ''JOB_NAME'')"
proof -
  define nfs where "nfs = (bop_NFS (bbp_BackupOpts (bb_Spec b)) \<noteq> None)"
  define cfg where "cfg = NewReqBackupConfig E"
  obtain u where k: "kc_Env k = backup_job_env b cluster host" "kc_Args k = [''request_a_backup'', u]" "str_contains u '':''"
    using job_container [OF assms(1)] by (auto simp: job_url_port)
  note env = kubelet_job_env [OF assms(2) [unfolded k(1)] assms(3,4)]
  have cfg: "bc_BackupType cfg = (if nfs then NFS else S3)" "bc_NameSpace cfg = bcl_Namespace cluster" "bc_JobName cfg = se_getenv E ''JOB_NAME''"
    using env by (simp_all add: cfg_def NewReqBackupConfig_def getEnvValue_def bk_type_def nfs_def)
  have run: "sidecar serve L decode E (kc_Args k) = request_command decode E cfg [u]"
    using env(1) by (simp add: sidecar_def GetContainerType_def getEnvValue_def k(2) subcommand_def cfg_def)
  obtain es where es: "sd_trace (snd (request_command decode E cfg [u] s)) =
      sd_trace s @ SvHttp (if nfs then ''GET'' else ''POST'') (prepareURL u (if nfs then ''/download'' else ''/xbackup'')) # es"
    "list_all (own_job cfg) es"
    using command_begins [OF request_begins [OF cfg(1)]] unfolding begins_def by blast
  have own: "own_job cfg e" if "e \<in> set es" for e
    using es(2) that by (simp add: list_all_iff)
  show ?thesis
  proof (intro exI conjI allI impI)
    show "sd_trace (snd (sidecar serve L decode E (kc_Args k) s)) = sd_trace s @
       (if bop_NFS (bbp_BackupOpts (bb_Spec b)) = None then SvHttp ''POST'' (''http://'' @ kc_Args k ! 1 @ ''/xbackup'')
        else SvHttp ''GET'' (''http://'' @ kc_Args k ! 1 @ ''/download'')) # es"
      unfolding run es(1) by (simp add: k(2,3) prepareURL_def nfs_def)
    show "SvHttp m u \<notin> set es" for m u using own [of "SvHttp m u"] by (auto simp: own_job_def)
    show "ns = bcl_Namespace cluster" "j = se_getenv E ''JOB_NAME''" if "SvUpdateJob ns j a \<in> set es" for ns j a
      using own [OF that] cfg by (simp_all add: own_job_def)
  qed
qed

definition s3_backup :: BetaBackup where
  "s3_backup = old_backup\<lparr>bb_Spec := (bb_Spec old_backup)\<lparr>bbp_BackupOpts := (bbp_BackupOpts (bb_Spec old_backup))\<lparr>bop_S3 := Some ''s3''\<rparr>\<rparr>\<rparr>"

definition s3_container :: JobContainer where
  "s3_container = hd (js_Containers (backup_job_spec ([], []) s3_backup (blank_cluster ''c'' ''ns'') ''c-mysql-1'' Map.empty))"

theorem job_requests_its_backup_witness:
  "\<forall>serve L decode. \<exists>es. sd_trace (snd (sidecar serve L decode
       (calm_machine\<lparr>se_getenv := plain_env ''job-pod'' (kc_Env s3_container)\<rparr>) (kc_Args s3_container) \<lparr>sd_trace = [], sd_cfg = no_config\<rparr>)) =
     SvHttp ''POST'' ''http://c-mysql-1:8082/xbackup'' # es"
proof (intro allI)
  fix serve :: "SideConfig \<Rightarrow> (SideState, unit) go" and L :: "'sec SideLib" and decode
  let ?E = "calm_machine\<lparr>se_getenv := plain_env ''job-pod'' (kc_Env s3_container)\<rparr>"
  have spec: "js_Containers (backup_job_spec ([], []) s3_backup (blank_cluster ''c'' ''ns'') ''c-mysql-1'' Map.empty) = [s3_container]"
    by (simp add: s3_container_def backup_job_spec_def Let_def)
  have "bop_BackupHost (bbp_BackupOpts (bb_Spec s3_backup)) = []" by (simp add: s3_backup_def old_backup_def)
  moreover have "GetXtrabackupURL ''c-mysql-1'' = ''c-mysql-1:8082''"
    by (simp add: GetXtrabackupURL_def Containers.XBackupPort_def nat_str.simps digit_char_eval)
  ultimately have url: "kc_Args s3_container ! 1 = ''c-mysql-1:8082''"
    using job_container [OF spec] by simp
  have opts: "bop_S3 (bbp_BackupOpts (bb_Spec s3_backup)) = Some ''s3''" "bop_NFS (bbp_BackupOpts (bb_Spec s3_backup)) = None"
    by (simp_all add: s3_backup_def old_backup_def)
  have "kubelet_env ''job-pod'' (kc_Env s3_container) (se_getenv ?E)" by (simp add: kubelet_plain)
  from job_requests_its_backup [OF spec this, of serve L decode "\<lparr>sd_trace = [], sd_cfg = no_config\<rparr>"] opts url
  show "\<exists>es. sd_trace (snd (sidecar serve L decode ?E (kc_Args s3_container) \<lparr>sd_trace = [], sd_cfg = no_config\<rparr>)) =
     SvHttp ''POST'' ''http://c-mysql-1:8082/xbackup'' # es"
    by (auto simp: blank_cluster_def)
qed

section \<open>The job of a v1alpha1 backup\<close>

text \<open>
  The job of a v1alpha1 backup to S3 cannot succeed: its specification does not set
  \<open>BACKUP_TYPE\<close>, which the sidecar reads; so, unless the image sets it, the sidecar exits with
  status 1 before it asks for anything.
\<close>
theorem alpha_job_fails:
  assumes "bk_NFSServerAddress (b_Spec b) = []" "k = hd (js_Containers (job_ensurePodSpec env clock b jobName js))"
    and "kubelet_env pod (kc_Env k) (se_getenv E)" "se_getenv E ''BACKUP_TYPE'' = []"
  shows "''BACKUP_TYPE'' \<notin> en_Name ` set (kc_Env k) \<and>
    sidecar serve L decode E (kc_Args k) s = (Ok 1, s\<lparr>sd_trace := sd_trace s @ [SvExit 1]\<rparr>)"
proof -
  have k: "kc_Env k = job_env b jobName" "\<exists>u. kc_Args k = [''request_a_backup'', u]"
    using assms(1,2) by (simp_all add: job_ensurePodSpec_def Let_def split: prod.splits)
  have "filter (\<lambda>e. en_Name e = ''CONTAINER_TYPE'') (kc_Env k) = [val_env ''CONTAINER_TYPE'' ''backup-job'']"
    by (simp add: k job_env_def env_filter)
  from kubelet_value [OF assms(3) this] have ct: "se_getenv E ''CONTAINER_TYPE'' = ''backup-job''" by simp
  show ?thesis
    using k(2) ct assms(4)
    by (auto simp: k(1) job_env_def env_filter sidecar_def GetContainerType_def getEnvValue_def subcommand_def request_command_def
        RunRequestBackup_def NewReqBackupConfig_def bk_type_def bnd_def attempt_def fail_def srec_run ret_def)
qed

end
