(* ===== verification/NfsBcp.thy ===== *)
theory NfsBcp
  imports SideTypes KubeObjects
begin

text \<open>
  The command line tool \<open>nfsbcp\<close> (\<open>cmd/nfsbcp/\<close>): it creates an NFS server in the namespace of a
  cluster and a \<open>Backup\<close> object that writes to it. A call of the API is an event of the trace, its
  answer a function of the trace; \<open>parse\<close> stands for \<open>resource.ParseQuantity\<close>.
\<close>

section \<open>storage.go\<close>

record StorageClassObj =
  nsc_Name :: string
  nsc_Provisioner :: string
  nsc_ReclaimPolicy :: string
  nsc_VolumeBindingMode :: string

record NfsVolume =
  npv_Name :: string
  npv_Labels :: smap
  npv_Capacity :: int
  npv_AccessModes :: "string list"
  npv_StorageClassName :: string
  npv_HostPath :: string

record NfsClaim =
  npc_Name :: string
  npc_StorageClassName :: "string option"
  npc_AccessModes :: "string list"
  npc_Storage :: int

definition pv :: "(string \<Rightarrow> int option) \<Rightarrow> string \<Rightarrow> string \<Rightarrow> NfsVolume res" where
  "pv parse hostPath capacity = bind_res (must_parse parse (capacity @ ''Gi'')) (\<lambda>q. Ok
     \<lparr>npv_Name = ''radondb-nfs-pv'', npv_Labels = [''type'' \<mapsto> ''local''], npv_Capacity = q, npv_AccessModes = [''ReadWriteOnce''],
      npv_StorageClassName = ''radondb-nfs-hostpath'', npv_HostPath = hostPath\<rparr>)"

definition stc :: StorageClassObj where
  "stc = \<lparr>nsc_Name = ''radondb-nfs-hostpath'', nsc_Provisioner = ''kubernetes.io/no-provisioner'', nsc_ReclaimPolicy = ''Retain'',
     nsc_VolumeBindingMode = ''WaitForFirstConsumer''\<rparr>"

definition pvc :: "(string \<Rightarrow> int option) \<Rightarrow> NfsClaim res" where
  "pvc parse = bind_res (must_parse parse ''30Gi'') (\<lambda>q. Ok
     \<lparr>npc_Name = ''radondb-nfs-pvc'', npc_StorageClassName = Some ''radondb-nfs-hostpath'',
      npc_AccessModes = [''ReadWriteOnce''], npc_Storage = q\<rparr>)"

section \<open>nfs.go\<close>

record NfsContainer =
  nk_Name :: string
  nk_Image :: string
  nk_Ports :: "(string \<times> nat) list"
  nk_Privileged :: "bool option"
  nk_VolumeMounts :: "VolumeMount list"

text \<open>The volumes of the pod: a name and the name of a claim.\<close>

record NfsController =
  nrc_Name :: string
  nrc_Replicas :: "int option"
  nrc_Selector :: smap
  nrc_Labels :: smap
  nrc_Containers :: "NfsContainer list"
  nrc_Volumes :: "(string \<times> string) list"

definition nfs_ports :: "(string \<times> nat) list" where
  "nfs_ports = [(''nfs'', 2049), (''mountd'', 20048), (''rpcbind'', 111)]"

definition nfs_container :: "string \<Rightarrow> NfsContainer" where
  "nfs_container nfsServerImage = \<lparr>nk_Name = ''nfs-server'', nk_Image = nfsServerImage, nk_Ports = nfs_ports,
     nk_Privileged = Some True, nk_VolumeMounts = [\<lparr>vm_Name = ''nfs-export-fast'', vm_MountPath = ''/exports''\<rparr>]\<rparr>"

definition rc :: "string \<Rightarrow> NfsController" where
  "rc nfsServerImage = \<lparr>nrc_Name = ''radondb-nfs-server'', nrc_Replicas = Some 1, nrc_Selector = [''role'' \<mapsto> ''nfs-server''],
     nrc_Labels = [''role'' \<mapsto> ''nfs-server''], nrc_Containers = [nfs_container nfsServerImage],
     nrc_Volumes = [(''nfs-export-fast'', ''radondb-nfs-pvc'')]\<rparr>"

definition svc :: Service where
  "svc = \<lparr>svc_Name = ''radondb-nfs-server'', svc_Namespace = [], svc_Labels = Map.empty, svc_Type = [], svc_ClusterIP = [],
     svc_Selector = [''role'' \<mapsto> ''nfs-server''], svc_PublishNotReadyAddresses = False,
     svc_Ports = map (\<lambda>(n, p). \<lparr>spt_Name = n, spt_Port = p, spt_TargetPort = 0, spt_NodePort = 0\<rparr>) nfs_ports\<rparr>"

section \<open>backup.go\<close>

definition nfs_backup :: "string \<Rightarrow> string \<Rightarrow> string \<Rightarrow> string \<Rightarrow> string \<Rightarrow> Backup" where
  "nfs_backup ns clusterName hostName nfsAdd backupImage =
     \<lparr>b_Name = ''backup-'' @ clusterName, b_CreationTimestamp = None,
      b_Spec = \<lparr>bk_Image = backupImage, bk_HostName = hostName, bk_NFSServerAddress = nfsAdd, bk_ClusterName = clusterName,
        bk_HistoryLimit = None\<rparr>,
      b_Status = \<lparr>bst_Completed = False, bst_BackupName = [], bst_BackupDate = [], bst_BackupType = [], bst_Gtid = [], bst_Conditions = []\<rparr>,
      b_Namespace = ns, b_Labels = Map.empty\<rparr>"

fun leader_of :: "NodeStatus list \<Rightarrow> string res" where
  "leader_of [] = Fail (GErr ''failed to gat cluster leader'')"
| "leader_of (n # ns) = (if rf_Role (ns_RaftStatus n) = ''LEADER'' then Ok (ns_Name n) else leader_of ns)"

definition getClusterLeader :: "MysqlCluster \<Rightarrow> string res" where
  "getClusterLeader c = leader_of (st_Nodes (mc_Status c))"

section \<open>control.go\<close>

datatype bcp_event =
    BvClient | BvListClusters
  | BvClientset string              \<comment> \<open>the file of the configuration\<close>
  | BvStorageClass StorageClassObj
  | BvVolume NfsVolume
  | BvClaim string NfsClaim         \<comment> \<open>namespace, object\<close>
  | BvController string NfsController
  | BvService string Service
  | BvGetService string string
  | BvBackup Backup

record BcpEnv =
  bn_err :: "bcp_event list \<Rightarrow> gerr option"
  bn_clusters :: "bcp_event list \<Rightarrow> MysqlCluster list"
  bn_ip :: "bcp_event list \<Rightarrow> string"          \<comment> \<open>the cluster IP of the service in the answer\<close>
  bn_getenv :: "string \<Rightarrow> string"
  bn_home :: "gerr + string"                    \<comment> \<open>\<open>user.Current\<close>\<close>
  bn_stat :: "string \<Rightarrow> gerr option"

record Bcp =
  bp_trace :: "bcp_event list"

definition bcall :: "BcpEnv \<Rightarrow> bcp_event \<Rightarrow> (Bcp, unit) go" where
  "bcall E e = bnd (modify (\<lambda>s. s\<lparr>bp_trace := bp_trace s @ [e]\<rparr>)) (\<lambda>_.
     bnd (gets (\<lambda>s. bn_err E (bp_trace s))) (\<lambda>r. case r of Some er \<Rightarrow> fail er | None \<Rightarrow> ret ()))"

fun find_cluster :: "string \<Rightarrow> MysqlCluster list \<Rightarrow> MysqlCluster res" where
  "find_cluster name [] = Fail (GErr (''failed to find cluster: '' @ name))"
| "find_cluster name (c # cs) = (if mc_Name c = name then Ok c else find_cluster name cs)"

definition getMysqlClusterByName :: "BcpEnv \<Rightarrow> string \<Rightarrow> (Bcp, MysqlCluster) go" where
  "getMysqlClusterByName E name = bnd (bcall E BvListClusters) (\<lambda>_.
     bnd (gets (\<lambda>s. bn_clusters E (bp_trace s))) (\<lambda>cs. lift (find_cluster name cs)))"

definition getKubeconfig :: "BcpEnv \<Rightarrow> string res" where
  "getKubeconfig E = (if bn_getenv E ''KUBECONFIG'' \<noteq> [] then Ok (bn_getenv E ''KUBECONFIG'')
     else case bn_home E of Inl e \<Rightarrow> Panic (err_text e)
       | Inr home \<Rightarrow> (let f = path_join [home, ''.kube'', ''config''] in Ok (case bn_stat E f of
             Some (NotFound _) \<Rightarrow> f | Some _ \<Rightarrow> [] | None \<Rightarrow> f)))"

definition getClientSet :: "BcpEnv \<Rightarrow> (Bcp, unit) go" where
  "getClientSet E = bnd (lift (getKubeconfig E)) (\<lambda>f.
     handle (bcall E (BvClientset f)) (\<lambda>e. fail (GErr (''failed to get cluster config: '' @ err_text e))))"

text \<open>The test after every creation: an error whose text says that the object exists is only logged.\<close>

definition exists_err :: "gerr \<Rightarrow> bool" where
  "exists_err e \<longleftrightarrow> str_contains (err_text e) ''already exists''"

definition create :: "BcpEnv \<Rightarrow> bcp_event \<Rightarrow> (Bcp, unit) go" where
  "create E e = handle (bcall E e) (\<lambda>er. if exists_err er then ret () else fail er)"

definition create_service :: "BcpEnv \<Rightarrow> string \<Rightarrow> (Bcp, string) go" where
  "create_service E namespace =
     bnd (handle (bcall E (BvService namespace svc)) (\<lambda>er.
       if exists_err er then bcall E (BvGetService namespace ''radondb-nfs-server'') else fail er)) (\<lambda>_.
     gets (\<lambda>s. bn_ip E (bp_trace s)))"

definition Create ::
  "(string \<Rightarrow> int option) \<Rightarrow> BcpEnv \<Rightarrow> string \<Rightarrow> string \<Rightarrow> string \<Rightarrow> string \<Rightarrow> string \<Rightarrow> string \<Rightarrow> (Bcp, unit) go" where
  "Create parse E hostPath cluster hostName capacity backupImage nfsServerImage =
     bnd (bcall E BvClient) (\<lambda>_.
     bnd (getMysqlClusterByName E cluster) (\<lambda>c.
     bnd (lift (if hostName = [] then getClusterLeader c else Ok hostName)) (\<lambda>host.
     bnd (getClientSet E) (\<lambda>_.
     bnd (create E (BvStorageClass stc)) (\<lambda>_.
     bnd (lift (pv parse hostPath capacity)) (\<lambda>v. bnd (create E (BvVolume v)) (\<lambda>_.
     bnd (lift (pvc parse)) (\<lambda>k. bnd (create E (BvClaim (mc_Namespace c) k)) (\<lambda>_.
     bnd (create E (BvController (mc_Namespace c) (rc nfsServerImage))) (\<lambda>_.
     bnd (create_service E (mc_Namespace c)) (\<lambda>ip.
     create E (BvBackup (nfs_backup (mc_Namespace c) cluster host ip backupImage)))))))))))))"

section \<open>The command\<close>

definition flag_default :: smap where
  "flag_default = [''hostpath'' \<mapsto> [], ''cluster'' \<mapsto> [], ''hostname'' \<mapsto> [], ''capacity'' \<mapsto> ''30'',
     ''backupImage'' \<mapsto> ''radondb/mysql57-sidecar:v2.2.0'', ''nfsServerImage'' \<mapsto> ''k8s.gcr.io/volume-nfs:0.8'']"

text \<open>Cobra refuses the command when a required flag is missing. The result is the exit status.\<close>

definition backupCmd :: "(string \<Rightarrow> int option) \<Rightarrow> BcpEnv \<Rightarrow> smap \<Rightarrow> (Bcp, nat) go" where
  "backupCmd parse E flags =
     (if flags ''hostpath'' = None \<or> flags ''cluster'' = None then ret 1
      else let f = lget (flag_default ++ flags) in
        bnd (attempt (Create parse E (f ''hostpath'') (f ''cluster'') (f ''hostname'') (f ''capacity'') (f ''backupImage'') (f ''nfsServerImage'')))
          (\<lambda>r. ret (case r of Inl e \<Rightarrow> 1 | Inr _ \<Rightarrow> 0)))"

section \<open>What a successful run has done\<close>

lemma bp_simps: "bp_trace (s\<lparr>bp_trace := tr\<rparr>) = tr"
  by simp

lemma bcall_Ok: "bcall E e s = (Ok x, t) \<longleftrightarrow> bn_err E (bp_trace s @ [e]) = None \<and> t = s\<lparr>bp_trace := bp_trace s @ [e]\<rparr>"
  by (auto simp: bcall_def bnd_def modify_def gets_def fail_def ret_def split: option.splits)

lemma bcall_state: "snd (bcall E e s) = s\<lparr>bp_trace := bp_trace s @ [e]\<rparr>"
  by (simp add: bcall_def bnd_def modify_def gets_def fail_def ret_def split: option.split)

lemma create_Ok:
  "create E e s = (Ok x, t) \<Longrightarrow> t = s\<lparr>bp_trace := bp_trace s @ [e]\<rparr> \<and>
     (bn_err E (bp_trace t) = None \<or> (\<exists>er. bn_err E (bp_trace t) = Some er \<and> exists_err er))"
  by (auto simp: create_def handle_def bcall_def bnd_def modify_def gets_def fail_def ret_def split: option.splits if_splits)

lemma lift_Ok: "lift r s = (Ok x, t) \<longleftrightarrow> r = Ok x \<and> t = s"
  by (auto simp: lift_def)

lemma find_cluster_Ok: "find_cluster name cs = Ok c \<Longrightarrow> c \<in> set cs \<and> mc_Name c = name"
  by (induction cs) (auto split: if_splits)

lemma leader_of_Ok: "leader_of ns = Ok h \<Longrightarrow> \<exists>n \<in> set ns. rf_Role (ns_RaftStatus n) = ''LEADER'' \<and> ns_Name n = h"
  by (induction ns) (auto split: if_splits)

lemma service_Ok:
  assumes "create_service E ns s = (Ok ip, t)"
  shows "\<exists>es. bp_trace t = bp_trace s @ BvService ns svc # es \<and> ip = bn_ip E (bp_trace t) \<and>
    bn_err E (bp_trace t) = None \<and> (es = [] \<or> es = [BvGetService ns ''radondb-nfs-server''])"
  using assms
  by (auto simp: create_service_def bcall_def bnd_def handle_def modify_def gets_def fail_def ret_def
      split: option.splits if_splits prod.splits res.splits)

lemma kubeconfig_client: "getClientSet E s = (Ok x, t) \<Longrightarrow> \<exists>f. getKubeconfig E = Ok f \<and> t = s\<lparr>bp_trace := bp_trace s @ [BvClientset f]\<rparr>"
  by (auto simp: getClientSet_def bnd_eq_Ok lift_Ok handle_def bcall_def bnd_def modify_def gets_def fail_def ret_def
      split: prod.splits res.splits option.splits)

text \<open>
  What a successful run of the tool has done. It found a cluster of the given name, and created (or
  found to exist) in this order the storage class, the volume, and in the cluster's namespace the claim, the
  controller and the service; at last a backup of that cluster, written to the address of the service and
  taken from the host asked for or else from a node whose role is LEADER. Nothing else was called.
\<close>
theorem bcp_creates_backup:
  assumes "Create parse E hostPath cluster hostName capacity backupImage nfsImage s = (Ok x, t)"
  shows "\<exists>tr c host f v k es. mc_Name c = cluster \<and> c \<in> set (bn_clusters E tr) \<and>
     (if hostName = [] then \<exists>n \<in> set (st_Nodes (mc_Status c)). rf_Role (ns_RaftStatus n) = ''LEADER'' \<and> ns_Name n = host
      else host = hostName) \<and>
     pv parse hostPath capacity = Ok v \<and> pvc parse = Ok k \<and>
     (es = [] \<or> es = [BvGetService (mc_Namespace c) ''radondb-nfs-server'']) \<and>
     bp_trace t = bp_trace s @ [BvClient, BvListClusters, BvClientset f, BvStorageClass stc, BvVolume v, BvClaim (mc_Namespace c) k,
       BvController (mc_Namespace c) (rc nfsImage), BvService (mc_Namespace c) svc] @ es @
       [BvBackup (nfs_backup (mc_Namespace c) cluster host (bn_ip E (butlast (bp_trace t))) backupImage)]"
proof -
  from assms obtain s1 c s2 host s4 s5 v s6 k s7 s8 s9 ip where
    run: "bcall E BvClient s = (Ok (), s1)" "getMysqlClusterByName E cluster s1 = (Ok c, s2)"
      "(if hostName = [] then getClusterLeader c else Ok hostName) = Ok host" "getClientSet E s2 = (Ok (), s4)"
      "create E (BvStorageClass stc) s4 = (Ok (), s5)" "pv parse hostPath capacity = Ok v" "create E (BvVolume v) s5 = (Ok (), s6)"
      "pvc parse = Ok k" "create E (BvClaim (mc_Namespace c) k) s6 = (Ok (), s7)"
      "create E (BvController (mc_Namespace c) (rc nfsImage)) s7 = (Ok (), s8)" "create_service E (mc_Namespace c) s8 = (Ok ip, s9)"
      "create E (BvBackup (nfs_backup (mc_Namespace c) cluster host ip backupImage)) s9 = (Ok x, t)"
    unfolding Create_def by (auto simp: bnd_eq_Ok lift_Ok split del: if_split)
  obtain f where f: "s4 = s2\<lparr>bp_trace := bp_trace s2 @ [BvClientset f]\<rparr>" using kubeconfig_client [OF run(4)] by blast
  have found: "s2 = s1\<lparr>bp_trace := bp_trace s1 @ [BvListClusters]\<rparr>" "find_cluster cluster (bn_clusters E (bp_trace s2)) = Ok c"
    using run(2) by (auto simp: getMysqlClusterByName_def bnd_eq_Ok bcall_Ok gets_def lift_Ok)
  obtain es where es: "bp_trace s9 = bp_trace s8 @ BvService (mc_Namespace c) svc # es" "ip = bn_ip E (bp_trace s9)"
    "es = [] \<or> es = [BvGetService (mc_Namespace c) ''radondb-nfs-server'']"
    using service_Ok [OF run(11)] by blast
  have last: "t = s9\<lparr>bp_trace := bp_trace s9 @ [BvBackup (nfs_backup (mc_Namespace c) cluster host ip backupImage)]\<rparr>"
    using create_Ok [OF run(12)] by blast
  have s8: "bp_trace s8 = bp_trace s @ [BvClient, BvListClusters, BvClientset f, BvStorageClass stc, BvVolume v,
      BvClaim (mc_Namespace c) k, BvController (mc_Namespace c) (rc nfsImage)]"
    using run(1) create_Ok [OF run(5)] create_Ok [OF run(7)] create_Ok [OF run(9)] create_Ok [OF run(10)]
    by (simp add: bcall_Ok found(1) f)
  have leader: "if hostName = [] then \<exists>n \<in> set (st_Nodes (mc_Status c)). rf_Role (ns_RaftStatus n) = ''LEADER'' \<and> ns_Name n = host
      else host = hostName"
    using run(3) leader_of_Ok by (auto simp: getClusterLeader_def)
  have before: "butlast (bp_trace t) = bp_trace s9" by (simp add: last)
  have calls: "bp_trace t = bp_trace s @ [BvClient, BvListClusters, BvClientset f, BvStorageClass stc, BvVolume v,
      BvClaim (mc_Namespace c) k, BvController (mc_Namespace c) (rc nfsImage), BvService (mc_Namespace c) svc] @ es @
      [BvBackup (nfs_backup (mc_Namespace c) cluster host (bn_ip E (butlast (bp_trace t))) backupImage)]"
    unfolding before by (simp add: last s8 es(1,2))
  show ?thesis
    by (rule exI [of _ "bp_trace s2"], rule exI [of _ c], rule exI [of _ host], rule exI [of _ f], rule exI [of _ v],
        rule exI [of _ k], rule exI [of _ es], intro conjI)
       (use find_cluster_Ok [OF found(2)] in blast, use find_cluster_Ok [OF found(2)] in blast,
        rule leader, rule run(6), rule run(8), rule es(3), rule calls)
qed

text \<open>
  The claim asks for 30Gi whatever the capacity of the volume, which is the flag of the command; so
  with a smaller one the volume cannot satisfy the claim.
\<close>

lemma claim_fits_iff:
  assumes "pv parse hostPath capacity = Ok v" "pvc parse = Ok k" "parse ''30Gi'' = Some a" "parse (capacity @ ''Gi'') = Some b"
  shows "npc_Storage k \<le> npv_Capacity v \<longleftrightarrow> a \<le> b"
  using assms by (auto simp: pv_def pvc_def must_parse_def bind_res_Ok)

lemma controller_is_served: "nrc_Selector (rc i) = nrc_Labels (rc i) \<and> svc_Selector svc \<subseteq>\<^sub>m nrc_Labels (rc i)"
  by (simp add: rc_def svc_def)

lemma capacity_panics: "parse (capacity @ ''Gi'') = None \<Longrightarrow> \<exists>p. pv parse hostPath capacity = Panic p"
  by (simp add: pv_def must_parse_def)

definition calm_bcp :: BcpEnv where
  "calm_bcp = \<lparr>bn_err = (\<lambda>tr. None), bn_clusters = (\<lambda>tr. [sample]), bn_ip = (\<lambda>tr. ''10.0.0.7''),
     bn_getenv = (\<lambda>k. ''/root/.kube/config''), bn_home = Inr ''/root'', bn_stat = (\<lambda>p. None)\<rparr>"

theorem bcp_creates_backup_witness:
  "\<exists>b tr. bp_trace (snd (Create (\<lambda>q. Some 30) calm_bcp ''/data'' ''sample'' ''sample-mysql-1'' ''30'' ''i'' ''n'' \<lparr>bp_trace = []\<rparr>)) = tr @ [BvBackup b] \<and>
     b_Namespace b = ''default'' \<and> bk_HostName (b_Spec b) = ''sample-mysql-1'' \<and> bk_NFSServerAddress (b_Spec b) = ''10.0.0.7''"
proof -
  have run: "fst (Create (\<lambda>q. Some 30) calm_bcp ''/data'' ''sample'' ''sample-mysql-1'' ''30'' ''i'' ''n'' \<lparr>bp_trace = []\<rparr>) = Ok ()"
    by (simp add: Create_def bnd_def bcall_def getMysqlClusterByName_def getClientSet_def getKubeconfig_def create_def create_service_def handle_def
        calm_bcp_def modify_def gets_def ret_def fail_def lift_def sample_def pv_def pvc_def must_parse_def)
  then obtain t where t: "Create (\<lambda>q. Some 30) calm_bcp ''/data'' ''sample'' ''sample-mysql-1'' ''30'' ''i'' ''n'' \<lparr>bp_trace = []\<rparr> = (Ok (), t)"
    by (metis prod.collapse)
  from bcp_creates_backup [OF t] obtain tr' c host where c: "c \<in> set (bn_clusters calm_bcp tr')" "host = ''sample-mysql-1''"
    "\<exists>tr. bp_trace t = tr @ [BvBackup (nfs_backup (mc_Namespace c) ''sample'' host (bn_ip calm_bcp (butlast (bp_trace t))) ''i'')]"
    by (metis append_assoc list.distinct(1))
  then show ?thesis unfolding t by (auto simp: calm_bcp_def nfs_backup_def sample_def)
qed

end
