(* ===== verification/JsonPatch.thy ===== *)
theory JsonPatch
  imports XenonApi "HOL-Library.AList"
begin

text \<open>
  The builders of patches of the v1beta1 backup controller (\<open>controllers/backup/kubeapi.go\<close>): JSON
  patches (RFC 6902) and JSON merge patches (RFC 7386). A builder is called in two steps,
  \<open>Add(path...)(value)\<close>; between them the place of the value holds a function, which cannot be
  written as JSON. The slice and the nested maps are shared by the two steps, so the model of the
  second step is an update of the patch the first one returned.
\<close>

section \<open>JSON pointers\<close>

fun escape_char :: "char \<Rightarrow> string" where
  "escape_char c = (if c = CHR ''~'' then ''~0'' else if c = CHR ''/'' then ''~1'' else [c])"

definition escapeJSONPointer :: "string \<Rightarrow> string" where
  "escapeJSONPointer s = concat (map escape_char s)"

definition pointer :: "string list \<Rightarrow> string" where
  "pointer tokens = concat (map (\<lambda>t. CHR ''/'' # escapeJSONPointer t) tokens)"

text \<open>Reading a pointer, after the RFC: split at the slashes, then \<open>~1\<close> and \<open>~0\<close> in one pass.\<close>

fun unescape :: "string \<Rightarrow> string" where
  "unescape [] = []"
| "unescape [c] = [c]"
| "unescape (c # d # cs) = (if c = CHR ''~'' \<and> d = CHR ''1'' then CHR ''/'' # unescape cs
     else if c = CHR ''~'' \<and> d = CHR ''0'' then CHR ''~'' # unescape cs else c # unescape (d # cs))"

definition tokens_of :: "string \<Rightarrow> string list" where
  "tokens_of p = (if p = [] then [] else map unescape (tl (split_on (CHR ''/'') p)))"

lemma unescape_no_tilde: "c \<noteq> CHR ''~'' \<Longrightarrow> unescape (c # s) = c # unescape s"
  by (cases s) simp_all

lemma unescape_escape: "unescape (escapeJSONPointer s) = s"
proof (induction s)
  case (Cons c s)
  then show ?case by (auto simp: escapeJSONPointer_def unescape_no_tilde)
qed (simp add: escapeJSONPointer_def)

lemma escape_no_slash: "CHR ''/'' \<notin> set (escapeJSONPointer s)"
  by (auto simp: escapeJSONPointer_def split: if_splits)

lemma pointer_join: "ts \<noteq> [] \<Longrightarrow> pointer ts = CHR ''/'' # join_with ''/'' (map escapeJSONPointer ts)"
proof (induction ts)
  case (Cons t ts)
  then show ?case by (cases ts) (simp_all add: pointer_def)
qed simp

text \<open>
  A pointer denotes the path it was built from: reading it gives back the tokens, whatever
  characters they have, so different paths have different pointers.
\<close>
theorem pointer_roundtrip: "tokens_of (pointer ts) = ts"
proof (cases "ts = []")
  case False
  have "split_on (CHR ''/'') (join_with ''/'' (map escapeJSONPointer ts)) = map escapeJSONPointer ts"
    using False escape_no_slash by (intro split_on_join) auto
  then show ?thesis using False
    by (simp add: tokens_of_def pointer_join map_idI unescape_escape o_def)
qed (simp add: tokens_of_def pointer_def)

lemma pointer_inj: "pointer ts = pointer us \<longleftrightarrow> ts = us"
  by (metis pointer_roundtrip)

section \<open>JSON patches\<close>

text \<open>An element of the slice: the function left by the first step, or an operation.\<close>

datatype slot = Unfinished | Operation string string "json option"

definition NewJSONPatch :: "slot list" where "NewJSONPatch = []"

definition Add_6902 :: "slot list \<Rightarrow> slot list" where
  "Add_6902 p = p @ [Unfinished]"

definition put_value :: "nat \<Rightarrow> string \<Rightarrow> string list \<Rightarrow> json \<Rightarrow> slot list \<Rightarrow> slot list res" where
  "put_value i opn path v p = (if i < length p then Ok (p[i := Operation opn (pointer path) (Some v)])
     else Panic ''index out of range'')"

definition Add_value :: "string list \<Rightarrow> json \<Rightarrow> slot list \<Rightarrow> slot list res" where
  "Add_value path v p = put_value (length p) ''add'' path v (Add_6902 p)"

definition Replace_value :: "string list \<Rightarrow> json \<Rightarrow> slot list \<Rightarrow> slot list res" where
  "Replace_value path v p = put_value (length p) ''replace'' path v (Add_6902 p)"

definition Remove_6902 :: "string list \<Rightarrow> slot list \<Rightarrow> slot list" where
  "Remove_6902 path p = p @ [Operation ''remove'' (pointer path) None]"

fun op_json :: "slot \<Rightarrow> json res" where
  "op_json Unfinished = Fail (GErr ''json: unsupported type: func'')"
| "op_json (Operation opn ptr v) = Ok (JObj ([(''op'', JStr opn), (''path'', JStr ptr)] @
     (case v of None \<Rightarrow> [] | Some j \<Rightarrow> [(''value'', j)])))"

fun op_jsons :: "slot list \<Rightarrow> json list res" where
  "op_jsons [] = Ok []"
| "op_jsons (x # xs) = bind_res (op_json x) (\<lambda>j. bind_res (op_jsons xs) (\<lambda>js. Ok (j # js)))"

definition Data_6902 :: "slot list \<Rightarrow> json res" where
  "Data_6902 p = bind_res (op_jsons p) (\<lambda>js. Ok (JArr js))"

definition IsEmpty_6902 :: "slot list \<Rightarrow> bool" where
  "IsEmpty_6902 p \<longleftrightarrow> length p = 0"

lemma builders_append:
  "Add_value path v p = Ok (p @ [Operation ''add'' (pointer path) (Some v)])"
  "Replace_value path v p = Ok (p @ [Operation ''replace'' (pointer path) (Some v)])"
  by (simp_all add: Add_value_def Replace_value_def put_value_def Add_6902_def)

text \<open>
  A patch can be written exactly when every step was completed.
\<close>

lemma Data_6902_Ok_iff: "is_ok (Data_6902 p) \<longleftrightarrow> Unfinished \<notin> set p"
proof -
  have "is_ok (op_jsons p) \<longleftrightarrow> Unfinished \<notin> set p"
  proof (induction p)
    case (Cons x xs)
    then show ?case by (cases x; cases "op_jsons xs") simp_all
  qed simp
  then show ?thesis by (cases "op_jsons p") (simp_all add: Data_6902_def)
qed

section \<open>Merge patches\<close>

text \<open>
  A value of the map: the function left by the first step, a JSON value, or a nested patch. The
  association lists have distinct keys; \<open>json.Marshal\<close> writes them sorted, which makes no
  difference to an object.
\<close>

datatype mval = Waiting | Val json | Sub "(string \<times> mval) list"

type_synonym merge_patch = "(string \<times> mval) list"

definition NewMergePatch :: merge_patch where "NewMergePatch = []"

definition sub_patch :: "merge_patch \<Rightarrow> string \<Rightarrow> merge_patch" where
  "sub_patch p k = (case map_of p k of Some (Sub q) \<Rightarrow> q | _ \<Rightarrow> [])"

text \<open>The walk of \<open>Add\<close>: what is no nested patch on the way is replaced by an empty one.\<close>

fun put_member :: "string list \<Rightarrow> mval \<Rightarrow> merge_patch \<Rightarrow> merge_patch" where
  "put_member [] v p = p"
| "put_member [k] v p = AList.update k v p"
| "put_member (k # k' # ks) v p = AList.update k (Sub (put_member (k' # ks) v (sub_patch p k))) p"

definition Add_7386 :: "string list \<Rightarrow> merge_patch \<Rightarrow> merge_patch" where
  "Add_7386 path p = put_member path Waiting p"

definition Add_member :: "string list \<Rightarrow> json \<Rightarrow> merge_patch \<Rightarrow> merge_patch" where
  "Add_member path v p = put_member path (Val v) (Add_7386 path p)"

definition Remove_7386 :: "string list \<Rightarrow> merge_patch \<Rightarrow> merge_patch" where
  "Remove_7386 path p = Add_member path JNull p"

definition IsEmpty_7386 :: "merge_patch \<Rightarrow> bool" where
  "IsEmpty_7386 p \<longleftrightarrow> length p = 0"

text \<open>What the patch does to an object, after RFC 7386: a document is a tree of members and values.\<close>

datatype doc = Leaf json | Node "string \<rightharpoonup> doc"

definition members :: "doc option \<Rightarrow> string \<rightharpoonup> doc" where
  "members d = (case d of Some (Node m) \<Rightarrow> m | _ \<Rightarrow> Map.empty)"

fun merged :: "mval \<Rightarrow> doc option \<Rightarrow> doc option" and merged_all :: "merge_patch \<Rightarrow> (string \<rightharpoonup> doc) \<Rightarrow> string \<rightharpoonup> doc" where
  "merged Waiting d = d"
| "merged (Val j) d = (if j = JNull then None else Some (Leaf j))"
| "merged (Sub p) d = Some (Node (merged_all p (members d)))"
| "merged_all [] m = m"
| "merged_all ((k, v) # p) m = merged_all p (m(k := merged v (m k)))"

fun at_path :: "string list \<Rightarrow> doc option \<Rightarrow> doc option" where
  "at_path [] d = d"
| "at_path (k # ks) d = at_path ks (members d k)"

text \<open>Patches as the builders make them: keys are distinct at every level.\<close>

fun wf_mval :: "mval \<Rightarrow> bool" where
  "wf_mval Waiting = True"
| "wf_mval (Val j) = True"
| "wf_mval (Sub p) = (distinct (map fst p) \<and> (\<forall>kv \<in> set p. wf_mval (snd kv)))"

abbreviation wf_patch :: "merge_patch \<Rightarrow> bool" where
  "wf_patch p \<equiv> wf_mval (Sub p)"

lemma merged_all_lookup:
  "distinct (map fst p) \<Longrightarrow> merged_all p m k = (case map_of p k of None \<Rightarrow> m k | Some v \<Rightarrow> merged v (m k))"
proof (induction p arbitrary: m)
  case (Cons kv p)
  obtain k' v where kv: "kv = (k', v)" by fastforce
  have "map_of p k' = None" using Cons.prems by (simp add: kv map_of_eq_None_iff)
  then show ?case using Cons by (auto simp: kv split: option.splits)
qed simp

lemma wf_sub: "wf_patch p \<Longrightarrow> wf_patch (sub_patch p k)"
proof (cases "map_of p k")
  case (Some v)
  assume "wf_patch p"
  moreover have "(k, v) \<in> set p" using Some by (rule map_of_SomeD)
  ultimately have "wf_mval v" by force
  then show ?thesis by (cases v) (simp_all add: sub_patch_def Some)
qed (simp add: sub_patch_def)

lemma update_values: "kv \<in> set (AList.update k v p) \<Longrightarrow> kv = (k, v) \<or> kv \<in> set p"
  by (induction p) (auto split: if_splits)

lemma wf_update: "wf_patch p \<Longrightarrow> wf_mval v \<Longrightarrow> wf_patch (AList.update k v p)"
  by (auto simp: distinct_update dest!: update_values)

lemma wf_put_member: "wf_patch p \<Longrightarrow> wf_mval v \<Longrightarrow> wf_patch (put_member ks v p)"
proof (induction ks v p rule: put_member.induct)
  case (3 k k' ks v p)
  have "wf_patch (put_member (k' # ks) v (sub_patch p k))" by (rule 3(1) [OF wf_sub [OF 3(2)] 3(3)])
  with 3(2) show ?case by (simp only: put_member.simps) (rule wf_update)
qed (simp_all add: wf_update del: wf_mval.simps)

lemma merged_member:
  "wf_patch p \<Longrightarrow> members (merged (Sub p) d) k = (case map_of p k of None \<Rightarrow> members d k | Some v \<Rightarrow> merged v (members d k))"
  by (simp add: members_def [of "Some (Node m)" for m] merged_all_lookup)

lemma at_put_member:
  "wf_patch p \<Longrightarrow> wf_mval v \<Longrightarrow> ks \<noteq> [] \<Longrightarrow> (\<And>d'. merged v d' = r) \<Longrightarrow> at_path ks (merged (Sub (put_member ks v p)) d) = r"
proof (induction ks v p arbitrary: d rule: put_member.induct)
  case (2 k v p)
  then show ?case by (simp add: merged_member [OF wf_update] update_conv' del: wf_mval.simps merged.simps)
next
  case (3 k k' ks v p)
  have wf: "wf_patch (put_member (k' # ks) v (sub_patch p k))" by (intro wf_put_member wf_sub 3)
  have "at_path (k # k' # ks) (merged (Sub (put_member (k # k' # ks) v p)) d) =
      at_path (k' # ks) (merged (Sub (put_member (k' # ks) v (sub_patch p k))) (members d k))"
    by (simp only: at_path.simps(2) [of k] put_member.simps merged_member [OF wf_update [OF 3(2) wf]] update_conv' fun_upd_same option.case)
  also have "\<dots> = r" using 3 by (simp add: wf_sub del: wf_mval.simps merged.simps at_path.simps)
  finally show ?case .
qed simp

text \<open>
  A merge patch does what its builder says: applied to any document, a patch to which a value
  was added (\<open>null\<close>, which is how \<open>Remove\<close> is written, a string, a number or a list) has that value
  at the path, or nothing there when the value is \<open>null\<close>, whatever was added to the patch before.
\<close>
theorem merge_patch_sets_member:
  assumes "wf_patch p" "path \<noteq> []" "\<forall>kvs. v \<noteq> JObj kvs"
  shows "at_path path (merged (Sub (Add_member path v p)) d) = (if v = JNull then None else Some (Leaf v)) \<and>
    wf_patch (Add_member path v p)"
proof -
  have wf: "wf_patch (Add_7386 path p)" unfolding Add_7386_def by (rule wf_put_member [OF assms(1)]) simp
  show ?thesis unfolding Add_member_def
    by (intro conjI at_put_member [OF wf] wf_put_member [OF wf]) (use assms(2) in auto)
qed

theorem merge_patch_sets_member_witness:
  "at_path [''spec'', ''suspend''] (merged (Sub (Add_member [''spec'', ''suspend''] (JBool True) [])) None) = Some (Leaf (JBool True))"
  using merge_patch_sets_member [of "[]" "[''spec'', ''suspend'']" "JBool True" None] by simp

end
