(* ===== verification/StatusTicker.thy ===== *)
theory StatusTicker
  imports Prelude
begin

text \<open>
  How the status controller schedules itself (\<open>SetupWithManager\<close> in \<open>controllers/status_controller.go\<close>):
  a map of the known clusters, written by the handlers of creations and deletions, and a goroutine
  that every five seconds writes the entries of the map into a channel, from which the controller
  queues requests. Handlers, goroutine and controller interleave, so the model is a step relation.
\<close>

section \<open>State and steps\<close>

record ObjectKey =
  ok_Namespace :: string
  ok_Name :: string

text \<open>\<open>NamespacedName.String\<close>\<close>

definition getKey :: "ObjectKey \<Rightarrow> string" where
  "getKey obj = ok_Namespace obj @ ''/'' @ ok_Name obj"

definition event_capacity :: nat where "event_capacity = 1024"

text \<open>
  \<open>tk_round\<close> is the round in progress: the keys that \<open>Range\<close> still has to visit because they were there at
  its start and were not deleted since, and the keys it has visited. \<open>sync.Map.Range\<close> visits no key
  twice; a key stored meanwhile may or may not be visited.
\<close>

record Ticker =
  tk_clusters :: "string \<rightharpoonup> ObjectKey"
  tk_events :: "ObjectKey list"
  tk_round :: "(string set \<times> string set) option"

inductive ticker_step :: "Ticker \<Rightarrow> Ticker \<Rightarrow> bool" where
  created: "ticker_step t (t\<lparr>tk_clusters := (tk_clusters t)(getKey obj \<mapsto> obj)\<rparr>)"
| deleted: "ticker_step t (t\<lparr>tk_clusters := (tk_clusters t)(getKey obj := None),
    tk_round := map_option (\<lambda>(due, seen). (due - {getKey obj}, seen)) (tk_round t)\<rparr>)"
| tick: "tk_round t = None \<Longrightarrow> ticker_step t (t\<lparr>tk_round := Some (dom (tk_clusters t), {})\<rparr>)"
| visit: "tk_round t = Some (due, seen) \<Longrightarrow> k \<notin> seen \<Longrightarrow> tk_clusters t k = Some obj \<Longrightarrow> length (tk_events t) < event_capacity \<Longrightarrow>
    ticker_step t (t\<lparr>tk_events := tk_events t @ [obj], tk_round := Some (due - {k}, insert k seen)\<rparr>)"
| round_end: "tk_round t = Some ({}, seen) \<Longrightarrow> ticker_step t (t\<lparr>tk_round := None\<rparr>)"
| receive: "tk_events t = obj # es \<Longrightarrow> ticker_step t (t\<lparr>tk_events := es\<rparr>)"

definition new_ticker :: Ticker where
  "new_ticker = \<lparr>tk_clusters = Map.empty, tk_events = [], tk_round = None\<rparr>"

inductive_cases ticker_stepE: "ticker_step t u"

section \<open>Invariants\<close>

text \<open>
  The map holds every object under its own key, the channel is within its capacity, and what a round
  still has to visit is in the map and was not visited.
\<close>

definition ticker_ok :: "Ticker \<Rightarrow> bool" where
  "ticker_ok t \<longleftrightarrow> (\<forall>k obj. tk_clusters t k = Some obj \<longrightarrow> getKey obj = k) \<and> length (tk_events t) \<le> event_capacity \<and>
     (\<forall>due seen. tk_round t = Some (due, seen) \<longrightarrow> due \<subseteq> dom (tk_clusters t) \<and> due \<inter> seen = {})"

lemma ticker_step_ok: "ticker_step t u \<Longrightarrow> ticker_ok t \<Longrightarrow> ticker_ok u"
  by (induction rule: ticker_step.induct) (auto simp: ticker_ok_def split: if_splits)

lemma new_ticker_ok: "ticker_ok new_ticker"
  by (simp add: ticker_ok_def new_ticker_def)

lemma ticker_reachable: "ticker_step\<^sup>*\<^sup>* new_ticker t \<Longrightarrow> ticker_ok t"
  by (induction rule: rtranclp_induct) (auto intro: ticker_step_ok new_ticker_ok)

text \<open>
  A run as the list of its states; \<open>sends xs\<close> are the objects written to the channel in it.
\<close>

fun ticker_run :: "Ticker list \<Rightarrow> bool" where
  "ticker_run (t # u # ts) \<longleftrightarrow> ticker_step t u \<and> ticker_run (u # ts)"
| "ticker_run _ \<longleftrightarrow> True"

definition sent :: "Ticker \<Rightarrow> Ticker \<Rightarrow> ObjectKey list" where
  "sent t u = (if length (tk_events u) = Suc (length (tk_events t)) then [last (tk_events u)] else [])"

fun sends :: "Ticker list \<Rightarrow> ObjectKey list" where
  "sends (t # u # ts) = sent t u @ sends (u # ts)"
| "sends _ = []"

lemma ticker_run_ok: "ticker_run (t # ts) \<Longrightarrow> ticker_ok t \<Longrightarrow> ticker_ok (last (t # ts))"
proof (induction ts arbitrary: t)
  case (Cons u ts)
  then have "ticker_run (u # ts)" "ticker_ok u" by (auto intro: ticker_step_ok)
  from Cons.IH [OF this] show ?case by simp
qed simp

lemma step_due:
  assumes "ticker_step t u" "ticker_ok t" "tk_round t = Some (due, seen)" "k \<in> due" "tk_clusters u k \<noteq> None"
  shows "(\<exists>due' seen'. tk_round u = Some (due', seen') \<and> k \<in> due') \<or> (\<exists>obj \<in> set (sent t u). getKey obj = k)"
  using assms
proof (cases rule: ticker_step.cases)
  case (visit due' seen' k' obj)
  then have "tk_round t = Some (due, seen)" "getKey obj = k'" using assms(2,3) by (auto simp: ticker_ok_def)
  with visit assms(3,4) show ?thesis by (cases "k = k'") (auto simp: sent_def)
qed (auto simp: sent_def)

text \<open>
  C40. No cluster is forgotten. Once a tick has begun a round, every cluster that was known then and
  is not deleted meanwhile has been written to the channel by the time the round ends, however the
  handlers, the goroutine and the controller interleave; and the channel never holds more than its
  capacity.
\<close>
theorem round_visits_all:
  assumes "ticker_step\<^sup>*\<^sup>* new_ticker t" "tk_round t = Some (due, seen)" "k \<in> due"
    and "ticker_run (t # ts)" "\<forall>u \<in> set ts. tk_clusters u k \<noteq> None" "tk_round (last (t # ts)) = None"
  shows "(\<exists>obj \<in> set (sends (t # ts)). getKey obj = k) \<and> length (tk_events (last (t # ts))) \<le> event_capacity"
proof -
  have "(\<exists>obj \<in> set (sends (t # ts)). getKey obj = k) \<and> ticker_ok (last (t # ts))"
    if "ticker_ok t" using that assms(2-6)
  proof (induction ts arbitrary: t due seen)
    case (Cons u ts)
    have step: "ticker_step t u" and run: "ticker_run (u # ts)" using Cons.prems(4) by simp_all
    have ok: "ticker_ok u" by (rule ticker_step_ok [OF step Cons.prems(1)])
    have final: "ticker_ok (last (u # ts))" by (rule ticker_run_ok [OF run ok])
    have "tk_clusters u k \<noteq> None" using Cons.prems(5) by simp
    from step_due [OF step Cons.prems(1,2,3) this] show ?case
    proof (elim disjE exE conjE bexE)
      fix due' seen' assume "tk_round u = Some (due', seen')" "k \<in> due'"
      from Cons.IH [OF ok this run] Cons.prems show ?thesis by auto
    next
      fix obj assume "obj \<in> set (sent t u)" "getKey obj = k"
      with final show ?thesis by auto
    qed
  qed simp
  with ticker_reachable [OF assms(1)] show ?thesis by (auto simp: ticker_ok_def)
qed

text \<open>A round over one cluster: created, tick, visit, end.\<close>

definition one_key :: ObjectKey where
  "one_key = \<lparr>ok_Namespace = ''ns'', ok_Name = ''sample''\<rparr>"

theorem round_visits_all_witness:
  "\<exists>ts. ticker_run (\<lparr>tk_clusters = [getKey one_key \<mapsto> one_key], tk_events = [], tk_round = Some ({getKey one_key}, {})\<rparr> # ts) \<and>
     (\<exists>obj \<in> set (sends (\<lparr>tk_clusters = [getKey one_key \<mapsto> one_key], tk_events = [], tk_round = Some ({getKey one_key}, {})\<rparr> # ts)).
        getKey obj = getKey one_key)"
proof -
  define t where "t = \<lparr>tk_clusters = [getKey one_key \<mapsto> one_key], tk_events = [], tk_round = Some ({getKey one_key}, {})\<rparr>"
  define u where "u = t\<lparr>tk_events := [one_key], tk_round := Some ({}, {getKey one_key})\<rparr>"
  have "ticker_step new_ticker (new_ticker\<lparr>tk_clusters := (tk_clusters new_ticker)(getKey one_key \<mapsto> one_key)\<rparr>)" by (rule created)
  moreover have "ticker_step (new_ticker\<lparr>tk_clusters := (tk_clusters new_ticker)(getKey one_key \<mapsto> one_key)\<rparr>) t"
    using tick [of "new_ticker\<lparr>tk_clusters := (tk_clusters new_ticker)(getKey one_key \<mapsto> one_key)\<rparr>"] by (simp add: new_ticker_def t_def)
  ultimately have reach: "ticker_step\<^sup>*\<^sup>* new_ticker t" by (meson converse_rtranclp_into_rtranclp r_into_rtranclp)
  have "ticker_step t u"
    using visit [of t "{getKey one_key}" "{}" "getKey one_key" one_key] by (simp add: t_def u_def event_capacity_def)
  moreover have "ticker_step u (u\<lparr>tk_round := None\<rparr>)" by (rule round_end) (simp add: u_def)
  ultimately have run: "ticker_run (t # [u, u\<lparr>tk_round := None\<rparr>])" by simp
  from round_visits_all [OF reach _ _ run, of "{getKey one_key}" "{}" "getKey one_key"]
  have "\<exists>obj \<in> set (sends (t # [u, u\<lparr>tk_round := None\<rparr>])). getKey obj = getKey one_key" by (simp add: t_def u_def)
  with run show ?thesis unfolding t_def by blast
qed

end
